(* ===== verification/Prelude.thy ===== *)
theory Prelude
  imports Main "HOL-Library.Char_ord" "HOL-Library.List_Lexorder" "HOL-Library.Product_Lexorder"
begin

section \<open>Shared vocabulary: errors, results, transactions, tables\<close>

text \<open>
  The types every component shares.

  \<^item> Exceptions are values: \<open>Rejected code\<close> is
  any exception of the hierarchy of \<^verbatim>\<open>errors.py\<close> (\<open>InputRejected\<close>, \<open>LimitExceeded\<close>,
  \<open>PathRejected\<close>) with its stable machine-readable code; the other constructors are
  the Python, sqlite3 and third-party exceptions the code can let escape.  The
  human-readable message is not modelled.
  \<^item> A fallible computation returns \<open>exn + 'a\<close>.
  \<^item> A write to the SQLite file is a function from the database to either
  an exception or a value and the new database: an exception rolls back
  (\<open>run_write\<close>).
  \<^item> An SQL table is the list of its rows in insertion order.
  \<^item> A Python \<open>str\<close> is represented by its UTF-8 encoding, a \<open>string\<close>; so is a \<open>bytes\<close>.
\<close>

named_theorems txn_simps \<open>unfolding rules for results and transactions\<close>
named_theorems table_simps \<open>rules for selecting from, updating and inserting into a table\<close>
named_theorems sm_simps \<open>case tables of the state machines\<close>

subsection \<open>Exceptions\<close>

datatype exn =
    Rejected string
  | ValueError
  | OverflowError
  | TypeError
  | KeyError
  | AttributeError
  | AssertionError
  | RuntimeError
  | IntegrityError
  | InterfaceError
  | JSONDecodeError
  | InvalidSignature
  | ProviderError
  | OSError
  | Retryable string
  | NonTermination

text \<open>
  \<open>NonTermination\<close> is not an exception of the program: it is the outcome of a call whose loop
  never ends, where the model can express such a loop (\<open>StoreOps\<close>).  Theorems there show that
  it is never the outcome.
\<close>

definition input_rejected :: exn where
  "input_rejected = Rejected ''input_rejected''"

definition limit_exceeded :: exn where
  "limit_exceeded = Rejected ''limit_exceeded''"

definition path_rejected :: exn where
  "path_rejected = Rejected ''path_rejected''"

text \<open>\<open>except InputRejected\<close> catches the whole hierarchy.\<close>

fun is_input_rejected :: "exn \<Rightarrow> bool" where
  "is_input_rejected (Rejected _) = True"
| "is_input_rejected _ = False"

type_synonym 'a res = "exn + 'a"

subsection \<open>Sequencing fallible steps\<close>

definition and_then :: "'a res \<Rightarrow> ('a \<Rightarrow> 'b res) \<Rightarrow> 'b res" where
  "and_then m f = (case m of Inl e \<Rightarrow> Inl e | Inr x \<Rightarrow> f x)"

lemma and_then_simps [simp]:
  "and_then (Inl e) f = Inl e"
  "and_then (Inr x) f = f x"
  by (simp_all add: and_then_def)

lemma and_then_Inr [txn_simps]:
  "and_then m f = Inr y \<longleftrightarrow> (\<exists>x. m = Inr x \<and> f x = Inr y)"
  by (cases m) auto

lemma and_then_Inl:
  "and_then m f = Inl e \<longleftrightarrow> m = Inl e \<or> (\<exists>x. m = Inr x \<and> f x = Inl e)"
  by (cases m) auto

lemma and_then_cong [fundef_cong]:
  "m = m' \<Longrightarrow> (\<And>x. m' = Inr x \<Longrightarrow> f x = g x) \<Longrightarrow> and_then m f = and_then m' g"
  by (cases m') auto

text \<open>\<open>if cond: raise e\<close> followed by the rest of the function.\<close>

definition reject_if :: "bool \<Rightarrow> exn \<Rightarrow> 'a res \<Rightarrow> 'a res" where
  "reject_if b e rest = (if b then Inl e else rest)"

lemma reject_if_Inr [txn_simps]: "reject_if b e r = Inr x \<longleftrightarrow> \<not> b \<and> r = Inr x"
  by (simp add: reject_if_def)

lemma reject_if_Inl: "reject_if b e r = Inl e' \<longleftrightarrow> (b \<and> e' = e) \<or> (\<not> b \<and> r = Inl e')"
  by (auto simp: reject_if_def)

lemma reject_if_simps [simp]:
  "reject_if True e r = Inl e"
  "reject_if False e r = r"
  by (simp_all add: reject_if_def)

lemma reject_if_cong [cong]:
  "b = b' \<Longrightarrow> (\<not> b' \<Longrightarrow> r = r') \<Longrightarrow> reject_if b e r = reject_if b' e r'"
  by (cases b') auto

text \<open>A \<open>for\<close> loop whose body may raise, threading an accumulator.\<close>

fun fold_res :: "('a \<Rightarrow> 's \<Rightarrow> 's res) \<Rightarrow> 'a list \<Rightarrow> 's \<Rightarrow> 's res" where
  "fold_res f [] s = Inr s"
| "fold_res f (x # xs) s = and_then (f x s) (fold_res f xs)"

lemma fold_res_invariant:
  assumes "fold_res f xs s = Inr t" and "P s"
    and "\<And>x u v. x \<in> set xs \<Longrightarrow> P u \<Longrightarrow> f x u = Inr v \<Longrightarrow> P v"
  shows "P t"
  using assms
proof (induction xs arbitrary: s)
  case Nil
  then show ?case by simp
next
  case (Cons x xs)
  from Cons.prems(1) obtain u where u: "f x s = Inr u" "fold_res f xs u = Inr t"
    by (auto simp: txn_simps)
  have "P u" using Cons.prems(2,3) u(1) by auto
  with u(2) Cons.prems(3) show ?case by (intro Cons.IH) auto
qed

lemma fold_res_append:
  "fold_res f (xs @ ys) s = and_then (fold_res f xs s) (fold_res f ys)"
  by (induction xs arbitrary: s) (auto simp: and_then_def split: sum.splits)

text \<open>A loop that collects the keys of its items and rejects a repeated one.\<close>

lemma fold_unique:
  assumes step: "\<And>item seen out. f item seen = Inr out \<longleftrightarrow> (\<exists>k. P item k \<and> k \<notin> set seen \<and> out = seen @ [k])"
  shows "fold_res f items seen = Inr out
    \<longleftrightarrow> (\<exists>ks. list_all2 P items ks \<and> distinct ks \<and> set ks \<inter> set seen = {} \<and> out = seen @ ks)"
proof (induction items arbitrary: seen)
  case (Cons x xs)
  have run: "fold_res f (x # xs) seen = Inr out \<longleftrightarrow>
      (\<exists>k. P x k \<and> k \<notin> set seen \<and> (\<exists>ks. list_all2 P xs ks \<and> distinct ks \<and> set ks \<inter> set (seen @ [k]) = {} \<and> out = (seen @ [k]) @ ks))"
    unfolding fold_res.simps and_then_Inr step Cons.IH by blast
  show ?case
  proof
    assume "fold_res f (x # xs) seen = Inr out"
    then obtain k ks where "P x k" "k \<notin> set seen" "list_all2 P xs ks" "distinct ks" "set ks \<inter> set (seen @ [k]) = {}"
      "out = (seen @ [k]) @ ks" unfolding run by blast
    then have "list_all2 P (x # xs) (k # ks)" "distinct (k # ks)" "set (k # ks) \<inter> set seen = {}" "out = seen @ (k # ks)" by auto
    then show "\<exists>ks. list_all2 P (x # xs) ks \<and> distinct ks \<and> set ks \<inter> set seen = {} \<and> out = seen @ ks" by blast
  next
    assume "\<exists>ks. list_all2 P (x # xs) ks \<and> distinct ks \<and> set ks \<inter> set seen = {} \<and> out = seen @ ks"
    then obtain k ks where "P x k" "list_all2 P xs ks" "distinct (k # ks)" "set (k # ks) \<inter> set seen = {}" "out = seen @ k # ks"
      by (auto simp: list_all2_Cons1)
    then show "fold_res f (x # xs) seen = Inr out" unfolding run by (intro exI [of _ k] conjI exI [of _ ks]) auto
  qed
qed auto

text \<open>A list comprehension whose element may raise.\<close>

fun map_res :: "('a \<Rightarrow> 'b res) \<Rightarrow> 'a list \<Rightarrow> 'b list res" where
  "map_res f [] = Inr []"
| "map_res f (x # xs) = and_then (f x) (\<lambda>y. and_then (map_res f xs) (\<lambda>ys. Inr (y # ys)))"

subsection \<open>Transactions\<close>

text \<open>
  \<open>_connection(write=True)\<close>: \<open>BEGIN IMMEDIATE\<close>, the body, \<open>COMMIT\<close>; any exception
  rolls the database back and is raised again.
\<close>

type_synonym ('s, 'a) txn = "'s \<Rightarrow> exn + ('a \<times> 's)"

definition run_write :: "('s, 'a) txn \<Rightarrow> 's \<Rightarrow> 'a res \<times> 's" where
  "run_write t s = (case t s of Inl e \<Rightarrow> (Inl e, s) | Inr (x, s') \<Rightarrow> (Inr x, s'))"

lemma run_write_raised: "fst (run_write t s) = Inl e \<Longrightarrow> snd (run_write t s) = s"
  by (auto simp: run_write_def split: sum.splits)

lemma run_write_returned: "run_write t s = (Inr x, s') \<longleftrightarrow> t s = Inr (x, s')"
  by (auto simp: run_write_def split: sum.splits)

lemma run_write_invariant:
  assumes "P s" and "\<And>x s'. t s = Inr (x, s') \<Longrightarrow> P s'"
  shows "P (snd (run_write t s))"
  using assms by (auto simp: run_write_def split: sum.splits)

subsection \<open>Tables\<close>

text \<open>\<open>SELECT ... WHERE P\<close> with \<open>fetchone\<close>, \<open>UPDATE ... SET f WHERE P\<close>, and the UNIQUE columns.\<close>

abbreviation fetchone :: "('r \<Rightarrow> bool) \<Rightarrow> 'r list \<Rightarrow> 'r option" where
  "fetchone P t \<equiv> find P t"

definition update_where :: "('r \<Rightarrow> bool) \<Rightarrow> ('r \<Rightarrow> 'r) \<Rightarrow> 'r list \<Rightarrow> 'r list" where
  "update_where P f t = map (\<lambda>r. if P r then f r else r) t"

definition unique_on :: "('r \<Rightarrow> 'k) \<Rightarrow> 'r list \<Rightarrow> bool" where
  "unique_on key t \<longleftrightarrow> distinct (map key t)"

text \<open>A UNIQUE column that may be NULL: only the non-NULL values must differ.\<close>

definition unique_nullable :: "('r \<Rightarrow> 'k option) \<Rightarrow> 'r list \<Rightarrow> bool" where
  "unique_nullable key t \<longleftrightarrow> distinct (filter (\<lambda>k. k \<noteq> None) (map key t))"

lemma find_SomeD: "find P t = Some r \<Longrightarrow> r \<in> set t \<and> P r"
  by (auto simp: find_Some_iff)

lemma find_NoneD: "find P t = None \<Longrightarrow> r \<in> set t \<Longrightarrow> \<not> P r"
  by (auto simp: find_None_iff)

lemma find_append [table_simps]:
  "find P (xs @ ys) = (case find P xs of None \<Rightarrow> find P ys | Some r \<Rightarrow> Some r)"
  by (induction xs) auto

lemma find_update_where [table_simps]:
  assumes "\<And>r. P r \<Longrightarrow> Q (f r) = Q r"
  shows "find Q (update_where P f t) = map_option (\<lambda>r. if P r then f r else r) (find Q t)"
  using assms by (induction t) (auto simp: update_where_def)

lemma length_update_where [simp]: "length (update_where P f t) = length t"
  by (simp add: update_where_def)

lemma set_update_where:
  "set (update_where P f t) = f ` {r \<in> set t. P r} \<union> {r \<in> set t. \<not> P r}"
  by (auto simp: update_where_def)

lemma update_where_append [simp]:
  "update_where P f (xs @ ys) = update_where P f xs @ update_where P f ys"
  by (simp add: update_where_def)

lemma map_update_where:
  assumes "\<And>r. P r \<Longrightarrow> g (f r) = g r"
  shows "map g (update_where P f t) = map g t"
  using assms by (induction t) (auto simp: update_where_def)

lemma filter_update_where:
  assumes "\<And>r. P r \<Longrightarrow> Q (f r) = Q r"
  shows "filter Q (update_where P f t) = update_where P f (filter Q t)"
  using assms by (induction t) (auto simp: update_where_def)

lemma unique_on_update_where:
  assumes "\<And>r. P r \<Longrightarrow> key (f r) = key r"
  shows "unique_on key (update_where P f t) = unique_on key t"
  unfolding unique_on_def by (simp only: map_update_where [of P key f, OF assms])

lemma unique_on_append [simp]:
  "unique_on key (t @ [r]) \<longleftrightarrow> unique_on key t \<and> key r \<notin> key ` set t"
  by (auto simp: unique_on_def)

lemma unique_on_Nil [simp]: "unique_on key []"
  by (simp add: unique_on_def)

lemma unique_on_eq:
  "unique_on key t \<Longrightarrow> r \<in> set t \<Longrightarrow> r' \<in> set t \<Longrightarrow> key r = key r' \<Longrightarrow> r = r'"
  by (auto simp: unique_on_def distinct_map inj_on_def)

lemma unique_on_find:
  assumes "unique_on key t" and "r \<in> set t"
  shows "find (\<lambda>x. key x = key r) t = Some r"
proof (cases "find (\<lambda>x. key x = key r) t")
  case None
  with assms(2) show ?thesis by (auto simp: find_None_iff)
next
  case (Some r')
  then have "r' \<in> set t" "key r' = key r" by (auto dest: find_SomeD)
  with assms have "r' = r" by (blast dest: unique_on_eq)
  with Some show ?thesis by simp
qed

lemma unique_nullable_Nil [simp]: "unique_nullable key []"
  by (simp add: unique_nullable_def)

lemma unique_nullable_append [simp]:
  "unique_nullable key (t @ [r]) \<longleftrightarrow>
     unique_nullable key t \<and> (key r \<noteq> None \<longrightarrow> key r \<notin> key ` set t)"
  by (auto simp: unique_nullable_def)

lemma unique_nullable_Cons:
  "unique_nullable key (r # t) \<longleftrightarrow>
     unique_nullable key t \<and> (key r \<noteq> None \<longrightarrow> key r \<notin> key ` set t)"
  by (auto simp: unique_nullable_def)

lemma unique_nullable_eq:
  "unique_nullable key t \<Longrightarrow> r \<in> set t \<Longrightarrow> r' \<in> set t \<Longrightarrow> key r = Some k \<Longrightarrow> key r' = Some k
    \<Longrightarrow> r = r'"
  by (induction t) (auto simp: unique_nullable_Cons image_iff)

lemma unique_nullable_update_where:
  assumes "\<And>r. P r \<Longrightarrow> key (f r) = key r"
  shows "unique_nullable key (update_where P f t) = unique_nullable key t"
  unfolding unique_nullable_def by (simp only: map_update_where [of P key f, OF assms])

lemma sum_list_update_where:
  fixes g :: "'r \<Rightarrow> int"
  assumes "\<And>r. P r \<Longrightarrow> g (f r) = g r"
  shows "sum_list (map g (update_where P f t)) = sum_list (map g t)"
  by (simp only: map_update_where [of P g f, OF assms])

subsection \<open>Systems with an invariant\<close>

definition reachable_from :: "('s \<Rightarrow> bool) \<Rightarrow> ('s \<Rightarrow> 's \<Rightarrow> bool) \<Rightarrow> 's \<Rightarrow> bool" where
  "reachable_from initial step s \<longleftrightarrow> (\<exists>s0. initial s0 \<and> rtranclp step s0 s)"

text \<open>
  The contract of a component with durable state: its operations, seen as one step
  relation, keep its invariant.  The lemmas carry a property of single steps to whole
  runs.
\<close>

locale invariant_system =
  fixes initial :: "'s \<Rightarrow> bool" and step :: "'s \<Rightarrow> 's \<Rightarrow> bool" and inv :: "'s \<Rightarrow> bool"
  assumes start: "initial s \<Longrightarrow> inv s" and keep: "inv s \<Longrightarrow> step s t \<Longrightarrow> inv t"
begin

lemma run_inv: "rtranclp step s t \<Longrightarrow> inv s \<Longrightarrow> inv t"
  by (induction rule: rtranclp_induct) (auto intro: keep)

lemma reachable_inv: "reachable_from initial step s \<Longrightarrow> inv s"
  by (auto simp: reachable_from_def intro: start run_inv)

lemma reachable_step: "reachable_from initial step s \<Longrightarrow> step s t \<Longrightarrow> reachable_from initial step t"
  by (auto simp: reachable_from_def intro: rtranclp.rtrancl_into_rtrancl)

lemma run_related:
  assumes "rtranclp step s t" "inv s" "\<And>x. R x x" "\<And>x y z. R x y \<Longrightarrow> R y z \<Longrightarrow> R x z"
    "\<And>x y. inv x \<Longrightarrow> step x y \<Longrightarrow> R x y"
  shows "R s t"
  using assms(1)
proof (induction rule: rtranclp_induct)
  case base
  show ?case by (rule assms(3))
next
  case (step y z)
  from step(1) assms(2) have "inv y" by (rule run_inv)
  from step(3) assms(5) [OF this step(2)] show ?case by (rule assms(4))
qed

end

end
