(* ===== verification/PyText.thy ===== *)
theory PyText
  imports Prelude
begin

section \<open>Python text and bytes: classes, decimal, hexadecimal, base64, splitting\<close>

text \<open>
  The pieces of \<open>str\<close>, \<open>bytes\<close>, \<open>re\<close> and \<open>base64\<close> that the program uses.  A \<open>str\<close> is
  its UTF-8 encoding; \<open>py_len\<close> counts code points (the bytes that do not continue a
  character), \<open>length\<close> is the length of the encoding.  The regular expressions of the
  program are sequences of a literal prefix and a bounded repetition of an ASCII class;
  a fullmatch is a test on the whole string.
\<close>

subsection \<open>Character classes and fullmatch\<close>

definition byte_of :: "char \<Rightarrow> nat" where
  "byte_of c = of_char c"

definition chr_of :: "nat \<Rightarrow> char" where
  "chr_of n = char_of n"

lemma byte_of_bound: "byte_of c < 256"
  by (simp add: byte_of_def)

lemma byte_of_chr_of: "n < 256 \<Longrightarrow> byte_of (chr_of n) = n"
  by (simp add: byte_of_def chr_of_def)

lemma chr_of_byte_of [simp]: "chr_of (byte_of c) = c"
  by (simp add: byte_of_def chr_of_def)

lemma byte_of_inj: "byte_of c = byte_of d \<Longrightarrow> c = d"
  by (metis chr_of_byte_of)

definition between :: "char \<Rightarrow> char \<Rightarrow> char \<Rightarrow> bool" where
  "between lo hi c \<longleftrightarrow> byte_of lo \<le> byte_of c \<and> byte_of c \<le> byte_of hi"

definition is_digit :: "char \<Rightarrow> bool" where
  "is_digit c = between CHR ''0'' CHR ''9'' c"

definition is_lower :: "char \<Rightarrow> bool" where
  "is_lower c = between CHR ''a'' CHR ''z'' c"

definition is_upper :: "char \<Rightarrow> bool" where
  "is_upper c = between CHR ''A'' CHR ''Z'' c"

definition is_alnum :: "char \<Rightarrow> bool" where
  "is_alnum c \<longleftrightarrow> is_upper c \<or> is_lower c \<or> is_digit c"

definition is_hex :: "char \<Rightarrow> bool" where
  "is_hex c \<longleftrightarrow> is_digit c \<or> between CHR ''a'' CHR ''f'' c"

text \<open>\<open>[A-Za-z0-9_-]\<close>\<close>

definition is_token :: "char \<Rightarrow> bool" where
  "is_token c \<longleftrightarrow> is_alnum c \<or> c = CHR ''_'' \<or> c = CHR ''-''"

text \<open>\<open>re.fullmatch("[class]{lo,hi}", s)\<close>, and the same after a literal prefix.\<close>

definition re_class :: "(char \<Rightarrow> bool) \<Rightarrow> nat \<Rightarrow> nat \<Rightarrow> string \<Rightarrow> bool" where
  "re_class cls lo hi s \<longleftrightarrow> lo \<le> length s \<and> length s \<le> hi \<and> list_all cls s"

definition starts_with :: "string \<Rightarrow> string \<Rightarrow> bool" where
  "starts_with p s \<longleftrightarrow> take (length p) s = p"

definition re_prefix :: "string \<Rightarrow> (string \<Rightarrow> bool) \<Rightarrow> string \<Rightarrow> bool" where
  "re_prefix p m s \<longleftrightarrow> starts_with p s \<and> m (drop (length p) s)"

lemma starts_with_append [simp]: "starts_with p (p @ s)"
  by (simp add: starts_with_def)

lemma re_prefix_append [simp]: "re_prefix p m (p @ s) \<longleftrightarrow> m s"
  by (simp add: re_prefix_def)

lemma re_prefixE: "re_prefix p m s \<Longrightarrow> (\<And>t. s = p @ t \<Longrightarrow> m t \<Longrightarrow> R) \<Longrightarrow> R"
  by (metis append_take_drop_id re_prefix_def starts_with_def)

text \<open>\<open>str.isascii\<close>\<close>

definition is_ascii :: "string \<Rightarrow> bool" where
  "is_ascii s = list_all (\<lambda>c. byte_of c < 128) s"

subsection \<open>Lengths\<close>

definition continues :: "char \<Rightarrow> bool" where
  "continues c \<longleftrightarrow> 128 \<le> byte_of c \<and> byte_of c < 192"

definition py_len :: "string \<Rightarrow> nat" where
  "py_len s = length (filter (\<lambda>c. \<not> continues c) s)"

lemma py_len_le: "py_len s \<le> length s"
  by (simp add: py_len_def)

lemma py_len_append [simp]: "py_len (s @ t) = py_len s + py_len t"
  by (simp add: py_len_def)

definition control_char :: "char \<Rightarrow> bool" where
  "control_char c \<longleftrightarrow> byte_of c < 32 \<or> byte_of c = 127"

subsection \<open>Splitting\<close>

text \<open>\<open>s.split(sep)\<close> for a one-character separator: always at least one field.\<close>

fun split_on :: "char \<Rightarrow> string \<Rightarrow> string list" where
  "split_on sep [] = [[]]"
| "split_on sep (c # s) =
     (if c = sep then [] # split_on sep s
      else case split_on sep s of [] \<Rightarrow> [[c]] | w # ws \<Rightarrow> (c # w) # ws)"

text \<open>\<open>sep.join(parts)\<close>\<close>

fun join_with :: "char \<Rightarrow> string list \<Rightarrow> string" where
  "join_with sep [] = []"
| "join_with sep [w] = w"
| "join_with sep (w # v # ws) = w @ sep # join_with sep (v # ws)"

lemma split_on_ne [simp]: "split_on sep s \<noteq> []"
  by (induction s) (auto split: list.splits)

lemma join_split: "join_with sep (split_on sep s) = s"
proof (induction s)
  case Nil
  then show ?case by simp
next
  case (Cons c s)
  obtain w ws where w: "split_on sep s = w # ws"
    using split_on_ne by (meson neq_Nil_conv)
  with Cons.IH show ?case by (cases ws) auto
qed

lemma split_on_no_sep: "w \<in> set (split_on sep s) \<Longrightarrow> sep \<notin> set w"
proof (induction s arbitrary: w)
  case Nil
  then show ?case by simp
next
  case (Cons c s)
  obtain v vs where v: "split_on sep s = v # vs"
    using split_on_ne by (meson neq_Nil_conv)
  show ?case
  proof (cases "c = sep")
    case True
    with Cons show ?thesis by auto
  next
    case False
    with Cons.prems v have "w = c # v \<or> w \<in> set vs" by auto
    with Cons.IH v False show ?thesis by auto
  qed
qed

lemma split_join:
  "ws \<noteq> [] \<Longrightarrow> \<forall>w \<in> set ws. sep \<notin> set w \<Longrightarrow> split_on sep (join_with sep ws) = ws"
proof (induction ws rule: join_with.induct)
  case (2 sep w)
  have "sep \<notin> set w \<Longrightarrow> split_on sep w = [w]" for w
    by (induction w) auto
  with 2 show ?case by simp
next
  case (3 sep w v ws)
  have "sep \<notin> set w \<Longrightarrow> split_on sep (w @ sep # s) = w # split_on sep s" for w s
    by (induction w) auto
  with 3 show ?case by simp
qed simp

text \<open>\<open>s.partition(sep)\<close>: head, whether the separator occurs, tail.\<close>

fun partition_at :: "char \<Rightarrow> string \<Rightarrow> string \<times> bool \<times> string" where
  "partition_at sep [] = ([], False, [])"
| "partition_at sep (c # s) =
     (if c = sep then ([], True, s)
      else case partition_at sep s of (h, found, t) \<Rightarrow> (c # h, found, t))"

lemma partition_at_found:
  "partition_at sep s = (h, True, t) \<Longrightarrow> s = h @ sep # t \<and> sep \<notin> set h"
  by (induction s arbitrary: h) (auto split: if_splits prod.splits)

lemma partition_at_missing: "partition_at sep s = (h, False, t) \<Longrightarrow> h = s \<and> sep \<notin> set s"
  by (induction s arbitrary: h) (auto split: if_splits prod.splits)

subsection \<open>Decimal\<close>

definition digit_char :: "nat \<Rightarrow> char" where
  "digit_char d = chr_of (48 + d)"

definition digit_val :: "char \<Rightarrow> nat" where
  "digit_val c = byte_of c - 48"

lemma digit_val_char [simp]: "d < 10 \<Longrightarrow> digit_val (digit_char d) = d"
  by (simp add: digit_val_def digit_char_def byte_of_chr_of)

lemma is_digit_char [simp]: "d < 10 \<Longrightarrow> is_digit (digit_char d)"
  by (simp add: is_digit_def between_def digit_char_def byte_of_chr_of) (simp add: byte_of_def)

lemma byte_of_digit_char: "d < 10 \<Longrightarrow> byte_of (digit_char d) = 48 + d"
  by (simp add: digit_char_def byte_of_chr_of)

text \<open>\<open>str(n)\<close> for a natural number.\<close>

fun show_nat :: "nat \<Rightarrow> string" where
  "show_nat n = (if n < 10 then [digit_char n] else show_nat (n div 10) @ [digit_char (n mod 10)])"

declare show_nat.simps [simp del]

definition show_int :: "int \<Rightarrow> string" where
  "show_int i = (if i < 0 then CHR ''-'' # show_nat (nat (- i)) else show_nat (nat i))"

definition digits_val :: "string \<Rightarrow> nat" where
  "digits_val s = foldl (\<lambda>n c. 10 * n + digit_val c) 0 s"

lemma digits_val_Nil [simp]: "digits_val [] = 0"
  by (simp add: digits_val_def)

lemma digits_val_snoc [simp]: "digits_val (s @ [c]) = 10 * digits_val s + digit_val c"
  by (simp add: digits_val_def)

lemma show_nat_digits: "list_all is_digit (show_nat n)"
proof (induction n rule: show_nat.induct)
  case (1 n)
  then show ?case by (subst show_nat.simps) auto
qed

lemma show_nat_ne [simp]: "show_nat n \<noteq> []"
  by (subst show_nat.simps) simp

lemma digits_val_show_nat [simp]: "digits_val (show_nat n) = n"
proof (induction n rule: show_nat.induct)
  case (1 n)
  have "digits_val ([] @ [digit_char n]) = n" if "n < 10"
    using that by (simp only: digits_val_snoc) simp
  with 1 show ?case by (subst show_nat.simps) auto
qed

lemma show_nat_inj: "show_nat m = show_nat n \<Longrightarrow> m = n"
  by (metis digits_val_show_nat)

text \<open>Fixed-width decimals, as in \<open>"%02d"\<close> and \<open>"%04d"\<close>.\<close>

fun show_fixed :: "nat \<Rightarrow> nat \<Rightarrow> string" where
  "show_fixed 0 n = []"
| "show_fixed (Suc w) n = show_fixed w (n div 10) @ [digit_char (n mod 10)]"

lemma length_show_fixed [simp]: "length (show_fixed w n) = w"
  by (induction w arbitrary: n) auto

lemma show_fixed_digits: "list_all is_digit (show_fixed w n)"
  by (induction w arbitrary: n) auto

lemma digits_val_show_fixed: "digits_val (show_fixed w n) = n mod 10 ^ w"
proof (induction w arbitrary: n)
  case 0
  then show ?case by simp
next
  case (Suc w)
  have "n mod (10 * 10 ^ w) = 10 * (n div 10 mod 10 ^ w) + n mod 10"
    by (simp add: mod_mult2_eq)
  with Suc show ?case by simp
qed

subsection \<open>Hexadecimal\<close>

definition hex_char :: "nat \<Rightarrow> char" where
  "hex_char d = (if d < 10 then chr_of (48 + d) else chr_of (87 + d))"

definition hex_of :: "string \<Rightarrow> string" where
  "hex_of s = concat (map (\<lambda>c. [hex_char (byte_of c div 16), hex_char (byte_of c mod 16)]) s)"

lemma is_hex_hex_char: "d < 16 \<Longrightarrow> is_hex (hex_char d)"
  by (auto simp: is_hex_def is_digit_def between_def hex_char_def byte_of_chr_of)
    (auto simp: byte_of_def)

lemma hex_of_hex: "list_all is_hex (hex_of s)"
proof -
  have "byte_of c div 16 < 16" for c using byte_of_bound [of c] by simp
  then show ?thesis by (induction s) (auto simp: hex_of_def is_hex_hex_char)
qed

lemma length_hex_of [simp]: "length (hex_of s) = 2 * length s"
  by (induction s) (auto simp: hex_of_def)

lemma hex_char_inj: "d < 16 \<Longrightarrow> e < 16 \<Longrightarrow> hex_char d = hex_char e \<Longrightarrow> d = e"
proof -
  assume a: "d < 16" "e < 16" "hex_char d = hex_char e"
  then have "byte_of (hex_char d) = byte_of (hex_char e)" by simp
  with a(1,2) show ?thesis by (auto simp: hex_char_def byte_of_chr_of split: if_splits)
qed

lemma hex_of_inj: "hex_of s = hex_of t \<Longrightarrow> s = t"
proof (induction s arbitrary: t)
  case Nil
  then show ?case by (cases t) (auto simp: hex_of_def)
next
  case (Cons c s)
  then obtain d t' where t: "t = d # t'" by (cases t) (auto simp: hex_of_def)
  have b: "byte_of x div 16 < 16" for x using byte_of_bound [of x] by simp
  from Cons.prems t have "hex_char (byte_of c div 16) = hex_char (byte_of d div 16)"
    and "hex_char (byte_of c mod 16) = hex_char (byte_of d mod 16)" and rest: "hex_of s = hex_of t'"
    by (auto simp: hex_of_def)
  then have "byte_of c div 16 = byte_of d div 16" "byte_of c mod 16 = byte_of d mod 16"
    using b hex_char_inj by auto
  then have "c = d" by (metis byte_of_inj div_mult_mod_eq)
  with Cons.IH [OF rest] t show ?case by simp
qed

subsection \<open>Whitespace and int()\<close>

text \<open>The code points \<open>str.strip()\<close> removes, as UTF-8.\<close>

definition ws_codes :: "string list" where
  "ws_codes = map (map chr_of)
     ([[9], [10], [11], [12], [13], [28], [29], [30], [31], [32], [194, 133], [194, 160],
       [225, 154, 128], [226, 128, 168], [226, 128, 169], [226, 128, 175], [226, 129, 159],
       [227, 128, 128]] @ map (\<lambda>i. [226, 128, 128 + i]) [0..<11])"

fun lstrip_fuel :: "nat \<Rightarrow> string list \<Rightarrow> string \<Rightarrow> string" where
  "lstrip_fuel 0 ws s = s"
| "lstrip_fuel (Suc n) ws s =
     (case find (\<lambda>w. starts_with w s) ws of None \<Rightarrow> s | Some w \<Rightarrow> lstrip_fuel n ws (drop (length w) s))"

definition py_strip :: "string \<Rightarrow> string" where
  "py_strip s =
     (let l = lstrip_fuel (length s) ws_codes s
      in rev (lstrip_fuel (length l) (map rev ws_codes) (rev l)))"

text \<open>
  \<open>int(s)\<close>: surrounding whitespace, a sign, decimal digits with single underscores between
  them, at most 4300 digits.  (Digits of other scripts are outside the model.)
\<close>

fun digit_groups :: "string \<Rightarrow> bool" where
  "digit_groups [] = False"
| "digit_groups [c] = is_digit c"
| "digit_groups (c # d # s) =
     (is_digit c \<and> (if d = CHR ''_'' then digit_groups s else digit_groups (d # s)))"

definition py_int :: "string \<Rightarrow> int option" where
  "py_int s =
     (let t = py_strip s;
          neg = starts_with ''-'' t;
          u = (if neg \<or> starts_with ''+'' t then drop 1 t else t);
          ds = filter (\<lambda>c. c \<noteq> CHR ''_'') u
      in if digit_groups u \<and> length ds \<le> 4300
         then Some (if neg then - int (digits_val ds) else int (digits_val ds)) else None)"

lemma ws_codes_heads: "w \<in> set ws_codes \<Longrightarrow> w \<noteq> [] \<and> \<not> is_alnum (hd w) \<and> \<not> is_alnum (last w)"
proof -
  have "\<forall>w \<in> set ws_codes. w \<noteq> [] \<and> \<not> is_alnum (hd w) \<and> \<not> is_alnum (last w)"
    by code_simp
  then show "w \<in> set ws_codes \<Longrightarrow> ?thesis" by blast
qed

lemma lstrip_alnum:
  assumes "s \<noteq> []" "is_alnum (hd s)" "\<And>w. w \<in> set ws \<Longrightarrow> w \<noteq> [] \<and> \<not> is_alnum (hd w)"
  shows "lstrip_fuel n ws s = s"
proof (cases n)
  case 0
  then show ?thesis by simp
next
  case (Suc m)
  have "\<not> starts_with w s" if "w \<in> set ws" for w
    using assms(1,2) assms(3) [OF that] by (cases w; cases s) (auto simp: starts_with_def)
  then have "find (\<lambda>w. starts_with w s) ws = None" by (auto simp: find_None_iff)
  with Suc show ?thesis by simp
qed

text \<open>A text that begins and ends with a letter or a digit is not changed by \<open>strip\<close>.\<close>

lemma py_strip_alnum:
  assumes "s \<noteq> []" "is_alnum (hd s)" "is_alnum (last s)"
  shows "py_strip s = s"
proof -
  have l: "lstrip_fuel (length s) ws_codes s = s"
    by (rule lstrip_alnum) (use assms ws_codes_heads in auto)
  have "lstrip_fuel (length s) (map rev ws_codes) (rev s) = rev s"
    by (rule lstrip_alnum) (use assms ws_codes_heads in \<open>auto simp: hd_rev\<close>)
  with l show ?thesis by (simp add: py_strip_def)
qed

lemma py_strip_digits:
  assumes "s \<noteq> []" "list_all is_digit s"
  shows "py_strip s = s"
  by (rule py_strip_alnum) (use assms in \<open>auto simp: list_all_iff is_alnum_def\<close>)

lemma digit_groups_digits: "s \<noteq> [] \<Longrightarrow> list_all is_digit s \<Longrightarrow> digit_groups s"
proof (induction s rule: digit_groups.induct)
  case (3 c d s)
  have "\<not> is_digit CHR ''_''" by code_simp
  with 3 show ?case by auto
qed auto

lemma py_int_show_nat: "length (show_nat n) \<le> 4300 \<Longrightarrow> py_int (show_nat n) = Some (int n)"
proof -
  assume len: "length (show_nat n) \<le> 4300"
  have d: "list_all is_digit (show_nat n)" by (rule show_nat_digits)
  have nd: "\<not> is_digit CHR ''_''" "\<not> is_digit CHR ''-''" "\<not> is_digit CHR ''+''" by code_simp+
  then have "\<not> starts_with ''-'' (show_nat n)" "\<not> starts_with ''+'' (show_nat n)"
    using d by (cases "show_nat n"; auto simp: starts_with_def)+
  moreover have "filter (\<lambda>c. c \<noteq> CHR ''_'') (show_nat n) = show_nat n"
    using d nd(1) by (auto simp: filter_id_conv list_all_iff)
  ultimately show ?thesis
    using len by (simp add: py_int_def Let_def py_strip_digits d digit_groups_digits)
qed

subsection \<open>PurePosixPath\<close>

definition posix_root :: "string \<Rightarrow> string" where
  "posix_root s =
     (if starts_with ''//'' s \<and> \<not> starts_with ''///'' s then ''//''
      else if starts_with ''/'' s then ''/'' else [])"

definition posix_tail :: "string \<Rightarrow> string list" where
  "posix_tail s = filter (\<lambda>w. w \<noteq> [] \<and> w \<noteq> ''.'') (split_on CHR ''/'' s)"

definition posix_parts :: "string \<Rightarrow> string list" where
  "posix_parts s = (if posix_root s = [] then [] else [posix_root s]) @ posix_tail s"

definition as_posix :: "string \<Rightarrow> string" where
  "as_posix s =
     (if posix_root s = [] \<and> posix_tail s = [] then ''.''
      else posix_root s @ join_with CHR ''/'' (posix_tail s))"

end
