(* ===== verification/Json.thy ===== *)
theory Json
  imports PyText
begin

section \<open>JSON values and canonical serialisation\<close>

text \<open>
  What \<open>json.loads\<close> returns: the dictionaries keep their insertion order and have no
  repeated key; a float keeps its text.  \<open>dumps\<close> is \<open>json.dumps\<close> with
  \<open>sort_keys=True, ensure_ascii=False, separators=(",", ":")\<close>, the canonical form of
  \<open>commerce.py\<close>, \<open>commerce_store.py\<close>, \<open>paid_lifecycle.py\<close> and \<open>stage_b.py\<close>.
\<close>

datatype json =
    JNull
  | JBool bool
  | JInt int
  | JFloat string
  | JStr string
  | JArr "json list"
  | JObj "(string \<times> json) list"

definition jget :: "(string \<times> json) list \<Rightarrow> string \<Rightarrow> json option" where
  "jget kvs k = map_of kvs k"

text \<open>\<open>d.get(k)\<close>: a missing key is \<open>None\<close>, the JSON null.\<close>

definition jget_null :: "(string \<times> json) list \<Rightarrow> string \<Rightarrow> json" where
  "jget_null kvs k = (case map_of kvs k of None \<Rightarrow> JNull | Some v \<Rightarrow> v)"

definition has_keys :: "string list \<Rightarrow> (string \<times> json) list \<Rightarrow> bool" where
  "has_keys ks kvs \<longleftrightarrow> set (map fst kvs) = set ks"

lemma has_keys_jget: "has_keys ks kvs \<Longrightarrow> k \<in> set ks \<Longrightarrow> \<exists>v. jget kvs k = Some v"
  by (metis has_keys_def jget_def map_of_eq_None_iff not_None_eq set_map)

lemma has_keys_jget_null: "has_keys ks kvs \<Longrightarrow> k \<in> set ks \<Longrightarrow> jget kvs k = Some (jget_null kvs k)"
  using has_keys_jget [of ks kvs k] by (auto simp: jget_null_def jget_def)

text \<open>\<open>isinstance(v, int) and not isinstance(v, bool)\<close>, within bounds.\<close>

fun bounded_int :: "int \<Rightarrow> int \<Rightarrow> json \<Rightarrow> bool" where
  "bounded_int lo hi (JInt n) \<longleftrightarrow> lo \<le> n \<and> n \<le> hi"
| "bounded_int lo hi _ \<longleftrightarrow> False"

fun is_jstr :: "json \<Rightarrow> bool" where
  "is_jstr (JStr _) = True"
| "is_jstr _ = False"

fun str_matches :: "(string \<Rightarrow> bool) \<Rightarrow> json \<Rightarrow> bool" where
  "str_matches p (JStr s) = p s"
| "str_matches p _ = False"

fun the_str :: "json \<Rightarrow> string" where
  "the_str (JStr s) = s"
| "the_str _ = []"

fun the_int :: "json \<Rightarrow> int" where
  "the_int (JInt n) = n"
| "the_int _ = 0"

lemma str_matches_the_str: "str_matches p v \<Longrightarrow> v = JStr (the_str v) \<and> p (the_str v)"
  by (cases v) auto

lemma bounded_int_the_int: "bounded_int lo hi v \<Longrightarrow> v = JInt (the_int v) \<and> lo \<le> the_int v \<and> the_int v \<le> hi"
  by (cases v) auto

definition obj_of :: "json \<Rightarrow> (string \<times> json) list" where
  "obj_of v = (case v of JObj kvs \<Rightarrow> kvs | _ \<Rightarrow> [])"

definition arr_of :: "json \<Rightarrow> json list" where
  "arr_of v = (case v of JArr vs \<Rightarrow> vs | _ \<Rightarrow> [])"

text \<open>A list or dictionary cannot be hashed: \<open>v in {...}\<close> raises a \<open>TypeError\<close>.\<close>

fun hashable :: "json \<Rightarrow> bool" where
  "hashable (JArr _) = False"
| "hashable (JObj _) = False"
| "hashable _ = True"

definition in_strings :: "json \<Rightarrow> string list \<Rightarrow> bool res" where
  "in_strings v ss = reject_if (\<not> hashable v) TypeError (Inr (v \<in> JStr ` set ss))"

text \<open>\<open>isinstance\<close> guards that raise: the value had the shape.\<close>

lemma obj_case_Inr [txn_simps]:
  "(case v of JObj kvs \<Rightarrow> f kvs | _ \<Rightarrow> Inl e) = Inr x \<longleftrightarrow> (\<exists>kvs. v = JObj kvs \<and> f kvs = Inr x)"
  by (cases v) auto

lemma arr_case_Inr [txn_simps]:
  "(case v of JArr vs \<Rightarrow> f vs | _ \<Rightarrow> Inl e) = Inr x \<longleftrightarrow> (\<exists>vs. v = JArr vs \<and> f vs = Inr x)"
  by (cases v) auto

lemma str_case_Inr [txn_simps]:
  "(case v of JStr s \<Rightarrow> f s | _ \<Rightarrow> Inl e) = Inr x \<longleftrightarrow> (\<exists>s. v = JStr s \<and> f s = Inr x)"
  by (cases v) auto

lemma int_case_Inr [txn_simps]:
  "(case v of JInt n \<Rightarrow> f n | _ \<Rightarrow> Inl e) = Inr x \<longleftrightarrow> (\<exists>n. v = JInt n \<and> f n = Inr x)"
  by (cases v) auto

subsection \<open>Serialisation\<close>

definition escape_char :: "char \<Rightarrow> string" where
  "escape_char c =
     (let n = byte_of c in
      if n = 34 then [chr_of 92, chr_of 34]
      else if n = 92 then [chr_of 92, chr_of 92]
      else if n = 10 then [chr_of 92, CHR ''n'']
      else if n = 13 then [chr_of 92, CHR ''r'']
      else if n = 9 then [chr_of 92, CHR ''t'']
      else if n = 8 then [chr_of 92, CHR ''b'']
      else if n = 12 then [chr_of 92, CHR ''f'']
      else if n < 32 then [chr_of 92] @ ''u00'' @ [hex_char (n div 16), hex_char (n mod 16)]
      else [c])"

definition dumps_str :: "string \<Rightarrow> string" where
  "dumps_str s = [chr_of 34] @ concat (map escape_char s) @ [chr_of 34]"

fun dumps :: "json \<Rightarrow> string" where
  "dumps JNull = ''null''"
| "dumps (JBool b) = (if b then ''true'' else ''false'')"
| "dumps (JInt n) = show_int n"
| "dumps (JFloat t) = t"
| "dumps (JStr s) = dumps_str s"
| "dumps (JArr vs) = ''['' @ join_with CHR '','' (map dumps vs) @ '']''"
| "dumps (JObj kvs) =
     ''{'' @ join_with CHR '','' (map (\<lambda>(k, t). dumps_str k @ '':'' @ t)
        (sort_key fst (map (\<lambda>(k, v). (k, dumps v)) kvs))) @ ''}''"

definition jstr_obj :: "(string \<times> string) list \<Rightarrow> json" where
  "jstr_obj kvs = JObj (map (\<lambda>(k, v). (k, JStr v)) kvs)"

end
