(* ===== verification/PyTime.thy ===== *)
theory PyTime
  imports PyText
begin

section \<open>Python datetimes: calendar, parsing, printing\<close>

text \<open>
  A \<open>datetime\<close> is \<open>Naive us\<close> or \<open>Aware us off\<close>: its wall-clock microseconds since
  0001-01-01T00:00:00 and, when it has a timezone, the offset of that zone in
  microseconds.  The UTC instant of an aware value is \<open>us - off\<close>.  Arithmetic and
  \<open>astimezone\<close> raise \<open>OverflowError\<close> outside the years 1 to 9999.  \<open>fromisoformat\<close>
  follows the grammar the standard library documents from Python 3.11 on (calendar dates
  and week dates, basic or extended, one arbitrary separator character, a time with
  optional parts and fraction, an optional offset).
\<close>

subsection \<open>The proleptic Gregorian calendar\<close>

definition is_leap :: "int \<Rightarrow> bool" where
  "is_leap y \<longleftrightarrow> y mod 4 = 0 \<and> (y mod 100 \<noteq> 0 \<or> y mod 400 = 0)"

definition days_before_year :: "int \<Rightarrow> int" where
  "days_before_year y = (let p = y - 1 in p * 365 + p div 4 - p div 100 + p div 400)"

definition month_length :: "bool \<Rightarrow> int \<Rightarrow> int" where
  "month_length leap m =
     (if m = 2 then (if leap then 29 else 28)
      else if m = 4 \<or> m = 6 \<or> m = 9 \<or> m = 11 then 30 else 31)"

definition month_start :: "bool \<Rightarrow> int \<Rightarrow> int" where
  "month_start leap m =
     (if m \<le> 1 then 0 else if m = 2 then 31
      else (if m = 3 then 59 else if m = 4 then 90 else if m = 5 then 120 else if m = 6 then 151
            else if m = 7 then 181 else if m = 8 then 212 else if m = 9 then 243
            else if m = 10 then 273 else if m = 11 then 304 else 334) + (if leap then 1 else 0))"

definition days_in_month :: "int \<Rightarrow> int \<Rightarrow> int" where
  "days_in_month y m = month_length (is_leap y) m"

definition ymd2ord :: "int \<Rightarrow> int \<Rightarrow> int \<Rightarrow> int" where
  "ymd2ord y m d = days_before_year y + month_start (is_leap y) m + d"

definition month_day :: "bool \<Rightarrow> int \<Rightarrow> int \<times> int" where
  "month_day leap n =
     (let m = (n + 50) div 32; s = month_start leap m
      in if s > n then (m - 1, n - (s - month_length leap (m - 1)) + 1) else (m, n - s + 1))"

definition ord2ymd :: "int \<Rightarrow> int \<times> int \<times> int" where
  "ord2ymd n =
     (let k = n - 1; n400 = k div 146097; k1 = k mod 146097;
          n100 = k1 div 36524; k2 = k1 mod 36524;
          n4 = k2 div 1461; k3 = k2 mod 1461;
          n1 = k3 div 365; k4 = k3 mod 365;
          year = n400 * 400 + 1 + n100 * 100 + n4 * 4 + n1
      in if n1 = 4 \<or> n100 = 4 then (year - 1, 12, 31)
         else let leap = (n1 = 3 \<and> (n4 \<noteq> 24 \<or> n100 = 3)); md = month_day leap k4
              in (year, fst md, snd md))"

definition max_ordinal :: int where
  "max_ordinal = 3652059"

definition valid_ymd :: "int \<Rightarrow> int \<Rightarrow> int \<Rightarrow> bool" where
  "valid_ymd y m d \<longleftrightarrow> 1 \<le> y \<and> y \<le> 9999 \<and> 1 \<le> m \<and> m \<le> 12 \<and> 1 \<le> d \<and> d \<le> days_in_month y m"

lemma month_day_table:
  "\<forall>n \<in> set [0..364]. \<forall>l \<in> set [True, False].
     (case month_day l n of (m, d) \<Rightarrow>
        1 \<le> m \<and> m \<le> 12 \<and> 1 \<le> d \<and> d \<le> month_length l m \<and> month_start l m + d = n + 1)"
  by code_simp

lemma month_day_ok:
  assumes "0 \<le> n" "n \<le> 364" "month_day l n = (m, d)"
  shows "1 \<le> m \<and> m \<le> 12 \<and> 1 \<le> d \<and> d \<le> month_length l m \<and> month_start l m + d = n + 1"
proof -
  from assms(1,2) have "n \<in> set [0..364]" by simp
  moreover have "l \<in> set [True, False]" by (cases l) auto
  ultimately show ?thesis using month_day_table assms(3) by fastforce
qed

lemma year_parts:
  fixes a c q r :: int
  assumes "0 \<le> c" "c \<le> 3" "0 \<le> q" "q \<le> 24" "0 \<le> r" "r \<le> 3"
  defines "y \<equiv> a * 400 + 1 + c * 100 + q * 4 + r"
  shows "days_before_year y = a * 146097 + c * 36524 + q * 1461 + r * 365"
    and "is_leap y \<longleftrightarrow> r = 3 \<and> (q \<noteq> 24 \<or> c = 3)"
proof -
  have d4: "(y - 1) div 4 = a * 100 + c * 25 + q"
    by (rule int_div_pos_eq [where r = r]) (use assms(1-6) in \<open>simp_all add: y_def\<close>)
  have d100: "(y - 1) div 100 = a * 4 + c"
    by (rule int_div_pos_eq [where r = "q * 4 + r"]) (use assms(1-6) in \<open>simp_all add: y_def\<close>)
  have d400: "(y - 1) div 400 = a"
    by (rule int_div_pos_eq [where r = "c * 100 + q * 4 + r"])
      (use assms(1-6) in \<open>simp_all add: y_def\<close>)
  show "days_before_year y = a * 146097 + c * 36524 + q * 1461 + r * 365"
    unfolding days_before_year_def Let_def d4 d100 d400 by (simp add: y_def)
  have m: "(y mod k = 0) \<longleftrightarrow> s + 1 = k" if "0 \<le> s" "s < k" "y = k * t + (s + 1)" for k s t :: int
  proof (cases "s + 1 = k")
    case True
    with that(3) have "y = k * (t + 1)" by (simp add: algebra_simps)
    with True show ?thesis by simp
  next
    case False
    with that have "y mod k = s + 1" by (intro int_mod_pos_eq) auto
    with that False show ?thesis by simp
  qed
  have "y mod 4 = 0 \<longleftrightarrow> r + 1 = 4"
    by (rule m [where t = "a * 100 + c * 25 + q"]) (use assms(1-6) in \<open>simp_all add: y_def\<close>)
  moreover have "y mod 100 = 0 \<longleftrightarrow> (q * 4 + r) + 1 = 100"
    by (rule m [where t = "a * 4 + c"]) (use assms(1-6) in \<open>simp_all add: y_def\<close>)
  moreover have "y mod 400 = 0 \<longleftrightarrow> (c * 100 + q * 4 + r) + 1 = 400"
    by (rule m [where t = a]) (use assms(1-6) in \<open>simp_all add: y_def\<close>)
  moreover have "q * 4 + r = 99 \<longleftrightarrow> q = 24 \<and> r = 3" using assms(3-6) by linarith
  moreover have "c * 100 + q * 4 + r = 399 \<longleftrightarrow> c = 3 \<and> q = 24 \<and> r = 3"
    using assms(1-6) by linarith
  ultimately show "is_leap y \<longleftrightarrow> r = 3 \<and> (q \<noteq> 24 \<or> c = 3)"
    unfolding is_leap_def by auto
qed

lemma ord2ymd_ok:
  assumes "1 \<le> n" "n \<le> max_ordinal" "ord2ymd n = (y, m, d)"
  shows "valid_ymd y m d \<and> ymd2ord y m d = n"
proof -
  define k where "k = n - 1"
  define a k1 where "a = k div 146097" and "k1 = k mod 146097"
  define c k2 where "c = k1 div 36524" and "k2 = k1 mod 36524"
  define q k3 where "q = k2 div 1461" and "k3 = k2 mod 1461"
  define r k4 where "r = k3 div 365" and "k4 = k3 mod 365"
  define yy where "yy = a * 400 + 1 + c * 100 + q * 4 + r"
  have k: "0 \<le> k" "k < 3652059" using assms(1,2) by (simp_all add: k_def max_ordinal_def)
  have ka: "k = a * 146097 + k1" by (simp add: a_def k1_def)
  have kc: "k1 = c * 36524 + k2" by (simp add: c_def k2_def)
  have kq: "k2 = q * 1461 + k3" by (simp add: q_def k3_def)
  have kr: "k3 = r * 365 + k4" by (simp add: r_def k4_def)
  have b1: "0 \<le> k1" "k1 < 146097" by (simp_all add: k1_def)
  have b2: "0 \<le> k2" "k2 < 36524" by (simp_all add: k2_def)
  have b3: "0 \<le> k3" "k3 < 1461" by (simp_all add: k3_def)
  have b4: "0 \<le> k4" "k4 \<le> 364" by (simp_all add: k4_def)
  have a: "0 \<le> a" "a \<le> 24" using ka b1 k by linarith+
  have c: "0 \<le> c" "c \<le> 4" using kc b1 b2 by linarith+
  have q: "0 \<le> q" "q \<le> 24" using kq b2 b3 by linarith+
  have r: "0 \<le> r" "r \<le> 4" using kr b3 b4 by linarith+
  have "ord2ymd n = (if r = 4 \<or> c = 4 then (yy - 1, 12, 31)
      else (yy, month_day (r = 3 \<and> (q \<noteq> 24 \<or> c = 3)) k4))"
    unfolding ord2ymd_def Let_def yy_def r_def k4_def q_def k3_def c_def k2_def a_def k1_def k_def
    by (simp only: prod.collapse)
  with assms(3) have res: "(y, m, d) = (if r = 4 \<or> c = 4 then (yy - 1, 12, 31)
      else (yy, month_day (r = 3 \<and> (q \<noteq> 24 \<or> c = 3)) k4))"
    by simp
  show ?thesis
  proof (cases "r = 4 \<or> c = 4")
    case False
    then have lt: "r \<le> 3" "c \<le> 3" using r c by auto
    have dby: "days_before_year yy = a * 146097 + c * 36524 + q * 1461 + r * 365"
      and leap: "is_leap yy \<longleftrightarrow> r = 3 \<and> (q \<noteq> 24 \<or> c = 3)"
      unfolding yy_def by (rule year_parts; use q r c lt in simp)+
    from res False have md: "month_day (is_leap yy) k4 = (m, d)" and y: "y = yy"
      by (simp_all add: leap)
    have "k = days_before_year yy + k4" using ka kc kq kr dby by linarith
    then have "ymd2ord y m d = n"
      using month_day_ok [OF b4 md] by (simp add: y ymd2ord_def k_def)
    moreover have "1 \<le> yy" using a c q r by (simp add: yy_def)
    moreover have "yy \<le> 9999" using ka kc kq kr k a c q r lt b4 unfolding yy_def by linarith
    ultimately show ?thesis
      using month_day_ok [OF b4 md] by (simp add: y valid_ymd_def days_in_month_def)
  next
    case True
    with res have ymd: "y = yy - 1" "m = 12" "d = 31" by auto
    have four: "(c = 4 \<and> q = 0 \<and> r = 0 \<and> k4 = 0) \<or> (r = 4 \<and> c \<le> 3 \<and> q \<le> 23 \<and> k4 = 0)"
      using True kc kq kr b1 b2 b3 b4 c q r by linarith
    show ?thesis
    proof (cases "c = 4")
      case True
      with four have z: "q = 0" "r = 0" "k4 = 0" by auto
      have yy: "yy - 1 = a * 400 + 1 + 3 * 100 + 24 * 4 + 3" using True z by (simp add: yy_def)
      have "days_before_year (yy - 1) = a * 146097 + 3 * 36524 + 24 * 1461 + 3 * 365"
        and "is_leap (yy - 1)"
        unfolding yy by (subst year_parts; simp)+
      then show ?thesis using ka kc kq kr k True z a
        by (simp add: ymd valid_ymd_def ymd2ord_def days_in_month_def month_length_def month_start_def
            k_def yy)
    next
      case False
      with four have z: "r = 4" "c \<le> 3" "q \<le> 23" "k4 = 0" by auto
      have yy: "yy - 1 = a * 400 + 1 + c * 100 + q * 4 + 3" using z by (simp add: yy_def)
      have dby: "days_before_year (yy - 1) = a * 146097 + c * 36524 + q * 1461 + 3 * 365"
        and leap: "is_leap (yy - 1)"
        unfolding yy by (subst year_parts; use z c q in simp)+
      show ?thesis using ka kc kq kr k z a c q dby leap
        by (simp add: ymd valid_ymd_def ymd2ord_def days_in_month_def month_length_def month_start_def
            k_def yy)
    qed
  qed
qed

subsection \<open>Datetimes\<close>

datatype pydatetime = Naive int | Aware int int

definition second_us :: int where "second_us = 1000000"
definition minute_us :: int where "minute_us = 60000000"
definition day_us :: int where "day_us = 86400000000"

definition max_us :: int where
  "max_us = max_ordinal * day_us"

lemma day_us_pos [simp]: "0 < day_us"
  by (simp add: day_us_def)

text \<open>\<open>dt.astimezone(timezone.utc)\<close> of an aware value, as its UTC instant.\<close>

fun astimezone_utc :: "pydatetime \<Rightarrow> int res" where
  "astimezone_utc (Aware l off) =
     (if 0 \<le> l - off \<and> l - off < max_us then Inr (l - off) else Inl OverflowError)"
| "astimezone_utc (Naive l) = Inl ValueError"

text \<open>\<open>dt + timedelta\<close>.\<close>

fun add_delta :: "pydatetime \<Rightarrow> int \<Rightarrow> pydatetime res" where
  "add_delta (Aware l off) d =
     (if 0 \<le> l + d \<and> l + d < max_us then Inr (Aware (l + d) off) else Inl OverflowError)"
| "add_delta (Naive l) d =
     (if 0 \<le> l + d \<and> l + d < max_us then Inr (Naive (l + d)) else Inl OverflowError)"

fun is_naive :: "pydatetime \<Rightarrow> bool" where
  "is_naive (Naive _) = True"
| "is_naive (Aware _ _) = False"

definition floor_second :: "int \<Rightarrow> int" where
  "floor_second u = u - u mod second_us"

text \<open>\<open>isoformat()\<close> of a UTC instant with whole seconds, with \<open>+00:00\<close> written \<open>Z\<close>.\<close>

definition iso_clock :: "int \<Rightarrow> string" where
  "iso_clock t = show_fixed 2 (nat (t div 3600)) @ '':'' @ show_fixed 2 (nat (t mod 3600 div 60))
     @ '':'' @ show_fixed 2 (nat (t mod 60))"

definition iso_z :: "int \<Rightarrow> string" where
  "iso_z u =
     (case ord2ymd (u div day_us + 1) of (y, m, d) \<Rightarrow>
        show_fixed 4 (nat y) @ ''-'' @ show_fixed 2 (nat m) @ ''-'' @ show_fixed 2 (nat d) @ ''T''
        @ iso_clock (u mod day_us div second_us) @ ''Z'')"

definition format_utc :: "pydatetime \<Rightarrow> string res" where
  "format_utc dt = and_then (astimezone_utc dt) (\<lambda>u. Inr (iso_z u))"

subsection \<open>Parsing ISO 8601\<close>

definition parse_digits :: "nat \<Rightarrow> string \<Rightarrow> (int \<times> string) option" where
  "parse_digits w s =
     (if length (take w s) = w \<and> list_all is_digit (take w s)
      then Some (int (digits_val (take w s)), drop w s) else None)"

definition char_at :: "string \<Rightarrow> nat \<Rightarrow> char \<Rightarrow> bool" where
  "char_at s i c \<longleftrightarrow> i < length s \<and> s ! i = c"

definition digit_at :: "string \<Rightarrow> nat \<Rightarrow> bool" where
  "digit_at s i \<longleftrightarrow> i < length s \<and> is_digit (s ! i)"

text \<open>Where the date ends: the position of the date/time separator.\<close>

definition find_separator :: "string \<Rightarrow> nat" where
  "find_separator s =
     (if length s = 7 then 7
      else if char_at s 4 CHR ''-'' then
        (if char_at s 5 CHR ''W'' then
           (if char_at s 8 CHR ''-'' then (if digit_at s 10 then 8 else 10) else 8)
         else 10)
      else if char_at s 4 CHR ''W'' then
        (let idx = 7 + length (takeWhile is_digit (drop 7 s))
         in if idx < 9 then idx else if even idx then 7 else 8)
      else 8)"

definition iso_week_to_ymd :: "int \<Rightarrow> int \<Rightarrow> int \<Rightarrow> (int \<times> int \<times> int) option" where
  "iso_week_to_ymd y w d =
     (let first = ymd2ord y 1 1; wd = (first + 6) mod 7;
          monday = first - wd + (if wd > 3 then 7 else 0)
      in if y < 1 \<or> y > 9999 \<or> w < 1 \<or> w > 53 \<or> (w = 53 \<and> \<not> (wd = 3 \<or> (wd = 2 \<and> is_leap y)))
            \<or> d < 1 \<or> d > 7
         then None else Some (ord2ymd (monday + (w - 1) * 7 + d - 1)))"

definition parse_date :: "string \<Rightarrow> (int \<times> int \<times> int) option" where
  "parse_date s =
     (case parse_digits 4 s of None \<Rightarrow> None | Some (y, r) \<Rightarrow>
        (let sep = char_at r 0 CHR ''-''; r1 = (if sep then drop 1 r else r)
         in if char_at r1 0 CHR ''W'' then
              (case parse_digits 2 (drop 1 r1) of None \<Rightarrow> None | Some (w, r2) \<Rightarrow>
                 if r2 = [] then iso_week_to_ymd y w 1
                 else if sep \<and> \<not> char_at r2 0 CHR ''-'' then None
                 else (case parse_digits 1 (if sep then drop 1 r2 else r2) of None \<Rightarrow> None
                       | Some (d, _) \<Rightarrow> iso_week_to_ymd y w d))
            else
              (case parse_digits 2 r1 of None \<Rightarrow> None | Some (m, r2) \<Rightarrow>
                 if sep \<and> \<not> char_at r2 0 CHR ''-'' then None
                 else (case parse_digits 2 (if sep then drop 1 r2 else r2) of None \<Rightarrow> None
                       | Some (d, r3) \<Rightarrow> if r3 = [] then Some (y, m, d) else None))))"

definition parse_fraction :: "string \<Rightarrow> int option" where
  "parse_fraction f =
     (if f \<noteq> [] \<and> list_all is_digit f
      then Some (int (digits_val (take 6 (f @ ''000000'')))) else None)"

text \<open>\<open>HH[[:]MM[[:]SS[(.|,)f+]]]\<close> as (hour, minute, second, microsecond).\<close>

definition parse_hms :: "string \<Rightarrow> (int \<times> int \<times> int \<times> int) option" where
  "parse_hms s =
     (case parse_digits 2 s of None \<Rightarrow> None | Some (h, r) \<Rightarrow>
        if r = [] then Some (h, 0, 0, 0) else
        (let sep = char_at r 0 CHR '':'' in
         case parse_digits 2 (if sep then drop 1 r else r) of None \<Rightarrow> None | Some (mi, r2) \<Rightarrow>
           if r2 = [] then Some (h, mi, 0, 0)
           else if sep \<noteq> char_at r2 0 CHR '':'' then None
           else (case parse_digits 2 (if sep then drop 1 r2 else r2) of None \<Rightarrow> None
                 | Some (sec, r3) \<Rightarrow>
                     if r3 = [] then Some (h, mi, sec, 0)
                     else if char_at r3 0 CHR ''.'' \<or> char_at r3 0 CHR '','' then
                       map_option (\<lambda>us. (h, mi, sec, us)) (parse_fraction (drop 1 r3))
                     else None)))"

definition is_zone_mark :: "char \<Rightarrow> bool" where
  "is_zone_mark c \<longleftrightarrow> c = CHR ''+'' \<or> c = CHR ''-'' \<or> c = CHR ''Z''"

definition parse_time :: "string \<Rightarrow> ((int \<times> int \<times> int \<times> int) \<times> int option) option" where
  "parse_time s =
     (case parse_hms (takeWhile (\<lambda>c. \<not> is_zone_mark c) s) of None \<Rightarrow> None | Some hms \<Rightarrow>
        (case dropWhile (\<lambda>c. \<not> is_zone_mark c) s of
           [] \<Rightarrow> Some (hms, None)
         | c # t \<Rightarrow>
             if c = CHR ''Z'' then (if t = [] then Some (hms, Some 0) else None)
             else (case parse_hms t of None \<Rightarrow> None
                   | Some (h, mi, sec, us) \<Rightarrow>
                       Some (hms, Some ((if c = CHR ''-'' then -1 else 1)
                                  * (((h * 60 + mi) * 60 + sec) * second_us + us))))))"

definition separator_width :: "char \<Rightarrow> nat" where
  "separator_width c =
     (if byte_of c < 128 then 1 else if byte_of c < 224 then 2 else if byte_of c < 240 then 3 else 4)"

definition build_datetime ::
  "int \<times> int \<times> int \<Rightarrow> (int \<times> int \<times> int \<times> int) \<times> int option \<Rightarrow> pydatetime res" where
  "build_datetime ymd tm =
     (case (ymd, tm) of ((y, m, d), ((h, mi, sec, us), zone)) \<Rightarrow>
        let l = (ymd2ord y m d - 1) * day_us + ((h * 60 + mi) * 60 + sec) * second_us + us
        in if \<not> valid_ymd y m d \<or> 24 \<le> h \<or> 60 \<le> mi \<or> 60 \<le> sec then Inl ValueError
           else (case zone of None \<Rightarrow> Inr (Naive l)
                 | Some off \<Rightarrow> if - day_us < off \<and> off < day_us then Inr (Aware l off)
                              else Inl ValueError))"

definition fromisoformat :: "string \<Rightarrow> pydatetime res" where
  "fromisoformat s =
     (if length s < 7 then Inl ValueError
      else let i = find_separator s in
        case parse_date (take i s) of None \<Rightarrow> Inl ValueError
        | Some ymd \<Rightarrow>
            (case drop i s of
               c # t \<Rightarrow>
                 if t = [] then build_datetime ymd ((0, 0, 0, 0), None)
                 else (case parse_time (drop (separator_width c) (c # t)) of
                         None \<Rightarrow> Inl ValueError
                       | Some tm \<Rightarrow> build_datetime ymd tm)
             | [] \<Rightarrow> build_datetime ymd ((0, 0, 0, 0), None)))"

text \<open>\<open>value[:-1] + "+00:00" if value.endswith("Z") else value\<close>\<close>

definition normalize_z :: "string \<Rightarrow> string" where
  "normalize_z s = (if s \<noteq> [] \<and> last s = CHR ''Z'' then butlast s @ ''+00:00'' else s)"

subsection \<open>Printing and parsing are inverse\<close>

lemma parse_digits_fixed [simp]:
  "parse_digits w (show_fixed w n @ r) = Some (int (n mod 10 ^ w), r)"
  by (simp add: parse_digits_def show_fixed_digits digits_val_show_fixed)

lemma show_fixed_nth: "i < w \<Longrightarrow> is_digit (show_fixed w n ! i)"
  using show_fixed_digits [of w n] by (simp add: list_all_length)

lemma not_digit_marks:
  "\<not> is_digit CHR ''W''" "\<not> is_digit CHR ''+''" "\<not> is_digit CHR ''-''" "\<not> is_digit CHR ''Z''"
  by (simp_all add: is_digit_def between_def byte_of_def)

lemma digit_not_zone_mark: "is_digit c \<Longrightarrow> \<not> is_zone_mark c"
  using not_digit_marks by (auto simp: is_zone_mark_def)

lemma parse_hms_fixed:
  assumes "h < 100" "mi < 100" "sec < 100"
  shows "parse_hms (show_fixed 2 h @ '':'' @ show_fixed 2 mi @ '':'' @ show_fixed 2 sec)
           = Some (int h, int mi, int sec, 0)"
  using assms parse_digits_fixed [of 2 sec "[]"]
  by (simp add: parse_hms_def char_at_def del: show_fixed.simps)

lemma parse_date_fixed:
  assumes "y < 10000" "m < 100" "d < 100"
  shows "parse_date (show_fixed 4 y @ ''-'' @ show_fixed 2 m @ ''-'' @ show_fixed 2 d)
           = Some (int y, int m, int d)"
proof -
  have "\<not> char_at (show_fixed 2 m @ r) 0 CHR ''W''" for r
    using show_fixed_nth [of 0 2 m] not_digit_marks by (auto simp: char_at_def nth_append)
  then show ?thesis
    using assms parse_digits_fixed [of 2 d "[]"]
    by (simp add: parse_date_def char_at_def del: show_fixed.simps)
qed

lemma parse_time_clock:
  assumes "h < 100" "mi < 100" "sec < 100"
  shows "parse_time (show_fixed 2 h @ '':'' @ show_fixed 2 mi @ '':'' @ show_fixed 2 sec @ ''+00:00'')
           = Some ((int h, int mi, int sec, 0), Some 0)"
proof -
  let ?c = "show_fixed 2 h @ '':'' @ show_fixed 2 mi @ '':'' @ show_fixed 2 sec"
  have nz: "\<not> is_zone_mark x" if "x \<in> set ?c" for x
  proof -
    have "is_digit x \<or> x = CHR '':''"
      using that show_fixed_digits unfolding list_all_iff by (auto simp del: show_fixed.simps)
    then show ?thesis by (auto simp: digit_not_zone_mark) (simp add: is_zone_mark_def)
  qed
  have tw: "takeWhile (\<lambda>c. \<not> is_zone_mark c) (?c @ ''+00:00'') = ?c"
    and dw: "dropWhile (\<lambda>c. \<not> is_zone_mark c) (?c @ ''+00:00'') = ''+00:00''"
    by (subst takeWhile_append2 dropWhile_append2; use nz in \<open>simp add: is_zone_mark_def\<close>)+
  have zone: "parse_hms ''00:00'' = Some (0, 0, 0, 0)"
    by code_simp
  show ?thesis
    using tw dw zone parse_hms_fixed [OF assms]
    by (simp add: parse_time_def del: show_fixed.simps)
qed

lemma fromisoformat_fixed:
  assumes v: "valid_ymd (int y) (int m) (int d)" and "h < 24" "mi < 60" "sec < 60"
  shows "fromisoformat ((show_fixed 4 y @ ''-'' @ show_fixed 2 m @ ''-'' @ show_fixed 2 d) @ CHR ''T'' #
            (show_fixed 2 h @ '':'' @ show_fixed 2 mi @ '':'' @ show_fixed 2 sec @ ''+00:00''))
       = Inr (Aware ((ymd2ord (int y) (int m) (int d) - 1) * day_us
               + ((int h * 60 + int mi) * 60 + int sec) * second_us) 0)"
    (is "fromisoformat (?d @ CHR ''T'' # ?t) = _")
proof -
  have b: "y < 10000" "m < 100" "d < 100"
    using v by (auto simp: valid_ymd_def days_in_month_def month_length_def split: if_splits)
  have len: "length ?d = 10" by simp
  have at4: "char_at (?d @ CHR ''T'' # ?t) 4 CHR ''-''"
    by (simp add: char_at_def nth_append del: show_fixed.simps)
  have at5: "\<not> char_at (?d @ CHR ''T'' # ?t) 5 CHR ''W''"
    using show_fixed_nth [of 0 2 m] not_digit_marks
    by (auto simp: char_at_def nth_append simp del: show_fixed.simps)
  have sep: "find_separator (?d @ CHR ''T'' # ?t) = 10"
    using at4 at5 by (simp add: find_separator_def del: show_fixed.simps)
  have take: "take 10 (?d @ CHR ''T'' # ?t) = ?d" and drop: "drop 10 (?d @ CHR ''T'' # ?t) = CHR ''T'' # ?t"
    by (simp_all del: append_assoc show_fixed.simps)
  have date: "parse_date ?d = Some (int y, int m, int d)"
    by (rule parse_date_fixed) (use b in simp_all)
  have time: "parse_time ?t = Some ((int h, int mi, int sec, 0), Some 0)"
    by (rule parse_time_clock) (use assms in simp_all)
  have w: "separator_width CHR ''T'' = 1"
    by code_simp
  have "fromisoformat (?d @ CHR ''T'' # ?t)
      = build_datetime (int y, int m, int d) ((int h, int mi, int sec, 0), Some 0)"
    unfolding fromisoformat_def sep Let_def take drop date using time
    by (simp add: w del: show_fixed.simps)
  then show ?thesis
    using assms by (simp add: build_datetime_def)
qed

lemma clock_parts:
  fixes t :: int
  assumes "0 \<le> t" "t < 86400"
  shows "t div 3600 < 24" "t mod 3600 div 60 < 60" "t mod 60 < 60"
    and "0 \<le> t div 3600" "0 \<le> t mod 3600 div 60" "0 \<le> t mod 60"
    and "(t div 3600 * 60 + t mod 3600 div 60) * 60 + t mod 60 = t"
proof -
  have "t mod 3600 mod 60 = t mod 60" by (simp add: mod_mod_cancel)
  then have "t mod 3600 = t mod 3600 div 60 * 60 + t mod 60"
    by (metis div_mult_mod_eq)
  moreover have "t = t div 3600 * 3600 + t mod 3600" by simp
  moreover have "(a * 60 + b) * 60 + c = t" if "r = b * 60 + c" "t = a * 3600 + r" for a b c r :: int
    using that by simp
  ultimately show "(t div 3600 * 60 + t mod 3600 div 60) * 60 + t mod 60 = t" by blast
qed (use assms in linarith)+

lemma normalize_z_snoc [simp]: "normalize_z (s @ ''Z'') = s @ ''+00:00''"
  by (simp add: normalize_z_def)

theorem fromisoformat_iso_z:
  assumes "0 \<le> u" "u < max_us"
  shows "fromisoformat (normalize_z (iso_z u)) = Inr (Aware (floor_second u) 0)"
proof -
  define n where "n = u div day_us + 1"
  define t where "t = u mod day_us div second_us"
  obtain y m d where o: "ord2ymd n = (y, m, d)" by (cases "ord2ymd n") auto
  have "u div day_us < max_ordinal"
    using assms unfolding max_us_def max_ordinal_def day_us_def by linarith
  then have n: "1 \<le> n" "n \<le> max_ordinal" using assms by (auto simp: n_def pos_imp_zdiv_nonneg_iff)
  have v: "valid_ymd y m d" and ord: "ymd2ord y m d = n" using ord2ymd_ok [OF n o] by auto
  have nn: "0 \<le> y" "0 \<le> m" "0 \<le> d" using v by (auto simp: valid_ymd_def)
  have t: "0 \<le> t" "t < 86400" by (auto simp: t_def day_us_def second_us_def)
  have "u = u div day_us * day_us + u mod day_us" by simp
  moreover have "u mod day_us mod second_us = u mod second_us"
    by (rule mod_mod_cancel) (simp add: day_us_def second_us_def)
  then have "u mod day_us = t * second_us + u mod second_us"
    unfolding t_def by (metis div_mult_mod_eq)
  ultimately have u: "floor_second u = (n - 1) * day_us + t * second_us"
    by (simp add: floor_second_def n_def)
  have "iso_z u = ((show_fixed 4 (nat y) @ ''-'' @ show_fixed 2 (nat m) @ ''-'' @ show_fixed 2 (nat d)) @
      CHR ''T'' # (show_fixed 2 (nat (t div 3600)) @ '':'' @ show_fixed 2 (nat (t mod 3600 div 60))
      @ '':'' @ show_fixed 2 (nat (t mod 60)))) @ ''Z''"
    using o by (simp add: iso_z_def iso_clock_def t_def n_def del: show_fixed.simps)
  then have "normalize_z (iso_z u) =
      (show_fixed 4 (nat y) @ ''-'' @ show_fixed 2 (nat m) @ ''-'' @ show_fixed 2 (nat d)) @
      CHR ''T'' # (show_fixed 2 (nat (t div 3600)) @ '':'' @ show_fixed 2 (nat (t mod 3600 div 60))
      @ '':'' @ show_fixed 2 (nat (t mod 60)) @ ''+00:00'')"
    by (simp only: normalize_z_snoc) simp
  note printed = this
  have cv: "valid_ymd (int (nat y)) (int (nat m)) (int (nat d))" using v nn by (simp only: int_nat_eq) simp
  have ch: "nat (t div 3600) < 24" "nat (t mod 3600 div 60) < 60" "nat (t mod 60) < 60"
    using clock_parts(1-3) [OF t] by linarith+
  have "fromisoformat (normalize_z (iso_z u)) = Inr (Aware ((ymd2ord (int (nat y)) (int (nat m)) (int (nat d)) - 1) * day_us
        + ((int (nat (t div 3600)) * 60 + int (nat (t mod 3600 div 60))) * 60 + int (nat (t mod 60)))
          * second_us) 0)"
    unfolding printed by (rule fromisoformat_fixed [OF cv ch])
  with nn clock_parts(4-7) [OF t] ord u show ?thesis by (simp only: int_nat_eq if_True)
qed

lemma floor_second_bounds: "0 \<le> u \<Longrightarrow> u < max_us \<Longrightarrow> 0 \<le> floor_second u \<and> floor_second u \<le> u \<and> floor_second u < max_us"
  using pos_mod_sign [of second_us u] zmod_le_nonneg_dividend [of u second_us]
  by (auto simp: floor_second_def second_us_def)

end
