(* ===== verification/Sha256.thy ===== *)
theory Sha256
  imports PyText "HOL-Library.Word"
begin

section \<open>hashlib.sha256 and hmac\<close>

unbundle bit_operations_syntax

text \<open>
  SHA-256 (FIPS 180-4) on bytes, its hexadecimal digest, and HMAC (RFC 2104) over it: what
  \<open>hashlib.sha256(b).hexdigest()\<close> and \<open>hmac.new(k, m, hashlib.sha256).digest()\<close> compute.
  No theorem of the development assumes that the function has no collisions: where two
  digests are compared, the conclusion names the equality of digests.
\<close>

type_synonym w32 = "32 word"

definition rotr32 :: "nat \<Rightarrow> w32 \<Rightarrow> w32" where
  "rotr32 n x = drop_bit n x OR push_bit (32 - n) x"

definition sha_K :: "w32 list" where
  "sha_K =
    [1116352408, 1899447441, 3049323471, 3921009573, 961987163, 1508970993, 2453635748, 2870763221,
     3624381080, 310598401, 607225278, 1426881987, 1925078388, 2162078206, 2614888103, 3248222580,
     3835390401, 4022224774, 264347078, 604807628, 770255983, 1249150122, 1555081692, 1996064986,
     2554220882, 2821834349, 2952996808, 3210313671, 3336571891, 3584528711, 113926993, 338241895,
     666307205, 773529912, 1294757372, 1396182291, 1695183700, 1986661051, 2177026350, 2456956037,
     2730485921, 2820302411, 3259730800, 3345764771, 3516065817, 3600352804, 4094571909, 275423344,
     430227734, 506948616, 659060556, 883997877, 958139571, 1322822218, 1537002063, 1747873779,
     1955562222, 2024104815, 2227730452, 2361852424, 2428436474, 2756734187, 3204031479, 3329325298]"

definition sha_H0 :: "w32 list" where
  "sha_H0 = [1779033703, 3144134277, 1013904242, 2773480762, 1359893119, 2600822924, 528734635, 1541459225]"

text \<open>Big-endian words and bytes.\<close>

fun words_of :: "string \<Rightarrow> w32 list" where
  "words_of (a # b # c # d # s) =
     of_nat (byte_of a * 16777216 + byte_of b * 65536 + byte_of c * 256 + byte_of d) # words_of s"
| "words_of _ = []"

fun be_bytes :: "nat \<Rightarrow> nat \<Rightarrow> string" where
  "be_bytes 0 n = []"
| "be_bytes (Suc k) n = be_bytes k (n div 256) @ [chr_of (n mod 256)]"

lemma length_be_bytes [simp]: "length (be_bytes k n) = k"
  by (induction k arbitrary: n) auto

definition sha_pad :: "string \<Rightarrow> string" where
  "sha_pad m =
     (let n = length m
      in m @ [chr_of 128] @ replicate ((119 - n mod 64) mod 64) (chr_of 0) @ be_bytes 8 (8 * n))"

lemma sha_pad_blocks: "length (sha_pad m) mod 64 = 0"
proof -
  have "(n + 1 + (119 - n mod 64) mod 64 + 8) mod 64 = 0" for n :: nat
  proof -
    have "(n + 1 + (119 - n mod 64) mod 64 + 8) mod 64 = (n + 9 + (119 - n mod 64)) mod 64"
      using mod_add_right_eq [of "n + 9" "119 - n mod 64" 64] by (simp add: ac_simps)
    also have "n + 9 + (119 - n mod 64) = 64 * (n div 64 + 2)"
    proof -
      have "n mod 64 < 64" by simp
      moreover have "n = 64 * (n div 64) + n mod 64" by simp
      moreover have "n + 9 + (119 - r) = 64 * (k + 2)" if "r < 64" "n = 64 * k + r" for k r
        using that by simp
      ultimately show ?thesis by blast
    qed
    finally show ?thesis by simp
  qed
  then show ?thesis by (simp add: sha_pad_def Let_def ac_simps)
qed

text \<open>The message schedule grows a reversed window of 16 words to 64.\<close>

definition sha_small0 :: "w32 \<Rightarrow> w32" where
  "sha_small0 x = rotr32 7 x XOR rotr32 18 x XOR drop_bit 3 x"

definition sha_small1 :: "w32 \<Rightarrow> w32" where
  "sha_small1 x = rotr32 17 x XOR rotr32 19 x XOR drop_bit 10 x"

fun sha_extend :: "nat \<Rightarrow> w32 list \<Rightarrow> w32 list" where
  "sha_extend 0 rw = rw"
| "sha_extend (Suc k) rw =
     sha_extend k ((sha_small1 (rw ! 1) + rw ! 6 + sha_small0 (rw ! 14) + rw ! 15) # rw)"

definition sha_schedule :: "w32 list \<Rightarrow> w32 list" where
  "sha_schedule block = rev (sha_extend 48 (rev block))"

fun sha_round :: "w32 list \<Rightarrow> w32 \<times> w32 \<Rightarrow> w32 list" where
  "sha_round [a, b, c, d, e, f, g, h] (k, w) =
     (let s1 = rotr32 6 e XOR rotr32 11 e XOR rotr32 25 e;
          ch = (e AND f) XOR (NOT e AND g);
          t1 = h + s1 + ch + k + w;
          s0 = rotr32 2 a XOR rotr32 13 a XOR rotr32 22 a;
          maj = (a AND b) XOR (a AND c) XOR (b AND c)
      in [t1 + (s0 + maj), a, b, c, d + t1, e, f, g])"
| "sha_round st _ = st"

definition sha_block :: "w32 list \<Rightarrow> w32 list \<Rightarrow> w32 list" where
  "sha_block h block = map2 (+) h (foldl sha_round h (zip sha_K (sha_schedule block)))"

fun sha_blocks :: "nat \<Rightarrow> w32 list \<Rightarrow> w32 list \<Rightarrow> w32 list" where
  "sha_blocks 0 h ws = h"
| "sha_blocks (Suc n) h ws = sha_blocks n (sha_block h (take 16 ws)) (drop 16 ws)"

definition sha256 :: "string \<Rightarrow> string" where
  "sha256 m = (let p = sha_pad m
     in concat (map (\<lambda>w. be_bytes 4 (unat w)) (sha_blocks (length p div 64) sha_H0 (words_of p))))"

definition sha256_hex :: "string \<Rightarrow> string" where
  "sha256_hex m = hex_of (sha256 m)"

definition hmac_pad :: "nat \<Rightarrow> string \<Rightarrow> string" where
  "hmac_pad x key =
     (let k = (if length key > 64 then sha256 key else key)
      in map (\<lambda>c. chr_of (byte_of c XOR x)) (k @ replicate (64 - length k) (chr_of 0)))"

definition hmac_sha256 :: "string \<Rightarrow> string \<Rightarrow> string" where
  "hmac_sha256 key m = sha256 (hmac_pad 92 key @ sha256 (hmac_pad 54 key @ m))"

subsection \<open>The shape of a digest\<close>

lemma length_sha_round: "length (sha_round st kw) = length st"
  by (cases "(st, kw)" rule: sha_round.cases) (simp_all add: Let_def)

lemma length_foldl_round: "length (foldl sha_round st kws) = length st"
  by (induction kws arbitrary: st) (simp_all add: length_sha_round)

lemma length_sha_blocks: "length (sha_blocks n h ws) = length h"
  by (induction n arbitrary: h ws) (simp_all add: sha_block_def length_foldl_round)

lemma length_sha256 [simp]: "length (sha256 m) = 32"
proof -
  have "length (concat (map (\<lambda>w. be_bytes 4 (unat w)) ws)) = 4 * length ws" for ws :: "w32 list"
    by (induction ws) simp_all
  then show ?thesis by (simp add: sha256_def Let_def length_sha_blocks sha_H0_def)
qed

lemma length_sha256_hex [simp]: "length (sha256_hex m) = 64"
  by (simp add: sha256_hex_def)

lemma sha256_hex_chars: "list_all is_hex (sha256_hex m)"
  by (simp add: sha256_hex_def hex_of_hex)

lemma sha256_hex_inj: "sha256_hex m = sha256_hex m' \<longleftrightarrow> sha256 m = sha256 m'"
  by (auto simp: sha256_hex_def dest: hex_of_inj)

lemma length_hmac [simp]: "length (hmac_sha256 k m) = 32"
  by (simp add: hmac_sha256_def)

end
