(* ===== verification/Commerce.thy ===== *)
theory Commerce
  imports Json PyTime Sha256
begin

section \<open>Commerce contracts\<close>

text \<open>
  \<^verbatim>\<open>commerce.py\<close>: the order and payment state machines, validation and normalisation of
  the one paid request profile, the priced quote, and Stripe webhook authentication.  The
  two state machines are instances of one locale, \<open>transition_table\<close>, whose lemmas say
  that a machine whose transitions climb a rank never returns to a state it has left.
\<close>

subsection \<open>State machines\<close>

datatype order_status =
    Checkout_Pending | Payment_Pending | Queued | Running | Delivered
  | Payment_Failed | Fulfillment_Failed | Cancelled

datatype payment_status =
    P_Pending | P_Captured | P_Available | P_Refund_Pending | P_Refunded | P_Disputed | P_Failed

fun order_status_value :: "order_status \<Rightarrow> string" where
  "order_status_value Checkout_Pending = ''checkout_pending''"
| "order_status_value Payment_Pending = ''payment_pending''"
| "order_status_value Queued = ''queued''"
| "order_status_value Running = ''running''"
| "order_status_value Delivered = ''delivered''"
| "order_status_value Payment_Failed = ''payment_failed''"
| "order_status_value Fulfillment_Failed = ''fulfillment_failed''"
| "order_status_value Cancelled = ''cancelled''"

fun payment_status_value :: "payment_status \<Rightarrow> string" where
  "payment_status_value P_Pending = ''pending''"
| "payment_status_value P_Captured = ''captured''"
| "payment_status_value P_Available = ''available''"
| "payment_status_value P_Refund_Pending = ''refund_pending''"
| "payment_status_value P_Refunded = ''refunded''"
| "payment_status_value P_Disputed = ''disputed''"
| "payment_status_value P_Failed = ''failed''"

fun order_transitions :: "order_status \<Rightarrow> order_status list" where
  "order_transitions Checkout_Pending = [Payment_Pending, Cancelled]"
| "order_transitions Payment_Pending = [Queued, Payment_Failed, Cancelled]"
| "order_transitions Queued = [Running, Fulfillment_Failed]"
| "order_transitions Running = [Delivered, Fulfillment_Failed]"
| "order_transitions _ = []"

fun payment_transitions :: "payment_status \<Rightarrow> payment_status list" where
  "payment_transitions P_Pending = [P_Captured, P_Failed]"
| "payment_transitions P_Captured = [P_Available, P_Refund_Pending, P_Disputed]"
| "payment_transitions P_Available = [P_Refund_Pending, P_Disputed]"
| "payment_transitions P_Refund_Pending = [P_Refunded, P_Disputed]"
| "payment_transitions _ = []"

datatype status = OrderSt order_status | PaymentSt payment_status

fun require_transition :: "status \<Rightarrow> status \<Rightarrow> unit res" where
  "require_transition (OrderSt s) (OrderSt t) =
     (if t \<in> set (order_transitions s) then Inr () else Inl (Rejected ''invalid_commerce_transition''))"
| "require_transition (PaymentSt s) (PaymentSt t) =
     (if t \<in> set (payment_transitions s) then Inr () else Inl (Rejected ''invalid_commerce_transition''))"
| "require_transition _ _ = Inl ValueError"

lemma require_order_transition [txn_simps]:
  "require_transition (OrderSt s) (OrderSt t) = Inr u \<longleftrightarrow> t \<in> set (order_transitions s)"
  by simp

lemma require_payment_transition [txn_simps]:
  "require_transition (PaymentSt s) (PaymentSt t) = Inr u \<longleftrightarrow> t \<in> set (payment_transitions s)"
  by simp

text \<open>The contract of a transition table: every allowed step climbs a rank.\<close>

locale transition_table =
  fixes allowed :: "'s \<Rightarrow> 's list" and rank :: "'s \<Rightarrow> nat"
  assumes climbs: "t \<in> set (allowed s) \<Longrightarrow> rank s < rank t"
begin

abbreviation step :: "'s \<Rightarrow> 's \<Rightarrow> bool" where
  "step s t \<equiv> t \<in> set (allowed s)"

lemma run_rank: "rtranclp step s t \<Longrightarrow> rank s \<le> rank t \<and> (rank s = rank t \<longrightarrow> s = t)"
proof (induction rule: rtranclp_induct)
  case base
  then show ?case by simp
next
  case (step t u)
  with climbs [of u t] show ?case by auto
qed

lemma never_returns: "rtranclp step s t \<Longrightarrow> rtranclp step t s \<Longrightarrow> s = t"
  using run_rank [of s t] run_rank [of t s] by auto

lemma no_cycle: "\<not> tranclp step s s"
proof
  assume "tranclp step s s"
  then obtain t where "step s t" "rtranclp step t s" by (meson tranclpD)
  with climbs [of t s] run_rank [of t s] show False by simp
qed

lemma terminal_stays: "allowed s = [] \<Longrightarrow> rtranclp step s t \<Longrightarrow> t = s"
  by (auto elim: converse_rtranclpE)

end

fun order_rank :: "order_status \<Rightarrow> nat" where
  "order_rank Checkout_Pending = 0"
| "order_rank Payment_Pending = 1"
| "order_rank Queued = 2"
| "order_rank Running = 3"
| "order_rank _ = 4"

fun payment_rank :: "payment_status \<Rightarrow> nat" where
  "payment_rank P_Pending = 0"
| "payment_rank P_Captured = 1"
| "payment_rank P_Available = 2"
| "payment_rank P_Refund_Pending = 3"
| "payment_rank _ = 4"

interpretation order_sm: transition_table order_transitions order_rank
proof
  show "t \<in> set (order_transitions s) \<Longrightarrow> order_rank s < order_rank t" for s t
    by (cases s) auto
qed

interpretation payment_sm: transition_table payment_transitions payment_rank
proof
  show "t \<in> set (payment_transitions s) \<Longrightarrow> payment_rank s < payment_rank t" for s t
    by (cases s) auto
qed

lemma order_transition_irrefl [simp]: "s \<notin> set (order_transitions s)"
  by (cases s) auto

lemma payment_transition_irrefl [simp]: "s \<notin> set (payment_transitions s)"
  by (cases s) auto

subsection \<open>The paid request\<close>

definition FRESH_VALIDATION_AMOUNT_MINOR :: int where "FRESH_VALIDATION_AMOUNT_MINOR = 25"
definition LEGACY_STRIPE_AMOUNT_MINOR :: int where "LEGACY_STRIPE_AMOUNT_MINOR = 4900"
definition FRESH_VALIDATION_CURRENCY :: string where "FRESH_VALIDATION_CURRENCY = ''usd''"
definition FRESH_VALIDATION_PROFILE :: string where
  "FRESH_VALIDATION_PROFILE = ''vouchspec-public-static-v1''"
definition QUOTE_TTL_MINUTES :: int where "QUOTE_TTL_MINUTES = 15"

definition re_commit :: "string \<Rightarrow> bool" where
  "re_commit s = re_class is_hex 40 40 s"

definition re_owner :: "string \<Rightarrow> bool" where
  "re_owner s \<longleftrightarrow> s \<noteq> [] \<and> is_alnum (hd s) \<and>
     re_class (\<lambda>c. is_alnum c \<or> c = CHR ''-'') 0 38 (tl s)"

definition re_repository :: "string \<Rightarrow> bool" where
  "re_repository s \<longleftrightarrow> s \<noteq> [] \<and> is_alnum (hd s) \<and>
     re_class (\<lambda>c. is_alnum c \<or> c = CHR ''_'' \<or> c = CHR ''.'' \<or> c = CHR ''-'') 0 99 (tl s)"

definition re_delivery_id :: "string \<Rightarrow> bool" where
  "re_delivery_id s = re_class is_token 8 64 s"

definition re_quote_id :: "string \<Rightarrow> bool" where
  "re_quote_id s = re_prefix ''q_'' (re_class is_hex 24 24) s"

definition re_skill_segment :: "string \<Rightarrow> bool" where
  "re_skill_segment s \<longleftrightarrow> s \<noteq> [] \<and> is_alnum (hd s) \<and>
     re_class (\<lambda>c. is_alnum c \<or> c = CHR ''.'' \<or> c = CHR ''_'' \<or> c = CHR ''-'') 0 99 (tl s)"

abbreviation bad_request :: exn where
  "bad_request \<equiv> Rejected ''invalid_commerce_request''"

definition exact_object :: "string list \<Rightarrow> json \<Rightarrow> (string \<times> json) list res" where
  "exact_object keys v =
     (case v of JObj kvs \<Rightarrow> if has_keys keys kvs then Inr kvs else Inl bad_request
      | _ \<Rightarrow> Inl bad_request)"

definition validate_skill_path :: "json \<Rightarrow> string res" where
  "validate_skill_path v =
     (case v of
        JStr value \<Rightarrow>
          reject_if (value = [] \<or> length value > 1024) bad_request
          (reject_if (chr_of 92 \<in> set value \<or> starts_with ''/'' value \<or> CHR '':'' \<in> set value) bad_request
          (let parts = posix_parts value in
           reject_if (value \<noteq> as_posix value \<or> \<not> (1 \<le> length parts \<and> length parts \<le> 32)
                \<or> list_ex (\<lambda>p. p = [] \<or> p = ''.'' \<or> p = ''..'') parts) bad_request
          (reject_if (list_ex (\<lambda>p. \<not> re_skill_segment p) parts) bad_request
          (Inr (as_posix value)))))
      | _ \<Rightarrow> Inl bad_request)"

record fresh_request =
  fr_owner :: string
  fr_repository :: string
  fr_commit :: string
  fr_skill_path :: string
  fr_amount_minor :: int
  fr_delivery_id :: string

definition parse_fresh_validation_request :: "json \<Rightarrow> fresh_request res" where
  "parse_fresh_validation_request value =
     and_then (exact_object [''schema_version'', ''operation'', ''source'', ''profile'',
                 ''max_price'', ''delivery_id''] value) (\<lambda>request.
     reject_if (jget request ''schema_version'' \<noteq> Some (JStr ''1.0.0'')) bad_request
    (reject_if (jget request ''operation'' \<noteq> Some (JStr ''fresh_public_static_validation'')) bad_request
    (reject_if (jget request ''profile'' \<noteq> Some (JStr FRESH_VALIDATION_PROFILE)) bad_request
    (and_then (exact_object [''host'', ''owner'', ''repository'', ''commit'', ''skill_path'']
                 (jget_null request ''source'')) (\<lambda>source.
     reject_if (jget source ''host'' \<noteq> Some (JStr ''github.com'')) (Rejected ''unsupported_source_host'')
    (reject_if (\<not> str_matches re_owner (jget_null source ''owner'')) bad_request
    (reject_if (\<not> str_matches re_repository (jget_null source ''repository'')) bad_request
    (reject_if (\<not> str_matches re_commit (jget_null source ''commit'')) (Rejected ''mutable_source_reference'')
    (and_then (exact_object [''currency'', ''amount_minor''] (jget_null request ''max_price'')) (\<lambda>maximum.
     reject_if (jget maximum ''currency'' \<noteq> Some (JStr FRESH_VALIDATION_CURRENCY)) bad_request
    (reject_if (\<not> bounded_int 0 1000000 (jget_null maximum ''amount_minor'')) bad_request
    (reject_if (\<not> str_matches re_delivery_id (jget_null request ''delivery_id'')) bad_request
    (and_then (validate_skill_path (jget_null source ''skill_path'')) (\<lambda>path.
     Inr \<lparr>fr_owner = the_str (jget_null source ''owner''),
          fr_repository = the_str (jget_null source ''repository''),
          fr_commit = the_str (jget_null source ''commit''),
          fr_skill_path = path,
          fr_amount_minor = the_int (jget_null maximum ''amount_minor''),
          fr_delivery_id = the_str (jget_null request ''delivery_id'')\<rparr>))))))))))))))"

text \<open>The normalised dictionary the parser returns.\<close>

definition source_json :: "fresh_request \<Rightarrow> json" where
  "source_json r = jstr_obj
     [(''host'', ''github.com''), (''owner'', fr_owner r), (''repository'', fr_repository r),
      (''commit'', fr_commit r), (''skill_path'', fr_skill_path r)]"

definition request_json :: "fresh_request \<Rightarrow> json" where
  "request_json r = JObj
     [(''schema_version'', JStr ''1.0.0''),
      (''operation'', JStr ''fresh_public_static_validation''),
      (''source'', source_json r),
      (''profile'', JStr FRESH_VALIDATION_PROFILE),
      (''max_price'', JObj [(''currency'', JStr FRESH_VALIDATION_CURRENCY),
                           (''amount_minor'', JInt (fr_amount_minor r))]),
      (''delivery_id'', JStr (fr_delivery_id r))]"

definition skill_path_ok :: "string \<Rightarrow> bool" where
  "skill_path_ok p \<longleftrightarrow> validate_skill_path (JStr p) = Inr p"

definition request_ok :: "fresh_request \<Rightarrow> bool" where
  "request_ok r \<longleftrightarrow> re_owner (fr_owner r) \<and> re_repository (fr_repository r) \<and> re_commit (fr_commit r)
     \<and> skill_path_ok (fr_skill_path r) \<and> 0 \<le> fr_amount_minor r \<and> fr_amount_minor r \<le> 1000000
     \<and> re_delivery_id (fr_delivery_id r)"

lemma validate_skill_path_iff:
  "validate_skill_path (JStr s) = Inr q \<longleftrightarrow>
     s \<noteq> [] \<and> length s \<le> 1024 \<and> chr_of 92 \<notin> set s \<and> \<not> starts_with ''/'' s \<and> CHR '':'' \<notin> set s
     \<and> as_posix s = s \<and> 1 \<le> length (posix_parts s) \<and> length (posix_parts s) \<le> 32
     \<and> (\<forall>w \<in> set (posix_parts s). w \<noteq> [] \<and> w \<noteq> ''.'' \<and> w \<noteq> ''..'' \<and> re_skill_segment w)
     \<and> q = s"
proof -
  have "validate_skill_path (JStr s) = Inr q \<longleftrightarrow>
     \<not> (s = [] \<or> length s > 1024) \<and> \<not> (chr_of 92 \<in> set s \<or> starts_with ''/'' s \<or> CHR '':'' \<in> set s)
     \<and> \<not> (s \<noteq> as_posix s \<or> \<not> (1 \<le> length (posix_parts s) \<and> length (posix_parts s) \<le> 32)
           \<or> list_ex (\<lambda>p. p = [] \<or> p = ''.'' \<or> p = ''..'') (posix_parts s))
     \<and> \<not> list_ex (\<lambda>p. \<not> re_skill_segment p) (posix_parts s) \<and> as_posix s = q"
    by (simp only: validate_skill_path_def json.case Let_def txn_simps sum.inject)
  then show ?thesis unfolding list_ex_iff by (metis linorder_not_less)
qed

lemma validate_skill_path_Inr:
  assumes "validate_skill_path v = Inr p"
  shows "v = JStr p \<and> skill_path_ok p"
proof -
  from assms obtain s where v: "v = JStr s"
    by (auto simp: validate_skill_path_def split: json.splits)
  with assms have "p = s" by (simp only: validate_skill_path_iff)
  with v assms show ?thesis by (simp add: skill_path_ok_def)
qed

lemma exact_object_Inr: "exact_object ks v = Inr kvs \<longleftrightarrow> v = JObj kvs \<and> has_keys ks kvs"
  by (auto simp: exact_object_def split: json.splits)

lemma parse_request_ok:
  assumes "parse_fresh_validation_request v = Inr r"
  shows "request_ok r"
  using assms unfolding parse_fresh_validation_request_def request_ok_def
  by (auto simp: txn_simps dest!: validate_skill_path_Inr str_matches_the_str bounded_int_the_int)

lemma parse_request_json:
  assumes "request_ok r"
  shows "parse_fresh_validation_request (request_json r) = Inr r"
  using assms unfolding request_ok_def skill_path_ok_def
  by (simp add: parse_fresh_validation_request_def request_json_def source_json_def jstr_obj_def
      exact_object_def has_keys_def jget_def jget_null_def insert_commute)

text \<open>What the path check establishes: a relative path of plain segments, no traversal.\<close>

lemma skill_path_segments:
  assumes "skill_path_ok p"
  shows "1 \<le> length (split_on CHR ''/'' p)" "length (split_on CHR ''/'' p) \<le> 32"
    and "\<forall>w \<in> set (split_on CHR ''/'' p). re_skill_segment w"
proof -
  let ?ps = "split_on CHR ''/'' p"
  from assms have noroot: "\<not> starts_with ''/'' p" and eq: "as_posix p = p"
    and len: "length (posix_parts p) \<le> 32" "1 \<le> length (posix_parts p)"
    and seg: "\<forall>w \<in> set (posix_parts p). re_skill_segment w"
    unfolding skill_path_ok_def validate_skill_path_iff by blast+
  have "\<not> starts_with ''//'' p"
    using noroot by (cases p) (auto simp: starts_with_def)
  with noroot have root: "posix_root p = []" by (simp add: posix_root_def)
  then have parts: "posix_parts p = posix_tail p" by (simp add: posix_parts_def)
  with len have tail: "posix_tail p \<noteq> []" by auto
  with root have "as_posix p = join_with CHR ''/'' (posix_tail p)" by (simp add: as_posix_def)
  then have "?ps = split_on CHR ''/'' (join_with CHR ''/'' (posix_tail p))" by (simp only: eq)
  also have "\<dots> = posix_tail p"
    using tail by (intro split_join) (auto simp: posix_tail_def dest: split_on_no_sep)
  finally have ps: "?ps = posix_tail p" .
  with parts len seg show "1 \<le> length ?ps" "length ?ps \<le> 32" "\<forall>w \<in> set ?ps. re_skill_segment w"
    by simp_all
qed

subsection \<open>The quote\<close>

definition REFUND_CONDITIONS :: "string list" where
  "REFUND_CONDITIONS =
     [''duplicate_charge'',
      ''payment_settled_but_job_never_started_due_to_vouchspec_failure'',
      ''job_failed_before_a_signed_receipt_was_produced'',
      ''unsupported_request_accepted_due_to_vouchspec_validation_defect'',
      ''invalid_signature_or_wrong_source_commit_path_or_digest_after_one_automatic_rerun'']"

record quote_doc =
  qd_quote_id :: string
  qd_request_digest :: string
  qd_amount_minor :: int
  qd_amount :: string
  qd_generated_at :: string
  qd_expires_at :: string
  qd_quote_status :: string
  qd_availability :: string
  qd_orderable :: bool
  qd_settlement_available :: bool
  qd_payment_options :: "(string \<times> string) list"
  qd_request :: fresh_request
  qd_payment_gate :: string
  qd_counts_for_goal :: "bool option"
  qd_quote_digest :: string

definition payment_options_json :: "(string \<times> string) list \<Rightarrow> json" where
  "payment_options_json opts =
     JArr (map (\<lambda>(p, st). jstr_obj [(''provider'', p), (''status'', st)]) opts)"

text \<open>The quote dictionary without its digest.\<close>

definition quote_json :: "quote_doc \<Rightarrow> json" where
  "quote_json q = JObj (
     [(''schema_version'', JStr ''1.0.0''),
      (''service'', JStr ''VouchSpec''),
      (''quote_id'', JStr (qd_quote_id q)),
      (''operation'', JStr ''fresh_public_static_validation''),
      (''request_digest'', JStr (qd_request_digest q)),
      (''currency'', JStr FRESH_VALIDATION_CURRENCY),
      (''amount_minor'', JInt (qd_amount_minor q)),
      (''amount'', JStr (qd_amount q)),
      (''generated_at'', JStr (qd_generated_at q)),
      (''expires_at'', JStr (qd_expires_at q)),
      (''quote_status'', JStr (qd_quote_status q)),
      (''availability'', JStr (qd_availability q)),
      (''orderable'', JBool (qd_orderable q)),
      (''settlement_available'', JBool (qd_settlement_available q)),
      (''payment_options'', payment_options_json (qd_payment_options q)),
      (''deliverable'', JObj
         [(''type'', JStr ''signed_exact_version_static_receipt''),
          (''source'', source_json (qd_request q)),
          (''profile'', JStr FRESH_VALIDATION_PROFILE),
          (''delivery_id'', JStr (fr_delivery_id (qd_request q))),
          (''execution'', JStr ''artifact_content_not_executed''),
          (''evidence_not_promised'', JArr (map JStr
             [''universal_safety'', ''malware_free'', ''runtime_behavior'', ''publisher_identity'']))]),
      (''hard_limits'', JObj
         [(''artifact_total_bytes'', JInt 25000000), (''files'', JInt 1000),
          (''individual_file_bytes'', JInt 2000000), (''directory_depth'', JInt 32),
          (''worker_wall_seconds'', JInt 60)]),
      (''refund_conditions'', JArr (map JStr REFUND_CONDITIONS)),
      (''non_refund_condition'',
         JStr ''an accurately reported structural or static finding is the purchased result''),
      (''live_gates'', JArr (map JStr
         [''allowlisted immutable fetcher and isolated no-egress worker'',
          ''separate constrained signing service'',
          qd_payment_gate q,
          ''idempotent order store and provider reconciliation'']))]
     @ (case qd_counts_for_goal q of None \<Rightarrow> [] | Some b \<Rightarrow> [(''counts_for_goal'', JBool b)]))"

definition seal_quote :: "quote_doc \<Rightarrow> quote_doc" where
  "seal_quote q = q\<lparr>qd_quote_digest := ''sha256:'' @ sha256_hex (dumps (quote_json q))\<rparr>"

text \<open>
  \<open>generated_at\<close> and \<open>quote_id\<close> are the values after the defaults (the clock and a random
  identifier) have been filled in.
\<close>

definition timestamp_text :: "pydatetime \<Rightarrow> string res" where
  "timestamp_text dt = (if is_naive dt then Inl ValueError else format_utc dt)"

definition request_digest_hex :: "fresh_request \<Rightarrow> string" where
  "request_digest_hex r = sha256_hex (dumps (request_json r))"

definition build_fresh_validation_quote ::
  "json \<Rightarrow> pydatetime \<Rightarrow> string \<Rightarrow> bool \<Rightarrow> quote_doc res" where
  "build_fresh_validation_quote request_value now identifier legacy =
     and_then (parse_fresh_validation_request request_value) (\<lambda>request.
     reject_if (\<not> re_quote_id identifier) ValueError
    (let amount = (if legacy then LEGACY_STRIPE_AMOUNT_MINOR else FRESH_VALIDATION_AMOUNT_MINOR);
         within = fr_amount_minor request \<ge> amount
     in and_then (timestamp_text now) (\<lambda>generated.
        and_then (add_delta now (QUOTE_TTL_MINUTES * minute_us)) (\<lambda>later.
        and_then (timestamp_text later) (\<lambda>expires.
        Inr (seal_quote
          \<lparr>qd_quote_id = identifier,
           qd_request_digest = ''sha256:'' @ request_digest_hex request,
           qd_amount_minor = amount,
           qd_amount = (if legacy then ''49.00'' else ''0.25''),
           qd_generated_at = generated,
           qd_expires_at = expires,
           qd_quote_status = (if within
              then (if legacy then ''preview_account_and_worker_not_live'' else ''preview_mainnet_not_live'')
              else ''declined_max_price''),
           qd_availability = (if legacy then ''stage_b_worker_and_payment_activation_required''
              else ''stage_b_mainnet_activation_required''),
           qd_orderable = False,
           qd_settlement_available = False,
           qd_payment_options = (if legacy
              then [(''stripe_checkout'', ''account_activation_required''),
                    (''x402'', ''secondary_not_enabled'')]
              else [(''x402'', ''mainnet_not_enabled'')]),
           qd_request = request,
           qd_payment_gate = (if legacy then ''activated payment account and verified webhook secret''
              else ''exact x402 mainnet settlement and automated remedy controls''),
           qd_counts_for_goal = None,
           qd_quote_digest = []\<rparr>))))))"

lemma seal_quote_fields [simp]:
  "qd_quote_id (seal_quote q) = qd_quote_id q"
  "qd_request_digest (seal_quote q) = qd_request_digest q"
  "qd_amount_minor (seal_quote q) = qd_amount_minor q"
  "qd_generated_at (seal_quote q) = qd_generated_at q"
  "qd_expires_at (seal_quote q) = qd_expires_at q"
  "qd_quote_status (seal_quote q) = qd_quote_status q"
  "qd_orderable (seal_quote q) = qd_orderable q"
  "qd_payment_options (seal_quote q) = qd_payment_options q"
  "qd_request (seal_quote q) = qd_request q"
  "qd_counts_for_goal (seal_quote q) = qd_counts_for_goal q"
  by (simp_all add: seal_quote_def)

lemma build_quote_Inr:
  assumes "build_fresh_validation_quote v now ident legacy = Inr q"
  obtains r later where "parse_fresh_validation_request v = Inr r" "re_quote_id ident"
    and "add_delta now (QUOTE_TTL_MINUTES * minute_us) = Inr later"
    and "timestamp_text now = Inr (qd_generated_at q)"
    and "timestamp_text later = Inr (qd_expires_at q)"
    and "qd_request q = r" "qd_quote_id q = ident"
    and "qd_request_digest q = ''sha256:'' @ request_digest_hex r"
    and "qd_amount_minor q = (if legacy then LEGACY_STRIPE_AMOUNT_MINOR else FRESH_VALIDATION_AMOUNT_MINOR)"
    and "qd_quote_status q = ''declined_max_price'' \<longleftrightarrow> fr_amount_minor r < qd_amount_minor q"
    and "\<not> qd_orderable q" "qd_counts_for_goal q = None"
proof -
  from assms obtain r later g e where *: "parse_fresh_validation_request v = Inr r" "re_quote_id ident"
      "add_delta now (QUOTE_TTL_MINUTES * minute_us) = Inr later"
      "timestamp_text now = Inr g" "timestamp_text later = Inr e"
    and q: "build_fresh_validation_quote v now ident legacy = Inr q"
    by (auto simp: build_fresh_validation_quote_def txn_simps Let_def)
  show thesis
    by (rule that [of r later]) (use * q in \<open>auto simp: build_fresh_validation_quote_def Let_def
        seal_quote_def split: if_splits\<close>)
qed

subsection \<open>Webhook signatures\<close>

definition re_sha256_hex :: "string \<Rightarrow> bool" where
  "re_sha256_hex s = re_class is_hex 64 64 s"

abbreviation bad_signature :: exn where
  "bad_signature \<equiv> Rejected ''invalid_webhook_signature''"

text \<open>One element of the header: the first parsable \<open>t\<close> wins, every well-formed \<open>v1\<close> is kept.\<close>

fun scan_signature_item :: "int option \<times> string list \<Rightarrow> string \<Rightarrow> int option \<times> string list" where
  "scan_signature_item (ts, sigs) item =
     (case partition_at CHR ''='' (py_strip item) of (key, found, val) \<Rightarrow>
        if \<not> found then (ts, sigs)
        else if key = ''t'' \<and> ts = None then (py_int val, sigs)
        else if key = ''v1'' \<and> re_sha256_hex val then (ts, sigs @ [val])
        else (ts, sigs))"

definition scan_signature_header :: "string \<Rightarrow> int option \<times> string list" where
  "scan_signature_header header = foldl scan_signature_item (None, []) (split_on CHR '','' header)"

definition webhook_mac :: "string \<Rightarrow> int \<Rightarrow> string \<Rightarrow> string" where
  "webhook_mac secret timestamp body = hex_of (hmac_sha256 secret (show_int timestamp @ ''.'' @ body))"

definition verify_stripe_webhook_signature ::
  "string \<Rightarrow> string \<Rightarrow> string \<Rightarrow> int \<Rightarrow> int \<Rightarrow> int res" where
  "verify_stripe_webhook_signature raw_body header secret now tolerance =
     reject_if (raw_body = [] \<or> secret = []) bad_signature
    (case scan_signature_header header of
       (None, _) \<Rightarrow> Inl bad_signature
     | (Some ts, sigs) \<Rightarrow>
         reject_if (sigs = [] \<or> \<bar>now - ts\<bar> > tolerance) bad_signature
        (reject_if (\<not> list_ex (\<lambda>c. webhook_mac secret ts raw_body = c) sigs) bad_signature
        (Inr ts)))"

lemma webhook_mac_shape: "re_sha256_hex (webhook_mac secret ts body)"
  using hex_of_hex by (simp add: re_sha256_hex_def re_class_def webhook_mac_def)

lemma foldl_signatures:
  "foldl scan_signature_item (ts, sigs) items = (ts', sigs') \<Longrightarrow>
     set sigs' \<subseteq> set sigs \<union> {v. re_sha256_hex v \<and> (\<exists>i \<in> set items. \<exists>k. partition_at CHR ''='' (py_strip i) = (k, True, v) \<and> k = ''v1'')}"
proof (induction items arbitrary: ts sigs)
  case Nil
  then show ?case by simp
next
  case (Cons i items)
  obtain ts1 sigs1 where s: "scan_signature_item (ts, sigs) i = (ts1, sigs1)"
    by (cases "scan_signature_item (ts, sigs) i") auto
  then have "set sigs1 \<subseteq> set sigs \<union> {v. re_sha256_hex v \<and> (\<exists>k. partition_at CHR ''='' (py_strip i) = (k, True, v) \<and> k = ''v1'')}"
    by (auto split: prod.splits if_splits)
  with Cons.IH [of ts1 sigs1] Cons.prems s show ?case by fastforce
qed

end
