(* ===== verification/ContractClaims.thy ===== *)
theory ContractClaims
  imports Commerce
begin

section \<open>The commerce contracts: their guarantees\<close>

text \<open>
  What the functions of \<^verbatim>\<open>commerce.py\<close> establish: the direction of the state machines, the
  normal form of a paid request, and the authentication of Stripe webhooks.
\<close>

text \<open>
  The order and payment state machines never return: two statuses that
  \<open>require_transition\<close> lets reach each other, in any number of steps, are equal; so
  every run of accepted transitions ends.
\<close>

theorem transitions_never_return:
  shows "(rtranclp (\<lambda>s t. require_transition (OrderSt s) (OrderSt t) = Inr ()) s t
      \<and> rtranclp (\<lambda>s t. require_transition (OrderSt s) (OrderSt t) = Inr ()) t s \<longrightarrow> s = t)
    \<and> (rtranclp (\<lambda>s t. require_transition (PaymentSt s) (PaymentSt t) = Inr ()) p q
      \<and> rtranclp (\<lambda>s t. require_transition (PaymentSt s) (PaymentSt t) = Inr ()) q p \<longrightarrow> p = q)
    \<and> \<not> tranclp (\<lambda>s t. require_transition (OrderSt s) (OrderSt t) = Inr ()) s s
    \<and> \<not> tranclp (\<lambda>s t. require_transition (PaymentSt s) (PaymentSt t) = Inr ()) p p"
proof -
  have o: "(\<lambda>s t. require_transition (OrderSt s) (OrderSt t) = Inr ()) = (\<lambda>s t. t \<in> set (order_transitions s))"
    by (intro ext) simp
  have p: "(\<lambda>s t. require_transition (PaymentSt s) (PaymentSt t) = Inr ()) = (\<lambda>s t. t \<in> set (payment_transitions s))"
    by (intro ext) simp
  show ?thesis
    unfolding o p
    using order_sm.never_returns payment_sm.never_returns order_sm.no_cycle payment_sm.no_cycle by blast
qed

theorem transitions_never_return_witness:
  "\<not> tranclp (\<lambda>s t. require_transition (OrderSt s) (OrderSt t) = Inr ()) Queued Queued"
  using transitions_never_return [of Queued Queued P_Pending P_Pending] by blast

text \<open>
  C10. Request normalisation is idempotent: what \<open>parse_fresh_validation_request\<close> returns
  is a document it accepts again and returns unchanged.
\<close>

theorem request_round_trip:
  assumes "parse_fresh_validation_request v = Inr r"
  shows "parse_fresh_validation_request (request_json r) = Inr r"
  by (rule parse_request_json [OF parse_request_ok [OF assms]])

definition sample_request :: json where
  "sample_request = JObj
     [(''schema_version'', JStr ''1.0.0''), (''operation'', JStr ''fresh_public_static_validation''),
      (''source'', JObj [(''host'', JStr ''github.com''), (''owner'', JStr ''octo''), (''repository'', JStr ''repo''),
         (''commit'', JStr (replicate 40 CHR ''a'')), (''skill_path'', JStr ''skills/x'')]),
      (''profile'', JStr ''vouchspec-public-static-v1''),
      (''max_price'', JObj [(''currency'', JStr ''usd''), (''amount_minor'', JInt 25)]),
      (''delivery_id'', JStr ''delivery-1'')]"

definition sample_parsed :: fresh_request where
  "sample_parsed = \<lparr>fr_owner = ''octo'', fr_repository = ''repo'', fr_commit = replicate 40 CHR ''a'',
     fr_skill_path = ''skills/x'', fr_amount_minor = 25, fr_delivery_id = ''delivery-1''\<rparr>"

lemma sample_parses: "parse_fresh_validation_request sample_request = Inr sample_parsed"
  by code_simp

theorem request_round_trip_witness:
  "parse_fresh_validation_request (request_json sample_parsed) = Inr sample_parsed"
  by (rule request_round_trip [OF sample_parses])

text \<open>
  C11. An accepted skill path is a plain relative path: at most 1024 bytes, between one and
  32 segments, each of which starts with a letter or digit (so it is not empty, not a dot
  and not a dot-dot) and has at most 100 characters.
\<close>

theorem accepted_path_is_safe:
  assumes "parse_fresh_validation_request v = Inr r"
  shows "length (fr_skill_path r) \<le> 1024
    \<and> 1 \<le> length (split_on CHR ''/'' (fr_skill_path r)) \<and> length (split_on CHR ''/'' (fr_skill_path r)) \<le> 32
    \<and> (\<forall>w \<in> set (split_on CHR ''/'' (fr_skill_path r)). w \<noteq> [] \<and> is_alnum (hd w) \<and> length w \<le> 100 \<and> w \<noteq> ''..'')"
proof -
  have ok: "skill_path_ok (fr_skill_path r)"
    using parse_request_ok [OF assms] by (simp add: request_ok_def)
  have "length (fr_skill_path r) \<le> 1024"
    using ok unfolding skill_path_ok_def validate_skill_path_iff by blast
  moreover have "w \<noteq> [] \<and> is_alnum (hd w) \<and> length w \<le> 100 \<and> w \<noteq> ''..''" if "re_skill_segment w" for w
  proof -
    have "\<not> is_alnum CHR ''.''" by code_simp
    with that show ?thesis by (cases w) (auto simp: re_skill_segment_def re_class_def)
  qed
  ultimately show ?thesis using skill_path_segments [OF ok] by blast
qed

theorem accepted_path_is_safe_witness: "length (fr_skill_path sample_parsed) \<le> 1024"
  using accepted_path_is_safe [OF sample_parses] by blast

text \<open>
  C12. A webhook is accepted only if it is authentic and fresh: the returned timestamp is
  within the tolerance of the clock, and the header carries the HMAC-SHA256, under the
  secret, of that timestamp and the exact body.
\<close>

theorem webhook_accepts_only_authentic:
  assumes "verify_stripe_webhook_signature body header secret now tolerance = Inr ts"
  shows "body \<noteq> [] \<and> secret \<noteq> [] \<and> \<bar>now - ts\<bar> \<le> tolerance
    \<and> (\<exists>item \<in> set (split_on CHR '','' header).
         partition_at CHR ''='' (py_strip item) = (''v1'', True, webhook_mac secret ts body))"
proof -
  obtain t sigs where scan: "scan_signature_header header = (t, sigs)" by (cases "scan_signature_header header")
  with assms have t: "t = Some ts" and "body \<noteq> []" "secret \<noteq> []" "\<bar>now - ts\<bar> \<le> tolerance"
    and mac: "webhook_mac secret ts body \<in> set sigs"
    by (auto simp: verify_stripe_webhook_signature_def txn_simps list_ex_iff split: option.splits)
  moreover have "\<exists>i \<in> set (split_on CHR '','' header).
      partition_at CHR ''='' (py_strip i) = (''v1'', True, webhook_mac secret ts body)"
    using foldl_signatures [of None "[]"] scan mac by (fastforce simp: scan_signature_header_def)
  ultimately show ?thesis by blast
qed

lemma show_nat_alnum: "list_all is_alnum (show_nat n)"
  using show_nat_digits [of n] by (auto simp: list_all_iff is_alnum_def)

lemma mac_hex: "list_all is_hex (webhook_mac secret ts body)" "webhook_mac secret ts body \<noteq> []"
  using webhook_mac_shape [of secret ts body] by (auto simp: re_sha256_hex_def re_class_def)

lemma is_hex_alnum: "is_hex c \<Longrightarrow> is_alnum c"
  by (auto simp: is_hex_def is_alnum_def is_lower_def between_def byte_of_def)

lemma strip_field:
  assumes "list_all is_alnum v" "v \<noteq> []" "k \<noteq> []" "list_all is_alnum k"
  shows "partition_at CHR ''='' (py_strip (k @ CHR ''='' # v)) = (k, True, v)"
proof -
  have "py_strip (k @ CHR ''='' # v) = k @ CHR ''='' # v"
    by (rule py_strip_alnum) (use assms in \<open>auto simp: list_all_iff\<close>)
  moreover have "\<not> is_alnum CHR ''=''" by code_simp
  then have "CHR ''='' \<notin> set k" using assms(4) by (auto simp: list_all_iff)
  then have "partition_at CHR ''='' (k @ CHR ''='' # v) = (k, True, v)" by (induction k) auto
  ultimately show ?thesis by simp
qed

lemma own_signature_verifies:
  assumes "body \<noteq> []" "secret \<noteq> []" "\<bar>now - int ts\<bar> \<le> tolerance" "length (show_nat ts) \<le> 4300"
  shows "verify_stripe_webhook_signature body
      (''t='' @ show_nat ts @ '',v1='' @ webhook_mac secret (int ts) body) secret now tolerance = Inr (int ts)"
proof -
  let ?mac = "webhook_mac secret (int ts) body"
  have comma: "\<not> is_alnum CHR '',''" by code_simp
  have alnum: "list_all is_alnum ?mac" using mac_hex(1) by (auto simp: list_all_iff intro: is_hex_alnum)
  have tv: "is_alnum CHR ''t''" "is_alnum CHR ''v''" "is_alnum CHR ''1''" by code_simp+
  have noc: "CHR '','' \<notin> set (''t='' @ show_nat ts)" "CHR '','' \<notin> set (''v1='' @ ?mac)"
    using comma alnum show_nat_alnum [of ts] by (auto simp: list_all_iff)
  have "''t='' @ show_nat ts @ '',v1='' @ ?mac = join_with CHR '','' [''t='' @ show_nat ts, ''v1='' @ ?mac]" by simp
  then have split: "split_on CHR '','' (''t='' @ show_nat ts @ '',v1='' @ ?mac) = [''t='' @ show_nat ts, ''v1='' @ ?mac]"
    using split_join [of "[''t='' @ show_nat ts, ''v1='' @ ?mac]" "CHR '',''"] noc by simp
  have f1: "partition_at CHR ''='' (py_strip (''t='' @ show_nat ts)) = (''t'', True, show_nat ts)"
    using strip_field [of "show_nat ts" "''t''"] show_nat_alnum tv by simp
  have f2: "partition_at CHR ''='' (py_strip (''v1='' @ ?mac)) = (''v1'', True, ?mac)"
    using strip_field [of ?mac "''v1''"] alnum mac_hex(2) tv by simp
  have "scan_signature_header (''t='' @ show_nat ts @ '',v1='' @ ?mac) = (Some (int ts), [?mac])"
    unfolding scan_signature_header_def split
    using f1 f2 webhook_mac_shape [of secret "int ts" body] py_int_show_nat [OF assms(4)] by simp
  with assms(1-3) show ?thesis by (simp add: verify_stripe_webhook_signature_def)
qed

text \<open>
  A sender with the secret is accepted: the header it makes for a non-empty body at a
  time within the tolerance verifies and returns that time.
\<close>

theorem webhook_accepts_own_signature:
  assumes "body \<noteq> []" "secret \<noteq> []" "\<bar>now - int ts\<bar> \<le> tolerance" "length (show_nat ts) \<le> 4300"
  shows "verify_stripe_webhook_signature body
      (''t='' @ show_nat ts @ '',v1='' @ webhook_mac secret (int ts) body) secret now tolerance = Inr (int ts)"
  by (rule own_signature_verifies [OF assms])

lemma webhook_sample_length: "length (show_nat 1000) \<le> 4300"
  by code_simp

theorem webhook_accepts_own_signature_witness:
  "verify_stripe_webhook_signature ''body'' (''t='' @ show_nat 1000 @ '',v1='' @ webhook_mac ''key'' (int 1000) ''body'')
     ''key'' 1100 300 = Inr (int 1000)"
  by (rule webhook_accepts_own_signature) (use webhook_sample_length in simp_all)

theorem webhook_accepts_only_authentic_witness:
  "\<exists>item \<in> set (split_on CHR '','' (''t='' @ show_nat 1000 @ '',v1='' @ webhook_mac ''key'' (int 1000) ''body'')).
     partition_at CHR ''='' (py_strip item) = (''v1'', True, webhook_mac ''key'' (int 1000) ''body'')"
proof -
  have "verify_stripe_webhook_signature ''body'' (''t='' @ show_nat 1000 @ '',v1='' @ webhook_mac ''key'' (int 1000) ''body'')
     ''key'' 1100 300 = Inr (int 1000)"
    by (rule own_signature_verifies) (use webhook_sample_length in simp_all)
  from webhook_accepts_only_authentic [OF this] show ?thesis by blast
qed

end
