(* ===== verification/CommerceStore.thy ===== *)
theory CommerceStore
  imports Commerce
begin

section \<open>The commerce store: schema, quotes and orders\<close>

text \<open>
  \<^verbatim>\<open>commerce_store.py\<close>.  The SQLite file is the record \<open>db\<close>, one list of rows per table.
  Statuses are the enumerations of \<open>Commerce\<close>; a JSON column holds the document it
  serialises, and two JSON texts are compared as \<open>dumps\<close> of their documents.  Each public
  method is a transaction: \<open>Inl\<close> is the exception raised after the rollback.  Arguments
  that default to the clock are passed explicitly.  Constraints: an insert or update of
  \<open>orders\<close> is checked against every UNIQUE column of the table, an insert of a financial
  entry against its composite key.  The foreign keys are implied by the reads each method
  makes before it writes, and are part of the invariant proved in \<open>StoreInvariant\<close>.
\<close>

subsection \<open>Rows\<close>

datatype environment = Sandbox | Live

fun environment_value :: "environment \<Rightarrow> string" where
  "environment_value Sandbox = ''sandbox''"
| "environment_value Live = ''live''"

record quote_row =
  q_quote_id :: string
  q_environment :: environment
  q_request_digest :: string
  q_request :: fresh_request
  q_document :: quote_doc
  q_amount_minor :: int
  q_currency :: string
  q_generated_at :: string
  q_expires_at :: string
  q_orderable :: bool
  q_counts_for_goal :: bool

record order_row =
  o_order_id :: string
  o_environment :: environment
  o_quote_id :: string
  o_idempotency_key :: string
  o_buyer_reference :: string
  o_provider :: string
  o_provider_checkout_id :: "string option"
  o_provider_payment_id :: "string option"
  o_order_status :: order_status
  o_payment_status :: payment_status
  o_quoted_amount_minor :: int
  o_collected_amount_minor :: int
  o_refunded_amount_minor :: int
  o_processing_fee_minor :: int
  o_currency :: string
  o_direct_costs_recorded :: bool
  o_receipt_id :: "string option"
  o_receipt_sha256 :: "string option"
  o_envelope_sha256 :: "string option"
  o_signing_keyid :: "string option"
  o_delivery_status :: string
  o_counts_for_goal :: bool
  o_created_at :: string
  o_updated_at :: string

record provider_event =
  pe_provider :: string
  pe_environment :: environment
  pe_event_id :: string
  pe_type :: string
  pe_payment_id :: string
  pe_amount_minor :: int
  pe_fee_minor :: int
  pe_occurred_at :: string

datatype event_status =
    Ev_Pending | Ev_Applied | Ev_Applied_Duplicate_Effect
  | Ev_Rejected_Effect_Conflict | Ev_Rejected_Amount_Mismatch

fun event_status_value :: "event_status \<Rightarrow> string" where
  "event_status_value Ev_Pending = ''pending''"
| "event_status_value Ev_Applied = ''applied''"
| "event_status_value Ev_Applied_Duplicate_Effect = ''applied_duplicate_effect''"
| "event_status_value Ev_Rejected_Effect_Conflict = ''rejected_effect_conflict''"
| "event_status_value Ev_Rejected_Amount_Mismatch = ''rejected_amount_mismatch''"

record event_row =
  ev_event_id :: string
  ev_environment :: environment
  ev_provider :: string
  ev_payment_id :: string
  ev_type :: string
  ev_payload_digest :: string
  ev_payload :: provider_event
  ev_status :: event_status
  ev_received_at :: string
  ev_applied_at :: "string option"

record financial_entry =
  fe_order_id :: string
  fe_category :: string
  fe_amount_minor :: int
  fe_impact_minor :: int
  fe_source_reference :: string
  fe_recorded_at :: string

record cost_record =
  cr_order_id :: string
  cr_idempotency_key :: string
  cr_costs_json :: string
  cr_recorded_at :: string

record history_row =
  h_order_id :: string
  h_dimension :: string
  h_prior_status :: "string option"
  h_new_status :: string
  h_source_reference :: string
  h_occurred_at :: string

record db =
  metadata :: "(string \<times> string) list"
  quotes :: "quote_row list"
  orders :: "order_row list"
  provider_events :: "event_row list"
  financial_entries :: "financial_entry list"
  cost_records :: "cost_record list"
  order_history :: "history_row list"

subsection \<open>Constants and identifiers\<close>

definition STORE_SCHEMA_VERSION :: string where "STORE_SCHEMA_VERSION = ''3''"

definition DIRECT_COST_CATEGORIES :: "string list" where
  "DIRECT_COST_CATEGORIES =
     [''compute'', ''third_party'', ''hosting'', ''storage'', ''model'', ''network'',
      ''signing'', ''monitoring'', ''direct_support'', ''other_variable'']"

definition re_idempotency :: "string \<Rightarrow> bool" where
  "re_idempotency s = re_class is_token 8 96 s"

definition re_buyer :: "string \<Rightarrow> bool" where
  "re_buyer s = re_class (\<lambda>c. is_token c \<or> c \<in> set ''.:@+'') 8 128 s"

definition re_event_id :: "string \<Rightarrow> bool" where
  "re_event_id s \<longleftrightarrow> re_prefix ''evt_'' (re_class is_hex 24 24) s
     \<or> re_prefix ''evt_test_'' (re_class is_hex 24 24) s"

definition re_fake_payment_id :: "string \<Rightarrow> bool" where
  "re_fake_payment_id s = re_prefix ''pay_test_'' (re_class is_hex 24 24) s"

definition re_stripe_payment_id :: "string \<Rightarrow> bool" where
  "re_stripe_payment_id s = re_prefix ''pi_'' (re_class is_alnum 8 64) s"

definition re_stripe_checkout_id :: "string \<Rightarrow> bool" where
  "re_stripe_checkout_id s \<longleftrightarrow> re_prefix ''cs_test_'' (re_class is_alnum 8 128) s
     \<or> re_prefix ''cs_live_'' (re_class is_alnum 8 128) s"

definition re_key_id :: "string \<Rightarrow> bool" where
  "re_key_id s = re_class is_token 43 43 s"

definition re_receipt_id :: "string \<Rightarrow> bool" where
  "re_receipt_id s = re_prefix ''cpr_'' (re_class is_hex 24 24) s"

text \<open>\<open>targets\<close>, the payment status each event type asks for.\<close>

definition event_target :: "string \<Rightarrow> payment_status option" where
  "event_target t = map_of
     [(''payment.captured'', P_Captured), (''payment.available'', P_Available),
      (''payment.failed'', P_Failed), (''payment.refund_pending'', P_Refund_Pending),
      (''payment.refunded'', P_Refunded), (''payment.disputed'', P_Disputed)] t"

definition parse_timestamp :: "string \<Rightarrow> int res" where
  "parse_timestamp s =
     (case fromisoformat (normalize_z s) of
        Inl _ \<Rightarrow> Inl (Rejected ''invalid_commerce_event'')
      | Inr (Naive _) \<Rightarrow> Inl (Rejected ''invalid_commerce_event'')
      | Inr (Aware l off) \<Rightarrow> astimezone_utc (Aware l off))"

lemma parse_timestamp_iso_z:
  "0 \<le> u \<Longrightarrow> u < max_us \<Longrightarrow> parse_timestamp (iso_z u) = Inr (floor_second u)"
  using floor_second_bounds [of u] by (simp add: parse_timestamp_def fromisoformat_iso_z)

subsection \<open>Constraint-checked writes\<close>

definition orders_unique :: "order_row list \<Rightarrow> bool" where
  "orders_unique t \<longleftrightarrow> unique_on o_order_id t \<and> unique_on o_quote_id t \<and> unique_on o_idempotency_key t
     \<and> unique_nullable o_provider_payment_id t \<and> unique_nullable o_provider_checkout_id t
     \<and> unique_nullable o_receipt_id t"

definition write_orders :: "order_row list \<Rightarrow> 'z db_scheme \<Rightarrow> 'z db_scheme res" where
  "write_orders t d = (if orders_unique t then Inr (d\<lparr>orders := t\<rparr>) else Inl IntegrityError)"

definition update_order ::
  "string \<Rightarrow> (order_row \<Rightarrow> order_row) \<Rightarrow> 'z db_scheme \<Rightarrow> 'z db_scheme res" where
  "update_order oid f d = write_orders (update_where (\<lambda>r. o_order_id r = oid) f (orders d)) d"

text \<open>\<open>except sqlite3.IntegrityError as exc: raise InputRejected(..., code=c)\<close>\<close>

definition on_integrity_error :: "string \<Rightarrow> 'a res \<Rightarrow> 'a res" where
  "on_integrity_error c m = (case m of Inl IntegrityError \<Rightarrow> Inl (Rejected c) | _ \<Rightarrow> m)"

lemma on_integrity_error_Inr [txn_simps]: "on_integrity_error c m = Inr x \<longleftrightarrow> m = Inr x"
  by (auto simp: on_integrity_error_def split: sum.splits exn.splits)

definition history ::
  "string \<Rightarrow> string \<Rightarrow> string option \<Rightarrow> string \<Rightarrow> string \<Rightarrow> string \<Rightarrow> 'z db_scheme \<Rightarrow> 'z db_scheme" where
  "history oid dim prior new src at d = d\<lparr>order_history := order_history d @
     [\<lparr>h_order_id = oid, h_dimension = dim, h_prior_status = prior, h_new_status = new,
       h_source_reference = src, h_occurred_at = at\<rparr>]\<rparr>"

definition entry_key :: "financial_entry \<Rightarrow> string \<times> string \<times> string" where
  "entry_key e = (fe_order_id e, fe_category e, fe_source_reference e)"

definition add_financial_entry ::
  "string \<Rightarrow> string \<Rightarrow> int \<Rightarrow> int \<Rightarrow> string \<Rightarrow> string \<Rightarrow> 'z db_scheme \<Rightarrow> 'z db_scheme res" where
  "add_financial_entry oid category amount impact src at d =
     (let e = \<lparr>fe_order_id = oid, fe_category = category, fe_amount_minor = amount,
               fe_impact_minor = impact, fe_source_reference = src, fe_recorded_at = at\<rparr>
      in if amount < 0 \<or> entry_key e \<in> entry_key ` set (financial_entries d) then Inl IntegrityError
         else Inr (d\<lparr>financial_entries := financial_entries d @ [e]\<rparr>))"

definition find_order :: "string \<Rightarrow> 'z db_scheme \<Rightarrow> order_row option" where
  "find_order oid d = fetchone (\<lambda>r. o_order_id r = oid) (orders d)"

definition find_order_by_payment :: "string \<Rightarrow> 'z db_scheme \<Rightarrow> order_row option" where
  "find_order_by_payment pid d = fetchone (\<lambda>r. o_provider_payment_id r = Some pid) (orders d)"

definition find_quote :: "string \<Rightarrow> 'z db_scheme \<Rightarrow> quote_row option" where
  "find_quote qid d = fetchone (\<lambda>r. q_quote_id r = qid) (quotes d)"

definition require_order :: "string \<Rightarrow> 'z db_scheme \<Rightarrow> order_row res" where
  "require_order oid d =
     (case find_order oid d of None \<Rightarrow> Inl (Rejected ''unknown_order'') | Some r \<Rightarrow> Inr r)"

lemma require_order_Inr [txn_simps]: "require_order oid d = Inr r \<longleftrightarrow> find_order oid d = Some r"
  by (auto simp: require_order_def split: option.splits)

subsection \<open>Opening the store\<close>

text \<open>
  \<open>_initialize\<close>: the tables exist already (possibly empty) as fields of \<open>db\<close>; what is left
  is the check of the metadata against the environment, with the one supported migration.
\<close>

definition initialize :: "environment \<Rightarrow> ('z db_scheme, unit) txn" where
  "initialize env d =
     (let m = metadata d in
      if m = [] then
        Inr ((), d\<lparr>metadata := [(''schema_version'', STORE_SCHEMA_VERSION),
                               (''environment'', environment_value env)]\<rparr>)
      else if map_of m ''environment'' \<noteq> Some (environment_value env) then
        Inl (Rejected ''commerce_environment_mismatch'')
      else if map_of m ''schema_version'' = Some ''2'' then
        Inr ((), d\<lparr>metadata := update_where (\<lambda>kv. fst kv = ''schema_version'')
                                 (\<lambda>kv. (fst kv, STORE_SCHEMA_VERSION)) m\<rparr>)
      else if set m \<noteq> {(''schema_version'', STORE_SCHEMA_VERSION),
                        (''environment'', environment_value env)} then
        Inl (Rejected ''commerce_environment_mismatch'')
      else Inr ((), d))"

subsection \<open>The public view of an order\<close>

record public_order =
  ov_order :: order_row
  ov_direct_costs_minor :: "(string \<times> int) list"
  ov_gross_contribution_minor :: int
  ov_refund_status :: string
  ov_settlement_status :: string
  ov_pending_provider_events :: "(string \<times> string) list"

definition entries_of :: "string \<Rightarrow> 'z db_scheme \<Rightarrow> financial_entry list" where
  "entries_of oid d = filter (\<lambda>e. fe_order_id e = oid) (financial_entries d)"

definition category_amount :: "string \<Rightarrow> string \<Rightarrow> 'z db_scheme \<Rightarrow> int" where
  "category_amount oid c d =
     sum_list (map fe_amount_minor (filter (\<lambda>e. fe_category e = c) (entries_of oid d)))"

definition contribution :: "string \<Rightarrow> 'z db_scheme \<Rightarrow> int" where
  "contribution oid d = sum_list (map fe_impact_minor (entries_of oid d))"

definition pending_events :: "string \<Rightarrow> 'z db_scheme \<Rightarrow> event_row list" where
  "pending_events pid d = sort_key (\<lambda>e. (ev_received_at e, ev_event_id e))
     (filter (\<lambda>e. ev_payment_id e = pid \<and> ev_status e = Ev_Pending) (provider_events d))"

definition refund_status :: "payment_status \<Rightarrow> string" where
  "refund_status p =
     (if p = P_Refund_Pending then ''refund_pending'' else if p = P_Refunded then ''refunded''
      else if p = P_Disputed then ''disputed'' else ''not_refunded'')"

definition settlement_status :: "environment \<Rightarrow> order_row \<Rightarrow> string" where
  "settlement_status env r =
     (if env = Sandbox then ''sandbox_nonsettling''
      else if o_payment_status r = P_Available \<and> \<not> o_counts_for_goal r then ''available_not_goal_qualified''
      else if o_payment_status r = P_Available then ''available_goal_qualified''
      else if o_payment_status r = P_Captured then ''pending_provider_availability''
      else ''not_confirmed'')"

definition order_view_of :: "environment \<Rightarrow> order_row \<Rightarrow> 'z db_scheme \<Rightarrow> public_order" where
  "order_view_of env r d =
     \<lparr>ov_order = r,
      ov_direct_costs_minor = map (\<lambda>c. (c, category_amount (o_order_id r) c d)) DIRECT_COST_CATEGORIES,
      ov_gross_contribution_minor = contribution (o_order_id r) d,
      ov_refund_status = refund_status (o_payment_status r),
      ov_settlement_status = settlement_status env r,
      ov_pending_provider_events =
        (case o_provider_payment_id r of
           None \<Rightarrow> []
         | Some pid \<Rightarrow> if pid = [] then [] else map (\<lambda>e. (ev_event_id e, ev_type e)) (pending_events pid d))\<rparr>"

definition order_view :: "environment \<Rightarrow> string \<Rightarrow> 'z db_scheme \<Rightarrow> public_order res" where
  "order_view env oid d = and_then (require_order oid d) (\<lambda>r. Inr (order_view_of env r d))"

text \<open>\<open>return self._order_view(connection, order_id)\<close> at the end of a write.\<close>

definition view_after :: "environment \<Rightarrow> string \<Rightarrow> 'z db_scheme \<Rightarrow> exn + (public_order \<times> 'z db_scheme)" where
  "view_after env oid d = and_then (order_view env oid d) (\<lambda>v. Inr (v, d))"

lemma view_after_Inr [txn_simps]:
  "view_after env oid d = Inr (v, d') \<longleftrightarrow>
     (\<exists>r. find_order oid d = Some r \<and> v = order_view_of env r d) \<and> d' = d"
  by (auto simp: view_after_def order_view_def txn_simps)

end
