(* ===== verification/StoreOps.thy ===== *)
theory StoreOps
  imports CommerceStore "HOL-Library.Option_ord"
begin

section \<open>The commerce store: operations\<close>

text \<open>
  The public methods of \<open>CommerceStore\<close> and \<open>FakePaymentProvider\<close>, each as a
  transaction, in the order of \<^verbatim>\<open>commerce_store.py\<close>; and the reconciliation loop, a function
  whose termination rests on the number of pending events of the payment.
\<close>

subsection \<open>Quotes\<close>

text \<open>\<open>(generated_at.astimezone(utc) + timedelta(minutes=30))\<close> as text.\<close>

definition expires_in_30_minutes :: "pydatetime \<Rightarrow> string res" where
  "expires_in_30_minutes dt =
     and_then (astimezone_utc dt) (\<lambda>u.
     and_then (add_delta (Aware u 0) (30 * minute_us)) format_utc)"

definition orderable_quote ::
  "environment \<Rightarrow> string \<Rightarrow> pydatetime \<Rightarrow> quote_doc \<Rightarrow> quote_doc res" where
  "orderable_quote env payment_provider generated_at q =
     (if payment_provider = ''fake'' then
        Inr (seal_quote (q\<lparr>qd_quote_status := ''sandbox_orderable_nonsettling'',
          qd_availability := ''sandbox_fake_provider_only'', qd_settlement_available := False,
          qd_payment_options := [(''fake'', ''sandbox_only'')],
          qd_orderable := True, qd_counts_for_goal := Some False\<rparr>))
      else and_then (expires_in_30_minutes generated_at) (\<lambda>e.
        Inr (seal_quote (if env = Sandbox then
          q\<lparr>qd_expires_at := e, qd_quote_status := ''stripe_test_orderable_nonsettling'',
            qd_availability := ''stripe_test_mode_only'', qd_settlement_available := False,
            qd_payment_options := [(''stripe_checkout'', ''test_mode'')],
            qd_orderable := True, qd_counts_for_goal := Some False\<rparr>
        else
          q\<lparr>qd_expires_at := e, qd_quote_status := ''stripe_live_orderable_activation_acknowledged'',
            qd_availability := ''stripe_live_account_configured'', qd_settlement_available := True,
            qd_payment_options := [(''stripe_checkout'', ''live'')],
            qd_orderable := True, qd_counts_for_goal := Some False\<rparr>))))"

definition create_quote ::
  "environment \<Rightarrow> json \<Rightarrow> string \<Rightarrow> pydatetime \<Rightarrow> string \<Rightarrow> bool \<Rightarrow> ('z db_scheme, quote_doc) txn" where
  "create_quote env request_value quote_id generated_at payment_provider live_checkout_enabled d =
     reject_if (payment_provider \<noteq> ''fake'' \<and> payment_provider \<noteq> ''stripe'') bad_request
    (reject_if (payment_provider = ''fake'' \<and> env \<noteq> Sandbox) (Rejected ''commerce_live_not_enabled'')
    (reject_if (env = Live \<and> \<not> (payment_provider = ''stripe'' \<and> live_checkout_enabled))
       (Rejected ''commerce_live_not_enabled'')
    (and_then (parse_fresh_validation_request request_value) (\<lambda>request.
     and_then (build_fresh_validation_quote (request_json request) generated_at quote_id True) (\<lambda>preview.
     if qd_quote_status preview = ''declined_max_price'' then Inr (preview, d)
     else and_then (orderable_quote env payment_provider generated_at preview) (\<lambda>quote.
       (case find_quote quote_id d of
          Some row \<Rightarrow>
            reject_if (dumps (request_json (q_request row)) \<noteq> dumps (request_json request)
                \<or> dumps (quote_json (q_document row)) \<noteq> dumps (quote_json quote)
                \<or> qd_quote_digest (q_document row) \<noteq> qd_quote_digest quote)
              (Rejected ''idempotency_conflict'')
            (Inr (q_document row, d))
        | None \<Rightarrow>
            Inr (quote, d\<lparr>quotes := quotes d @
              [\<lparr>q_quote_id = quote_id, q_environment = env,
                q_request_digest = qd_request_digest quote, q_request = request,
                q_document = quote, q_amount_minor = qd_amount_minor quote,
                q_currency = FRESH_VALIDATION_CURRENCY, q_generated_at = qd_generated_at quote,
                q_expires_at = qd_expires_at quote, q_orderable = True,
                q_counts_for_goal = False\<rparr>]\<rparr>))))))))"

subsection \<open>Orders\<close>

definition quote_provider :: "quote_doc \<Rightarrow> string option" where
  "quote_provider q =
     (if qd_payment_options q = [(''fake'', ''sandbox_only'')] then Some ''fake''
      else case qd_payment_options q of
             [(p, _)] \<Rightarrow> if p = ''stripe_checkout'' then Some ''stripe'' else None
           | _ \<Rightarrow> None)"

definition derive_order_id :: "environment \<Rightarrow> string \<Rightarrow> string \<Rightarrow> string \<Rightarrow> string" where
  "derive_order_id env quote_id idempotency_key buyer_reference =
     (if env = Sandbox then ''ord_test_'' else ''ord_'') @
     take 24 (sha256_hex (quote_id @ [chr_of 0] @ idempotency_key @ [chr_of 0] @ buyer_reference))"

definition new_order ::
  "environment \<Rightarrow> string \<Rightarrow> quote_row \<Rightarrow> string \<Rightarrow> string \<Rightarrow> string \<Rightarrow> string \<Rightarrow> order_row" where
  "new_order env order_id quote idempotency_key buyer_reference provider timestamp =
     \<lparr>o_order_id = order_id, o_environment = env, o_quote_id = q_quote_id quote,
      o_idempotency_key = idempotency_key, o_buyer_reference = buyer_reference,
      o_provider = provider, o_provider_checkout_id = None, o_provider_payment_id = None,
      o_order_status = Checkout_Pending, o_payment_status = P_Pending,
      o_quoted_amount_minor = q_amount_minor quote, o_collected_amount_minor = 0,
      o_refunded_amount_minor = 0, o_processing_fee_minor = 0, o_currency = q_currency quote,
      o_direct_costs_recorded = False, o_receipt_id = None, o_receipt_sha256 = None,
      o_envelope_sha256 = None, o_signing_keyid = None, o_delivery_status = ''not_started'',
      o_counts_for_goal = False, o_created_at = timestamp, o_updated_at = timestamp\<rparr>"

definition create_order ::
  "environment \<Rightarrow> string \<Rightarrow> string \<Rightarrow> string \<Rightarrow> pydatetime \<Rightarrow> ('z db_scheme, public_order) txn" where
  "create_order env quote_id idempotency_key buyer_reference now d =
     reject_if (\<not> re_idempotency idempotency_key) bad_request
    (reject_if (\<not> re_buyer buyer_reference) bad_request
    (reject_if (is_naive now) bad_request
    (and_then (astimezone_utc now) (\<lambda>now_utc.
     let timestamp = iso_z now_utc in
     case fetchone (\<lambda>r. o_idempotency_key r = idempotency_key) (orders d) of
       Some row \<Rightarrow>
         reject_if (o_quote_id row \<noteq> quote_id \<or> o_buyer_reference row \<noteq> buyer_reference)
           (Rejected ''idempotency_conflict'')
         (view_after env (o_order_id row) d)
     | None \<Rightarrow>
         (case find_quote quote_id d of
            None \<Rightarrow> Inl (Rejected ''quote_not_orderable'')
          | Some quote \<Rightarrow>
              reject_if (q_environment quote \<noteq> env \<or> \<not> q_orderable quote) (Rejected ''quote_not_orderable'')
             (and_then (parse_timestamp (q_expires_at quote)) (\<lambda>expires.
              reject_if (now_utc \<ge> expires) (Rejected ''quote_expired'')
             (case quote_provider (q_document quote) of
                None \<Rightarrow> Inl (Rejected ''quote_not_orderable'')
              | Some provider \<Rightarrow>
                  reject_if (env = Live \<and> provider \<noteq> ''stripe'') (Rejected ''quote_not_orderable'')
                 (let order_id = derive_order_id env quote_id idempotency_key buyer_reference;
                      row = new_order env order_id quote idempotency_key buyer_reference provider timestamp
                  in and_then (on_integrity_error ''quote_already_used'' (write_orders (orders d @ [row]) d)) (\<lambda>d1.
                     view_after env order_id
                       (history order_id ''order'' None (order_status_value Checkout_Pending)
                          idempotency_key timestamp d1)))))))))))"

text \<open>\<open>attach_checkout\<close>: the identity checks of the two providers, then the binding.\<close>

definition checkout_identity ::
  "environment \<Rightarrow> string \<Rightarrow> string \<Rightarrow> string option \<Rightarrow> string option res" where
  "checkout_identity env provider checkout_id payment_id =
     (if provider = ''fake'' then
        reject_if (env \<noteq> Sandbox \<or> \<not> re_fake_payment_id checkout_id
            \<or> (payment_id \<noteq> None \<and> payment_id \<noteq> Some checkout_id)) bad_request
        (Inr (Some checkout_id))
      else if provider = ''stripe'' then
        reject_if (\<not> re_stripe_checkout_id checkout_id
            \<or> \<not> starts_with (if env = Sandbox then ''cs_test_'' else ''cs_live_'') checkout_id) bad_request
       (reject_if (case payment_id of None \<Rightarrow> False | Some p \<Rightarrow> \<not> re_stripe_payment_id p) bad_request
       (Inr payment_id))
      else Inl bad_request)"

definition attach_checkout ::
  "environment \<Rightarrow> string \<Rightarrow> string \<Rightarrow> string option \<Rightarrow> string \<Rightarrow> ('z db_scheme, public_order) txn" where
  "attach_checkout env order_id checkout_id payment_arg occurred_at d =
     and_then (parse_timestamp occurred_at) (\<lambda>_.
     and_then (require_order order_id d) (\<lambda>row.
     and_then (checkout_identity env (o_provider row) checkout_id payment_arg) (\<lambda>payment_id.
     if o_provider_checkout_id row \<noteq> None then
       reject_if (o_provider_checkout_id row \<noteq> Some checkout_id
           \<or> (payment_id \<noteq> None \<and> o_provider_payment_id row \<noteq> payment_id))
         (Rejected ''idempotency_conflict'')
       (view_after env order_id d)
     else
       and_then (require_transition (OrderSt (o_order_status row)) (OrderSt Payment_Pending)) (\<lambda>_.
       and_then (on_integrity_error ''idempotency_conflict''
         (update_order order_id (\<lambda>r. r\<lparr>o_provider_checkout_id := Some checkout_id,
            o_provider_payment_id := payment_id, o_order_status := Payment_Pending,
            o_updated_at := occurred_at\<rparr>) d)) (\<lambda>d1.
       view_after env order_id
         (history order_id ''order'' (Some (order_status_value (o_order_status row)))
            (order_status_value Payment_Pending) checkout_id occurred_at d1))))))"

definition bind_provider_payment ::
  "environment \<Rightarrow> string \<Rightarrow> string \<Rightarrow> string \<Rightarrow> string \<Rightarrow> ('z db_scheme, public_order) txn" where
  "bind_provider_payment env order_id payment_id checkout_id occurred_at d =
     reject_if (\<not> re_stripe_payment_id payment_id) bad_request
    (and_then (parse_timestamp occurred_at) (\<lambda>_.
     and_then (require_order order_id d) (\<lambda>row.
     reject_if (o_provider row \<noteq> ''stripe'' \<or> o_provider_checkout_id row \<noteq> Some checkout_id)
       (Rejected ''idempotency_conflict'')
    (if o_provider_payment_id row \<noteq> None then
       reject_if (o_provider_payment_id row \<noteq> Some payment_id) (Rejected ''idempotency_conflict'')
       (view_after env order_id d)
     else
       and_then (on_integrity_error ''idempotency_conflict''
         (update_order order_id (\<lambda>r. r\<lparr>o_provider_payment_id := Some payment_id,
            o_updated_at := occurred_at\<rparr>) d)) (view_after env order_id)))))"

subsection \<open>Provider events\<close>

definition EVENT_KEYS :: "string list" where
  "EVENT_KEYS = [''schema_version'', ''provider'', ''environment'', ''event_id'', ''type'',
     ''payment_id'', ''amount_minor'', ''fee_minor'', ''currency'', ''occurred_at'']"

abbreviation bad_event :: exn where
  "bad_event \<equiv> Rejected ''invalid_commerce_event''"

definition validate_event :: "environment \<Rightarrow> json \<Rightarrow> provider_event res" where
  "validate_event env value =
     (case value of
        JObj kvs \<Rightarrow>
          reject_if (\<not> has_keys EVENT_KEYS kvs) bad_event
         (let provider = jget_null kvs ''provider''; event_id = jget_null kvs ''event_id'';
              etype = jget_null kvs ''type''; payment_id = jget_null kvs ''payment_id'';
              amount = jget_null kvs ''amount_minor''; fee = jget_null kvs ''fee_minor'';
              occurred = jget_null kvs ''occurred_at''
          in reject_if (jget kvs ''schema_version'' \<noteq> Some (JStr ''1.0.0'')) bad_event
            (reject_if (\<not> hashable provider) TypeError
            (reject_if (provider \<noteq> JStr ''fake'' \<and> provider \<noteq> JStr ''stripe'') bad_event
            (reject_if (jget kvs ''environment'' \<noteq> Some (JStr (environment_value env))) bad_event
            (reject_if (\<not> str_matches re_event_id event_id) bad_event
            (reject_if (\<not> hashable etype) TypeError
            (reject_if (\<not> str_matches (\<lambda>t. event_target t \<noteq> None) etype) bad_event
            (reject_if (\<not> is_jstr payment_id) bad_event
            (reject_if (jget kvs ''currency'' \<noteq> Some (JStr FRESH_VALIDATION_CURRENCY)) bad_event
            (reject_if (provider = JStr ''fake'' \<and> (env \<noteq> Sandbox
                 \<or> \<not> str_matches (starts_with ''evt_test_'') event_id
                 \<or> \<not> str_matches re_fake_payment_id payment_id)) bad_event
            (reject_if (provider = JStr ''stripe'' \<and> \<not> str_matches re_stripe_payment_id payment_id) bad_event
            (reject_if (\<not> bounded_int 0 10000000 amount) bad_event
            (reject_if (\<not> bounded_int 0 10000000 fee) bad_event
            (reject_if (the_int fee > the_int amount) bad_event
            (reject_if (\<not> is_jstr occurred) bad_event
            (and_then (parse_timestamp (the_str occurred)) (\<lambda>_.
             Inr \<lparr>pe_provider = the_str provider, pe_environment = env,
                  pe_event_id = the_str event_id, pe_type = the_str etype,
                  pe_payment_id = the_str payment_id, pe_amount_minor = the_int amount,
                  pe_fee_minor = the_int fee, pe_occurred_at = the_str occurred\<rparr>)))))))))))))))))
      | _ \<Rightarrow> Inl bad_event)"

definition event_json :: "provider_event \<Rightarrow> json" where
  "event_json e = JObj
     [(''schema_version'', JStr ''1.0.0''), (''provider'', JStr (pe_provider e)),
      (''environment'', JStr (environment_value (pe_environment e))),
      (''event_id'', JStr (pe_event_id e)), (''type'', JStr (pe_type e)),
      (''payment_id'', JStr (pe_payment_id e)), (''amount_minor'', JInt (pe_amount_minor e)),
      (''fee_minor'', JInt (pe_fee_minor e)), (''currency'', JStr FRESH_VALIDATION_CURRENCY),
      (''occurred_at'', JStr (pe_occurred_at e))]"

definition set_event_status ::
  "string \<Rightarrow> event_status \<Rightarrow> string option \<Rightarrow> 'z db_scheme \<Rightarrow> 'z db_scheme" where
  "set_event_status eid st applied d = d\<lparr>provider_events :=
     update_where (\<lambda>e. ev_event_id e = eid)
       (\<lambda>e. e\<lparr>ev_status := st, ev_applied_at := (case applied of None \<Rightarrow> ev_applied_at e | Some a \<Rightarrow> Some a)\<rparr>)
       (provider_events d)\<rparr>"

definition mark_event :: "provider_event \<Rightarrow> event_status \<Rightarrow> 'z db_scheme \<Rightarrow> 'z db_scheme" where
  "mark_event e st d = set_event_status (pe_event_id e) st (Some (pe_occurred_at e)) d"

text \<open>
  The effect of an admissible event on the order, its ledger and its history: the body of
  the loop after \<open>require_transition\<close>.  \<open>None\<close> is the \<open>continue\<close> of a capture that finds
  the order not waiting for payment.
\<close>

definition apply_effect ::
  "provider_event \<Rightarrow> payment_status \<Rightarrow> order_row \<Rightarrow> 'z db_scheme \<Rightarrow> 'z db_scheme option res" where
  "apply_effect e target row d =
     (let oid = o_order_id row; at = pe_occurred_at e; eid = pe_event_id e; amt = pe_amount_minor e in
      if target = P_Captured \<and> o_order_status row \<noteq> Payment_Pending then Inr None
      else
        and_then
          (if target = P_Captured then
             and_then (update_order oid (\<lambda>r. r\<lparr>o_payment_status := P_Captured, o_order_status := Queued,
                o_collected_amount_minor := amt, o_processing_fee_minor := pe_fee_minor e,
                o_updated_at := at\<rparr>) d) (\<lambda>d1.
             and_then (add_financial_entry oid ''gross_collected'' amt amt eid at d1) (\<lambda>d2.
             add_financial_entry oid ''processing_fee'' (pe_fee_minor e) (- pe_fee_minor e) eid at d2))
           else if target = P_Failed then
             update_order oid (\<lambda>r. r\<lparr>o_payment_status := P_Failed, o_order_status := Payment_Failed,
                o_updated_at := at\<rparr>) d
           else if target = P_Refunded then
             and_then (update_order oid (\<lambda>r. r\<lparr>o_payment_status := P_Refunded,
                o_refunded_amount_minor := amt, o_updated_at := at\<rparr>) d) (\<lambda>d1.
             add_financial_entry oid ''refund'' amt (- amt) eid at d1)
           else
             update_order oid (\<lambda>r. r\<lparr>o_payment_status := target, o_updated_at := at\<rparr>) d)
          (\<lambda>d1.
           let d2 = history oid ''payment'' (Some (payment_status_value (o_payment_status row)))
                      (payment_status_value target) eid at d1;
               d3 = (if target = P_Captured then
                       history oid ''order'' (Some (order_status_value (o_order_status row)))
                         (order_status_value Queued) eid at d2
                     else if target = P_Failed then
                       history oid ''order'' (Some (order_status_value (o_order_status row)))
                         (order_status_value Payment_Failed) eid at d2
                     else d2)
           in Inr (Some (mark_event e Ev_Applied d3))))"

definition effect_matches :: "provider_event \<Rightarrow> payment_status \<Rightarrow> order_row \<Rightarrow> bool" where
  "effect_matches e target row \<longleftrightarrow>
     (target \<noteq> P_Captured \<or> pe_fee_minor e = o_processing_fee_minor row)
     \<and> (target \<noteq> P_Refunded \<or> pe_amount_minor e = o_refunded_amount_minor row)"

text \<open>One event of the loop: whether it made progress, and the database.\<close>

definition reconcile_event ::
  "string \<Rightarrow> event_row \<Rightarrow> bool \<times> 'z db_scheme \<Rightarrow> (bool \<times> 'z db_scheme) res" where
  "reconcile_event payment_id er acc =
     (case acc of (progress, d) \<Rightarrow>
        let e = ev_payload er in
        case find_order_by_payment payment_id d of
          None \<Rightarrow> Inl AssertionError
        | Some row \<Rightarrow>
            (case event_target (pe_type e) of
               None \<Rightarrow> Inl KeyError
             | Some target \<Rightarrow>
                 if pe_amount_minor e \<noteq> o_quoted_amount_minor row
                    \<or> FRESH_VALIDATION_CURRENCY \<noteq> o_currency row then
                   Inr (True, set_event_status (pe_event_id e) Ev_Rejected_Amount_Mismatch None d)
                 else if o_payment_status row = target then
                   Inr (True, mark_event e (if effect_matches e target row
                     then Ev_Applied_Duplicate_Effect else Ev_Rejected_Effect_Conflict) d)
                 else if require_transition (PaymentSt (o_payment_status row)) (PaymentSt target) \<noteq> Inr () then
                   Inr (progress, d)
                 else and_then (apply_effect e target row d) (\<lambda>r.
                   Inr (case r of None \<Rightarrow> (progress, d) | Some d1 \<Rightarrow> (True, d1)))))"

definition reconcile_round :: "string \<Rightarrow> 'z db_scheme \<Rightarrow> (bool \<times> 'z db_scheme) res" where
  "reconcile_round payment_id d =
     fold_res (reconcile_event payment_id) (pending_events payment_id d) (False, d)"

text \<open>
  \<open>_reconcile_payment\<close>: \<open>while made_progress\<close>.  \<open>None\<close> would be a loop that never ends.
\<close>

partial_function (option) reconcile_payment :: "string \<Rightarrow> 'z db_scheme \<Rightarrow> 'z db_scheme res option" where
  "reconcile_payment payment_id d =
     (case reconcile_round payment_id d of
        Inl e \<Rightarrow> Some (Inl e)
      | Inr (progress, d1) \<Rightarrow>
          (if progress then reconcile_payment payment_id d1 else Some (Inr d1)))"

definition run_reconcile :: "string \<Rightarrow> 'z db_scheme \<Rightarrow> 'z db_scheme res" where
  "run_reconcile payment_id d =
     (case reconcile_payment payment_id d of None \<Rightarrow> Inl NonTermination | Some r \<Rightarrow> r)"

definition find_event :: "string \<Rightarrow> 'z db_scheme \<Rightarrow> event_row option" where
  "find_event eid d = fetchone (\<lambda>e. ev_event_id e = eid) (provider_events d)"

record ingest_result =
  ir_duplicate :: bool
  ir_event_id :: string
  ir_event_status :: event_status
  ir_order :: public_order

definition payload_digest :: "provider_event \<Rightarrow> string" where
  "payload_digest e = sha256_hex (dumps (event_json e))"

definition pending_event_row :: "environment \<Rightarrow> string \<Rightarrow> provider_event \<Rightarrow> event_row" where
  "pending_event_row env received e =
     \<lparr>ev_event_id = pe_event_id e, ev_environment = env, ev_provider = pe_provider e,
      ev_payment_id = pe_payment_id e, ev_type = pe_type e, ev_payload_digest = payload_digest e,
      ev_payload = e, ev_status = Ev_Pending, ev_received_at = received, ev_applied_at = None\<rparr>"

text \<open>
  The duplicate branch subscripts the row of the order: \<open>None["order_id"]\<close> is a \<open>TypeError\<close>;
  so is the status of a row that is not there.
\<close>

definition ingest_provider_event ::
  "environment \<Rightarrow> json \<Rightarrow> string \<Rightarrow> ('z db_scheme, ingest_result) txn" where
  "ingest_provider_event env event_value received d =
     and_then (validate_event env event_value) (\<lambda>e.
     and_then (parse_timestamp received) (\<lambda>_.
     case find_event (pe_event_id e) d of
       Some existing \<Rightarrow>
         reject_if (ev_payload_digest existing \<noteq> payload_digest e) (Rejected ''provider_event_conflict'')
        (case find_order_by_payment (pe_payment_id e) d of
           None \<Rightarrow> Inl TypeError
         | Some order \<Rightarrow>
             and_then (order_view env (o_order_id order) d) (\<lambda>v.
             Inr (\<lparr>ir_duplicate = True, ir_event_id = pe_event_id e,
                   ir_event_status = ev_status existing, ir_order = v\<rparr>, d)))
     | None \<Rightarrow>
         (case find_order_by_payment (pe_payment_id e) d of
            None \<Rightarrow> Inl (Rejected ''unknown_provider_payment'')
          | Some order \<Rightarrow>
              reject_if (o_provider order \<noteq> pe_provider e) bad_event
             (and_then (run_reconcile (pe_payment_id e)
                (d\<lparr>provider_events := provider_events d @ [pending_event_row env received e]\<rparr>)) (\<lambda>d1.
              case find_event (pe_event_id e) d1 of
                None \<Rightarrow> Inl TypeError
              | Some er \<Rightarrow>
                  and_then (order_view env (o_order_id order) d1) (\<lambda>v.
                  Inr (\<lparr>ir_duplicate = False, ir_event_id = pe_event_id e,
                        ir_event_status = ev_status er, ir_order = v\<rparr>, d1)))))))"

subsection \<open>Direct costs, fulfilment and delivery\<close>

abbreviation bad_costs :: exn where
  "bad_costs \<equiv> Rejected ''invalid_cost_record''"

definition cost_of :: "(string \<times> json) list \<Rightarrow> string \<Rightarrow> int" where
  "cost_of costs c = the_int (jget_null costs c)"

definition record_direct_costs ::
  "environment \<Rightarrow> string \<Rightarrow> (string \<times> json) list \<Rightarrow> string \<Rightarrow> string \<Rightarrow> ('z db_scheme, public_order) txn" where
  "record_direct_costs env order_id costs idempotency_key timestamp d =
     reject_if (\<not> has_keys DIRECT_COST_CATEGORIES costs
         \<or> \<not> list_all (\<lambda>c. bounded_int 0 10000000 (jget_null costs c)) DIRECT_COST_CATEGORIES) bad_costs
    (reject_if (\<not> re_idempotency idempotency_key) bad_costs
    (and_then (parse_timestamp timestamp) (\<lambda>_.
     and_then (require_order order_id d) (\<lambda>order.
     case fetchone (\<lambda>r. cr_order_id r = order_id \<and> cr_idempotency_key r = idempotency_key) (cost_records d) of
       Some existing \<Rightarrow>
         reject_if (cr_costs_json existing \<noteq> dumps (JObj costs)) (Rejected ''idempotency_conflict'')
         (view_after env order_id d)
     | None \<Rightarrow>
         reject_if (o_direct_costs_recorded order) (Rejected ''costs_already_recorded'')
        (let d1 = d\<lparr>cost_records := cost_records d @
               [\<lparr>cr_order_id = order_id, cr_idempotency_key = idempotency_key,
                 cr_costs_json = dumps (JObj costs), cr_recorded_at = timestamp\<rparr>]\<rparr>
         in and_then (fold_res (\<lambda>c. add_financial_entry order_id c (cost_of costs c) (- cost_of costs c)
                         idempotency_key timestamp) DIRECT_COST_CATEGORIES d1) (\<lambda>d2.
            and_then (update_order order_id (\<lambda>r. r\<lparr>o_direct_costs_recorded := True,
                         o_updated_at := timestamp\<rparr>) d2) (view_after env order_id)))))))"

definition transition_order ::
  "environment \<Rightarrow> string \<Rightarrow> order_status \<Rightarrow> string \<Rightarrow> string \<Rightarrow> string \<Rightarrow> ('z db_scheme, public_order) txn" where
  "transition_order env order_id target source_reference occurred_at delivery_status d =
     and_then (parse_timestamp occurred_at) (\<lambda>_.
     and_then (require_order order_id d) (\<lambda>order.
     if o_order_status order = target then view_after env order_id d
     else and_then (require_transition (OrderSt (o_order_status order)) (OrderSt target)) (\<lambda>_.
       and_then (update_order order_id (\<lambda>r. r\<lparr>o_order_status := target,
          o_delivery_status := delivery_status, o_updated_at := occurred_at\<rparr>) d) (\<lambda>d1.
       view_after env order_id
         (history order_id ''order'' (Some (order_status_value (o_order_status order)))
            (order_status_value target) source_reference occurred_at d1)))))"

definition begin_fulfillment ::
  "environment \<Rightarrow> string \<Rightarrow> string \<Rightarrow> string \<Rightarrow> ('z db_scheme, public_order) txn" where
  "begin_fulfillment env order_id source_reference occurred_at =
     transition_order env order_id Running source_reference occurred_at ''running''"

definition fail_fulfillment ::
  "environment \<Rightarrow> string \<Rightarrow> string \<Rightarrow> string \<Rightarrow> ('z db_scheme, public_order) txn" where
  "fail_fulfillment env order_id source_reference occurred_at =
     transition_order env order_id Fulfillment_Failed source_reference occurred_at ''failed''"

abbreviation bad_delivery :: exn where
  "bad_delivery \<equiv> Rejected ''invalid_delivery''"

definition deliver ::
  "environment \<Rightarrow> string \<Rightarrow> string \<Rightarrow> string \<Rightarrow> string \<Rightarrow> string \<Rightarrow> string \<Rightarrow> string
    \<Rightarrow> ('z db_scheme, public_order) txn" where
  "deliver env order_id receipt_id receipt_sha256 envelope_sha256 signing_keyid source_reference occurred_at d =
     reject_if (\<not> re_receipt_id receipt_id) bad_delivery
    (reject_if (\<not> re_class is_hex 64 64 receipt_sha256) bad_delivery
    (reject_if (\<not> re_class is_hex 64 64 envelope_sha256) bad_delivery
    (reject_if (\<not> re_key_id signing_keyid) bad_delivery
    (and_then (parse_timestamp occurred_at) (\<lambda>_.
     and_then (require_order order_id d) (\<lambda>order.
     reject_if (\<not> o_direct_costs_recorded order) (Rejected ''cost_record_required'')
    (if o_order_status order = Delivered then
       reject_if (o_receipt_id order \<noteq> Some receipt_id \<or> o_receipt_sha256 order \<noteq> Some receipt_sha256
           \<or> o_envelope_sha256 order \<noteq> Some envelope_sha256 \<or> o_signing_keyid order \<noteq> Some signing_keyid)
         (Rejected ''idempotency_conflict'')
       (view_after env order_id d)
     else and_then (require_transition (OrderSt (o_order_status order)) (OrderSt Delivered)) (\<lambda>_.
       and_then (on_integrity_error ''idempotency_conflict''
         (update_order order_id (\<lambda>r. r\<lparr>o_order_status := Delivered, o_receipt_id := Some receipt_id,
            o_receipt_sha256 := Some receipt_sha256, o_envelope_sha256 := Some envelope_sha256,
            o_signing_keyid := Some signing_keyid, o_delivery_status := ''delivered'',
            o_updated_at := occurred_at\<rparr>) d)) (\<lambda>d1.
       view_after env order_id
         (history order_id ''order'' (Some (order_status_value (o_order_status order)))
            (order_status_value Delivered) source_reference occurred_at d1))))))))))"

subsection \<open>Queries\<close>

definition get_order :: "environment \<Rightarrow> string \<Rightarrow> 'z db_scheme \<Rightarrow> public_order res" where
  "get_order env order_id d = order_view env order_id d"

definition get_quote :: "environment \<Rightarrow> string \<Rightarrow> 'z db_scheme \<Rightarrow> quote_doc res" where
  "get_quote env quote_id d =
     (case fetchone (\<lambda>r. q_quote_id r = quote_id \<and> q_environment r = env) (quotes d) of
        None \<Rightarrow> Inl (Rejected ''object_not_found'')
      | Some row \<Rightarrow> Inr (q_document row))"

definition get_order_request :: "string \<Rightarrow> 'z db_scheme \<Rightarrow> fresh_request res" where
  "get_order_request order_id d =
     (case find_order order_id d of
        None \<Rightarrow> Inl (Rejected ''unknown_order'')
      | Some r \<Rightarrow>
          (case find_quote (o_quote_id r) d of
             None \<Rightarrow> Inl (Rejected ''unknown_order'')
           | Some q \<Rightarrow> Inr (q_request q)))"

definition list_delivered_orders :: "environment \<Rightarrow> 'z db_scheme \<Rightarrow> public_order list res" where
  "list_delivered_orders env d =
     map_res (\<lambda>r. order_view env (o_order_id r) d)
       (sort_key (\<lambda>r. (o_receipt_id r, o_order_id r))
          (filter (\<lambda>r. o_order_status r = Delivered) (orders d)))"

record financial_summary =
  fs_environment :: environment
  fs_orders :: nat
  fs_collected :: int
  fs_refunded :: int
  fs_fees :: int
  fs_ledger_contribution :: int
  fs_goal_contribution :: int
  fs_pending_events :: nat
  fs_goal_collected :: int

definition get_financial_summary :: "environment \<Rightarrow> 'z db_scheme \<Rightarrow> financial_summary" where
  "get_financial_summary env d =
     \<lparr>fs_environment = env, fs_orders = length (orders d),
      fs_collected = sum_list (map o_collected_amount_minor (orders d)),
      fs_refunded = sum_list (map o_refunded_amount_minor (orders d)),
      fs_fees = sum_list (map o_processing_fee_minor (orders d)),
      fs_ledger_contribution = sum_list (map fe_impact_minor (financial_entries d)),
      fs_goal_contribution = sum_list (concat (map (\<lambda>e.
         map (\<lambda>r. fe_impact_minor e)
           (filter (\<lambda>r. o_order_id r = fe_order_id e \<and> o_counts_for_goal r) (orders d)))
         (financial_entries d))),
      fs_pending_events = length (filter (\<lambda>e. ev_status e = Ev_Pending) (provider_events d)),
      fs_goal_collected =
        sum_list (map (\<lambda>r. if o_counts_for_goal r then o_collected_amount_minor r else 0) (orders d))\<rparr>"

subsection \<open>The fake payment provider\<close>

definition fake_provider :: "environment \<Rightarrow> unit res" where
  "fake_provider env = reject_if (env \<noteq> Sandbox) ValueError (Inr ())"

text \<open>\<open>str.encode("ascii")\<close> raises \<open>UnicodeEncodeError\<close>, a \<open>ValueError\<close>.\<close>

definition fake_payment_id :: "string \<Rightarrow> string res" where
  "fake_payment_id order_id =
     reject_if (\<not> is_ascii order_id) ValueError (Inr (''pay_test_'' @ take 24 (sha256_hex order_id)))"

definition fake_event_id :: "string \<Rightarrow> string \<Rightarrow> string res" where
  "fake_event_id payment_id event_type =
     (let text = payment_id @ [chr_of 0] @ event_type
      in reject_if (\<not> is_ascii text) ValueError (Inr (''evt_test_'' @ take 24 (sha256_hex text))))"

definition fake_create_checkout :: "string \<Rightarrow> string \<Rightarrow> ('z db_scheme, public_order) txn" where
  "fake_create_checkout order_id occurred_at d =
     and_then (fake_payment_id order_id) (\<lambda>pid.
     attach_checkout Sandbox order_id pid None occurred_at d)"

definition fake_event ::
  "string \<Rightarrow> string \<Rightarrow> string \<Rightarrow> int \<Rightarrow> ('z db_scheme, ingest_result) txn" where
  "fake_event order_id event_type occurred_at processing_fee_minor d =
     reject_if (event_target event_type = None) ValueError
    (and_then (get_order Sandbox order_id d) (\<lambda>v.
     case o_provider_payment_id (ov_order v) of
       None \<Rightarrow> Inl (Rejected ''unknown_provider_payment'')
     | Some payment_id \<Rightarrow>
         and_then (fake_event_id payment_id event_type) (\<lambda>event_id.
         ingest_provider_event Sandbox (JObj
           [(''schema_version'', JStr ''1.0.0''), (''provider'', JStr ''fake''),
            (''environment'', JStr ''sandbox''), (''event_id'', JStr event_id),
            (''type'', JStr event_type), (''payment_id'', JStr payment_id),
            (''amount_minor'', JInt (o_quoted_amount_minor (ov_order v))),
            (''fee_minor'', JInt (if event_type = ''payment.captured'' then processing_fee_minor else 0)),
            (''currency'', JStr (o_currency (ov_order v))), (''occurred_at'', JStr occurred_at)])
           occurred_at d)))"

end
