(* ===== verification/StoreInvariant.thy ===== *)
theory StoreInvariant
  imports StoreOps
begin

section \<open>The commerce store: well-formedness\<close>

text \<open>
  What every reachable store satisfies.  Four per-order predicates say what a row of
  \<open>orders\<close> means: \<open>row_ok\<close> (its columns are coherent), \<open>priced_ok\<close> (it was priced from its
  quote), \<open>ledger_ok\<close> (its financial entries are exactly the postings its columns call
  for) and \<open>trail_ok\<close> (its history is a run of the two state machines that ends in its current
  statuses).  \<open>store_ok\<close> is their conjunction with the keys and foreign keys of the schema.
\<close>

named_theorems ok_simps \<open>definitions of the parts of the invariant\<close>

subsection \<open>Rows\<close>

definition was_captured :: "payment_status \<Rightarrow> bool" where
  "was_captured p \<longleftrightarrow> p \<noteq> P_Pending \<and> p \<noteq> P_Failed"

text \<open>Which payment statuses an order status admits.\<close>

fun coherent :: "order_status \<Rightarrow> payment_status \<Rightarrow> bool" where
  "coherent Checkout_Pending p \<longleftrightarrow> p = P_Pending"
| "coherent Payment_Pending p \<longleftrightarrow> p = P_Pending"
| "coherent Payment_Failed p \<longleftrightarrow> p = P_Failed"
| "coherent Cancelled p \<longleftrightarrow> False"
| "coherent _ p \<longleftrightarrow> was_captured p"

fun delivery_status_of :: "order_status \<Rightarrow> string" where
  "delivery_status_of Running = ''running''"
| "delivery_status_of Delivered = ''delivered''"
| "delivery_status_of Fulfillment_Failed = ''failed''"
| "delivery_status_of _ = ''not_started''"

definition amounts_ok :: "order_row \<Rightarrow> bool" where
  "amounts_ok r \<longleftrightarrow> 0 \<le> o_quoted_amount_minor r
     \<and> o_collected_amount_minor r = (if was_captured (o_payment_status r) then o_quoted_amount_minor r else 0)
     \<and> o_refunded_amount_minor r = (if o_payment_status r = P_Refunded then o_quoted_amount_minor r else 0)
     \<and> 0 \<le> o_processing_fee_minor r \<and> o_processing_fee_minor r \<le> o_collected_amount_minor r"

definition checkout_ok :: "order_row \<Rightarrow> bool" where
  "checkout_ok r \<longleftrightarrow> (o_provider_checkout_id r = None \<longleftrightarrow> o_order_status r = Checkout_Pending)
     \<and> (o_provider_checkout_id r = None \<longrightarrow> o_provider_payment_id r = None)"

definition receipt_ok :: "order_row \<Rightarrow> bool" where
  "receipt_ok r \<longleftrightarrow> o_delivery_status r = delivery_status_of (o_order_status r)
     \<and> (if o_order_status r = Delivered
        then o_direct_costs_recorded r \<and> o_receipt_id r \<noteq> None \<and> o_receipt_sha256 r \<noteq> None
             \<and> o_envelope_sha256 r \<noteq> None \<and> o_signing_keyid r \<noteq> None
        else o_receipt_id r = None \<and> o_envelope_sha256 r = None)"

definition row_ok :: "environment \<Rightarrow> order_row \<Rightarrow> bool" where
  "row_ok env r \<longleftrightarrow> o_environment r = env \<and> \<not> o_counts_for_goal r
     \<and> (o_provider r = ''fake'' \<and> env = Sandbox \<or> o_provider r = ''stripe'')
     \<and> o_currency r = FRESH_VALIDATION_CURRENCY
     \<and> coherent (o_order_status r) (o_payment_status r)
     \<and> amounts_ok r \<and> checkout_ok r \<and> receipt_ok r"

definition quote_ok :: "environment \<Rightarrow> quote_row \<Rightarrow> bool" where
  "quote_ok env q \<longleftrightarrow> q_environment q = env \<and> 0 \<le> q_amount_minor q
     \<and> q_currency q = FRESH_VALIDATION_CURRENCY \<and> q_orderable q \<and> \<not> q_counts_for_goal q
     \<and> qd_quote_id (q_document q) = q_quote_id q \<and> qd_amount_minor (q_document q) = q_amount_minor q
     \<and> qd_expires_at (q_document q) = q_expires_at q \<and> qd_request (q_document q) = q_request q"

definition priced_ok :: "quote_row list \<Rightarrow> order_row \<Rightarrow> bool" where
  "priced_ok qs r \<longleftrightarrow> (\<exists>q \<in> set qs. q_quote_id q = o_quote_id r
     \<and> q_amount_minor q = o_quoted_amount_minor r \<and> q_currency q = o_currency r)"

definition event_ok :: "environment \<Rightarrow> event_row \<Rightarrow> bool" where
  "event_ok env er \<longleftrightarrow> (let e = ev_payload er in
     ev_event_id er = pe_event_id e \<and> ev_environment er = env \<and> ev_provider er = pe_provider e
     \<and> ev_payment_id er = pe_payment_id e \<and> ev_type er = pe_type e
     \<and> ev_payload_digest er = payload_digest e
     \<and> event_target (pe_type e) \<noteq> None \<and> 0 \<le> pe_fee_minor e \<and> pe_fee_minor e \<le> pe_amount_minor e)"

subsection \<open>The ledger\<close>

definition postings :: "string \<Rightarrow> string \<Rightarrow> financial_entry list \<Rightarrow> (int \<times> int) list" where
  "postings oid c es = map (\<lambda>e. (fe_amount_minor e, fe_impact_minor e))
     (filter (\<lambda>e. fe_order_id e = oid \<and> fe_category e = c) es)"

definition PAYMENT_CATEGORIES :: "string list" where
  "PAYMENT_CATEGORIES = [''gross_collected'', ''processing_fee'', ''refund'']"

definition ledger_ok :: "financial_entry list \<Rightarrow> order_row \<Rightarrow> bool" where
  "ledger_ok es r \<longleftrightarrow>
     postings (o_order_id r) ''gross_collected'' es =
       (if was_captured (o_payment_status r) then [(o_collected_amount_minor r, o_collected_amount_minor r)] else [])
     \<and> postings (o_order_id r) ''processing_fee'' es =
       (if was_captured (o_payment_status r) then [(o_processing_fee_minor r, - o_processing_fee_minor r)] else [])
     \<and> postings (o_order_id r) ''refund'' es =
       (if o_payment_status r = P_Refunded then [(o_refunded_amount_minor r, - o_refunded_amount_minor r)] else [])
     \<and> (\<forall>c \<in> set DIRECT_COST_CATEGORIES.
          if o_direct_costs_recorded r
          then \<exists>a. 0 \<le> a \<and> postings (o_order_id r) c es = [(a, - a)]
          else postings (o_order_id r) c es = [])"

definition entry_ok :: "order_row list \<Rightarrow> financial_entry \<Rightarrow> bool" where
  "entry_ok os e \<longleftrightarrow> fe_order_id e \<in> o_order_id ` set os
     \<and> fe_category e \<in> set (PAYMENT_CATEGORIES @ DIRECT_COST_CATEGORIES)"

subsection \<open>The history\<close>

text \<open>
  \<open>run_ends\<close>: the rows, read as (prior, new) pairs, are steps of a machine from the first
  status to the last, each starting where the one before it ended.
\<close>

fun run_ends :: "(string \<Rightarrow> string \<Rightarrow> bool) \<Rightarrow> string \<Rightarrow> (string option \<times> string) list \<Rightarrow> string \<Rightarrow> bool" where
  "run_ends step s [] t \<longleftrightarrow> s = t"
| "run_ends step s ((p, n) # xs) t \<longleftrightarrow> p = Some s \<and> step s n \<and> run_ends step n xs t"

lemma run_ends_snoc:
  "run_ends step s xs t \<Longrightarrow> step t u \<Longrightarrow> run_ends step s (xs @ [(Some t, u)]) u"
  by (induction step s xs t rule: run_ends.induct) auto

lemma run_ends_reaches: "run_ends step s xs t \<Longrightarrow> rtranclp step s t"
  by (induction step s xs t rule: run_ends.induct) (auto intro: converse_rtranclp_into_rtranclp)

definition order_step :: "string \<Rightarrow> string \<Rightarrow> bool" where
  "order_step a b \<longleftrightarrow> (\<exists>s t. a = order_status_value s \<and> b = order_status_value t
     \<and> t \<in> set (order_transitions s))"

definition payment_step :: "string \<Rightarrow> string \<Rightarrow> bool" where
  "payment_step a b \<longleftrightarrow> (\<exists>s t. a = payment_status_value s \<and> b = payment_status_value t
     \<and> t \<in> set (payment_transitions s))"

definition trail :: "string \<Rightarrow> string \<Rightarrow> history_row list \<Rightarrow> (string option \<times> string) list" where
  "trail dim oid hs = map (\<lambda>h. (h_prior_status h, h_new_status h))
     (filter (\<lambda>h. h_order_id h = oid \<and> h_dimension h = dim) hs)"

definition trail_ok :: "history_row list \<Rightarrow> order_row \<Rightarrow> bool" where
  "trail_ok hs r \<longleftrightarrow>
     (\<exists>t. trail ''order'' (o_order_id r) hs = (None, ''checkout_pending'') # t
        \<and> run_ends order_step ''checkout_pending'' t (order_status_value (o_order_status r)))
     \<and> run_ends payment_step ''pending'' (trail ''payment'' (o_order_id r) hs)
         (payment_status_value (o_payment_status r))"

subsection \<open>The invariant\<close>

definition order_ok :: "environment \<Rightarrow> 'z db_scheme \<Rightarrow> order_row \<Rightarrow> bool" where
  "order_ok env d r \<longleftrightarrow> row_ok env r \<and> priced_ok (quotes d) r
     \<and> ledger_ok (financial_entries d) r \<and> trail_ok (order_history d) r"

definition events_ok :: "environment \<Rightarrow> order_row list \<Rightarrow> event_row list \<Rightarrow> bool" where
  "events_ok env os evs \<longleftrightarrow> unique_on ev_event_id evs
     \<and> (\<forall>e \<in> set evs. event_ok env e \<and> Some (ev_payment_id e) \<in> o_provider_payment_id ` set os)"

definition store_ok :: "environment \<Rightarrow> 'z db_scheme \<Rightarrow> bool" where
  "store_ok env d \<longleftrightarrow> orders_unique (orders d) \<and> unique_on q_quote_id (quotes d)
     \<and> (\<forall>q \<in> set (quotes d). quote_ok env q)
     \<and> (\<forall>r \<in> set (orders d). order_ok env d r)
     \<and> events_ok env (orders d) (provider_events d)
     \<and> (\<forall>e \<in> set (financial_entries d). entry_ok (orders d) e)
     \<and> (\<forall>c \<in> set (cost_records d). cr_order_id c \<in> o_order_id ` set (orders d))
     \<and> (\<forall>h \<in> set (order_history d). h_order_id h \<in> o_order_id ` set (orders d))"

lemma store_ok_parts:
  assumes "store_ok env d"
  shows "orders_unique (orders d)" "unique_on q_quote_id (quotes d)"
    "\<And>q. q \<in> set (quotes d) \<Longrightarrow> quote_ok env q"
    "\<And>r. r \<in> set (orders d) \<Longrightarrow> order_ok env d r"
    "events_ok env (orders d) (provider_events d)"
    "\<And>e. e \<in> set (financial_entries d) \<Longrightarrow> entry_ok (orders d) e"
    "\<And>c. c \<in> set (cost_records d) \<Longrightarrow> cr_order_id c \<in> o_order_id ` set (orders d)"
    "\<And>h. h \<in> set (order_history d) \<Longrightarrow> h_order_id h \<in> o_order_id ` set (orders d)"
  using assms by (simp_all add: store_ok_def)

lemma orders_uniqueD:
  assumes "orders_unique os"
  shows "unique_on o_order_id os" "unique_nullable o_provider_payment_id os"
  using assms by (simp_all add: orders_unique_def)

lemma find_orderD: "find_order oid d = Some r \<Longrightarrow> r \<in> set (orders d) \<and> o_order_id r = oid"
  by (auto simp: find_order_def dest: find_SomeD)

lemma find_order_by_paymentD:
  "find_order_by_payment pid d = Some r \<Longrightarrow> r \<in> set (orders d) \<and> o_provider_payment_id r = Some pid"
  by (auto simp: find_order_by_payment_def dest: find_SomeD)

lemma find_order_ok: "store_ok env d \<Longrightarrow> find_order oid d = Some r \<Longrightarrow> order_ok env d r"
  by (auto dest!: find_orderD intro: store_ok_parts(4))

lemma empty_store_ok:
  "orders d = [] \<Longrightarrow> quotes d = [] \<Longrightarrow> provider_events d = [] \<Longrightarrow> financial_entries d = [] \<Longrightarrow>
   cost_records d = [] \<Longrightarrow> order_history d = [] \<Longrightarrow> store_ok env d"
  by (simp add: store_ok_def orders_unique_def events_ok_def)

text \<open>The invariant reads the six tables only.\<close>

lemma store_ok_cong:
  assumes "orders d' = orders d" "quotes d' = quotes d" "provider_events d' = provider_events d"
    "financial_entries d' = financial_entries d" "cost_records d' = cost_records d"
    "order_history d' = order_history d"
  shows "store_ok env d' = store_ok env d"
  using assms by (simp add: store_ok_def order_ok_def)

subsection \<open>Frame and update lemmas\<close>

lemma postings_append_other:
  "\<forall>e \<in> set new. fe_order_id e \<noteq> oid \<Longrightarrow> postings oid c (es @ new) = postings oid c es"
  by (auto simp: postings_def filter_empty_conv)

lemma trail_append_other:
  "\<forall>h \<in> set new. h_order_id h \<noteq> oid \<Longrightarrow> trail dim oid (hs @ new) = trail dim oid hs"
  by (auto simp: trail_def filter_empty_conv)

lemma order_ok_other:
  assumes "order_ok env d r" "quotes d' = quotes d"
    "financial_entries d' = financial_entries d @ es" "\<forall>e \<in> set es. fe_order_id e \<noteq> o_order_id r"
    "order_history d' = order_history d @ hs" "\<forall>h \<in> set hs. h_order_id h \<noteq> o_order_id r"
  shows "order_ok env d' r"
proof -
  have p: "postings (o_order_id r) c (financial_entries d') = postings (o_order_id r) c (financial_entries d)" for c
    unfolding assms(3) by (rule postings_append_other [OF assms(4)])
  have t: "trail dim (o_order_id r) (order_history d') = trail dim (o_order_id r) (order_history d)" for dim
    unfolding assms(5) by (rule trail_append_other [OF assms(6)])
  from assms(1) show ?thesis
    unfolding order_ok_def ledger_ok_def trail_ok_def p t assms(2) .
qed

text \<open>
  Every operation that touches an existing order is an instance: it changes one row and
  appends entries and history rows of that order.
\<close>

lemma store_ok_update_order:
  assumes ok: "store_ok env d" and r: "find_order oid d = Some r"
    and os: "orders d' = update_where (\<lambda>r. o_order_id r = oid) f (orders d)" "orders_unique (orders d')"
    and keys: "o_order_id (f r) = oid"
      "o_provider_payment_id r \<noteq> None \<Longrightarrow> o_provider_payment_id (f r) = o_provider_payment_id r"
    and same: "quotes d' = quotes d" "provider_events d' = provider_events d"
    and es: "financial_entries d' = financial_entries d @ es"
      "\<And>e. e \<in> set es \<Longrightarrow> fe_order_id e = oid \<and> fe_category e \<in> set (PAYMENT_CATEGORIES @ DIRECT_COST_CATEGORIES)"
    and hs: "order_history d' = order_history d @ hs" "\<And>h. h \<in> set hs \<Longrightarrow> h_order_id h = oid"
    and cs: "cost_records d' = cost_records d @ cs" "\<And>c. c \<in> set cs \<Longrightarrow> cr_order_id c = oid"
    and new: "order_ok env d' (f r)"
  shows "store_ok env d'"
proof -
  note uq = orders_uniqueD [OF store_ok_parts(1) [OF ok]]
  from r have rin: "r \<in> set (orders d)" and rid: "o_order_id r = oid" by (auto dest: find_orderD)
  have only: "x = r" if "x \<in> set (orders d)" "o_order_id x = oid" for x
    using that uq(1) rin rid by (metis unique_on_eq)
  have rows: "set (orders d') = insert (f r) (set (orders d) - {r})"
  proof -
    have "{x \<in> set (orders d). o_order_id x = oid} = {r}"
      "{x \<in> set (orders d). o_order_id x \<noteq> oid} = set (orders d) - {r}"
      using rin rid only by blast+
    then show ?thesis by (simp add: os(1) set_update_where)
  qed
  have ids: "o_order_id ` set (orders d') = o_order_id ` set (orders d)"
  proof -
    have "o_order_id ` set (orders d') = insert oid (o_order_id ` (set (orders d) - {r}))"
      using keys(1) by (simp add: rows)
    also have "\<dots> = o_order_id ` set (orders d)" using rin rid by blast
    finally show ?thesis .
  qed
  have pays: "Some p \<in> o_provider_payment_id ` set (orders d')"
    if "Some p \<in> o_provider_payment_id ` set (orders d)" for p
  proof -
    from that obtain x where x: "x \<in> set (orders d)" "o_provider_payment_id x = Some p" by force
    show ?thesis
    proof (cases "x = r")
      case True
      with x keys(2) have "o_provider_payment_id (f r) = Some p" by simp
      then show ?thesis by (force simp: rows)
    next
      case False
      with x show ?thesis by (force simp: rows)
    qed
  qed
  have others: "order_ok env d' x" if "x \<in> set (orders d)" "x \<noteq> r" for x
  proof (rule order_ok_other [OF _ same(1) es(1) _ hs(1)])
    show "order_ok env d x" by (rule store_ok_parts(4) [OF ok that(1)])
    have "o_order_id x \<noteq> oid" using only that by blast
    then show "\<forall>e \<in> set es. fe_order_id e \<noteq> o_order_id x" "\<forall>h \<in> set hs. h_order_id h \<noteq> o_order_id x"
      using es(2) hs(2) by auto
  qed
  have oids: "oid \<in> o_order_id ` set (orders d)" using rin rid by blast
  show ?thesis
    unfolding store_ok_def
  proof (intro conjI)
    show "events_ok env (orders d') (provider_events d')"
      using store_ok_parts(5) [OF ok] pays by (auto simp: events_ok_def same)
    show "\<forall>e \<in> set (financial_entries d'). entry_ok (orders d') e"
      using store_ok_parts(6) [OF ok] es(2) oids by (auto simp: entry_ok_def ids es(1))
    show "\<forall>c \<in> set (cost_records d'). cr_order_id c \<in> o_order_id ` set (orders d')"
      using store_ok_parts(7) [OF ok] cs oids by (auto simp: ids)
    show "\<forall>h \<in> set (order_history d'). h_order_id h \<in> o_order_id ` set (orders d')"
      using store_ok_parts(8) [OF ok] hs oids by (auto simp: ids)
    show "\<forall>x \<in> set (orders d'). order_ok env d' x" using new others by (auto simp: rows)
  qed (use os same store_ok_parts(2,3) [OF ok] in auto)
qed

lemma update_order_Inr [txn_simps]:
  "update_order oid f d = Inr d' \<longleftrightarrow>
     orders_unique (update_where (\<lambda>r. o_order_id r = oid) f (orders d))
     \<and> d' = d\<lparr>orders := update_where (\<lambda>r. o_order_id r = oid) f (orders d)\<rparr>"
  by (auto simp: update_order_def write_orders_def)

lemma history_tables [simp]:
  "orders (history oid dim p n s t d) = orders d" "quotes (history oid dim p n s t d) = quotes d"
  "provider_events (history oid dim p n s t d) = provider_events d"
  "financial_entries (history oid dim p n s t d) = financial_entries d"
  "cost_records (history oid dim p n s t d) = cost_records d"
  "metadata (history oid dim p n s t d) = metadata d" "db.more (history oid dim p n s t d) = db.more d"
  "order_history (history oid dim p n s t d) = order_history d @
     [\<lparr>h_order_id = oid, h_dimension = dim, h_prior_status = p, h_new_status = n,
       h_source_reference = s, h_occurred_at = t\<rparr>]"
  by (simp_all add: history_def)

lemma trail_order_step:
  assumes "trail_ok hs r" "o_order_status r' \<in> set (order_transitions (o_order_status r))"
    "o_order_id r' = o_order_id r" "o_payment_status r' = o_payment_status r"
    "h_order_id h = o_order_id r" "h_dimension h = ''order''"
    "h_prior_status h = Some (order_status_value (o_order_status r))"
    "h_new_status h = order_status_value (o_order_status r')"
  shows "trail_ok (hs @ [h]) r'"
proof -
  obtain t where t: "trail ''order'' (o_order_id r) hs = (None, ''checkout_pending'') # t"
    "run_ends order_step ''checkout_pending'' t (order_status_value (o_order_status r))"
    using assms(1) by (auto simp: trail_ok_def)
  have "order_step (order_status_value (o_order_status r)) (order_status_value (o_order_status r'))"
    using assms(2) by (auto simp: order_step_def)
  from run_ends_snoc [OF t(2) this] t(1) assms show ?thesis
    by (simp add: trail_ok_def trail_def)
qed

lemma trail_payment_step:
  assumes "trail_ok hs r" "o_payment_status r' \<in> set (payment_transitions (o_payment_status r))"
    "o_order_id r' = o_order_id r" "o_order_status r' = o_order_status r"
    "h_order_id h = o_order_id r" "h_dimension h = ''payment''"
    "h_prior_status h = Some (payment_status_value (o_payment_status r))"
    "h_new_status h = payment_status_value (o_payment_status r')"
  shows "trail_ok (hs @ [h]) r'"
proof -
  have "payment_step (payment_status_value (o_payment_status r)) (payment_status_value (o_payment_status r'))"
    using assms(2) by (auto simp: payment_step_def)
  moreover have "run_ends payment_step ''pending'' (trail ''payment'' (o_order_id r) hs)
      (payment_status_value (o_payment_status r))"
    using assms(1) by (simp add: trail_ok_def)
  ultimately have "run_ends payment_step ''pending''
      (trail ''payment'' (o_order_id r) hs @
        [(Some (payment_status_value (o_payment_status r)), payment_status_value (o_payment_status r'))])
      (payment_status_value (o_payment_status r'))"
    by (rule run_ends_snoc [rotated])
  with assms show ?thesis by (simp add: trail_ok_def trail_def)
qed

lemma trail_same:
  "o_order_id r' = o_order_id r \<Longrightarrow> o_order_status r' = o_order_status r \<Longrightarrow>
   o_payment_status r' = o_payment_status r \<Longrightarrow> trail_ok hs r' = trail_ok hs r"
  by (simp add: trail_ok_def)

lemma ledger_same:
  "o_order_id r' = o_order_id r \<Longrightarrow> o_payment_status r' = o_payment_status r \<Longrightarrow>
   o_collected_amount_minor r' = o_collected_amount_minor r \<Longrightarrow>
   o_processing_fee_minor r' = o_processing_fee_minor r \<Longrightarrow>
   o_refunded_amount_minor r' = o_refunded_amount_minor r \<Longrightarrow>
   o_direct_costs_recorded r' = o_direct_costs_recorded r \<Longrightarrow> ledger_ok es r' = ledger_ok es r"
  by (simp add: ledger_ok_def)

lemma to_payment_pending [simp]: "Payment_Pending \<in> set (order_transitions s) \<longleftrightarrow> s = Checkout_Pending"
  by (cases s) auto
lemma to_running [simp]: "Running \<in> set (order_transitions s) \<longleftrightarrow> s = Queued"
  by (cases s) auto
lemma to_delivered [simp]: "Delivered \<in> set (order_transitions s) \<longleftrightarrow> s = Running"
  by (cases s) auto
lemma to_fulfillment_failed [simp]:
  "Fulfillment_Failed \<in> set (order_transitions s) \<longleftrightarrow> s = Queued \<or> s = Running"
  by (cases s) auto

lemmas row_simps = row_ok_def amounts_ok_def checkout_ok_def receipt_ok_def priced_ok_def

subsection \<open>Checkout\<close>

text \<open>A step of the order machine that moves no money.\<close>

lemma store_ok_order_step:
  assumes ok: "store_ok env d" and r: "find_order oid d = Some r"
    and up: "update_order oid f d = Inr d1"
    and hist: "d' = history oid ''order'' (Some (order_status_value (o_order_status r))) (order_status_value t) s at d1"
    and step: "t \<in> set (order_transitions (o_order_status r))" "o_order_status (f r) = t"
    and keys: "o_order_id (f r) = oid" "o_quote_id (f r) = o_quote_id r"
      "o_payment_status (f r) = o_payment_status r"
      "o_provider_payment_id r \<noteq> None \<Longrightarrow> o_provider_payment_id (f r) = o_provider_payment_id r"
      "o_quoted_amount_minor (f r) = o_quoted_amount_minor r" "o_currency (f r) = o_currency r"
      "o_collected_amount_minor (f r) = o_collected_amount_minor r"
      "o_processing_fee_minor (f r) = o_processing_fee_minor r"
      "o_refunded_amount_minor (f r) = o_refunded_amount_minor r"
      "o_direct_costs_recorded (f r) = o_direct_costs_recorded r"
    and row: "row_ok env r \<Longrightarrow> row_ok env (f r)"
  shows "store_ok env d'"
proof -
  have rok: "order_ok env d r" and rid: "o_order_id r = oid"
    using find_order_ok [OF ok r] find_orderD [OF r] by auto
  have d1: "d1 = d\<lparr>orders := update_where (\<lambda>r. o_order_id r = oid) f (orders d)\<rparr>"
    "orders_unique (update_where (\<lambda>r. o_order_id r = oid) f (orders d))"
    using up by (simp_all add: update_order_Inr)
  let ?h = "\<lparr>h_order_id = oid, h_dimension = ''order'',
    h_prior_status = Some (order_status_value (o_order_status r)), h_new_status = order_status_value t,
    h_source_reference = s, h_occurred_at = at\<rparr>"
  have h: "order_history d' = order_history d @ [?h]" by (simp add: hist d1(1))
  have "row_ok env (f r)" using row rok by (simp add: order_ok_def)
  moreover have "priced_ok (quotes d) (f r)" using rok keys by (simp add: order_ok_def priced_ok_def)
  moreover have "ledger_ok (financial_entries d) (f r)"
    using rok ledger_same [of "f r" r] keys rid by (simp add: order_ok_def)
  moreover have "trail_ok (order_history d') (f r)"
    unfolding h by (rule trail_order_step [where r = r])
      (use rok step keys rid in \<open>auto simp: order_ok_def\<close>)
  ultimately have new: "order_ok env d' (f r)"
    by (simp add: order_ok_def hist d1(1))
  show ?thesis
    by (rule store_ok_update_order [OF ok r, where f = f and es = "[]" and hs = "[?h]" and cs = "[]"])
      (use new keys d1 in \<open>auto simp: hist\<close>)
qed

text \<open>A change of columns that the status, the price and the ledger do not depend on.\<close>

lemma store_ok_annotate:
  assumes ok: "store_ok env d" and r: "find_order oid d = Some r"
    and up: "update_order oid f d = Inr d'"
    and keys: "o_order_id (f r) = oid" "o_quote_id (f r) = o_quote_id r"
      "o_payment_status (f r) = o_payment_status r" "o_order_status (f r) = o_order_status r"
      "o_provider_payment_id r \<noteq> None \<Longrightarrow> o_provider_payment_id (f r) = o_provider_payment_id r"
      "o_quoted_amount_minor (f r) = o_quoted_amount_minor r" "o_currency (f r) = o_currency r"
      "o_collected_amount_minor (f r) = o_collected_amount_minor r"
      "o_processing_fee_minor (f r) = o_processing_fee_minor r"
      "o_refunded_amount_minor (f r) = o_refunded_amount_minor r"
      "o_direct_costs_recorded (f r) = o_direct_costs_recorded r"
    and row: "row_ok env r \<Longrightarrow> row_ok env (f r)"
  shows "store_ok env d'"
proof -
  have rok: "order_ok env d r" and rid: "o_order_id r = oid"
    using find_order_ok [OF ok r] find_orderD [OF r] by auto
  have d1: "d' = d\<lparr>orders := update_where (\<lambda>r. o_order_id r = oid) f (orders d)\<rparr>"
    "orders_unique (update_where (\<lambda>r. o_order_id r = oid) f (orders d))"
    using up by (simp_all add: update_order_Inr)
  have "row_ok env (f r)" using row rok by (simp add: order_ok_def)
  moreover have "priced_ok (quotes d) (f r)" using rok keys by (simp add: order_ok_def priced_ok_def)
  moreover have "ledger_ok (financial_entries d) (f r)"
    using rok ledger_same [of "f r" r] keys rid by (simp add: order_ok_def)
  moreover have "trail_ok (order_history d) (f r)"
    using rok trail_same [of "f r" r] keys rid by (simp add: order_ok_def)
  ultimately have new: "order_ok env d' (f r)"
    by (simp add: order_ok_def d1(1))
  show ?thesis
    by (rule store_ok_update_order [OF ok r, where f = f and es = "[]" and hs = "[]" and cs = "[]"])
      (use new keys d1 in auto)
qed

text \<open>The successful outcomes of each operation.\<close>

lemma attach_checkout_cases:
  assumes run: "attach_checkout env oid cid parg at d = Inr (v, d')"
  obtains (same) r where "find_order oid d = Some r" "o_provider_checkout_id r = Some cid" "d' = d"
  | (new) r pid d1 where "find_order oid d = Some r"
      "o_order_status r = Checkout_Pending" "o_provider_checkout_id r = None"
      "checkout_identity env (o_provider r) cid parg = Inr pid"
      "update_order oid (\<lambda>r. r\<lparr>o_provider_checkout_id := Some cid, o_provider_payment_id := pid,
            o_order_status := Payment_Pending, o_updated_at := at\<rparr>) d = Inr d1"
      "d' = history oid ''order'' (Some (order_status_value (o_order_status r)))
            (order_status_value Payment_Pending) cid at d1"
proof -
  obtain r pid where r: "find_order oid d = Some r" "checkout_identity env (o_provider r) cid parg = Inr pid"
    and rest: "if o_provider_checkout_id r \<noteq> None then o_provider_checkout_id r = Some cid \<and> d' = d
      else o_order_status r = Checkout_Pending \<and>
        (\<exists>d1. update_order oid (\<lambda>r. r\<lparr>o_provider_checkout_id := Some cid, o_provider_payment_id := pid,
            o_order_status := Payment_Pending, o_updated_at := at\<rparr>) d = Inr d1 \<and>
         d' = history oid ''order'' (Some (order_status_value (o_order_status r)))
            (order_status_value Payment_Pending) cid at d1)"
    using run unfolding attach_checkout_def
    by (auto simp: txn_simps simp del: require_transition.simps split: if_splits)
  show thesis
  proof (cases "o_provider_checkout_id r = None")
    case True
    with rest obtain d1 where "o_order_status r = Checkout_Pending"
        "update_order oid (\<lambda>r. r\<lparr>o_provider_checkout_id := Some cid, o_provider_payment_id := pid,
            o_order_status := Payment_Pending, o_updated_at := at\<rparr>) d = Inr d1"
         "d' = history oid ''order'' (Some (order_status_value (o_order_status r)))
            (order_status_value Payment_Pending) cid at d1" by auto
    with new [OF r(1) _ True r(2)] show thesis by blast
  next
    case False
    with rest same [OF r(1)] show thesis by simp
  qed
qed

lemma attach_checkout_ok:
  assumes ok: "store_ok env d" and run: "attach_checkout env oid cid parg at d = Inr (v, d')"
  shows "store_ok env d'"
  using run
proof (cases rule: attach_checkout_cases)
  case (new r pid d1)
  show ?thesis
    by (rule store_ok_order_step [OF ok new(1,5,6)])
      (use new find_orderD [OF new(1)] find_order_ok [OF ok new(1)] in \<open>auto simp: order_ok_def row_simps\<close>)
qed (use ok in simp)

lemma bind_provider_payment_cases:
  assumes run: "bind_provider_payment env oid pid cid at d = Inr (v, d')"
  obtains (same) r where "find_order oid d = Some r" "o_provider_payment_id r = Some pid" "d' = d"
  | (new) r where "find_order oid d = Some r" "o_provider_checkout_id r = Some cid" "o_provider_payment_id r = None"
      "o_provider r = ''stripe''"
      "update_order oid (\<lambda>r. r\<lparr>o_provider_payment_id := Some pid, o_updated_at := at\<rparr>) d = Inr d'"
proof -
  obtain r where r: "find_order oid d = Some r" "o_provider_checkout_id r = Some cid" "o_provider r = ''stripe''"
    and "o_provider_payment_id r = Some pid \<and> d' = d \<or> o_provider_payment_id r = None \<and>
      update_order oid (\<lambda>r. r\<lparr>o_provider_payment_id := Some pid, o_updated_at := at\<rparr>) d = Inr d'"
    using run unfolding bind_provider_payment_def by (auto simp: txn_simps split: if_splits)
  then show thesis using same [OF r(1)] new [OF r(1,2)] by (elim disjE conjE) simp_all
qed

lemma bind_provider_payment_ok:
  assumes ok: "store_ok env d" and run: "bind_provider_payment env oid pid cid at d = Inr (v, d')"
  shows "store_ok env d'"
  using run
proof (cases rule: bind_provider_payment_cases)
  case (new r)
  show ?thesis
    by (rule store_ok_annotate [OF ok new(1,5)])
      (use find_orderD [OF new(1)] new(2,3) in \<open>auto simp: row_simps\<close>)
qed (use ok in simp)

subsection \<open>Fulfilment\<close>

lemma transition_order_cases:
  assumes run: "transition_order env oid t src at ds d = Inr (v, d')"
  obtains (same) r where "find_order oid d = Some r" "o_order_status r = t" "d' = d"
  | (new) r d1 where "find_order oid d = Some r" "t \<in> set (order_transitions (o_order_status r))"
      "update_order oid (\<lambda>r. r\<lparr>o_order_status := t, o_delivery_status := ds, o_updated_at := at\<rparr>) d = Inr d1"
      "d' = history oid ''order'' (Some (order_status_value (o_order_status r))) (order_status_value t) src at d1"
proof -
  obtain r where r: "find_order oid d = Some r"
    and "o_order_status r = t \<and> d' = d \<or> t \<in> set (order_transitions (o_order_status r)) \<and>
      (\<exists>d1. update_order oid (\<lambda>r. r\<lparr>o_order_status := t, o_delivery_status := ds, o_updated_at := at\<rparr>) d = Inr d1
        \<and> d' = history oid ''order'' (Some (order_status_value (o_order_status r))) (order_status_value t) src at d1)"
    using run unfolding transition_order_def
    by (auto simp: txn_simps simp del: require_transition.simps split: if_splits)
  then show thesis using same [OF r] new [OF r] by (elim disjE conjE exE) simp_all
qed

lemma transition_order_ok:
  assumes ok: "store_ok env d" and run: "transition_order env oid t src at ds d = Inr (v, d')"
    and t: "t = Running \<and> ds = ''running'' \<or> t = Fulfillment_Failed \<and> ds = ''failed''"
  shows "store_ok env d'"
  using run
proof (cases rule: transition_order_cases)
  case (new r d1)
  show ?thesis
    by (rule store_ok_order_step [OF ok new(1,3,4,2)])
      (use find_orderD [OF new(1)] new(2) t in \<open>auto simp: row_simps\<close>)
qed (use ok in simp)

lemma begin_fulfillment_ok:
  "store_ok env d \<Longrightarrow> begin_fulfillment env oid src at d = Inr (v, d') \<Longrightarrow> store_ok env d'"
  unfolding begin_fulfillment_def by (erule (1) transition_order_ok) simp

lemma fail_fulfillment_ok:
  "store_ok env d \<Longrightarrow> fail_fulfillment env oid src at d = Inr (v, d') \<Longrightarrow> store_ok env d'"
  unfolding fail_fulfillment_def by (erule (1) transition_order_ok) simp

lemma deliver_cases:
  assumes run: "deliver env oid rid rsha esha kid src at d = Inr (v, d')"
  obtains (same) r where "find_order oid d = Some r" "o_order_status r = Delivered" "o_receipt_id r = Some rid"
      "o_receipt_sha256 r = Some rsha" "o_envelope_sha256 r = Some esha" "o_signing_keyid r = Some kid" "d' = d"
  | (new) r d1 where "find_order oid d = Some r" "o_direct_costs_recorded r" "o_order_status r = Running"
      "update_order oid (\<lambda>r. r\<lparr>o_order_status := Delivered, o_receipt_id := Some rid,
            o_receipt_sha256 := Some rsha, o_envelope_sha256 := Some esha,
            o_signing_keyid := Some kid, o_delivery_status := ''delivered'', o_updated_at := at\<rparr>) d = Inr d1"
      "d' = history oid ''order'' (Some (order_status_value (o_order_status r))) (order_status_value Delivered) src at d1"
proof -
  let ?f = "\<lambda>r. r\<lparr>o_order_status := Delivered, o_receipt_id := Some rid,
            o_receipt_sha256 := Some rsha, o_envelope_sha256 := Some esha,
            o_signing_keyid := Some kid, o_delivery_status := ''delivered'', o_updated_at := at\<rparr>"
  obtain r where r: "find_order oid d = Some r" "o_direct_costs_recorded r"
    and "o_order_status r = Delivered \<and> o_receipt_id r = Some rid \<and> o_receipt_sha256 r = Some rsha
        \<and> o_envelope_sha256 r = Some esha \<and> o_signing_keyid r = Some kid \<and> d' = d
      \<or> o_order_status r = Running \<and>
      (\<exists>d1. update_order oid ?f d = Inr d1
        \<and> d' = history oid ''order'' (Some (order_status_value (o_order_status r)))
             (order_status_value Delivered) src at d1)"
    using run unfolding deliver_def
    by (auto simp: txn_simps simp del: require_transition.simps split: if_splits)
  then show thesis using same [OF r(1)] new [OF r] by (elim disjE conjE exE) simp_all
qed

lemma deliver_ok:
  assumes ok: "store_ok env d" and run: "deliver env oid rid rsha esha kid src at d = Inr (v, d')"
  shows "store_ok env d'"
  using run
proof (cases rule: deliver_cases)
  case (new r d1)
  have "Delivered \<in> set (order_transitions (o_order_status r))" using new(3) by simp
  then show ?thesis
    by (rule store_ok_order_step [OF ok new(1,4,5)])
      (use find_orderD [OF new(1)] new(2,3) in \<open>auto simp: row_simps\<close>)
qed (use ok in simp)

subsection \<open>New quotes and orders\<close>

lemma store_ok_add_quote:
  assumes ok: "store_ok env d" and fresh: "find_quote (q_quote_id q) d = None" and q: "quote_ok env q"
  shows "store_ok env (d\<lparr>quotes := quotes d @ [q]\<rparr>)"
proof -
  have "q_quote_id q \<notin> q_quote_id ` set (quotes d)"
    using fresh by (auto simp: find_quote_def find_None_iff)
  moreover have "priced_ok (quotes d @ [q]) r" if "priced_ok (quotes d) r" for r
    using that by (auto simp: priced_ok_def)
  ultimately show ?thesis using ok q by (auto simp: store_ok_def order_ok_def)
qed

lemma orderable_quote_fields:
  assumes "orderable_quote env provider at p = Inr q"
  shows "qd_quote_id q = qd_quote_id p" "qd_amount_minor q = qd_amount_minor p" "qd_request q = qd_request p"
    "qd_orderable q" "qd_counts_for_goal q = Some False"
  using assms by (auto simp: orderable_quote_def and_then_def split: if_splits sum.splits)

lemma create_quote_cases:
  assumes run: "create_quote env req qid at prov live d = Inr (q, d')"
  obtains r p where "parse_fresh_validation_request req = Inr r"
    "build_fresh_validation_quote (request_json r) at qid True = Inr p" "d' = d"
  | r p where "parse_fresh_validation_request req = Inr r"
    "build_fresh_validation_quote (request_json r) at qid True = Inr p" 
    "find_quote qid d = None" "orderable_quote env prov at p = Inr q"
    "d' = d\<lparr>quotes := quotes d @
              [\<lparr>q_quote_id = qid, q_environment = env,
                q_request_digest = qd_request_digest q, q_request = r,
                q_document = q, q_amount_minor = qd_amount_minor q,
                q_currency = FRESH_VALIDATION_CURRENCY, q_generated_at = qd_generated_at q,
                q_expires_at = qd_expires_at q, q_orderable = True, q_counts_for_goal = False\<rparr>]\<rparr>"
proof -
  obtain r where r: "parse_fresh_validation_request req = Inr r" and 1: 
    "and_then (build_fresh_validation_quote (request_json r) at qid True) (\<lambda>preview.
     if qd_quote_status preview = ''declined_max_price'' then Inr (preview, d)
     else and_then (orderable_quote env prov at preview) (\<lambda>quote.
       (case find_quote qid d of
          Some row \<Rightarrow>
            reject_if (dumps (request_json (q_request row)) \<noteq> dumps (request_json r)
                \<or> dumps (quote_json (q_document row)) \<noteq> dumps (quote_json quote)
                \<or> qd_quote_digest (q_document row) \<noteq> qd_quote_digest quote)
              (Rejected ''idempotency_conflict'')
            (Inr (q_document row, d))
        | None \<Rightarrow>
            Inr (quote, d\<lparr>quotes := quotes d @
              [\<lparr>q_quote_id = qid, q_environment = env,
                q_request_digest = qd_request_digest quote, q_request = r,
                q_document = quote, q_amount_minor = qd_amount_minor quote,
                q_currency = FRESH_VALIDATION_CURRENCY, q_generated_at = qd_generated_at quote,
                q_expires_at = qd_expires_at quote, q_orderable = True,
                q_counts_for_goal = False\<rparr>]\<rparr>)))) = Inr (q, d')"
    using run unfolding create_quote_def and_then_Inr reject_if_Inr by blast
  show thesis
  proof (cases "find_quote qid d")
    case None
    with 1 r that show thesis unfolding and_then_Inr by (auto simp: txn_simps split: if_splits)
  next
    case (Some a)
    with 1 r that show thesis unfolding and_then_Inr reject_if_Inr option.case by (auto simp: and_then_Inr reject_if_Inr split: if_splits)
  qed
qed

lemma create_quote_ok:
  assumes ok: "store_ok env d" and run: "create_quote env req qid at prov live d = Inr (q, d')"
  shows "store_ok env d'"
  using run
proof (cases rule: create_quote_cases)
  case (2 r p)
  let ?row = "\<lparr>q_quote_id = qid, q_environment = env, q_request_digest = qd_request_digest q, q_request = r,
                q_document = q, q_amount_minor = qd_amount_minor q,
                q_currency = FRESH_VALIDATION_CURRENCY, q_generated_at = qd_generated_at q,
                q_expires_at = qd_expires_at q, q_orderable = True, q_counts_for_goal = False\<rparr>"
  have "parse_fresh_validation_request (request_json r) = Inr r"
    by (rule parse_request_json [OF parse_request_ok [OF 2(1)]])
  with build_quote_Inr [OF 2(2)] have
    "qd_request p = r" "qd_quote_id p = qid" "qd_amount_minor p = LEGACY_STRIPE_AMOUNT_MINOR"
    by (metis Inr_inject)+
  then have "quote_ok env ?row"
    using orderable_quote_fields [OF 2(4)] by (simp add: quote_ok_def LEGACY_STRIPE_AMOUNT_MINOR_def)
  then show ?thesis
    unfolding 2(5) by (intro store_ok_add_quote [OF ok]) (use 2(3) in simp_all)
qed (use ok in simp)

lemma write_orders_Inr [txn_simps]:
  "write_orders t d = Inr d' \<longleftrightarrow> orders_unique t \<and> d' = d\<lparr>orders := t\<rparr>"
  by (auto simp: write_orders_def)

lemma store_ok_add_order:
  assumes ok: "store_ok env d" and uq: "orders_unique (orders d @ [r])" and row: "row_ok env r"
    and priced: "priced_ok (quotes d) r"
    and fresh: "o_order_status r = Checkout_Pending" "o_payment_status r = P_Pending" "\<not> o_direct_costs_recorded r"
  shows "store_ok env (history (o_order_id r) ''order'' None (order_status_value Checkout_Pending) s at
    (d\<lparr>orders := orders d @ [r]\<rparr>))" (is "store_ok env ?d")
proof -
  have new: "o_order_id r \<notin> o_order_id ` set (orders d)"
    using uq by (simp add: orders_unique_def)
  have none: "\<forall>e \<in> set (financial_entries d). fe_order_id e \<noteq> o_order_id r"
    "\<forall>h \<in> set (order_history d). h_order_id h \<noteq> o_order_id r"
    using store_ok_parts(6,8) [OF ok] new unfolding entry_ok_def by metis+
  have p: "postings (o_order_id r) c (financial_entries d) = []" for c
    using none(1) by (auto simp: postings_def filter_empty_conv)
  have t: "trail dim (o_order_id r) (order_history d) = []" for dim
    using none(2) by (auto simp: trail_def filter_empty_conv)
  have "ledger_ok (financial_entries d) r" using fresh by (simp add: ledger_ok_def p was_captured_def)
  moreover have "trail_ok (order_history ?d) r"
    using fresh t by (simp add: trail_ok_def) (simp add: trail_def)
  ultimately have "order_ok env ?d r" using row priced by (simp add: order_ok_def)
  moreover have "order_ok env ?d x" if "x \<in> set (orders d)" for x
    by (rule order_ok_other [OF store_ok_parts(4) [OF ok that], where es = "[]"]) (use that new in auto)
  ultimately show ?thesis
    using ok uq by (auto simp: store_ok_def events_ok_def entry_ok_def)
qed

lemma create_order_cases:
  assumes run: "create_order env qid key buyer now d = Inr (v, d')"
  obtains (same) r where "fetchone (\<lambda>r. o_idempotency_key r = key) (orders d) = Some r"
      "o_quote_id r = qid" "o_buyer_reference r = buyer" "d' = d"
  | (new) q prov u exp where "fetchone (\<lambda>r. o_idempotency_key r = key) (orders d) = None"
      "find_quote qid d = Some q" "q_environment q = env" "q_orderable q"
      "quote_provider (q_document q) = Some prov" "env = Live \<longrightarrow> prov = ''stripe''"
      "astimezone_utc now = Inr u" "parse_timestamp (q_expires_at q) = Inr exp" "u < exp"
      "orders_unique (orders d @ [new_order env (derive_order_id env qid key buyer) q key buyer prov (iso_z u)])"
      "d' = history (derive_order_id env qid key buyer) ''order'' None (order_status_value Checkout_Pending) key (iso_z u)
          (d\<lparr>orders := orders d @ [new_order env (derive_order_id env qid key buyer) q key buyer prov (iso_z u)]\<rparr>)"
proof -
  let ?new = "\<lambda>q prov u. new_order env (derive_order_id env qid key buyer) q key buyer prov (iso_z u)"
  show thesis
  proof (cases "fetchone (\<lambda>r. o_idempotency_key r = key) (orders d)")
    case (Some r)
    with run have "o_quote_id r = qid \<and> o_buyer_reference r = buyer \<and> d' = d"
      unfolding create_order_def Let_def by (auto simp: txn_simps)
    with same [OF Some] show thesis by simp
  next
    case None
    note run = run[unfolded create_order_def Let_def None option.case]
    obtain u where u: "astimezone_utc now = Inr u"
      using run unfolding reject_if_Inr and_then_Inr by blast
    note run = run[unfolded u and_then_simps]
    obtain q where q: "find_quote qid d = Some q"
      using run by (cases "find_quote qid d") (auto simp: reject_if_Inr)
    note run = run[unfolded q option.case]
    obtain prov where p: "quote_provider (q_document q) = Some prov"
      using run by (cases "quote_provider (q_document q)") (auto simp: txn_simps)
    note run = run[unfolded p option.case]
    from run q u p obtain exp where "find_quote qid d = Some q" "q_environment q = env" "q_orderable q"
      "quote_provider (q_document q) = Some prov" "env = Live \<longrightarrow> prov = ''stripe''"
      "astimezone_utc now = Inr u" "parse_timestamp (q_expires_at q) = Inr exp" "u < exp"
      "orders_unique (orders d @ [?new q prov u])"
      "d' = history (derive_order_id env qid key buyer) ''order'' None (order_status_value Checkout_Pending) key (iso_z u)
          (d\<lparr>orders := orders d @ [?new q prov u]\<rparr>)"
      by (auto simp: txn_simps write_orders_Inr not_le)
    then show thesis by (rule new [OF None])
  qed
qed

lemma create_order_ok:
  assumes ok: "store_ok env d" and run: "create_order env qid key buyer now d = Inr (v, d')"
  shows "store_ok env d'"
  using run
proof (cases rule: create_order_cases)
  case (new q prov u exp)
  let ?r = "new_order env (derive_order_id env qid key buyer) q key buyer prov (iso_z u)"
  have q: "q \<in> set (quotes d)" "quote_ok env q"
    using new(2) store_ok_parts(3) [OF ok] by (auto simp: find_quote_def dest: find_SomeD)
  have prov: "prov = ''fake'' \<or> prov = ''stripe''"
    using new(5) by (auto simp: quote_provider_def split: if_splits list.splits)
  have "row_ok env ?r"
    using q(2) prov new(6) by (cases env) (auto simp: row_simps new_order_def quote_ok_def was_captured_def)
  moreover have "priced_ok (quotes d) ?r"
    using q(1) by (auto simp: priced_ok_def new_order_def)
  ultimately show ?thesis
    using store_ok_add_order [OF ok new(10)] unfolding new(11) by (simp add: new_order_def)
qed (use ok in simp)

subsection \<open>Direct costs\<close>

lemma add_financial_entry_Inr [txn_simps]:
  "add_financial_entry oid c a i s t d = Inr d' \<longleftrightarrow> 0 \<le> a
     \<and> (oid, c, s) \<notin> entry_key ` set (financial_entries d)
     \<and> d' = d\<lparr>financial_entries := financial_entries d @
         [\<lparr>fe_order_id = oid, fe_category = c, fe_amount_minor = a, fe_impact_minor = i,
           fe_source_reference = s, fe_recorded_at = t\<rparr>]\<rparr>"
  by (auto simp: add_financial_entry_def Let_def entry_key_def)

lemma add_entries:
  assumes "fold_res (\<lambda>c. add_financial_entry oid c (a c) (- a c) src at) cs d = Inr d'"
  shows "d' = d\<lparr>financial_entries := financial_entries d @
     map (\<lambda>c. \<lparr>fe_order_id = oid, fe_category = c, fe_amount_minor = a c, fe_impact_minor = - a c,
               fe_source_reference = src, fe_recorded_at = at\<rparr>) cs\<rparr>"
  using assms
proof (induction cs arbitrary: d)
  case (Cons c cs)
  from Cons.prems obtain d1 where
    "d1 = d\<lparr>financial_entries := financial_entries d @
       [\<lparr>fe_order_id = oid, fe_category = c, fe_amount_minor = a c, fe_impact_minor = - a c,
               fe_source_reference = src, fe_recorded_at = at\<rparr>]\<rparr>"
    "fold_res (\<lambda>c. add_financial_entry oid c (a c) (- a c) src at) cs d1 = Inr d'"
    by (auto simp: txn_simps)
  with Cons.IH [of d1] show ?case by simp
qed simp

lemma postings_costs:
  assumes "distinct cs" "\<And>x. x \<in> set cs \<Longrightarrow> postings oid x es = []"
  shows "postings oid c (es @ map (\<lambda>c. \<lparr>fe_order_id = oid, fe_category = c, fe_amount_minor = a c,
      fe_impact_minor = - a c, fe_source_reference = src, fe_recorded_at = at\<rparr>) cs) =
    (if c \<in> set cs then [(a c, - a c)] else postings oid c es)"
proof -
  have "filter (\<lambda>e. fe_order_id e = oid \<and> fe_category e = c)
     (map (\<lambda>c. \<lparr>fe_order_id = oid, fe_category = c, fe_amount_minor = a c,
      fe_impact_minor = - a c, fe_source_reference = src, fe_recorded_at = at\<rparr>) cs) =
     (if c \<in> set cs then [\<lparr>fe_order_id = oid, fe_category = c, fe_amount_minor = a c,
      fe_impact_minor = - a c, fe_source_reference = src, fe_recorded_at = at\<rparr>] else [])"
    using assms(1) by (induction cs) auto
  then show ?thesis using assms(2) [of c] by (auto simp: postings_def)
qed

lemma cost_categories: "distinct DIRECT_COST_CATEGORIES"
  "set PAYMENT_CATEGORIES \<inter> set DIRECT_COST_CATEGORIES = {}"
  by (simp_all add: DIRECT_COST_CATEGORIES_def PAYMENT_CATEGORIES_def)

lemma record_direct_costs_cases:
  assumes run: "record_direct_costs env oid costs key ts d = Inr (v, d')"
  obtains (same) "d' = d"
  | (new) r d2 where "find_order oid d = Some r" "\<not> o_direct_costs_recorded r"
      "\<forall>c \<in> set DIRECT_COST_CATEGORIES. 0 \<le> cost_of costs c"
      "d2 = d\<lparr>cost_records := cost_records d @ [\<lparr>cr_order_id = oid, cr_idempotency_key = key,
          cr_costs_json = dumps (JObj costs), cr_recorded_at = ts\<rparr>],
        financial_entries := financial_entries d @ map (\<lambda>c. \<lparr>fe_order_id = oid, fe_category = c,
          fe_amount_minor = cost_of costs c, fe_impact_minor = - cost_of costs c,
          fe_source_reference = key, fe_recorded_at = ts\<rparr>) DIRECT_COST_CATEGORIES\<rparr>"
      "update_order oid (\<lambda>r. r\<lparr>o_direct_costs_recorded := True, o_updated_at := ts\<rparr>) d2 = Inr d'"
proof -
  let ?c = "\<lparr>cr_order_id = oid, cr_idempotency_key = key, cr_costs_json = dumps (JObj costs), cr_recorded_at = ts\<rparr>"
  let ?d1 = "d\<lparr>cost_records := cost_records d @ [?c]\<rparr>"
  have nonneg: "\<forall>c \<in> set DIRECT_COST_CATEGORIES. 0 \<le> cost_of costs c"
    using run unfolding record_direct_costs_def
    by (auto simp: txn_simps list_all_iff cost_of_def dest: bounded_int_the_int)
  obtain r where r: "find_order oid d = Some r"
    and rest: "d' = d \<or> \<not> o_direct_costs_recorded r \<and> (\<exists>d2.
      fold_res (\<lambda>c. add_financial_entry oid c (cost_of costs c) (- cost_of costs c) key ts)
        DIRECT_COST_CATEGORIES ?d1 = Inr d2 \<and>
      update_order oid (\<lambda>r. r\<lparr>o_direct_costs_recorded := True, o_updated_at := ts\<rparr>) d2 = Inr d')"
    using run unfolding record_direct_costs_def Let_def
    by (auto simp: txn_simps simp del: fold_res.simps split: option.splits)
  from rest show thesis
  proof (elim disjE exE conjE)
    fix d2
    assume nr: "\<not> o_direct_costs_recorded r"
      and fold: "fold_res (\<lambda>c. add_financial_entry oid c (cost_of costs c) (- cost_of costs c) key ts)
        DIRECT_COST_CATEGORIES ?d1 = Inr d2"
      and up: "update_order oid (\<lambda>r. r\<lparr>o_direct_costs_recorded := True, o_updated_at := ts\<rparr>) d2 = Inr d'"
    show thesis by (rule new [OF r nr nonneg _ up]) (simp only: add_entries [OF fold], simp)
  qed (rule same)
qed

lemma record_direct_costs_ok:
  assumes ok: "store_ok env d" and run: "record_direct_costs env oid costs key ts d = Inr (v, d')"
  shows "store_ok env d'"
  using run
proof (cases rule: record_direct_costs_cases)
  case (new r d2)
  let ?f = "\<lambda>r. r\<lparr>o_direct_costs_recorded := True, o_updated_at := ts\<rparr>"
  let ?c = "\<lparr>cr_order_id = oid, cr_idempotency_key = key, cr_costs_json = dumps (JObj costs), cr_recorded_at = ts\<rparr>"
  let ?es = "map (\<lambda>c. \<lparr>fe_order_id = oid, fe_category = c, fe_amount_minor = cost_of costs c,
      fe_impact_minor = - cost_of costs c, fe_source_reference = key, fe_recorded_at = ts\<rparr>) DIRECT_COST_CATEGORIES"
  note r = new(1) and d2 = new(4)
  have d': "orders_unique (update_where (\<lambda>r. o_order_id r = oid) ?f (orders d))"
    "d' = d2\<lparr>orders := update_where (\<lambda>r. o_order_id r = oid) ?f (orders d)\<rparr>"
    using new(5) by (simp_all add: update_order_Inr d2)
  have rok: "order_ok env d r" and rid: "o_order_id r = oid"
    using find_order_ok [OF ok r] find_orderD [OF r] by auto
  have posts: "postings oid c (financial_entries d @ ?es) =
      (if c \<in> set DIRECT_COST_CATEGORIES then [(cost_of costs c, - cost_of costs c)]
       else postings oid c (financial_entries d))" for c
    by (rule postings_costs [OF cost_categories(1)])
      (use rok rid new(2) in \<open>auto simp: order_ok_def ledger_ok_def\<close>)
  have pay: "c \<notin> set DIRECT_COST_CATEGORIES" if "c \<in> set PAYMENT_CATEGORIES" for c
    using that cost_categories(2) by blast
  have "ledger_ok (financial_entries d @ ?es) (?f r)"
    using rok rid new(3) unfolding order_ok_def ledger_ok_def
    by (simp add: posts pay PAYMENT_CATEGORIES_def)
  moreover have "row_ok env (?f r)" using rok by (auto simp: order_ok_def row_simps)
  ultimately have "order_ok env d' (?f r)"
    using rok trail_same [of "?f r" r] by (simp add: order_ok_def d'(2) d2 priced_ok_def)
  then show ?thesis
    by (intro store_ok_update_order [OF ok r, where f = ?f and es = ?es and hs = "[]" and cs = "[?c]"])
      (use d' d2 rid in auto)
qed (use ok in simp)

end
