(* ===== verification/Reconcile.thy ===== *)
theory Reconcile
  imports StoreInvariant "HOL-Library.Sublist"
begin

section \<open>Provider events: reconciliation\<close>

text \<open>
  \<open>_reconcile_payment\<close> and \<open>ingest_provider_event\<close> on a well-formed store: the effect of an
  event keeps the invariant and never violates a constraint, the loop ends, and it ends in
  a state where no pending event of the payment is applicable.
\<close>

subsection \<open>Case tables\<close>

lemma to_captured [simp]: "P_Captured \<in> set (payment_transitions s) \<longleftrightarrow> s = P_Pending"
  by (cases s) auto
lemma to_failed [simp]: "P_Failed \<in> set (payment_transitions s) \<longleftrightarrow> s = P_Pending"
  by (cases s) auto
lemma to_refunded [simp]: "P_Refunded \<in> set (payment_transitions s) \<longleftrightarrow> s = P_Refund_Pending"
  by (cases s) auto
lemma not_to_pending [simp]: "P_Pending \<notin> set (payment_transitions s)"
  by (cases s) auto

lemma other_target:
  "t \<in> set (payment_transitions s) \<Longrightarrow> t \<noteq> P_Captured \<Longrightarrow> t \<noteq> P_Failed \<Longrightarrow> was_captured s \<and> was_captured t"
  by (cases s) (auto simp: was_captured_def)

lemma captured_not_refunded: "t \<in> set (payment_transitions s) \<Longrightarrow> s \<noteq> P_Refunded"
  by (cases s) auto

lemma to_queued [simp]: "Queued \<in> set (order_transitions s) \<longleftrightarrow> s = Payment_Pending"
  by (cases s) auto
lemma to_payment_failed [simp]: "Payment_Failed \<in> set (order_transitions s) \<longleftrightarrow> s = Payment_Pending"
  by (cases s) auto

text \<open>An order whose payment is bound and still pending is waiting for the payment.\<close>

lemma bound_pending:
  assumes "row_ok env r" "o_provider_payment_id r \<noteq> None" "o_payment_status r = P_Pending"
  shows "o_order_status r = Payment_Pending"
  using assms by (cases "o_order_status r") (auto simp: row_simps was_captured_def)

subsection \<open>Marking an event\<close>

lemma set_event_status_tables [simp]:
  "orders (set_event_status eid s a d) = orders d" "quotes (set_event_status eid s a d) = quotes d"
  "financial_entries (set_event_status eid s a d) = financial_entries d"
  "cost_records (set_event_status eid s a d) = cost_records d"
  "order_history (set_event_status eid s a d) = order_history d"
  "metadata (set_event_status eid s a d) = metadata d" "db.more (set_event_status eid s a d) = db.more d"
  by (simp_all add: set_event_status_def)

lemma mark_event_tables [simp]:
  "orders (mark_event e s d) = orders d" "quotes (mark_event e s d) = quotes d"
  "financial_entries (mark_event e s d) = financial_entries d"
  "cost_records (mark_event e s d) = cost_records d" "order_history (mark_event e s d) = order_history d"
  "metadata (mark_event e s d) = metadata d" "db.more (mark_event e s d) = db.more d"
  "provider_events (mark_event e s d) = provider_events (set_event_status (pe_event_id e) s (Some (pe_occurred_at e)) d)"
  by (simp_all add: mark_event_def)

lemma events_ok_update_status:
  "events_ok env os (update_where P (\<lambda>e. e\<lparr>ev_status := s, ev_applied_at := g e\<rparr>) evs) = events_ok env os evs"
proof -
  have "unique_on ev_event_id (update_where P (\<lambda>e. e\<lparr>ev_status := s, ev_applied_at := g e\<rparr>) evs) =
      unique_on ev_event_id evs"
    by (rule unique_on_update_where) simp
  moreover have "(\<forall>e \<in> set (update_where P (\<lambda>e. e\<lparr>ev_status := s, ev_applied_at := g e\<rparr>) evs).
        event_ok env e \<and> Some (ev_payment_id e) \<in> X) =
      (\<forall>e \<in> set evs. event_ok env e \<and> Some (ev_payment_id e) \<in> X)" for X
    by (induction evs) (auto simp: update_where_def event_ok_def Let_def)
  ultimately show ?thesis by (simp only: events_ok_def)
qed

lemma events_ok_set_status:
  "events_ok env os (provider_events (set_event_status eid s a d)) = events_ok env os (provider_events d)"
  by (simp add: set_event_status_def events_ok_update_status)

lemma store_ok_set_event_status [simp]: "store_ok env (set_event_status eid s a d) = store_ok env d"
  by (simp add: store_ok_def order_ok_def events_ok_set_status)

lemma store_ok_mark_event [simp]: "store_ok env (mark_event e s d) = store_ok env d"
  by (simp add: mark_event_def)

subsection \<open>The effect of an event\<close>

lemma postings_append:
  "postings oid c (es @ new) = postings oid c es @ postings oid c new"
  by (simp add: postings_def)

lemma postings_eqs [simp]:
  "postings oid c [] = []"
  "postings oid c (e # es) = (if fe_order_id e = oid \<and> fe_category e = c
     then (fe_amount_minor e, fe_impact_minor e) # postings oid c es else postings oid c es)"
  by (simp_all add: postings_def)

text \<open>The three histories an effect writes.\<close>

lemma trail_payment_only:
  assumes "trail_ok hs r" "o_payment_status r' \<in> set (payment_transitions (o_payment_status r))"
    "o_order_id r' = o_order_id r" "o_order_status r' = o_order_status r"
  shows "trail_ok (hs @ [\<lparr>h_order_id = o_order_id r, h_dimension = ''payment'',
      h_prior_status = Some (payment_status_value (o_payment_status r)),
      h_new_status = payment_status_value (o_payment_status r'), h_source_reference = src, h_occurred_at = at\<rparr>]) r'"
  by (rule trail_payment_step [OF assms]) simp_all

lemma trail_both:
  assumes "trail_ok hs r" "o_payment_status r' \<in> set (payment_transitions (o_payment_status r))"
    "o_order_status r' \<in> set (order_transitions (o_order_status r))" "o_order_id r' = o_order_id r"
  shows "trail_ok (hs @ [\<lparr>h_order_id = o_order_id r, h_dimension = ''payment'',
      h_prior_status = Some (payment_status_value (o_payment_status r)),
      h_new_status = payment_status_value (o_payment_status r'), h_source_reference = src, h_occurred_at = at\<rparr>,
      \<lparr>h_order_id = o_order_id r, h_dimension = ''order'',
      h_prior_status = Some (order_status_value (o_order_status r)),
      h_new_status = order_status_value (o_order_status r'), h_source_reference = src, h_occurred_at = at\<rparr>]) r'"
proof -
  let ?m = "r'\<lparr>o_order_status := o_order_status r\<rparr>"
  have "trail_ok (hs @ [\<lparr>h_order_id = o_order_id r, h_dimension = ''payment'',
      h_prior_status = Some (payment_status_value (o_payment_status r)),
      h_new_status = payment_status_value (o_payment_status ?m), h_source_reference = src, h_occurred_at = at\<rparr>]) ?m"
    by (rule trail_payment_only [OF assms(1)]) (use assms in simp_all)
  from trail_order_step [OF this, of r' "\<lparr>h_order_id = o_order_id r, h_dimension = ''order'',
      h_prior_status = Some (order_status_value (o_order_status r)),
      h_new_status = order_status_value (o_order_status r'), h_source_reference = src, h_occurred_at = at\<rparr>"] assms
  show ?thesis by simp
qed

text \<open>What the effect writes, by target.\<close>

definition effect_row :: "provider_event \<Rightarrow> payment_status \<Rightarrow> order_row \<Rightarrow> order_row" where
  "effect_row e t r =
     (let r1 = r\<lparr>o_payment_status := t, o_updated_at := pe_occurred_at e\<rparr> in
      if t = P_Captured then r1\<lparr>o_order_status := Queued, o_collected_amount_minor := pe_amount_minor e,
        o_processing_fee_minor := pe_fee_minor e\<rparr>
      else if t = P_Failed then r1\<lparr>o_order_status := Payment_Failed\<rparr>
      else if t = P_Refunded then r1\<lparr>o_refunded_amount_minor := pe_amount_minor e\<rparr>
      else r1)"

definition effect_entries :: "provider_event \<Rightarrow> payment_status \<Rightarrow> order_row \<Rightarrow> financial_entry list" where
  "effect_entries e t r =
     (let mk = (\<lambda>c a i. \<lparr>fe_order_id = o_order_id r, fe_category = c, fe_amount_minor = a,
          fe_impact_minor = i, fe_source_reference = pe_event_id e, fe_recorded_at = pe_occurred_at e\<rparr>) in
      if t = P_Captured then [mk ''gross_collected'' (pe_amount_minor e) (pe_amount_minor e),
        mk ''processing_fee'' (pe_fee_minor e) (- pe_fee_minor e)]
      else if t = P_Refunded then [mk ''refund'' (pe_amount_minor e) (- pe_amount_minor e)] else [])"

definition effect_history :: "provider_event \<Rightarrow> payment_status \<Rightarrow> order_row \<Rightarrow> history_row list" where
  "effect_history e t r =
     (let mk = (\<lambda>dim p n. \<lparr>h_order_id = o_order_id r, h_dimension = dim, h_prior_status = Some p,
          h_new_status = n, h_source_reference = pe_event_id e, h_occurred_at = pe_occurred_at e\<rparr>);
          p = mk ''payment'' (payment_status_value (o_payment_status r)) (payment_status_value t) in
      if t = P_Captured then [p, mk ''order'' (order_status_value (o_order_status r)) (order_status_value Queued)]
      else if t = P_Failed then [p, mk ''order'' (order_status_value (o_order_status r)) (order_status_value Payment_Failed)]
      else [p])"

definition effect_db :: "provider_event \<Rightarrow> payment_status \<Rightarrow> order_row \<Rightarrow> 'z db_scheme \<Rightarrow> 'z db_scheme" where
  "effect_db e t r d = mark_event e Ev_Applied (d\<lparr>
     orders := update_where (\<lambda>x. o_order_id x = o_order_id r) (effect_row e t) (orders d),
     financial_entries := financial_entries d @ effect_entries e t r,
     order_history := order_history d @ effect_history e t r\<rparr>)"

lemmas effect_defs = effect_row_def effect_entries_def effect_history_def Let_def

lemma effect_row_fun:
  "effect_row e P_Captured = (\<lambda>r. r\<lparr>o_payment_status := P_Captured, o_order_status := Queued,
     o_collected_amount_minor := pe_amount_minor e, o_processing_fee_minor := pe_fee_minor e,
     o_updated_at := pe_occurred_at e\<rparr>)"
  "effect_row e P_Failed = (\<lambda>r. r\<lparr>o_payment_status := P_Failed, o_order_status := Payment_Failed,
     o_updated_at := pe_occurred_at e\<rparr>)"
  "effect_row e P_Refunded = (\<lambda>r. r\<lparr>o_payment_status := P_Refunded,
     o_refunded_amount_minor := pe_amount_minor e, o_updated_at := pe_occurred_at e\<rparr>)"
  "t \<noteq> P_Captured \<Longrightarrow> t \<noteq> P_Failed \<Longrightarrow> t \<noteq> P_Refunded \<Longrightarrow>
     effect_row e t = (\<lambda>r. r\<lparr>o_payment_status := t, o_updated_at := pe_occurred_at e\<rparr>)"
  by (simp_all add: effect_row_def Let_def fun_eq_iff)

lemma effect_row_keys [simp]:
  "o_order_id (effect_row e t r) = o_order_id r" "o_quote_id (effect_row e t r) = o_quote_id r"
  "o_idempotency_key (effect_row e t r) = o_idempotency_key r"
  "o_provider_payment_id (effect_row e t r) = o_provider_payment_id r"
  "o_provider_checkout_id (effect_row e t r) = o_provider_checkout_id r"
  "o_receipt_id (effect_row e t r) = o_receipt_id r" "o_envelope_sha256 (effect_row e t r) = o_envelope_sha256 r"
  "o_payment_status (effect_row e t r) = t"
  "o_quoted_amount_minor (effect_row e t r) = o_quoted_amount_minor r"
  "o_currency (effect_row e t r) = o_currency r"
  "o_direct_costs_recorded (effect_row e t r) = o_direct_costs_recorded r"
  "o_provider (effect_row e t r) = o_provider r"
  by (simp_all add: effect_row_def Let_def)

lemma orders_unique_keys:
  assumes "\<And>r. o_order_id (f r) = o_order_id r" "\<And>r. o_quote_id (f r) = o_quote_id r"
    "\<And>r. o_idempotency_key (f r) = o_idempotency_key r"
    "\<And>r. o_provider_payment_id (f r) = o_provider_payment_id r"
    "\<And>r. o_provider_checkout_id (f r) = o_provider_checkout_id r" "\<And>r. o_receipt_id (f r) = o_receipt_id r"
  shows "orders_unique (update_where P f os) = orders_unique os"
  by (simp add: orders_unique_def unique_on_update_where unique_nullable_update_where assms)

definition effect_pre :: "provider_event \<Rightarrow> payment_status \<Rightarrow> order_row \<Rightarrow> bool" where
  "effect_pre e t r \<longleftrightarrow> t \<in> set (payment_transitions (o_payment_status r))
     \<and> pe_amount_minor e = o_quoted_amount_minor r \<and> 0 \<le> pe_fee_minor e \<and> pe_fee_minor e \<le> pe_amount_minor e
     \<and> o_provider_payment_id r \<noteq> None"

text \<open>The cases of an admissible effect.\<close>

lemma effect_pre_cases:
  assumes "row_ok env r" "effect_pre e t r"
  obtains (cap) "t = P_Captured" "o_payment_status r = P_Pending" "o_order_status r = Payment_Pending"
  | (fail) "t = P_Failed" "o_payment_status r = P_Pending" "o_order_status r = Payment_Pending"
  | (refund) "t = P_Refunded" "o_payment_status r = P_Refund_Pending"
  | (other) "t \<noteq> P_Captured" "t \<noteq> P_Failed" "t \<noteq> P_Refunded" "was_captured t"
      "was_captured (o_payment_status r)" "o_payment_status r \<noteq> P_Refunded"
proof -
  have t: "t \<in> set (payment_transitions (o_payment_status r))" "o_provider_payment_id r \<noteq> None"
    using assms(2) by (auto simp: effect_pre_def)
  show thesis
    using that t bound_pending [OF assms(1) t(2)] other_target [OF t(1)] captured_not_refunded [OF t(1)]
    by (cases "t = P_Captured \<or> t = P_Failed \<or> t = P_Refunded") auto
qed

lemma effect_row_ok:
  assumes "row_ok env r" "effect_pre e t r"
  shows "row_ok env (effect_row e t r)"
  using assms
proof (cases rule: effect_pre_cases)
  case other
  then show ?thesis using assms
    by (cases "o_order_status r") (auto simp: row_simps effect_pre_def effect_row_def Let_def was_captured_def)
next
  case refund
  then show ?thesis using assms
    by (cases "o_order_status r") (auto simp: row_simps effect_pre_def effect_row_def Let_def was_captured_def)
qed (use assms in \<open>auto simp: row_simps effect_pre_def effect_row_def Let_def was_captured_def\<close>)

lemma effect_ledger_ok:
  assumes "row_ok env r" "effect_pre e t r" "ledger_ok es r"
  shows "ledger_ok (es @ effect_entries e t r) (effect_row e t r)"
proof -
  have costs: "postings (o_order_id r) c (effect_entries e t r) = []" if "c \<in> set DIRECT_COST_CATEGORIES" for c
    using that by (auto simp: effect_entries_def Let_def DIRECT_COST_CATEGORIES_def)
  have rest: "\<forall>c\<in>set DIRECT_COST_CATEGORIES.
        if o_direct_costs_recorded r
        then \<exists>a\<ge>0. postings (o_order_id r) c (es @ effect_entries e t r) = [(a, - a)]
        else postings (o_order_id r) c (es @ effect_entries e t r) = []"
    using assms(3) by (simp add: ledger_ok_def postings_append costs)
  have l: "postings (o_order_id r) ''gross_collected'' es =
       (if was_captured (o_payment_status r) then [(o_collected_amount_minor r, o_collected_amount_minor r)] else [])"
     "postings (o_order_id r) ''processing_fee'' es =
       (if was_captured (o_payment_status r) then [(o_processing_fee_minor r, - o_processing_fee_minor r)] else [])"
     "postings (o_order_id r) ''refund'' es =
       (if o_payment_status r = P_Refunded then [(o_refunded_amount_minor r, - o_refunded_amount_minor r)] else [])"
    using assms(3) by (simp_all add: ledger_ok_def)
  show ?thesis
    unfolding ledger_ok_def effect_row_keys
    by (rule effect_pre_cases [OF assms(1,2)]; intro conjI rest;
        simp add: postings_append l effect_defs was_captured_def)
qed

lemma effect_trail_ok:
  assumes "row_ok env r" "effect_pre e t r" "trail_ok hs r"
  shows "trail_ok (hs @ effect_history e t r) (effect_row e t r)"
proof -
  have t: "t \<in> set (payment_transitions (o_payment_status r))" using assms(2) by (simp add: effect_pre_def)
  from assms(1,2) show ?thesis
  proof (cases rule: effect_pre_cases)
    case cap
    with trail_both [OF assms(3), of "effect_row e t r"] show ?thesis by (simp add: effect_defs)
  next
    case fail
    with trail_both [OF assms(3), of "effect_row e t r"] show ?thesis by (simp add: effect_defs)
  next
    case refund
    with trail_payment_only [OF assms(3), of "effect_row e t r"] show ?thesis by (simp add: effect_defs)
  next
    case other
    with t trail_payment_only [OF assms(3), of "effect_row e t r"] show ?thesis by (simp add: effect_defs)
  qed
qed

lemma effect_db_ok:
  assumes ok: "store_ok env d" and r: "r \<in> set (orders d)" and pre: "effect_pre e t r"
  shows "store_ok env (effect_db e t r d)"
proof -
  let ?d = "d\<lparr>orders := update_where (\<lambda>x. o_order_id x = o_order_id r) (effect_row e t) (orders d),
     financial_entries := financial_entries d @ effect_entries e t r,
     order_history := order_history d @ effect_history e t r\<rparr>"
  have rok: "order_ok env d r" by (rule store_ok_parts(4) [OF ok r])
  then have rowok: "row_ok env r" by (simp add: order_ok_def)
  have find: "find_order (o_order_id r) d = Some r"
    using unique_on_find [OF orders_uniqueD(1) [OF store_ok_parts(1) [OF ok]] r] by (simp add: find_order_def)
  have "order_ok env ?d (effect_row e t r)"
    using effect_row_ok [OF rowok pre] effect_ledger_ok [OF rowok pre] effect_trail_ok [OF rowok pre] rok
    by (simp add: order_ok_def priced_ok_def)
  moreover have "orders_unique (update_where (\<lambda>x. o_order_id x = o_order_id r) (effect_row e t) (orders d))"
    using store_ok_parts(1) [OF ok] by (simp add: orders_unique_keys)
  ultimately have "store_ok env ?d"
    by (intro store_ok_update_order [OF ok find, where f = "effect_row e t" and cs = "[]"
        and es = "effect_entries e t r" and hs = "effect_history e t r"])
      (auto simp: effect_entries_def effect_history_def Let_def PAYMENT_CATEGORIES_def split: if_splits)
  then show ?thesis by (simp add: effect_db_def)
qed

text \<open>On a well-formed store the code's effect is that one, and no constraint stops it.\<close>

lemma fresh_entry:
  assumes "postings oid c es = []"
  shows "(oid, c, s) \<notin> entry_key ` set es"
  using assms by (auto simp: postings_def entry_key_def filter_empty_conv)

lemma apply_effect_eq:
  assumes ok: "store_ok env d" and r: "r \<in> set (orders d)" and pre: "effect_pre e t r"
  shows "apply_effect e t r d = Inr (Some (effect_db e t r d))"
proof -
  have rok: "row_ok env r" "ledger_ok (financial_entries d) r"
    using store_ok_parts(4) [OF ok r] by (simp_all add: order_ok_def)
  note l = rok(2)[unfolded ledger_ok_def]
  have uq: "orders_unique (update_where (\<lambda>x. o_order_id x = o_order_id r) (effect_row e t) (orders d))"
    using store_ok_parts(1) [OF ok] by (simp add: orders_unique_keys)
  have amt: "0 \<le> pe_fee_minor e" "0 \<le> pe_amount_minor e" using pre by (auto simp: effect_pre_def)
  from rok(1) pre show ?thesis
  proof (cases rule: effect_pre_cases)
    case cap
    then have "postings (o_order_id r) ''gross_collected'' (financial_entries d) = []"
      "postings (o_order_id r) ''processing_fee'' (financial_entries d) = []"
      using l by (simp_all add: was_captured_def)
    then show ?thesis using cap amt uq fresh_entry
      by (simp add: apply_effect_def update_order_def write_orders_def add_financial_entry_def Let_def
          entry_key_def effect_db_def effect_row_fun effect_entries_def effect_history_def history_def)
  next
    case fail
    then show ?thesis using uq
      by (simp add: apply_effect_def update_order_def write_orders_def Let_def
          effect_db_def effect_row_fun effect_entries_def effect_history_def history_def)
  next
    case refund
    then have "postings (o_order_id r) ''refund'' (financial_entries d) = []" using l by simp
    then show ?thesis using refund amt uq fresh_entry
      by (simp add: apply_effect_def update_order_def write_orders_def add_financial_entry_def Let_def
          entry_key_def effect_db_def effect_row_fun effect_entries_def effect_history_def history_def)
  next
    case other
    then show ?thesis using uq
      by (simp add: apply_effect_def update_order_def write_orders_def Let_def
          effect_db_def effect_row_fun effect_entries_def effect_history_def history_def)
  qed
qed

subsection \<open>One event of the loop\<close>

text \<open>An event that the loop skips: the amount is right but the payment may not go there now.\<close>

definition blocked :: "event_row \<Rightarrow> order_row \<Rightarrow> bool" where
  "blocked er r \<longleftrightarrow> pe_amount_minor (ev_payload er) = o_quoted_amount_minor r
     \<and> (\<forall>t. event_target (pe_type (ev_payload er)) = Some t \<longrightarrow>
          t \<noteq> o_payment_status r \<and> t \<notin> set (payment_transitions (o_payment_status r)))"

definition settles :: "string \<Rightarrow> 'z db_scheme \<Rightarrow> 'z db_scheme \<Rightarrow> bool" where
  "settles eid d d' \<longleftrightarrow> (\<exists>st a. st \<noteq> Ev_Pending
     \<and> provider_events d' = provider_events (set_event_status eid st a d))"

text \<open>
  What reconciliation never changes: the recorded events, the identity of the orders, and
  the entries and history already written.
\<close>

definition event_keys :: "'z db_scheme \<Rightarrow> (string \<times> string \<times> string) list" where
  "event_keys d = map (\<lambda>e. (ev_event_id e, ev_payment_id e, ev_payload_digest e)) (provider_events d)"

definition order_keys :: "'z db_scheme \<Rightarrow> (string \<times> string option \<times> string \<times> int) list" where
  "order_keys d = map (\<lambda>r. (o_order_id r, o_provider_payment_id r, o_quote_id r, o_quoted_amount_minor r)) (orders d)"

definition deliveries :: "'z db_scheme \<Rightarrow> (string \<times> string \<times> string option) list" where
  "deliveries d = map (\<lambda>r. (o_order_id r, o_quote_id r, o_envelope_sha256 r)) (orders d)"

definition payloads :: "'z db_scheme \<Rightarrow> provider_event list" where
  "payloads d = map ev_payload (provider_events d)"

definition same_keys :: "'z db_scheme \<Rightarrow> 'z db_scheme \<Rightarrow> bool" where
  "same_keys d d' \<longleftrightarrow> event_keys d' = event_keys d \<and> order_keys d' = order_keys d \<and> quotes d' = quotes d
     \<and> cost_records d' = cost_records d \<and> prefix (financial_entries d) (financial_entries d')
     \<and> prefix (order_history d) (order_history d')
     \<and> deliveries d' = deliveries d \<and> metadata d' = metadata d \<and> db.more d' = db.more d
     \<and> payloads d' = payloads d"

lemma same_keys_refl [simp]: "same_keys d d"
  by (simp add: same_keys_def)

lemma same_keysD:
  assumes "same_keys d d'"
  shows "event_keys d' = event_keys d" "order_keys d' = order_keys d" "quotes d' = quotes d"
    "cost_records d' = cost_records d" "prefix (financial_entries d) (financial_entries d')"
    "prefix (order_history d) (order_history d')"
    "deliveries d' = deliveries d" "metadata d' = metadata d" "db.more d' = db.more d" "payloads d' = payloads d"
  using assms by (simp_all add: same_keys_def)

lemma same_keys_trans: "same_keys d d1 \<Longrightarrow> same_keys d1 d2 \<Longrightarrow> same_keys d d2"
  by (auto simp: same_keys_def intro: prefix_order.order_trans)

lemma same_keys_set_status: "same_keys d (set_event_status eid st a d)"
proof -
  have "event_keys (set_event_status eid st a d) = event_keys d"
    unfolding event_keys_def set_event_status_def by (simp add: map_update_where)
  moreover have "payloads (set_event_status eid st a d) = payloads d"
    unfolding payloads_def set_event_status_def by (simp add: map_update_where)
  ultimately show ?thesis by (simp add: same_keys_def order_keys_def deliveries_def)
qed

lemma same_keys_mark: "same_keys d (mark_event e st d)"
  by (simp add: mark_event_def same_keys_set_status)

lemma same_keys_effect: "same_keys d (effect_db e t r d)"
proof -
  let ?d = "d\<lparr>orders := update_where (\<lambda>x. o_order_id x = o_order_id r) (effect_row e t) (orders d),
     financial_entries := financial_entries d @ effect_entries e t r,
     order_history := order_history d @ effect_history e t r\<rparr>"
  have "same_keys d ?d" by (simp add: same_keys_def event_keys_def order_keys_def deliveries_def payloads_def map_update_where)
  then show ?thesis unfolding effect_db_def by (rule same_keys_trans) (rule same_keys_mark)
qed

lemma settlesI:
  "st \<noteq> Ev_Pending \<Longrightarrow> provider_events d' = provider_events (set_event_status eid st a d) \<Longrightarrow> settles eid d d'"
  unfolding settles_def by blast

lemma find_by_payment:
  assumes "store_ok env d" "Some pid \<in> o_provider_payment_id ` set (orders d)"
  obtains r where "find_order_by_payment pid d = Some r" "r \<in> set (orders d)" "o_provider_payment_id r = Some pid"
    "row_ok env r"
proof -
  from assms(2) obtain x where "x \<in> set (orders d)" "o_provider_payment_id x = Some pid" by force
  then have "find_order_by_payment pid d \<noteq> None"
    by (auto simp: find_order_by_payment_def find_None_iff)
  then obtain r where r: "find_order_by_payment pid d = Some r" by blast
  moreover have "row_ok env r"
    using find_order_by_paymentD [OF r] store_ok_parts(4) [OF assms(1)] by (auto simp: order_ok_def)
  ultimately show thesis using that find_order_by_paymentD [OF r] by blast
qed

lemma reconcile_event_step:
  assumes ok: "store_ok env d" and er: "event_ok env er"
    and r: "find_order_by_payment pid d = Some r"
  shows "if blocked er r then reconcile_event pid er (p, d) = Inr (p, d)
    else \<exists>d'. reconcile_event pid er (p, d) = Inr (True, d') \<and> store_ok env d'
      \<and> settles (ev_event_id er) d d' \<and> same_keys d d'"
proof -
  let ?e = "ev_payload er"
  have rin: "r \<in> set (orders d)" "o_provider_payment_id r = Some pid" using find_order_by_paymentD [OF r] by auto
  have row: "row_ok env r" using store_ok_parts(4) [OF ok rin(1)] by (simp add: order_ok_def)
  have cur: "o_currency r = FRESH_VALIDATION_CURRENCY" using row by (simp add: row_ok_def)
  obtain t where t: "event_target (pe_type ?e) = Some t" and id: "ev_event_id er = pe_event_id ?e"
    and fee: "0 \<le> pe_fee_minor ?e" "pe_fee_minor ?e \<le> pe_amount_minor ?e"
    using er by (auto simp: event_ok_def Let_def)
  show ?thesis
  proof (cases "pe_amount_minor ?e \<noteq> o_quoted_amount_minor r")
    case True
    then have "\<not> blocked er r" by (simp add: blocked_def)
    moreover have "reconcile_event pid er (p, d) =
        Inr (True, set_event_status (pe_event_id ?e) Ev_Rejected_Amount_Mismatch None d)"
      using True r t by (simp add: reconcile_event_def)
    ultimately show ?thesis using ok id by (auto intro!: settlesI same_keys_set_status)
  next
    case amt: False
    consider "t = o_payment_status r" | "t \<noteq> o_payment_status r" "t \<notin> set (payment_transitions (o_payment_status r))"
      | "t \<noteq> o_payment_status r" "t \<in> set (payment_transitions (o_payment_status r))" by blast
    then show ?thesis
    proof cases
      case 1
      have "\<not> blocked er r" using 1 t by (simp add: blocked_def)
      moreover have "reconcile_event pid er (p, d) = Inr (True, mark_event ?e (if effect_matches ?e t r
          then Ev_Applied_Duplicate_Effect else Ev_Rejected_Effect_Conflict) d)"
        using 1 amt r t cur by (simp add: reconcile_event_def)
      moreover have "settles (ev_event_id er) d (mark_event ?e st d)" if "st \<noteq> Ev_Pending" for st
        using that id by (intro settlesI [where a = "Some (pe_occurred_at ?e)"]) simp_all
      ultimately show ?thesis using ok same_keys_mark by auto
    next
      case 2
      then have "blocked er r" using amt t by (simp add: blocked_def)
      moreover have "reconcile_event pid er (p, d) = Inr (p, d)"
        using 2 amt r t cur by (simp add: reconcile_event_def)
      ultimately show ?thesis by simp
    next
      case 3
      have "\<not> blocked er r" using 3 t by (simp add: blocked_def)
      moreover have pre: "effect_pre ?e t r" using 3 amt fee rin by (simp add: effect_pre_def)
      moreover have "reconcile_event pid er (p, d) = Inr (True, effect_db ?e t r d)"
        using 3 amt r t cur apply_effect_eq [OF ok rin(1) pre] by (simp add: reconcile_event_def)
      moreover have "settles (ev_event_id er) d (effect_db ?e t r d)"
        by (rule settlesI [where st = Ev_Applied and a = "Some (pe_occurred_at ?e)"])
          (simp_all add: effect_db_def id set_event_status_def)
      ultimately show ?thesis using effect_db_ok [OF ok rin(1) pre] same_keys_effect by auto
    qed
  qed
qed

subsection \<open>One round, and the loop\<close>

definition pending_ids :: "string \<Rightarrow> 'z db_scheme \<Rightarrow> string set" where
  "pending_ids pid d = ev_event_id ` {e \<in> set (provider_events d). ev_payment_id e = pid \<and> ev_status e = Ev_Pending}"

lemma pending_events_set:
  "set (pending_events pid d) = {e \<in> set (provider_events d). ev_payment_id e = pid \<and> ev_status e = Ev_Pending}"
  by (auto simp: pending_events_def)

lemma still_pending:
  assumes "st \<noteq> Ev_Pending"
  shows "{e \<in> set (provider_events (set_event_status eid st a d)). ev_payment_id e = pid \<and> ev_status e = Ev_Pending}
    = {e \<in> set (provider_events d). (ev_payment_id e = pid \<and> ev_status e = Ev_Pending) \<and> ev_event_id e \<noteq> eid}"
  using assms by (auto simp: set_event_status_def set_update_where)

lemma settles_pending: "settles eid d d' \<Longrightarrow> pending_ids pid d' = pending_ids pid d - {eid}"
  unfolding settles_def pending_ids_def by (elim exE conjE) (auto simp add: still_pending)

lemma keys_bound:
  assumes "store_ok env d" "(eid, pid, dg) \<in> set (event_keys d)"
  shows "Some pid \<in> o_provider_payment_id ` set (orders d)"
  using store_ok_parts(5) [OF assms(1)] assms(2) by (auto simp: event_keys_def events_ok_def)

lemma reconcile_fold:
  assumes "store_ok env d" "\<forall>er \<in> set ers. event_ok env er" "(eid, pid, dg) \<in> set (event_keys d)"
  shows "\<exists>q d'. fold_res (reconcile_event pid) ers (p, d) = Inr (q, d') \<and> store_ok env d'
    \<and> same_keys d d' \<and> pending_ids pid d' \<subseteq> pending_ids pid d
    \<and> (p \<longrightarrow> q) \<and> (q \<longrightarrow> p \<or> (\<exists>er \<in> set ers. ev_event_id er \<notin> pending_ids pid d'))
    \<and> (\<not> q \<longrightarrow> d' = d \<and> (\<forall>er \<in> set ers. \<forall>r. find_order_by_payment pid d = Some r \<longrightarrow> blocked er r))"
  using assms
proof (induction ers arbitrary: p d)
  case Nil
  then show ?case by simp
next
  case (Cons er ers)
  obtain r where r: "find_order_by_payment pid d = Some r"
    by (rule find_by_payment [OF Cons.prems(1) keys_bound [OF Cons.prems(1,3)]])
  have er: "event_ok env er" using Cons.prems(2) by simp
  note step = reconcile_event_step [OF Cons.prems(1) er r, of p]
  show ?case
  proof (cases "blocked er r")
    case True
    with step have "reconcile_event pid er (p, d) = Inr (p, d)" by simp
    with Cons.IH [OF Cons.prems(1) _ Cons.prems(3), of p] Cons.prems(2) True r show ?thesis by auto
  next
    case False
    with step obtain d1 where d1: "reconcile_event pid er (p, d) = Inr (True, d1)" "store_ok env d1"
      "settles (ev_event_id er) d d1" "same_keys d d1" by auto
    from Cons.IH [OF d1(2), of True] Cons.prems d1(4) obtain q d2 where
      d2: "fold_res (reconcile_event pid) ers (True, d1) = Inr (q, d2)" "store_ok env d2"
        "same_keys d1 d2" "pending_ids pid d2 \<subseteq> pending_ids pid d1"
        "q" by (auto simp: same_keys_def)
    have "ev_event_id er \<notin> pending_ids pid d2"
      using d2(4) settles_pending [OF d1(3), of pid] by auto
    then show ?thesis
      using d1(1) d2 same_keys_trans [OF d1(4) d2(3)] settles_pending [OF d1(3), of pid] by auto
  qed
qed

definition all_blocked :: "string \<Rightarrow> 'z db_scheme \<Rightarrow> bool" where
  "all_blocked pid d \<longleftrightarrow> (\<forall>er \<in> set (pending_events pid d). \<forall>r. find_order_by_payment pid d = Some r \<longrightarrow> blocked er r)"

lemma reconcile_terminates:
  assumes "store_ok env d" "(eid, pid, dg) \<in> set (event_keys d)"
  shows "\<exists>d'. reconcile_payment pid d = Some (Inr d') \<and> store_ok env d' \<and> same_keys d d'
    \<and> all_blocked pid d'"
  using assms
proof (induction "card (pending_ids pid d)" arbitrary: d rule: less_induct)
  case less
  have evs: "\<forall>er \<in> set (pending_events pid d). event_ok env er"
    using store_ok_parts(5) [OF less.prems(1)] by (auto simp: pending_events_set events_ok_def)
  from reconcile_fold [OF less.prems(1) evs less.prems(2), of False] obtain q d1 where
    round: "reconcile_round pid d = Inr (q, d1)" and d1: "store_ok env d1" "same_keys d d1"
      "pending_ids pid d1 \<subseteq> pending_ids pid d"
      "q \<Longrightarrow> \<exists>er \<in> set (pending_events pid d). ev_event_id er \<notin> pending_ids pid d1"
      "\<not> q \<Longrightarrow> d1 = d \<and> (\<forall>er \<in> set (pending_events pid d). \<forall>r. find_order_by_payment pid d = Some r \<longrightarrow> blocked er r)"
    by (auto simp: reconcile_round_def)
  show ?case
  proof (cases q)
    case True
    from d1(4) [OF True] obtain er where er: "er \<in> set (pending_events pid d)" "ev_event_id er \<notin> pending_ids pid d1" ..
    then have "ev_event_id er \<in> pending_ids pid d" by (auto simp: pending_ids_def pending_events_set)
    with er d1(3) have "pending_ids pid d1 \<subset> pending_ids pid d" by blast
    moreover have "finite (pending_ids pid d)" by (simp add: pending_ids_def)
    ultimately have "card (pending_ids pid d1) < card (pending_ids pid d)" by (rule psubset_card_mono [rotated])
    from less.hyps [OF this d1(1)] d1(2) less.prems(2) obtain d2 where
      "reconcile_payment pid d1 = Some (Inr d2)" "store_ok env d2" "same_keys d1 d2" "all_blocked pid d2"
      by (auto simp: same_keys_def)
    with True round same_keys_trans [OF d1(2)] show ?thesis
      by (auto simp: reconcile_payment.simps [of pid d])
  next
    case False
    with round d1(5) [OF False] less.prems show ?thesis
      by (simp add: reconcile_payment.simps [of pid d] all_blocked_def)
  qed
qed

subsection \<open>Ingesting an event\<close>

lemma validate_event_Inr:
  assumes "validate_event env v = Inr e"
  shows "pe_environment e = env" "event_target (pe_type e) \<noteq> None" "0 \<le> pe_fee_minor e"
    "pe_fee_minor e \<le> pe_amount_minor e" "pe_amount_minor e \<le> 10000000"
    "re_event_id (pe_event_id e)"
proof -
  obtain kvs where v: "v = JObj kvs"
  proof (cases v)
    case (JObj kvs)
    then show thesis by (rule that)
  qed (use assms in \<open>simp_all add: validate_event_def\<close>)
  note parts = assms[unfolded v validate_event_def Let_def json.case reject_if_Inr and_then_Inr not_not sum.inject]
  obtain occurred where e: "e = \<lparr>pe_provider = the_str (jget_null kvs ''provider''), pe_environment = env,
      pe_event_id = the_str (jget_null kvs ''event_id''), pe_type = the_str (jget_null kvs ''type''),
      pe_payment_id = the_str (jget_null kvs ''payment_id''), pe_amount_minor = the_int (jget_null kvs ''amount_minor''),
      pe_fee_minor = the_int (jget_null kvs ''fee_minor''), pe_occurred_at = occurred\<rparr>"
    using parts by blast
  have "str_matches (\<lambda>t. event_target t \<noteq> None) (jget_null kvs ''type'')" using parts by blast
  moreover have "str_matches re_event_id (jget_null kvs ''event_id'')" using parts by blast
  moreover have "bounded_int 0 10000000 (jget_null kvs ''amount_minor'')" using parts by blast
  moreover have "bounded_int 0 10000000 (jget_null kvs ''fee_minor'')" using parts by blast
  moreover have "\<not> the_int (jget_null kvs ''amount_minor'') < the_int (jget_null kvs ''fee_minor'')"
    using parts by blast
  ultimately show "pe_environment e = env" "event_target (pe_type e) \<noteq> None" "0 \<le> pe_fee_minor e"
    "pe_fee_minor e \<le> pe_amount_minor e" "pe_amount_minor e \<le> 10000000" "re_event_id (pe_event_id e)"
    by (auto simp: e dest!: str_matches_the_str bounded_int_the_int)
qed

lemma event_keys_find: "(eid, pid, dg) \<in> set (event_keys d) \<Longrightarrow> find_event eid d \<noteq> None"
  by (auto simp: event_keys_def find_event_def find_None_iff)

lemma store_ok_add_event:
  assumes ok: "store_ok env d" and new: "find_event (pe_event_id e) d = None"
    and v: "validate_event env v = Inr e" and pid: "find_order_by_payment (pe_payment_id e) d = Some r"
  shows "store_ok env (d\<lparr>provider_events := provider_events d @ [pending_event_row env received e]\<rparr>)"
proof -
  have "pe_event_id e \<notin> ev_event_id ` set (provider_events d)"
    using new by (auto simp: find_event_def find_None_iff)
  moreover have "Some (pe_payment_id e) \<in> o_provider_payment_id ` set (orders d)"
    using find_order_by_paymentD [OF pid] by force
  moreover have "event_ok env (pending_event_row env received e)"
    using validate_event_Inr [OF v] by (simp add: event_ok_def pending_event_row_def Let_def)
  ultimately show ?thesis
    using ok by (auto simp: store_ok_def order_ok_def events_ok_def pending_event_row_def)
qed

lemma find_event_unique:
  assumes "store_ok env d" "(eid, pid, dg) \<in> set (event_keys d)"
  shows "\<exists>er. find_event eid d = Some er \<and> ev_payment_id er = pid \<and> ev_payload_digest er = dg"
proof -
  from assms(2) obtain er where er: "er \<in> set (provider_events d)" "ev_event_id er = eid"
    "ev_payment_id er = pid" "ev_payload_digest er = dg" by (auto simp: event_keys_def)
  have "unique_on ev_event_id (provider_events d)"
    using store_ok_parts(5) [OF assms(1)] by (simp add: events_ok_def)
  from unique_on_find [OF this er(1)] er show ?thesis by (auto simp: find_event_def)
qed

lemma same_keys_find_order:
  assumes "same_keys d d'" "find_order oid d = Some r"
  shows "\<exists>r'. find_order oid d' = Some r'"
proof -
  have "map o_order_id (orders d') = map o_order_id (orders d)"
  proof -
    have "map fst (order_keys d') = map fst (order_keys d)" using assms(1) by (simp add: same_keys_def)
    then show ?thesis by (simp add: order_keys_def comp_def)
  qed
  moreover have "oid \<in> set (map o_order_id (orders d))" using find_orderD [OF assms(2)] by force
  ultimately have "oid \<in> set (map o_order_id (orders d'))" by simp
  then have "find_order oid d' \<noteq> None" by (auto simp: find_order_def find_None_iff)
  then show ?thesis by simp
qed

lemma find_order_self:
  "store_ok env d \<Longrightarrow> r \<in> set (orders d) \<Longrightarrow> find_order (o_order_id r) d = Some r"
  using unique_on_find [OF orders_uniqueD(1) [OF store_ok_parts(1)]] by (simp add: find_order_def)

text \<open>
  A valid new event for a known payment is always recorded: nothing inside the
  transaction can fail.
\<close>

lemma ingest_new:
  assumes ok: "store_ok env d" and v: "validate_event env v = Inr e" and rec: "parse_timestamp received = Inr u"
    and new: "find_event (pe_event_id e) d = None"
    and r: "find_order_by_payment (pe_payment_id e) d = Some r" "o_provider r = pe_provider e"
  shows "\<exists>d' er r'. ingest_provider_event env v received d =
      Inr (\<lparr>ir_duplicate = False, ir_event_id = pe_event_id e, ir_event_status = ev_status er,
            ir_order = order_view_of env r' d'\<rparr>, d')
    \<and> store_ok env d' \<and> all_blocked (pe_payment_id e) d'
    \<and> find_event (pe_event_id e) d' = Some er \<and> ev_payload_digest er = payload_digest e
    \<and> find_order (o_order_id r) d' = Some r' \<and> find_order_by_payment (pe_payment_id e) d' = Some r'
    \<and> same_keys (d\<lparr>provider_events := provider_events d @ [pending_event_row env received e]\<rparr>) d'
    \<and> event_keys d' = event_keys d @ [(pe_event_id e, pe_payment_id e, payload_digest e)]"
proof -
  let ?d = "d\<lparr>provider_events := provider_events d @ [pending_event_row env received e]\<rparr>"
  have keys: "event_keys ?d = event_keys d @ [(pe_event_id e, pe_payment_id e, payload_digest e)]"
    by (simp add: event_keys_def pending_event_row_def)
  then have mem: "(pe_event_id e, pe_payment_id e, payload_digest e) \<in> set (event_keys ?d)" by simp
  have ok1: "store_ok env ?d" by (rule store_ok_add_event [OF ok new v r(1)])
  from reconcile_terminates [OF ok1 mem] obtain d1 where
    d1: "reconcile_payment (pe_payment_id e) ?d = Some (Inr d1)" "store_ok env d1" "same_keys ?d d1"
      "all_blocked (pe_payment_id e) d1" by auto
  have mem1: "(pe_event_id e, pe_payment_id e, payload_digest e) \<in> set (event_keys d1)"
    using mem d1(3) by (simp add: same_keys_def)
  from find_event_unique [OF d1(2) this] obtain er where
    er: "find_event (pe_event_id e) d1 = Some er" "ev_payload_digest er = payload_digest e" by auto
  from find_order_by_paymentD [OF r(1)] have rin: "r \<in> set (orders d)" "o_provider_payment_id r = Some (pe_payment_id e)" by auto
  have ro: "find_order (o_order_id r) ?d = Some r"
    using find_order_self [OF ok rin(1)] by (simp add: find_order_def)
  from same_keys_find_order [OF d1(3) ro] obtain r' where r': "find_order (o_order_id r) d1 = Some r'" by blast
  obtain r2 where r2: "find_order_by_payment (pe_payment_id e) d1 = Some r2" "r2 \<in> set (orders d1)"
      "o_provider_payment_id r2 = Some (pe_payment_id e)"
    by (rule find_by_payment [OF d1(2) keys_bound [OF d1(2) mem1]])
  have "r2 = r'"
  proof -
    have "(o_order_id r2, Some (pe_payment_id e)) \<in> set (map (\<lambda>(a, b, c). (a, b)) (order_keys d1))"
      using r2 by (force simp: order_keys_def)
    also have "order_keys d1 = order_keys d" using same_keysD(2) [OF d1(3)] by (simp add: order_keys_def)
    finally obtain x where x: "x \<in> set (orders d)" "o_order_id x = o_order_id r2" "o_provider_payment_id x = Some (pe_payment_id e)"
      by (auto simp: order_keys_def)
    have "x = r"
      by (rule unique_nullable_eq [OF orders_uniqueD(2) [OF store_ok_parts(1) [OF ok]] x(1) rin(1) x(3) rin(2)])
    with x(2) r' find_order_self [OF d1(2) r2(2)] show ?thesis by simp
  qed
  then show ?thesis
    using d1 er r' r2 v rec new r keys
    by (intro exI [of _ d1] exI [of _ er] exI [of _ r'])
      (simp add: ingest_provider_event_def run_reconcile_def order_view_def require_order_def same_keysD)
qed

lemma ingest_cases:
  assumes ok: "store_ok env d" and run: "ingest_provider_event env v received d = Inr (res, d')"
  obtains (dup) e er r where "validate_event env v = Inr e" "find_event (pe_event_id e) d = Some er"
      "ev_payload_digest er = payload_digest e" "find_order_by_payment (pe_payment_id e) d = Some r"
      "res = \<lparr>ir_duplicate = True, ir_event_id = pe_event_id e, ir_event_status = ev_status er,
              ir_order = order_view_of env r d\<rparr>" "d' = d"
  | (new) e u er r r' where "validate_event env v = Inr e" "parse_timestamp received = Inr u"
      "find_event (pe_event_id e) d = None" "find_order_by_payment (pe_payment_id e) d = Some r"
      "o_provider r = pe_provider e"
      "res = \<lparr>ir_duplicate = False, ir_event_id = pe_event_id e, ir_event_status = ev_status er,
              ir_order = order_view_of env r' d'\<rparr>"
      "store_ok env d'" "all_blocked (pe_payment_id e) d'" "find_event (pe_event_id e) d' = Some er"
      "ev_payload_digest er = payload_digest e" "find_order_by_payment (pe_payment_id e) d' = Some r'"
      "same_keys (d\<lparr>provider_events := provider_events d @ [pending_event_row env received e]\<rparr>) d'"
proof -
  from run obtain e u where e: "validate_event env v = Inr e" and u: "parse_timestamp received = Inr u"
    unfolding ingest_provider_event_def and_then_Inr by blast
  show thesis
  proof (cases "find_event (pe_event_id e) d")
    case (Some er)
    note run' = run[unfolded ingest_provider_event_def e u and_then_simps Some option.case reject_if_Inr]
    obtain r where r: "find_order_by_payment (pe_payment_id e) d = Some r"
      using run' by (cases "find_order_by_payment (pe_payment_id e) d") simp_all
    have "ev_payload_digest er = payload_digest e" using run' by simp
    note r = r this
    have "find_order (o_order_id r) d = Some r"
      by (rule find_order_self [OF ok]) (use find_order_by_paymentD [OF r(1)] in blast)
    then have "res = \<lparr>ir_duplicate = True, ir_event_id = pe_event_id e, ir_event_status = ev_status er,
              ir_order = order_view_of env r d\<rparr>" "d' = d"
      using run' r by (auto simp: order_view_def require_order_def)
    with dup [OF e Some r(2,1)] show thesis by simp
  next
    case None
    note run' = run[unfolded ingest_provider_event_def e u and_then_simps None option.case]
    obtain r where r: "find_order_by_payment (pe_payment_id e) d = Some r"
      using run' by (cases "find_order_by_payment (pe_payment_id e) d") simp_all
    then have "o_provider r = pe_provider e" using run' by (simp add: reject_if_Inr)
    note r = r this
    from ingest_new [OF ok e u None r] obtain d1 er r' where n:
      "ingest_provider_event env v received d =
        Inr (\<lparr>ir_duplicate = False, ir_event_id = pe_event_id e, ir_event_status = ev_status er,
            ir_order = order_view_of env r' d1\<rparr>, d1)"
      "store_ok env d1" "all_blocked (pe_payment_id e) d1" "find_event (pe_event_id e) d1 = Some er"
      "ev_payload_digest er = payload_digest e" "find_order_by_payment (pe_payment_id e) d1 = Some r'"
      "same_keys (d\<lparr>provider_events := provider_events d @ [pending_event_row env received e]\<rparr>) d1" by blast
    from n(1) run have "d' = d1" "res = \<lparr>ir_duplicate = False, ir_event_id = pe_event_id e,
        ir_event_status = ev_status er, ir_order = order_view_of env r' d1\<rparr>" by simp_all
    with new [OF e u None r] n show thesis by simp
  qed
qed

lemma ingest_provider_event_ok:
  assumes "store_ok env d" and "ingest_provider_event env v received d = Inr (res, d')"
  shows "store_ok env d'"
  using assms(1,2) by (rule ingest_cases) (simp_all add: assms(1))

end
