(* ===== verification/StoreProperties.thy ===== *)
theory StoreProperties
  imports Reconcile
begin

section \<open>The commerce store: what it guarantees\<close>

text \<open>
  The public writes of \<open>CommerceStore\<close> as one step relation, its invariant as an
  instance of \<open>invariant_system\<close>, and the properties of the store.  A small store with
  one paid order, \<open>paid_store\<close>, and one with an order waiting for payment,
  \<open>waiting_store\<close>, serve as concrete instances.
\<close>

subsection \<open>Steps and reachable stores\<close>

inductive store_step :: "environment \<Rightarrow> 'z db_scheme \<Rightarrow> 'z db_scheme \<Rightarrow> bool" for env where
  quote: "create_quote env req qid at prov live d = Inr (q, d') \<Longrightarrow> store_step env d d'"
| order: "create_order env qid key buyer now d = Inr (v, d') \<Longrightarrow> store_step env d d'"
| attach: "attach_checkout env oid cid parg at d = Inr (v, d') \<Longrightarrow> store_step env d d'"
| bind_payment: "bind_provider_payment env oid pid cid at d = Inr (v, d') \<Longrightarrow> store_step env d d'"
| ingest: "ingest_provider_event env ev rec d = Inr (res, d') \<Longrightarrow> store_step env d d'"
| costs: "record_direct_costs env oid cs key ts d = Inr (v, d') \<Longrightarrow> store_step env d d'"
| begin_work: "begin_fulfillment env oid src at d = Inr (v, d') \<Longrightarrow> store_step env d d'"
| fail_work: "fail_fulfillment env oid src at d = Inr (v, d') \<Longrightarrow> store_step env d d'"
| deliver_receipt: "deliver env oid rid rsha esha kid src at d = Inr (v, d') \<Longrightarrow> store_step env d d'"

definition store_initial :: "environment \<Rightarrow> 'z db_scheme \<Rightarrow> bool" where
  "store_initial env d \<longleftrightarrow> metadata d = [(''schema_version'', STORE_SCHEMA_VERSION), (''environment'', environment_value env)]
     \<and> quotes d = [] \<and> orders d = [] \<and> provider_events d = [] \<and> financial_entries d = []
     \<and> cost_records d = [] \<and> order_history d = []"

definition store_reachable :: "environment \<Rightarrow> 'z db_scheme \<Rightarrow> bool" where
  "store_reachable env = reachable_from (store_initial env) (store_step env)"

lemma store_step_ok: "store_ok env d \<Longrightarrow> store_step env d d' \<Longrightarrow> store_ok env d'"
  by (erule store_step.cases) (auto intro: create_quote_ok create_order_ok attach_checkout_ok
      bind_provider_payment_ok ingest_provider_event_ok record_direct_costs_ok begin_fulfillment_ok
      fail_fulfillment_ok deliver_ok)

interpretation store: invariant_system "store_initial env" "store_step env" "store_ok env" for env
proof
  show "store_initial env s \<Longrightarrow> store_ok env s" for s
    by (rule empty_store_ok) (simp_all add: store_initial_def)
qed (rule store_step_ok)

subsection \<open>The ledger is append-only and histories only grow\<close>

definition append_only :: "'z db_scheme \<Rightarrow> 'z db_scheme \<Rightarrow> bool" where
  "append_only d d' \<longleftrightarrow> prefix (quotes d) (quotes d') \<and> prefix (map o_order_id (orders d)) (map o_order_id (orders d'))
     \<and> prefix (event_keys d) (event_keys d') \<and> prefix (financial_entries d) (financial_entries d')
     \<and> prefix (cost_records d) (cost_records d') \<and> prefix (order_history d) (order_history d')"

lemma append_only_refl [simp]: "append_only d d"
  by (simp add: append_only_def)

lemma append_only_trans: "append_only d d1 \<Longrightarrow> append_only d1 d2 \<Longrightarrow> append_only d d2"
  unfolding append_only_def by (meson prefix_order.order_trans)

lemma append_only_history: "append_only d d1 \<Longrightarrow> append_only d (history oid dim p n s t d1)"
  by (auto simp: append_only_def event_keys_def)

lemma append_only_update_order:
  assumes "update_order oid f d1 = Inr d2" "append_only d d1"
    "\<And>r. o_order_id (f r) = o_order_id r"
  shows "append_only d d2"
  using assms by (simp add: append_only_def update_order_Inr event_keys_def map_update_where)

lemma append_only_same_keys:
  assumes "same_keys d d'"
  shows "append_only d d'"
proof -
  have "map o_order_id (orders d') = map o_order_id (orders d)"
    using arg_cong [OF same_keysD(2) [OF assms], of "map fst"] by (simp add: order_keys_def comp_def)
  then show ?thesis using same_keysD [OF assms] by (simp add: append_only_def)
qed

lemma ingest_append_only:
  assumes "store_ok env d" "ingest_provider_event env v rec d = Inr (res, d')"
  shows "append_only d d'"
  using assms
proof (cases rule: ingest_cases)
  case (new e u er r r')
  have "append_only d (d\<lparr>provider_events := provider_events d @ [pending_event_row env rec e]\<rparr>)"
    by (simp add: append_only_def event_keys_def)
  from append_only_trans [OF this append_only_same_keys [OF new(12)]] show ?thesis .
qed simp

lemma transition_append_only:
  "transition_order env oid t src at ds d = Inr (v, d') \<Longrightarrow> append_only d d'"
  by (erule transition_order_cases) (auto intro!: append_only_history elim: append_only_update_order)

lemma costs_append_only:
  assumes "record_direct_costs env oid cs key ts d = Inr (v, d')"
  shows "append_only d d'"
  using assms
proof (cases rule: record_direct_costs_cases)
  case (new r d2)
  have "append_only d d2" by (simp add: new(4) append_only_def event_keys_def)
  then show ?thesis by (rule append_only_update_order [OF new(5)]) simp
qed simp

lemma store_step_append_only:
  assumes "store_ok env d" "store_step env d d'"
  shows "append_only d d'"
  using assms(2)
proof cases
  case quote
  then show ?thesis by (rule create_quote_cases) (simp_all add: append_only_def event_keys_def)
next
  case order
  then show ?thesis
    by (rule create_order_cases) (auto intro!: append_only_history simp: append_only_def event_keys_def)
next
  case attach
  then show ?thesis
    by (rule attach_checkout_cases) (auto intro!: append_only_history elim: append_only_update_order)
next
  case bind_payment
  then show ?thesis
    by (rule bind_provider_payment_cases) (auto elim: append_only_update_order)
next
  case ingest
  then show ?thesis by (rule ingest_append_only [OF assms(1)])
next
  case costs
  then show ?thesis by (rule costs_append_only)
next
  case begin_work
  then show ?thesis unfolding begin_fulfillment_def by (rule transition_append_only)
next
  case fail_work
  then show ?thesis unfolding fail_fulfillment_def by (rule transition_append_only)
next
  case deliver_receipt
  then show ?thesis
    by (rule deliver_cases) (auto intro!: append_only_history elim: append_only_update_order)
qed

subsection \<open>Concrete stores\<close>

definition demo_request :: fresh_request where
  "demo_request = \<lparr>fr_owner = ''octo'', fr_repository = ''repo'', fr_commit = replicate 40 CHR ''a'',
     fr_skill_path = ''skills/x'', fr_amount_minor = 5000, fr_delivery_id = ''delivery-1''\<rparr>"

definition demo_quote :: quote_row where
  "demo_quote = \<lparr>q_quote_id = ''q_000000000000000000000000'', q_environment = Sandbox,
     q_request_digest = ''sha256:d'', q_request = demo_request,
     q_document = \<lparr>qd_quote_id = ''q_000000000000000000000000'', qd_request_digest = ''sha256:d'',
       qd_amount_minor = 4900, qd_amount = ''49.00'', qd_generated_at = ''2026-07-01T00:00:00Z'',
       qd_expires_at = ''2026-07-01T00:15:00Z'', qd_quote_status = ''sandbox_orderable_nonsettling'',
       qd_availability = ''sandbox_fake_provider_only'', qd_orderable = True, qd_settlement_available = False,
       qd_payment_options = [(''fake'', ''sandbox_only'')], qd_request = demo_request, qd_payment_gate = ''g'',
       qd_counts_for_goal = Some False, qd_quote_digest = ''sha256:q''\<rparr>,
     q_amount_minor = 4900, q_currency = FRESH_VALIDATION_CURRENCY,
     q_generated_at = ''2026-07-01T00:00:00Z'', q_expires_at = ''2026-07-01T00:15:00Z'',
     q_orderable = True, q_counts_for_goal = False\<rparr>"

definition demo_order :: order_row where
  "demo_order = (new_order Sandbox ''ord_test_000000000000000000000001'' demo_quote ''idempotency'' ''buyer-one'' ''fake'' ''2026-07-01T00:01:00Z'')
     \<lparr>o_provider_checkout_id := Some ''pay_test_000000000000000000000000'',
      o_provider_payment_id := Some ''pay_test_000000000000000000000000'', o_order_status := Payment_Pending\<rparr>"

definition waiting_store :: db where
  "waiting_store = \<lparr>metadata = [], quotes = [demo_quote], orders = [demo_order], provider_events = [],
     financial_entries = [], cost_records = [],
     order_history =
       [\<lparr>h_order_id = ''ord_test_000000000000000000000001'', h_dimension = ''order'', h_prior_status = None,
         h_new_status = ''checkout_pending'', h_source_reference = ''idempotency'', h_occurred_at = ''t''\<rparr>,
        \<lparr>h_order_id = ''ord_test_000000000000000000000001'', h_dimension = ''order'', h_prior_status = Some ''checkout_pending'',
         h_new_status = ''payment_pending'', h_source_reference = ''c'', h_occurred_at = ''t''\<rparr>]\<rparr>"

definition demo_capture :: provider_event where
  "demo_capture = \<lparr>pe_provider = ''fake'', pe_environment = Sandbox,
     pe_event_id = ''evt_test_000000000000000000000001'', pe_type = ''payment.captured'',
     pe_payment_id = ''pay_test_000000000000000000000000'', pe_amount_minor = 4900, pe_fee_minor = 172,
     pe_occurred_at = ''2026-07-01T00:02:00Z''\<rparr>"

definition paid_store :: db where
  "paid_store = effect_db demo_capture P_Captured demo_order waiting_store"

lemma demo_find: "find_order_by_payment ''pay_test_000000000000000000000000'' waiting_store = Some demo_order"
  "find_order ''ord_test_000000000000000000000001'' waiting_store = Some demo_order" "demo_order \<in> set (orders waiting_store)"
  by (simp_all add: find_order_by_payment_def find_order_def waiting_store_def demo_order_def new_order_def)

lemma waiting_store_ok: "store_ok Sandbox waiting_store"
proof -
  have row: "row_ok Sandbox demo_order"
    by (simp add: row_simps demo_order_def new_order_def demo_quote_def was_captured_def)
  have ledger: "ledger_ok [] demo_order"
    by (simp add: ledger_ok_def demo_order_def new_order_def was_captured_def)
  have q: "quote_ok Sandbox demo_quote" by (simp add: quote_ok_def demo_quote_def)
  have step: "order_step ''checkout_pending'' ''payment_pending''"
    unfolding order_step_def by (rule exI [of _ Checkout_Pending], rule exI [of _ Payment_Pending]) simp
  have trail: "trail_ok (order_history waiting_store) demo_order"
    using step by (simp add: trail_ok_def trail_def waiting_store_def demo_order_def new_order_def)
  show ?thesis
    using row ledger q trail
    by (simp add: store_ok_def orders_unique_def order_ok_def events_ok_def waiting_store_def
        priced_ok_def unique_on_def unique_nullable_def demo_order_def new_order_def demo_quote_def)
qed

lemma demo_capture_pre: "effect_pre demo_capture P_Captured demo_order"
  by (simp add: effect_pre_def demo_capture_def demo_order_def new_order_def demo_quote_def)

lemma paid_store_ok: "store_ok Sandbox paid_store"
  unfolding paid_store_def by (rule effect_db_ok [OF waiting_store_ok demo_find(3) demo_capture_pre])

end
