(* ===== verification/StoreClaims.thy ===== *)
theory StoreClaims
  imports StoreProperties
begin

section \<open>The commerce store: its guarantees\<close>

text \<open>
  The statements about \<open>CommerceStore\<close> a caller relies on: the invariant of every reachable
  store, the money it accounts for, the order of the work, and the behaviour of event
  ingestion.
\<close>

subsection \<open>Helper lemmas\<close>

lemma sum_by_category:
  fixes f :: "'a \<Rightarrow> int"
  assumes "distinct cs" "\<forall>e \<in> set es. c e \<in> set cs"
  shows "sum_list (map f es) = sum_list (map (\<lambda>k. sum_list (map f (filter (\<lambda>e. c e = k) es))) cs)"
  using assms(2)
proof (induction es)
  case Nil
  show ?case by simp
next
  case (Cons e es)
  have one: "sum_list (map (\<lambda>k. (if c e = k then f e else 0) + g k) cs) = f e + sum_list (map g cs)" for g
  proof -
    have "sum_list (map (\<lambda>k. if c e = k then f e else 0) cs) = f e"
    proof -
      have "sum_list (map (\<lambda>k. if c e = k then f e else 0) xs) = (if c e \<in> set xs then f e else 0)"
        if "distinct xs" for xs using that by (induction xs) auto
      with assms(1) Cons.prems show ?thesis by simp
    qed
    then show ?thesis by (simp add: sum_list_addf)
  qed
  have "sum_list (map (\<lambda>k. sum_list (map f (filter (\<lambda>x. c x = k) (e # es)))) cs) =
      sum_list (map (\<lambda>k. (if c e = k then f e else 0) + sum_list (map f (filter (\<lambda>x. c x = k) es))) cs)"
    by (intro arg_cong [where f = sum_list] map_cong) auto
  with one Cons show ?case by simp
qed

lemma postings_sums:
  "sum_list (map fe_impact_minor (filter (\<lambda>e. fe_category e = c) (entries_of oid d))) =
     sum_list (map snd (postings oid c (financial_entries d)))"
  "category_amount oid c d = sum_list (map fst (postings oid c (financial_entries d)))"
  by (simp_all add: postings_def entries_of_def category_amount_def comp_def conj_commute)

definition direct_costs :: "string \<Rightarrow> 'z db_scheme \<Rightarrow> int" where
  "direct_costs oid d = sum_list (map (\<lambda>c. category_amount oid c d) DIRECT_COST_CATEGORIES)"

lemma ledger_contribution:
  assumes "ledger_ok (financial_entries d) r" "\<forall>e \<in> set (financial_entries d). entry_ok (orders d) e"
    and "row_ok env r"
  shows "contribution (o_order_id r) d = o_collected_amount_minor r - o_processing_fee_minor r
     - o_refunded_amount_minor r - direct_costs (o_order_id r) d"
proof -
  let ?p = "\<lambda>c. sum_list (map snd (postings (o_order_id r) c (financial_entries d)))"
  have "contribution (o_order_id r) d = sum_list (map ?p (PAYMENT_CATEGORIES @ DIRECT_COST_CATEGORIES))"
    unfolding contribution_def
  proof (subst sum_by_category [where cs = "PAYMENT_CATEGORIES @ DIRECT_COST_CATEGORIES" and c = fe_category])
    show "distinct (PAYMENT_CATEGORIES @ DIRECT_COST_CATEGORIES)"
      by (simp add: PAYMENT_CATEGORIES_def DIRECT_COST_CATEGORIES_def)
    show "\<forall>e \<in> set (entries_of (o_order_id r) d). fe_category e \<in> set (PAYMENT_CATEGORIES @ DIRECT_COST_CATEGORIES)"
      using assms(2) by (auto simp: entry_ok_def entries_of_def)
  qed (simp only: postings_sums)
  also have "\<dots> = ?p ''gross_collected'' + ?p ''processing_fee'' + ?p ''refund''
      + sum_list (map ?p DIRECT_COST_CATEGORIES)"
    by (simp add: PAYMENT_CATEGORIES_def)
  also have "sum_list (map ?p DIRECT_COST_CATEGORIES) = - direct_costs (o_order_id r) d"
  proof -
    have "?p c = - category_amount (o_order_id r) c d" if "c \<in> set DIRECT_COST_CATEGORIES" for c
      using assms(1) that by (cases "o_direct_costs_recorded r") (auto simp: ledger_ok_def postings_sums)
    then have "map ?p DIRECT_COST_CATEGORIES = map (\<lambda>c. - category_amount (o_order_id r) c d) DIRECT_COST_CATEGORIES"
      by (intro map_cong) auto
    then show ?thesis by (simp only: direct_costs_def uminus_sum_list_map comp_def)
  qed
  also have "?p ''gross_collected'' = o_collected_amount_minor r"
    using assms(1,3) by (auto simp: ledger_ok_def row_simps)
  also have "?p ''processing_fee'' = - o_processing_fee_minor r"
    using assms(1,3) by (auto simp: ledger_ok_def row_simps)
  also have "?p ''refund'' = - o_refunded_amount_minor r"
    using assms(1,3) by (auto simp: ledger_ok_def row_simps)
  finally show ?thesis by simp
qed

lemma sum_over_orders:
  fixes g :: "financial_entry \<Rightarrow> int"
  assumes "distinct ids" "\<forall>e \<in> set es. fe_order_id e \<in> set ids"
  shows "sum_list (map g es) = sum_list (map (\<lambda>i. sum_list (map g (filter (\<lambda>e. fe_order_id e = i) es))) ids)"
  by (rule sum_by_category [OF assms])

subsection \<open>The invariant and the ledger\<close>

text \<open>
  C1. Every store that the public operations can reach from an empty one is well formed:
  its keys and foreign keys hold, the columns of every order are coherent (money is
  recorded as collected exactly for captured payments, refunded exactly for refunded ones,
  a receipt exists exactly for delivered orders), the ledger holds exactly the postings the
  columns call for, and the history is a run of the two state machines ending in the current
  statuses.
\<close>

theorem reachable_store_ok: "store_reachable env d \<Longrightarrow> store_ok env d"
  unfolding store_reachable_def by (rule store.reachable_inv)

definition empty_store :: db where
  "empty_store = \<lparr>metadata = [(''schema_version'', STORE_SCHEMA_VERSION), (''environment'', ''sandbox'')],
     quotes = [], orders = [], provider_events = [], financial_entries = [], cost_records = [], order_history = []\<rparr>"

definition quote_instant :: pydatetime where
  "quote_instant = Aware 63918460800000000 0"

lemma demo_quote_created:
  "\<exists>q d. create_quote Sandbox (request_json demo_request) ''q_000000000000000000000000'' quote_instant ''fake'' False
     empty_store = Inr (q, d) \<and> length (quotes d) = 1"
proof -
  have parse: "parse_fresh_validation_request (request_json demo_request) = Inr demo_request" by code_simp
  have qid: "re_quote_id ''q_000000000000000000000000''" by code_simp
  have t1: "timestamp_text quote_instant = Inr ''2026-07-01T00:00:00Z''" by code_simp
  have t2: "add_delta quote_instant (QUOTE_TTL_MINUTES * minute_us) = Inr (Aware 63918461700000000 0)" by code_simp
  have t3: "timestamp_text (Aware 63918461700000000 0) = Inr ''2026-07-01T00:15:00Z''" by code_simp
  have amount: "fr_amount_minor demo_request = 5000" by (simp add: demo_request_def)
  obtain q where "build_fresh_validation_quote (request_json demo_request) quote_instant ''q_000000000000000000000000'' True = Inr q"
      "qd_quote_status q \<noteq> ''declined_max_price''"
    by (simp add: build_fresh_validation_quote_def parse qid t1 t2 t3 Let_def amount
        LEGACY_STRIPE_AMOUNT_MINOR_def)
  then show ?thesis
    by (simp add: create_quote_def parse orderable_quote_def find_quote_def empty_store_def)
qed

theorem reachable_store_ok_witness:
  "\<exists>d :: db. store_reachable Sandbox d \<and> length (quotes d) = 1 \<and> store_ok Sandbox d"
proof -
  obtain q d where d: "create_quote Sandbox (request_json demo_request) ''q_000000000000000000000000'' quote_instant
      ''fake'' False empty_store = Inr (q, d)" "length (quotes d) = 1"
    using demo_quote_created by blast
  have "store_initial Sandbox empty_store" by (simp add: store_initial_def empty_store_def)
  then have "store_reachable Sandbox d"
    unfolding store_reachable_def reachable_from_def using store_step.quote [OF d(1)] by blast
  with reachable_store_ok [OF this] d(2) show ?thesis by blast
qed

text \<open>
  C2. The ledger reconciles with the order row: the contribution of an order is what was
  collected less the processing fee, the refund and the recorded direct costs.
\<close>

theorem ledger_reconciles:
  assumes "store_ok env d" "find_order oid d = Some r"
  shows "ov_gross_contribution_minor (order_view_of env r d) =
     o_collected_amount_minor r - o_processing_fee_minor r - o_refunded_amount_minor r
       - sum_list (map snd (ov_direct_costs_minor (order_view_of env r d)))"
proof -
  have "ledger_ok (financial_entries d) r" "row_ok env r"
    using find_order_ok [OF assms] by (simp_all add: order_ok_def)
  moreover have "\<forall>e \<in> set (financial_entries d). entry_ok (orders d) e"
    using store_ok_parts(6) [OF assms(1)] by blast
  ultimately show ?thesis
    using ledger_contribution [of d r env] find_orderD [OF assms(2)]
    by (simp add: order_view_of_def direct_costs_def comp_def)
qed

theorem ledger_reconciles_witness:
  "ov_gross_contribution_minor (order_view_of Sandbox demo_order waiting_store) = 0"
  by (subst ledger_reconciles [OF waiting_store_ok demo_find(2)])
    (simp add: demo_order_def new_order_def order_view_of_def DIRECT_COST_CATEGORIES_def
      category_amount_def entries_of_def waiting_store_def)




text \<open>
  The summary adds up: the ledger contribution of the whole store is what was collected
  less fees, refunds and direct costs over its orders, and nothing counts towards the goal.
\<close>

theorem financial_summary_adds_up:
  assumes "store_ok env d"
  shows "fs_ledger_contribution (get_financial_summary env d) =
      fs_collected (get_financial_summary env d) - fs_fees (get_financial_summary env d)
      - fs_refunded (get_financial_summary env d)
      - sum_list (map (\<lambda>r. direct_costs (o_order_id r) d) (orders d))
    \<and> fs_goal_contribution (get_financial_summary env d) = 0
    \<and> fs_goal_collected (get_financial_summary env d) = 0"
proof -
  have rows: "\<forall>r \<in> set (orders d). row_ok env r \<and> ledger_ok (financial_entries d) r"
    using store_ok_parts(4) [OF assms] by (auto simp: order_ok_def)
  have ents: "\<forall>e \<in> set (financial_entries d). entry_ok (orders d) e"
    using store_ok_parts(6) [OF assms] by blast
  have no_goal: "filter (\<lambda>r. o_order_id r = i \<and> o_counts_for_goal r) (orders d) = []" for i
    using rows by (auto simp: filter_empty_conv row_ok_def)
  have "sum_list (map fe_impact_minor (financial_entries d)) =
      sum_list (map (\<lambda>i. contribution i d) (map o_order_id (orders d)))"
    unfolding contribution_def entries_of_def
    by (rule sum_over_orders) (use orders_uniqueD(1) [OF store_ok_parts(1) [OF assms]] ents in
        \<open>auto simp: unique_on_def entry_ok_def\<close>)
  also have "\<dots> = sum_list (map (\<lambda>r. o_collected_amount_minor r - o_processing_fee_minor r
      - o_refunded_amount_minor r - direct_costs (o_order_id r) d) (orders d))"
    unfolding map_map comp_def
    by (intro arg_cong [where f = sum_list] map_cong refl ledger_contribution) (use rows ents in auto)
  also have "\<dots> = sum_list (map o_collected_amount_minor (orders d)) - sum_list (map o_processing_fee_minor (orders d))
      - sum_list (map o_refunded_amount_minor (orders d)) - sum_list (map (\<lambda>r. direct_costs (o_order_id r) d) (orders d))"
    by (simp add: sum_list_subtractf)
  finally have "fs_ledger_contribution (get_financial_summary env d) =
      fs_collected (get_financial_summary env d) - fs_fees (get_financial_summary env d)
      - fs_refunded (get_financial_summary env d)
      - sum_list (map (\<lambda>r. direct_costs (o_order_id r) d) (orders d))"
    by (simp add: get_financial_summary_def)
  moreover have "fs_goal_contribution (get_financial_summary env d) = 0"
  proof -
    have "sum_list (concat (map (\<lambda>e. []) es)) = (0::int)" for es :: "financial_entry list"
      by (induction es) simp_all
    then show ?thesis by (simp add: get_financial_summary_def no_goal)
  qed
  moreover have "map (\<lambda>r. if o_counts_for_goal r then o_collected_amount_minor r else 0) (orders d) = map (\<lambda>r. 0) (orders d)"
    by (rule map_cong) (use rows in \<open>auto simp: row_ok_def\<close>)
  then have "fs_goal_collected (get_financial_summary env d) = 0"
    by (simp add: get_financial_summary_def del: map_eq_conv)
  ultimately show ?thesis by blast
qed

theorem financial_summary_adds_up_witness:
  "fs_goal_collected (get_financial_summary Sandbox paid_store) = 0"
  using financial_summary_adds_up [OF paid_store_ok] by blast



subsection \<open>Statuses only move forward\<close>

lemma order_status_value_inj: "order_status_value s = order_status_value t \<longleftrightarrow> s = t"
  by (cases s; cases t) simp_all

lemma payment_status_value_inj: "payment_status_value s = payment_status_value t \<longleftrightarrow> s = t"
  by (cases s; cases t) simp_all

lemma order_step_run:
  "rtranclp order_step a b \<Longrightarrow> a = order_status_value s \<Longrightarrow>
     \<exists>t. b = order_status_value t \<and> rtranclp (\<lambda>s t. t \<in> set (order_transitions s)) s t"
  by (induction rule: rtranclp_induct)
    (auto simp: order_step_def order_status_value_inj intro: rtranclp.rtrancl_into_rtrancl)

lemma payment_step_run:
  "rtranclp payment_step a b \<Longrightarrow> a = payment_status_value s \<Longrightarrow>
     \<exists>t. b = payment_status_value t \<and> rtranclp (\<lambda>s t. t \<in> set (payment_transitions s)) s t"
  by (induction rule: rtranclp_induct)
    (auto simp: payment_step_def payment_status_value_inj intro: rtranclp.rtrancl_into_rtrancl)

lemma run_ends_append:
  "run_ends step s (xs @ ys) t \<Longrightarrow> run_ends step s xs u \<Longrightarrow> run_ends step u ys t"
  by (induction step s xs u arbitrary: t rule: run_ends.induct) auto

lemma trail_extends:
  assumes "trail_ok hs r" "trail_ok hs' r'" "prefix hs hs'" "o_order_id r' = o_order_id r"
  shows "rtranclp order_step (order_status_value (o_order_status r)) (order_status_value (o_order_status r'))"
    "rtranclp payment_step (payment_status_value (o_payment_status r)) (payment_status_value (o_payment_status r'))"
proof -
  from assms(3) obtain more where more: "hs' = hs @ more" by (auto simp: prefix_def)
  have split: "trail dim (o_order_id r) hs' = trail dim (o_order_id r) hs @ trail dim (o_order_id r) more" for dim
    by (simp add: trail_def more)
  from assms(1) obtain t where t: "trail ''order'' (o_order_id r) hs = (None, ''checkout_pending'') # t"
      "run_ends order_step ''checkout_pending'' t (order_status_value (o_order_status r))"
    by (auto simp: trail_ok_def)
  from assms(2,4) split t have "run_ends order_step ''checkout_pending'' (t @ trail ''order'' (o_order_id r) more)
      (order_status_value (o_order_status r'))" by (auto simp: trail_ok_def)
  from run_ends_reaches [OF run_ends_append [OF this t(2)]]
  show "rtranclp order_step (order_status_value (o_order_status r)) (order_status_value (o_order_status r'))" .
  have "run_ends payment_step ''pending'' (trail ''payment'' (o_order_id r) hs @ trail ''payment'' (o_order_id r) more)
      (payment_status_value (o_payment_status r'))" using assms(2,4) split by (auto simp: trail_ok_def)
  from run_ends_reaches [OF run_ends_append [OF this]] assms(1)
  show "rtranclp payment_step (payment_status_value (o_payment_status r)) (payment_status_value (o_payment_status r'))"
    by (auto simp: trail_ok_def)
qed

text \<open>
  C5. Over any run of operations an order keeps its identity and its two statuses move
  only along the transition tables; a delivered order stays delivered, and a refunded or
  disputed payment stays so.
\<close>

theorem statuses_move_forward:
  assumes "store_ok env d" "rtranclp (store_step env) d d'" "find_order oid d = Some r"
  shows "\<exists>r'. find_order oid d' = Some r'
    \<and> rtranclp (\<lambda>s t. t \<in> set (order_transitions s)) (o_order_status r) (o_order_status r')
    \<and> rtranclp (\<lambda>s t. t \<in> set (payment_transitions s)) (o_payment_status r) (o_payment_status r')
    \<and> (o_order_status r = Delivered \<longrightarrow> o_order_status r' = Delivered)
    \<and> (o_payment_status r \<in> {P_Refunded, P_Disputed} \<longrightarrow> o_payment_status r' = o_payment_status r)"
proof -
  have ok': "store_ok env d'" by (rule store.run_inv [OF assms(2,1)])
  have app: "append_only d d'"
    by (rule store.run_related [OF assms(2,1)]) (auto intro: append_only_trans store_step_append_only)
  have rid: "o_order_id r = oid" using find_orderD [OF assms(3)] by simp
  have "oid \<in> set (map o_order_id (orders d))" using find_orderD [OF assms(3)] by force
  then have "oid \<in> set (map o_order_id (orders d'))"
    using app set_mono_prefix [of "map o_order_id (orders d)" "map o_order_id (orders d')"]
    unfolding append_only_def by blast
  then have "find_order oid d' \<noteq> None" by (auto simp: find_order_def find_None_iff)
  then obtain r' where r': "find_order oid d' = Some r'" by blast
  have trails: "trail_ok (order_history d) r" "trail_ok (order_history d') r'"
    using find_order_ok [OF assms(1,3)] find_order_ok [OF ok' r'] by (simp_all add: order_ok_def)
  have hist: "prefix (order_history d) (order_history d')" using app by (simp add: append_only_def)
  have ids: "o_order_id r' = o_order_id r" using rid find_orderD [OF r'] by simp
  note runs = trail_extends [OF trails hist ids]
  have o_run: "rtranclp (\<lambda>s t. t \<in> set (order_transitions s)) (o_order_status r) (o_order_status r')"
    using order_step_run [OF runs(1) refl] by (auto simp: order_status_value_inj)
  have p_run: "rtranclp (\<lambda>s t. t \<in> set (payment_transitions s)) (o_payment_status r) (o_payment_status r')"
    using payment_step_run [OF runs(2) refl] by (auto simp: payment_status_value_inj)
  have "o_order_status r = Delivered \<longrightarrow> o_order_status r' = Delivered"
    using order_sm.terminal_stays [OF _ o_run] by (auto simp: Let_def)
  moreover have "o_payment_status r \<in> {P_Refunded, P_Disputed} \<longrightarrow> o_payment_status r' = o_payment_status r"
    using payment_sm.terminal_stays [OF _ p_run] by auto
  ultimately show ?thesis using r' o_run p_run by blast
qed

theorem statuses_move_forward_witness:
  "\<exists>r'. find_order ''ord_test_000000000000000000000001'' waiting_store = Some r'
    \<and> rtranclp (\<lambda>s t. t \<in> set (order_transitions s)) (o_order_status demo_order) (o_order_status r')"
  using statuses_move_forward [OF waiting_store_ok rtranclp.rtrancl_refl demo_find(2)] by blast

subsection \<open>Ingestion of provider events\<close>

text \<open>
  C6. A valid event with a new identifier for a known payment of the same provider is
  always recorded: reconciliation ends, no constraint or assertion of the transaction fails,
  the store stays well formed, and afterwards no event of that payment is left pending that
  could be applied.
\<close>

theorem ingest_records_event:
  assumes "store_ok env d" "validate_event env v = Inr e" "parse_timestamp received = Inr u"
    and "find_event (pe_event_id e) d = None"
    and "find_order_by_payment (pe_payment_id e) d = Some r" "o_provider r = pe_provider e"
  shows "\<exists>res d' er. ingest_provider_event env v received d = Inr (res, d') \<and> store_ok env d'
    \<and> \<not> ir_duplicate res \<and> find_event (pe_event_id e) d' = Some er \<and> ir_event_status res = ev_status er
    \<and> all_blocked (pe_payment_id e) d'"
  using ingest_new [OF assms] by auto

definition demo_event_json :: json where
  "demo_event_json = event_json demo_capture"

lemma demo_validate: "validate_event Sandbox demo_event_json = Inr demo_capture"
  by code_simp

lemma demo_received: "parse_timestamp ''2026-07-01T00:02:00Z'' = Inr 63918460920000000"
  by code_simp

lemma demo_fresh: "find_event (pe_event_id demo_capture) waiting_store = None"
  by (simp add: find_event_def waiting_store_def)

lemma demo_pays: "find_order_by_payment (pe_payment_id demo_capture) waiting_store = Some demo_order"
  "o_provider demo_order = pe_provider demo_capture"
  using demo_find(1) by (simp_all add: demo_capture_def demo_order_def new_order_def)

theorem ingest_records_event_witness:
  "\<exists>res d'. ingest_provider_event Sandbox demo_event_json ''2026-07-01T00:02:00Z'' waiting_store = Inr (res, d')
    \<and> \<not> ir_duplicate res"
  using ingest_records_event [OF waiting_store_ok demo_validate demo_received demo_fresh demo_pays] by blast





text \<open>
  Replaying an event is idempotent: ingesting the same document again, whenever it is
  received, changes nothing and returns the same event status and the same order.
\<close>

theorem ingest_replay:
  assumes "store_ok env d" "ingest_provider_event env v received d = Inr (res, d')"
    and "parse_timestamp again = Inr u2"
  shows "ingest_provider_event env v again d' = Inr (res\<lparr>ir_duplicate := True\<rparr>, d')"
  using assms(1,2)
proof (cases rule: ingest_cases)
  case (dup e er r)
  have "find_order (o_order_id r) d = Some r"
    by (rule find_order_self [OF assms(1)]) (use find_order_by_paymentD [OF dup(4)] in blast)
  with dup assms(3) show ?thesis
    by (simp add: ingest_provider_event_def order_view_def require_order_def)
next
  case (new e u er r r')
  have "find_order (o_order_id r') d' = Some r'"
    by (rule find_order_self [OF new(7)]) (use find_order_by_paymentD [OF new(11)] in blast)
  with new assms(3) show ?thesis
    by (simp add: ingest_provider_event_def order_view_def require_order_def)
qed

theorem ingest_replay_witness:
  "\<exists>res (d' :: db). ingest_provider_event Sandbox demo_event_json ''2026-07-01T00:02:00Z'' d' =
     Inr (res\<lparr>ir_duplicate := True\<rparr>, d')"
proof -
  obtain res d' er where "ingest_provider_event Sandbox demo_event_json ''2026-07-01T00:02:00Z'' waiting_store = Inr (res, d')"
    using ingest_new [OF waiting_store_ok demo_validate demo_received demo_fresh demo_pays] by blast
  from ingest_replay [OF waiting_store_ok this demo_received] show ?thesis by blast
qed

subsection \<open>Orders\<close>

text \<open>
  Creating an order is idempotent: the same quote, idempotency key and buyer, at any
  later time (even after the quote expired), return the same order and change nothing.
\<close>

theorem create_order_idempotent:
  assumes "store_ok env d" "create_order env qid key buyer now d = Inr (v, d')"
    and "\<not> is_naive now2" "astimezone_utc now2 = Inr u2"
  shows "create_order env qid key buyer now2 d' = Inr (v, d')"
proof -
  have pre: "re_idempotency key" "re_buyer buyer"
    using assms(2) unfolding create_order_def reject_if_Inr by auto
  from assms(2) show ?thesis
  proof (cases rule: create_order_cases)
    case (same r)
    from assms(2) same(1) have "view_after env (o_order_id r) d = Inr (v, d')"
      unfolding create_order_def Let_def by (auto simp: reject_if_Inr and_then_Inr)
    with same pre assms(3,4) show ?thesis
      by (simp add: create_order_def Let_def)
  next
    case (new q prov u exp)
    let ?r = "new_order env (derive_order_id env qid key buyer) q key buyer prov (iso_z u)"
    have r: "fetchone (\<lambda>r. o_idempotency_key r = key) (orders d') = Some ?r"
      using new(1) by (simp add: new(11) find_append new_order_def)
    have "view_after env (o_order_id ?r) d' = Inr (v, d')"
      using assms(2) new(1,2,5) new(7) unfolding new(11) create_order_def Let_def
      by (auto simp: reject_if_Inr and_then_Inr new_order_def on_integrity_error_Inr write_orders_Inr)
    moreover have "o_quote_id ?r = qid" "o_buyer_reference ?r = buyer"
      using new(2) by (auto simp: new_order_def find_quote_def dest: find_SomeD)
    ultimately show ?thesis using r pre assms(3,4) by (simp add: create_order_def Let_def)
  qed
qed

definition quoted_store :: db where
  "quoted_store = \<lparr>metadata = [], quotes = [demo_quote], orders = [], provider_events = [],
     financial_entries = [], cost_records = [], order_history = []\<rparr>"

lemma quoted_store_ok: "store_ok Sandbox quoted_store"
  by (simp add: store_ok_def orders_unique_def events_ok_def quoted_store_def quote_ok_def demo_quote_def
      unique_on_def)

definition demo_now :: pydatetime where
  "demo_now = Aware 63918460860000000 0"

lemma demo_times: "astimezone_utc demo_now = Inr 63918460860000000" "\<not> is_naive demo_now"
  "astimezone_utc (Aware 63918470000000000 0) = Inr 63918470000000000"
  by code_simp+

lemma demo_expiry: "parse_timestamp (q_expires_at demo_quote) = Inr 63918461700000000"
  by code_simp

lemma demo_keys: "re_idempotency ''idempotency''" "re_buyer ''buyer-one''"
  by code_simp+

text \<open>The outcome of the first order on an orderable quote that nothing conflicts with.\<close>

lemma create_order_fresh:
  assumes "re_idempotency key" "re_buyer buyer" "\<not> is_naive now" "astimezone_utc now = Inr u"
    and "fetchone (\<lambda>r. o_idempotency_key r = key) (orders d) = None"
    and q: "find_quote qid d = Some q" "q_environment q = env" "q_orderable q"
      "quote_provider (q_document q) = Some prov" "env = Live \<longrightarrow> prov = ''stripe''"
      "parse_timestamp (q_expires_at q) = Inr exp"
    and uq: "orders_unique (orders d)" "qid \<notin> o_quote_id ` set (orders d)"
      "derive_order_id env qid key buyer \<notin> o_order_id ` set (orders d)"
  shows "create_order env qid key buyer now d =
    (if exp \<le> u then Inl (Rejected ''quote_expired'')
     else view_after env (derive_order_id env qid key buyer)
       (history (derive_order_id env qid key buyer) ''order'' None (order_status_value Checkout_Pending) key (iso_z u)
         (d\<lparr>orders := orders d @ [new_order env (derive_order_id env qid key buyer) q key buyer prov (iso_z u)]\<rparr>)))"
proof -
  have "q_quote_id q = qid" using q(1) by (auto simp: find_quote_def dest: find_SomeD)
  then have "orders_unique (orders d @ [new_order env (derive_order_id env qid key buyer) q key buyer prov (iso_z u)])"
    using uq assms(5) by (auto simp: orders_unique_def new_order_def find_None_iff)
  with assms show ?thesis
    by (auto simp: create_order_def Let_def write_orders_def on_integrity_error_def)
qed

lemma demo_create:
  "\<exists>v d'. create_order Sandbox (q_quote_id demo_quote) ''idempotency'' ''buyer-one'' demo_now quoted_store = Inr (v, d')"
proof -
  have "find_quote (q_quote_id demo_quote) quoted_store = Some demo_quote"
    by (simp add: find_quote_def quoted_store_def)
  moreover have "quote_provider (q_document demo_quote) = Some ''fake''"
    "q_environment demo_quote = Sandbox" "q_orderable demo_quote"
    by (simp_all add: demo_quote_def quote_provider_def)
  ultimately have "create_order Sandbox (q_quote_id demo_quote) ''idempotency'' ''buyer-one'' demo_now quoted_store =
    view_after Sandbox (derive_order_id Sandbox (q_quote_id demo_quote) ''idempotency'' ''buyer-one'')
     (history (derive_order_id Sandbox (q_quote_id demo_quote) ''idempotency'' ''buyer-one'') ''order'' None
       (order_status_value Checkout_Pending) ''idempotency'' (iso_z 63918460860000000)
       (quoted_store\<lparr>orders := orders quoted_store @
         [new_order Sandbox (derive_order_id Sandbox (q_quote_id demo_quote) ''idempotency'' ''buyer-one'') demo_quote
           ''idempotency'' ''buyer-one'' ''fake'' (iso_z 63918460860000000)]\<rparr>))"
    using create_order_fresh [OF demo_keys, of demo_now 63918460860000000 quoted_store
        "q_quote_id demo_quote" demo_quote Sandbox "''fake''"] demo_expiry
      demo_times by (simp add: quoted_store_def orders_unique_def)
  then show ?thesis
    by (simp add: view_after_def order_view_def require_order_def find_order_def quoted_store_def new_order_def)
qed

theorem create_order_idempotent_witness:
  "\<exists>v (d' :: db). create_order Sandbox (q_quote_id demo_quote) ''idempotency'' ''buyer-one'' (Aware 63918470000000000 0) d' = Inr (v, d')"
proof -
  from demo_create obtain v d' where
    "create_order Sandbox (q_quote_id demo_quote) ''idempotency'' ''buyer-one'' demo_now quoted_store = Inr (v, d')" by blast
  from create_order_idempotent [OF quoted_store_ok this, of "Aware 63918470000000000 0" 63918470000000000]
  show ?thesis using demo_times(3) by auto
qed

text \<open>
  C8. A quote issued with an expiry instant is orderable up to that second and no longer:
  the first order on it succeeds before the expiry, at the price of the quote and with no
  money collected, and is rejected as expired from the expiry on.
\<close>

theorem quote_orderable_until_expiry:
  assumes "store_ok env d" "re_idempotency key" "re_buyer buyer" "\<not> is_naive now" "astimezone_utc now = Inr u"
    and "fetchone (\<lambda>r. o_idempotency_key r = key) (orders d) = None" "find_quote qid d = Some q"
    and "quote_provider (q_document q) = Some prov" "env = Live \<longrightarrow> prov = ''stripe''"
    and "q_expires_at q = iso_z t" "0 \<le> t" "t < max_us"
    and "qid \<notin> o_quote_id ` set (orders d)"
    and "derive_order_id env qid key buyer \<notin> o_order_id ` set (orders d)"
  shows "if u < floor_second t
    then \<exists>v d'. create_order env qid key buyer now d = Inr (v, d')
       \<and> o_quoted_amount_minor (ov_order v) = q_amount_minor q \<and> o_collected_amount_minor (ov_order v) = 0
       \<and> o_quote_id (ov_order v) = qid \<and> o_order_status (ov_order v) = Checkout_Pending
    else create_order env qid key buyer now d = Inl (Rejected ''quote_expired'')"
proof -
  let ?id = "derive_order_id env qid key buyer"
  have q: "q \<in> set (quotes d)" "q_quote_id q = qid"
    using assms(7) by (auto simp: find_quote_def dest: find_SomeD)
  have qok: "q_environment q = env" "q_orderable q"
    using store_ok_parts(3) [OF assms(1) q(1)] by (simp_all add: quote_ok_def)
  have exp: "parse_timestamp (q_expires_at q) = Inr (floor_second t)"
    using parse_timestamp_iso_z [OF assms(11,12)] by (simp add: assms(10))
  note run = create_order_fresh [OF assms(2-7) qok assms(8,9) exp store_ok_parts(1) [OF assms(1)] assms(13,14)]
  let ?r = "new_order env ?id q key buyer prov (iso_z u)"
  have "find_order ?id (history ?id ''order'' None (order_status_value Checkout_Pending) key (iso_z u)
      (d\<lparr>orders := orders d @ [?r]\<rparr>)) = Some ?r"
  proof -
    have "fetchone (\<lambda>r. o_order_id r = ?id) (orders d) = None"
      using assms(14) unfolding find_None_iff by (metis image_eqI)
    then show ?thesis by (simp add: find_order_def find_append new_order_def)
  qed
  then show ?thesis
    using q(2) by (simp add: run view_after_def order_view_def require_order_def order_view_of_def new_order_def)
qed

theorem quote_orderable_until_expiry_witness:
  "create_order Sandbox (q_quote_id demo_quote) ''idempotency'' ''buyer-one'' (Aware 63918470000000000 0) quoted_store
     = Inl (Rejected ''quote_expired'')"
proof -
  have exp: "q_expires_at demo_quote = iso_z 63918461700000000" by code_simp
  have "floor_second 63918461700000000 = 63918461700000000" by code_simp
  then show ?thesis
    using quote_orderable_until_expiry [OF quoted_store_ok demo_keys, of "Aware 63918470000000000 0" 63918470000000000
      "q_quote_id demo_quote" demo_quote "''fake''" 63918461700000000] demo_times(3) exp
    by (simp add: quoted_store_def find_quote_def demo_quote_def quote_provider_def max_us_def max_ordinal_def day_us_def)
qed

text \<open>
  A delivery is final: once an order is delivered, any further delivery of it returns
  the same order if it names the same receipt, digests and key, and is refused otherwise;
  either way nothing changes.
\<close>

theorem delivery_is_final:
  assumes "store_ok env d" "deliver env oid rid rsha esha kid src at d = Inr (v, d')"
    and "re_receipt_id rid2" "re_class is_hex 64 64 rsha2" "re_class is_hex 64 64 esha2" "re_key_id kid2"
    and "parse_timestamp at2 = Inr u2"
  shows "deliver env oid rid2 rsha2 esha2 kid2 src2 at2 d' =
    (if (rid2, rsha2, esha2, kid2) = (rid, rsha, esha, kid) then Inr (v, d')
     else Inl (Rejected ''idempotency_conflict''))"
proof -
  have ok': "store_ok env d'" by (rule deliver_ok [OF assms(1,2)])
  have view: "view_after env oid d' = Inr (v, d')"
    using assms(2) unfolding deliver_def
    by (auto simp: txn_simps simp del: require_transition.simps split: if_splits)
  obtain r where r: "find_order oid d' = Some r" "o_order_status r = Delivered"
      "o_receipt_id r = Some rid" "o_receipt_sha256 r = Some rsha" "o_envelope_sha256 r = Some esha"
      "o_signing_keyid r = Some kid"
    using assms(2)
  proof (cases rule: deliver_cases)
    case (same r)
    with that show thesis by simp
  next
    case (new r d1)
    then have "find_order oid d' = Some (r\<lparr>o_order_status := Delivered, o_receipt_id := Some rid,
            o_receipt_sha256 := Some rsha, o_envelope_sha256 := Some esha,
            o_signing_keyid := Some kid, o_delivery_status := ''delivered'', o_updated_at := at\<rparr>)"
      by (auto simp: update_order_Inr find_order_def find_update_where dest: find_SomeD)
    with that show thesis by simp
  qed
  have "o_direct_costs_recorded r"
    using find_order_ok [OF ok' r(1)] r(2) by (simp add: order_ok_def row_simps)
  with r view assms(3-) show ?thesis by (auto simp: deliver_def require_order_def reject_if_def)
qed

definition demo_costs :: "(string \<times> json) list" where
  "demo_costs = map (\<lambda>c. (c, JInt 3)) DIRECT_COST_CATEGORIES"

definition after_write :: "exn + ('a \<times> 's) \<Rightarrow> 's \<Rightarrow> 's" where
  "after_write m d = (case m of Inr (v, d') \<Rightarrow> d' | Inl e \<Rightarrow> d)"

definition costed_store :: db where
  "costed_store = after_write (record_direct_costs Sandbox ''ord_test_000000000000000000000001'' demo_costs ''cost-key-1''
     ''2026-07-01T00:03:00Z'' paid_store) paid_store"

definition running_store :: db where
  "running_store = after_write (begin_fulfillment Sandbox ''ord_test_000000000000000000000001'' ''worker''
     ''2026-07-01T00:04:00Z'' costed_store) costed_store"

definition demo_sha :: string where "demo_sha = replicate 64 CHR ''a''"
definition demo_key :: string where "demo_key = replicate 43 CHR ''k''"
definition demo_delivered_id :: string where "demo_delivered_id = ''cpr_'' @ replicate 24 CHR ''0''"

lemma after_write_ok: "store_ok env d \<Longrightarrow> (\<And>v d'. m = Inr (v, d') \<Longrightarrow> store_ok env d') \<Longrightarrow> store_ok env (after_write m d)"
  by (auto simp: after_write_def split: sum.splits)

lemma costed_store_ok: "store_ok Sandbox costed_store"
  unfolding costed_store_def
  by (rule after_write_ok [OF paid_store_ok]) (rule record_direct_costs_ok [OF paid_store_ok])

lemma running_store_ok: "store_ok Sandbox running_store"
  unfolding running_store_def
  by (rule after_write_ok [OF costed_store_ok]) (rule begin_fulfillment_ok [OF costed_store_ok])

lemma demo_deliver:
  "\<exists>v d'. deliver Sandbox ''ord_test_000000000000000000000001'' demo_delivered_id demo_sha demo_sha demo_key ''w'' ''2026-07-01T00:05:00Z'' running_store = Inr (v, d')"
proof -
  have "(case deliver Sandbox ''ord_test_000000000000000000000001'' demo_delivered_id demo_sha demo_sha demo_key ''w'' ''2026-07-01T00:05:00Z'' running_store
      of Inl e \<Rightarrow> False | Inr x \<Rightarrow> True)" by code_simp
  then show ?thesis by (auto split: sum.splits)
qed

lemma demo_delivery_ids: "re_receipt_id demo_delivered_id" "re_class is_hex 64 64 demo_sha" "re_key_id demo_key"
  by code_simp+

theorem delivery_is_final_witness:
  "\<exists>v (d' :: db). deliver Sandbox ''ord_test_000000000000000000000001'' demo_delivered_id demo_sha demo_sha demo_key ''w'' ''2026-07-01T00:02:00Z'' d' = Inr (v, d')"
proof -
  from demo_deliver obtain v d' where
    "deliver Sandbox ''ord_test_000000000000000000000001'' demo_delivered_id demo_sha demo_sha demo_key ''w'' ''2026-07-01T00:05:00Z'' running_store = Inr (v, d')"
    by blast
  from delivery_is_final [OF running_store_ok this demo_delivery_ids(1,2,2,3) demo_received] show ?thesis by auto
qed

end
