(* ===== verification/Base64.thy ===== *)
theory Base64
  imports PyText
begin

section \<open>Base64\<close>

text \<open>
  \<open>base64.b64encode\<close>, \<open>urlsafe_b64encode\<close> and \<open>b64decode(validate=True)\<close>.  The alphabet is
  chosen by a flag: \<open>True\<close> is the URL-safe one.  Encoding and decoding are inverse.
\<close>

definition b64_char :: "bool \<Rightarrow> nat \<Rightarrow> char" where
  "b64_char url n =
     (if n < 26 then chr_of (65 + n) else if n < 52 then chr_of (71 + n)
      else if n < 62 then chr_of (n - 4)
      else if n = 62 then (if url then CHR ''-'' else CHR ''+'')
      else (if url then CHR ''_'' else CHR ''/''))"

definition b64_val :: "bool \<Rightarrow> char \<Rightarrow> nat option" where
  "b64_val url c =
     (let b = byte_of c in
      if 65 \<le> b \<and> b \<le> 90 then Some (b - 65) else if 97 \<le> b \<and> b \<le> 122 then Some (b - 71)
      else if 48 \<le> b \<and> b \<le> 57 then Some (b + 4)
      else if c = CHR ''+'' \<or> url \<and> c = CHR ''-'' then Some 62
      else if c = CHR ''/'' \<or> url \<and> c = CHR ''_'' then Some 63 else None)"

lemma sextet_cases:
  fixes n :: nat
  assumes "n < 64"
  obtains "n < 26" | "26 \<le> n" "n < 52" | "52 \<le> n" "n < 62" | "n = 62" | "n = 63"
  using assms by linarith

lemma byte_of_literals [simp]:
  "byte_of CHR ''+'' = 43" "byte_of CHR ''-'' = 45" "byte_of CHR ''/'' = 47" "byte_of CHR ''_'' = 95"
  "byte_of CHR ''='' = 61" "byte_of CHR ''0'' = 48" "byte_of CHR ''9'' = 57" "byte_of CHR ''a'' = 97"
  "byte_of CHR ''z'' = 122" "byte_of CHR ''A'' = 65" "byte_of CHR ''Z'' = 90"
  by (simp_all add: byte_of_def)

lemma b64_val_char [simp]: "n < 64 \<Longrightarrow> b64_val url (b64_char url n) = Some n"
  by (erule sextet_cases) (auto simp: b64_val_def b64_char_def byte_of_chr_of Let_def)

lemma b64_char_token: "n < 64 \<Longrightarrow> is_token (b64_char True n)"
  by (erule sextet_cases)
    (auto simp: is_token_def is_alnum_def is_digit_def is_lower_def is_upper_def between_def b64_char_def byte_of_chr_of)

lemma b64_char_not_pad: "n < 64 \<Longrightarrow> b64_char url n \<noteq> CHR ''=''"
proof
  assume n: "n < 64" and eq: "b64_char url n = CHR ''=''"
  from eq have "byte_of (b64_char url n) = 61" by simp
  with n show False by (elim sextet_cases) (auto simp: b64_char_def byte_of_chr_of split: if_splits)
qed

text \<open>The encoding without padding, and the padding.\<close>

fun b64_body :: "bool \<Rightarrow> string \<Rightarrow> string" where
  "b64_body url (a # b # c # s) =
     (let n = byte_of a * 65536 + byte_of b * 256 + byte_of c in
      b64_char url (n div 262144) # b64_char url (n div 4096 mod 64) # b64_char url (n div 64 mod 64)
        # b64_char url (n mod 64) # b64_body url s)"
| "b64_body url [a, b] =
     (let n = byte_of a * 256 + byte_of b in
      [b64_char url (n div 1024), b64_char url (n div 16 mod 64), b64_char url (n mod 16 * 4)])"
| "b64_body url [a] = [b64_char url (byte_of a div 4), b64_char url (byte_of a mod 4 * 16)]"
| "b64_body url [] = []"

definition b64_pad :: "nat \<Rightarrow> string" where
  "b64_pad n = replicate ((4 - n mod 4) mod 4) CHR ''=''"

definition b64_encode :: "bool \<Rightarrow> string \<Rightarrow> string" where
  "b64_encode url s = b64_body url s @ b64_pad (length (b64_body url s))"

definition b64url_no_pad :: "string \<Rightarrow> string" where
  "b64url_no_pad s = b64_body True s"

text \<open>The bytes of the digits, which must come in full groups apart from a last one of two or three.\<close>

fun b64_digits :: "bool \<Rightarrow> string \<Rightarrow> nat list option" where
  "b64_digits url [] = Some []"
| "b64_digits url (c # s) =
     (case b64_val url c of None \<Rightarrow> None | Some n \<Rightarrow> map_option ((#) n) (b64_digits url s))"

fun b64_bytes :: "nat list \<Rightarrow> string option" where
  "b64_bytes (p # q # r # t # s) =
     (let n = p * 262144 + q * 4096 + r * 64 + t in
      map_option (\<lambda>u. chr_of (n div 65536) # chr_of (n div 256 mod 256) # chr_of (n mod 256) # u) (b64_bytes s))"
| "b64_bytes [p, q, r] = (let n = p * 1024 + q * 16 + r div 4 in Some [chr_of (n div 256), chr_of (n mod 256)])"
| "b64_bytes [p, q] = Some [chr_of (p * 4 + q div 16)]"
| "b64_bytes [p] = None"
| "b64_bytes [] = Some []"

definition b64_unpad :: "string \<Rightarrow> string option" where
  "b64_unpad s =
     (let body = takeWhile (\<lambda>c. c \<noteq> CHR ''='') s
      in if s = body @ b64_pad (length body) then Some body else None)"

text \<open>\<open>None\<close> is the \<open>binascii.Error\<close> of a malformed text.\<close>

definition b64_decode :: "bool \<Rightarrow> string \<Rightarrow> string option" where
  "b64_decode url s =
     (case b64_unpad s of None \<Rightarrow> None | Some body \<Rightarrow>
        (case b64_digits url body of None \<Rightarrow> None | Some ns \<Rightarrow> b64_bytes ns))"

lemma low_byte:
  fixes c x :: nat
  assumes "c < 256"
  shows "(c + 256 * x) mod 256 = c" "(c + 256 * x) div 256 = x"
  using assms by simp_all

lemma b64_body_digits:
  "\<exists>ns. b64_digits url (b64_body url s) = Some ns \<and> b64_bytes ns = Some s
     \<and> (\<forall>c \<in> set (b64_body url s). \<exists>n < 64. c = b64_char url n)"
proof (induction url s rule: b64_body.induct)
  case (1 url a b c s)
  define n where "n = byte_of a * 65536 + byte_of b * 256 + byte_of c"
  have bounds: "byte_of a < 256" "byte_of b < 256" "byte_of c < 256" by (rule byte_of_bound)+
  have n': "n = byte_of c + 256 * (byte_of b + 256 * byte_of a)" by (simp add: n_def)
  have lt: "n div 262144 < 64" "n div 4096 mod 64 < 64" "n div 64 mod 64 < 64" "n mod 64 < 64"
    using bounds by (simp_all add: n_def)
  have sum: "n div 262144 * 262144 + n div 4096 mod 64 * 4096 + n div 64 mod 64 * 64 + n mod 64 = n"
  proof -
    have "n div 4096 = n div 262144 * 64 + n div 4096 mod 64"
      using div_mult_mod_eq [of "n div 4096" 64] by (simp add: div_mult2_eq [symmetric])
    moreover have "n div 64 = n div 4096 * 64 + n div 64 mod 64"
      using div_mult_mod_eq [of "n div 64" 64] by (simp add: div_mult2_eq [symmetric])
    moreover have "n = n div 64 * 64 + n mod 64" by simp
    ultimately show ?thesis by linarith
  qed
  have "n div 65536 = n div 256 div 256" by (simp add: div_mult2_eq [symmetric])
  then have bytes: "n div 65536 = byte_of a" "n div 256 mod 256 = byte_of b" "n mod 256 = byte_of c"
    by (simp_all only: n' low_byte [OF bounds(3)] low_byte [OF bounds(2)])
  from 1 obtain ns where ns: "b64_digits url (b64_body url s) = Some ns" "b64_bytes ns = Some s"
     "\<forall>c \<in> set (b64_body url s). \<exists>n < 64. c = b64_char url n" by auto
  have body: "b64_body url (a # b # c # s) = b64_char url (n div 262144) # b64_char url (n div 4096 mod 64)
      # b64_char url (n div 64 mod 64) # b64_char url (n mod 64) # b64_body url s"
    by (simp only: b64_body.simps Let_def n_def)
  have "b64_digits url (b64_body url (a # b # c # s)) =
      Some (n div 262144 # n div 4096 mod 64 # n div 64 mod 64 # n mod 64 # ns)"
    unfolding body using lt ns(1) by simp
  moreover have "b64_bytes (n div 262144 # n div 4096 mod 64 # n div 64 mod 64 # n mod 64 # ns) = Some (a # b # c # s)"
    by (simp only: b64_bytes.simps Let_def sum bytes ns(2) option.map chr_of_byte_of)
  moreover have "\<forall>c \<in> set (b64_body url (a # b # c # s)). \<exists>n < 64. c = b64_char url n"
    unfolding body list.set ball_simps using lt ns(3) by blast
  ultimately show ?case by blast
next
  case (2 url a b)
  define n where "n = byte_of a * 256 + byte_of b"
  have bounds: "byte_of a < 256" "byte_of b < 256" by (rule byte_of_bound)+
  have n': "n = byte_of b + 256 * byte_of a" by (simp add: n_def)
  have lt: "n div 1024 < 64" "n div 16 mod 64 < 64" "n mod 16 * 4 < 64"
    using bounds by (simp_all add: n_def)
  have sum: "n div 1024 * 1024 + n div 16 mod 64 * 16 + n mod 16 = n"
  proof -
    have "n div 16 = n div 1024 * 64 + n div 16 mod 64"
      using div_mult_mod_eq [of "n div 16" 64] by (simp add: div_mult2_eq [symmetric])
    moreover have "n = n div 16 * 16 + n mod 16" by simp
    ultimately show ?thesis by linarith
  qed
  have quarter: "n mod 16 * 4 div 4 = n mod 16" by simp
  have bytes: "n div 256 = byte_of a" "n mod 256 = byte_of b"
    by (simp_all only: n' low_byte [OF bounds(2)])
  have body: "b64_body url [a, b] = [b64_char url (n div 1024), b64_char url (n div 16 mod 64), b64_char url (n mod 16 * 4)]"
    by (simp only: b64_body.simps Let_def n_def)
  have "b64_digits url (b64_body url [a, b]) = Some [n div 1024, n div 16 mod 64, n mod 16 * 4]"
    unfolding body using lt by simp
  moreover have "b64_bytes [n div 1024, n div 16 mod 64, n mod 16 * 4] = Some [a, b]"
    by (simp only: b64_bytes.simps Let_def quarter sum bytes chr_of_byte_of)
  moreover have "\<forall>c \<in> set (b64_body url [a, b]). \<exists>n < 64. c = b64_char url n"
    unfolding body list.set ball_simps using lt by blast
  ultimately show ?case by blast
next
  case (3 url a)
  have "byte_of a < 256" by (rule byte_of_bound)
  then have lt: "byte_of a div 4 < 64" "byte_of a mod 4 * 16 < 64" by auto
  have "byte_of a div 4 * 4 + byte_of a mod 4 * 16 div 16 = byte_of a" by simp
  then have "b64_bytes [byte_of a div 4, byte_of a mod 4 * 16] = Some [a]"
    by (simp only: b64_bytes.simps chr_of_byte_of)
  moreover have "b64_digits url (b64_body url [a]) = Some [byte_of a div 4, byte_of a mod 4 * 16]"
    using lt by simp
  moreover have "\<forall>c \<in> set (b64_body url [a]). \<exists>n < 64. c = b64_char url n"
    unfolding b64_body.simps list.set ball_simps using lt by blast
  ultimately show ?case by blast
qed simp

theorem b64_decode_encode: "b64_decode url (b64_encode url s) = Some s"
proof -
  obtain ns where ns: "b64_digits url (b64_body url s) = Some ns" "b64_bytes ns = Some s"
    "\<forall>c \<in> set (b64_body url s). \<exists>n < 64. c = b64_char url n"
    using b64_body_digits [of url s] by blast
  then have "\<forall>c \<in> set (b64_body url s). c \<noteq> CHR ''=''" using b64_char_not_pad by metis
  then have "takeWhile (\<lambda>c. c \<noteq> CHR ''='') (b64_encode url s) = b64_body url s"
    by (simp add: b64_encode_def b64_pad_def takeWhile_append takeWhile_eq_Nil_iff)
  then have "b64_unpad (b64_encode url s) = Some (b64_body url s)"
    by (simp add: b64_unpad_def Let_def b64_encode_def)
  with ns show ?thesis by (simp add: b64_decode_def)
qed

lemma b64url_tokens: "list_all is_token (b64url_no_pad s)"
proof -
  have "\<forall>c \<in> set (b64_body True s). \<exists>n < 64. c = b64_char True n" using b64_body_digits [of True s] by blast
  then show ?thesis using b64_char_token by (auto simp: b64url_no_pad_def list_all_iff)
qed

lemma length_b64_body: "length (b64_body url s) = (4 * length s + 2) div 3"
  by (induction url s rule: b64_body.induct) (auto simp: Let_def)

lemma b64url_inj: "b64url_no_pad s = b64url_no_pad t \<Longrightarrow> s = t"
  using b64_body_digits [of True s] b64_body_digits [of True t] by (auto simp: b64url_no_pad_def)

end
