(* ===== verification/CommerceAccess.thy ===== *)
theory CommerceAccess
  imports StoreOps Base64
begin

section \<open>Tenant and capability access\<close>

text \<open>
  \<^verbatim>\<open>commerce_access.py\<close>: tenants with API keys, the bindings of quotes and orders to tenants,
  and delivery capabilities.  Its tables live in the same SQLite file, so \<open>access_db\<close>
  extends \<open>db\<close>.  The random bytes of a new API key and the clock are arguments.  The
  two secrets are the fields of the configuration; keys and tokens are stored only as keyed
  digests.
\<close>

subsection \<open>Configuration and tables\<close>

record access_config =
  ac_environment :: environment
  ac_auth_pepper :: string
  ac_delivery_secret :: string

datatype row_state = Active | Revoked

record tenant_row =
  t_tenant_id :: string
  t_api_key_digest :: string
  t_state :: row_state
  t_created_at :: string
  t_updated_at :: string

record quote_binding =
  qb_quote_id :: string
  qb_tenant_id :: string
  qb_idempotency_digest :: string
  qb_created_at :: string

record order_binding =
  ob_order_id :: string
  ob_quote_id :: string
  ob_tenant_id :: string
  ob_token_version :: nat
  ob_token_digest :: string
  ob_token_state :: row_state
  ob_token_expires_at :: string
  ob_result :: "(string \<times> string) option"
  ob_created_at :: string
  ob_updated_at :: string

record audit_row =
  au_event_type :: string
  au_tenant_id :: "string option"
  au_quote_id :: "string option"
  au_order_id :: "string option"
  au_outcome :: string
  au_observed_at :: string

record access_db = db +
  access_metadata :: "(string \<times> string) list"
  tenants :: "tenant_row list"
  quote_bindings :: "quote_binding list"
  order_bindings :: "order_binding list"
  audit_events_table :: "audit_row list"

definition ACCESS_SCHEMA_VERSION :: string where "ACCESS_SCHEMA_VERSION = ''2''"
definition MAX_RESULT_BYTES :: nat where "MAX_RESULT_BYTES = 1000000"
definition DELIVERY_TOKEN_TTL :: int where "DELIVERY_TOKEN_TTL = 30 * day_us"

definition re_tenant_id :: "string \<Rightarrow> bool" where
  "re_tenant_id s = re_prefix ''ten_'' (re_class is_hex 24 24) s"

definition re_api_key :: "string \<Rightarrow> bool" where
  "re_api_key s \<longleftrightarrow> re_prefix ''vsk_test_'' (re_class is_token 43 43) s
     \<or> re_prefix ''vsk_live_'' (re_class is_token 43 43) s"

definition re_delivery_token :: "string \<Rightarrow> bool" where
  "re_delivery_token s \<longleftrightarrow> re_prefix ''vsd_test_'' (re_class is_token 43 43) s
     \<or> re_prefix ''vsd_live_'' (re_class is_token 43 43) s"

definition re_order_id :: "string \<Rightarrow> bool" where
  "re_order_id s \<longleftrightarrow> re_prefix ''ord_'' (re_class is_hex 24 24) s
     \<or> re_prefix ''ord_test_'' (re_class is_hex 24 24) s"

definition parse_access_timestamp :: "string \<Rightarrow> int res" where
  "parse_access_timestamp s =
     (case fromisoformat (normalize_z s) of
        Inl _ \<Rightarrow> Inl bad_request
      | Inr (Naive _) \<Rightarrow> Inl bad_request
      | Inr (Aware l off) \<Rightarrow> astimezone_utc (Aware l off))"

lemma parse_access_timestamp_iso_z:
  "0 \<le> u \<Longrightarrow> u < max_us \<Longrightarrow> parse_access_timestamp (iso_z u) = Inr (floor_second u)"
  using floor_second_bounds [of u] by (simp add: parse_access_timestamp_def fromisoformat_iso_z)

subsection \<open>Keyed digests\<close>

text \<open>
  \<open>_token_bytes\<close>.  Its parts are encoded as ASCII; they are identifiers that have passed
  their format check, except the tenant of \<open>bind_quote\<close>, where the check is written out.
\<close>

definition token_bytes :: "string \<Rightarrow> string \<Rightarrow> string list \<Rightarrow> string" where
  "token_bytes key label parts = hmac_sha256 key (label @ [chr_of 0] @ join_with (chr_of 0) parts)"

definition urlsafe :: "string \<Rightarrow> string" where
  "urlsafe s = b64url_no_pad s"

definition api_digest :: "access_config \<Rightarrow> string \<Rightarrow> string" where
  "api_digest cfg k = token_bytes (ac_auth_pepper cfg) ''api-key'' [k]"

definition idempotency_digest :: "access_config \<Rightarrow> string \<Rightarrow> string \<Rightarrow> string" where
  "idempotency_digest cfg tenant key = token_bytes (ac_auth_pepper cfg) ''quote-idempotency'' [tenant, key]"

definition delivery_token :: "access_config \<Rightarrow> string \<Rightarrow> string \<Rightarrow> nat \<Rightarrow> string" where
  "delivery_token cfg tenant order version =
     (if ac_environment cfg = Sandbox then ''vsd_test_'' else ''vsd_live_'')
     @ urlsafe (token_bytes (ac_delivery_secret cfg) ''delivery-token'' [tenant, order, show_nat version])"

definition delivery_digest :: "access_config \<Rightarrow> string \<Rightarrow> string" where
  "delivery_digest cfg token = token_bytes (ac_auth_pepper cfg) ''delivery-digest'' [token]"

subsection \<open>Opening the access state\<close>

definition access_store_init :: "environment \<Rightarrow> string \<Rightarrow> string \<Rightarrow> access_config res" where
  "access_store_init env pepper secret =
     reject_if (length pepper < 32) ValueError
    (reject_if (length secret < 32) ValueError
    (reject_if (pepper = secret) ValueError
    (Inr \<lparr>ac_environment = env, ac_auth_pepper = pepper, ac_delivery_secret = secret\<rparr>)))"

definition access_initialize :: "access_config \<Rightarrow> ('z access_db_scheme, unit) txn" where
  "access_initialize cfg d =
     reject_if (map_of (metadata d) ''environment'' \<noteq> Some (environment_value (ac_environment cfg)))
       (Rejected ''commerce_environment_mismatch'')
    (let expected = [(''schema_version'', ACCESS_SCHEMA_VERSION),
                     (''environment'', environment_value (ac_environment cfg)),
                     (''auth_key_id'', sha256_hex (ac_auth_pepper cfg)),
                     (''delivery_key_id'', sha256_hex (ac_delivery_secret cfg))]
     in if access_metadata d = [] then Inr ((), d\<lparr>access_metadata := expected\<rparr>)
        else reject_if (set (access_metadata d) \<noteq> set expected) (Rejected ''commerce_environment_mismatch'')
          (Inr ((), d)))"

subsection \<open>Audit and lookups\<close>

definition audit ::
  "string \<Rightarrow> string \<Rightarrow> string option \<Rightarrow> string option \<Rightarrow> string option
    \<Rightarrow> 'z access_db_scheme \<Rightarrow> 'z access_db_scheme" where
  "audit event_type observed tenant quote order d = d\<lparr>audit_events_table := audit_events_table d @
     [\<lparr>au_event_type = event_type, au_tenant_id = tenant, au_quote_id = quote, au_order_id = order,
       au_outcome = ''success'', au_observed_at = observed\<rparr>]\<rparr>"

abbreviation authentication_failed :: exn where
  "authentication_failed \<equiv> Rejected ''authentication_failed''"

abbreviation authorization_failed :: exn where
  "authorization_failed \<equiv> Rejected ''authorization_failed''"

abbreviation not_ready :: exn where
  "not_ready \<equiv> Rejected ''result_not_ready''"

definition find_tenant :: "string \<Rightarrow> 'z access_db_scheme \<Rightarrow> tenant_row option" where
  "find_tenant tid d = fetchone (\<lambda>t. t_tenant_id t = tid) (tenants d)"

definition active_tenant :: "string \<Rightarrow> 'z access_db_scheme \<Rightarrow> bool" where
  "active_tenant tid d \<longleftrightarrow> list_ex (\<lambda>t. t_tenant_id t = tid \<and> t_state t = Active) (tenants d)"

definition find_quote_binding :: "string \<Rightarrow> 'z access_db_scheme \<Rightarrow> quote_binding option" where
  "find_quote_binding qid d = fetchone (\<lambda>b. qb_quote_id b = qid) (quote_bindings d)"

definition find_order_binding :: "string \<Rightarrow> 'z access_db_scheme \<Rightarrow> order_binding option" where
  "find_order_binding oid d = fetchone (\<lambda>b. ob_order_id b = oid) (order_bindings d)"

definition require_active_tenant :: "string \<Rightarrow> 'z access_db_scheme \<Rightarrow> unit res" where
  "require_active_tenant tid d =
     reject_if (\<not> re_tenant_id tid) authentication_failed
    (case find_tenant tid d of
       None \<Rightarrow> Inl authentication_failed
     | Some t \<Rightarrow> reject_if (t_state t \<noteq> Active) authentication_failed (Inr ()))"

subsection \<open>Tenants\<close>

definition key_prefix :: "access_config \<Rightarrow> string" where
  "key_prefix cfg = (if ac_environment cfg = Sandbox then ''vsk_test_'' else ''vsk_live_'')"

definition provision_tenant ::
  "access_config \<Rightarrow> string \<Rightarrow> string \<Rightarrow> string \<Rightarrow> ('z access_db_scheme, string \<times> string) txn" where
  "provision_tenant cfg identifier random timestamp d =
     reject_if (\<not> re_tenant_id identifier) (Rejected ''invalid_tenant'')
    (let api_key = key_prefix cfg @ urlsafe random; digest = api_digest cfg api_key
     in and_then (parse_access_timestamp timestamp) (\<lambda>_.
        reject_if (identifier \<in> t_tenant_id ` set (tenants d) \<or> digest \<in> t_api_key_digest ` set (tenants d))
          (Rejected ''tenant_conflict'')
       (Inr ((identifier, api_key),
          audit ''tenant.provisioned'' timestamp (Some identifier) None None
            (d\<lparr>tenants := tenants d @
               [\<lparr>t_tenant_id = identifier, t_api_key_digest = digest, t_state = Active,
                 t_created_at = timestamp, t_updated_at = timestamp\<rparr>]\<rparr>)))))"

definition authenticate_api_key :: "access_config \<Rightarrow> string \<Rightarrow> 'z access_db_scheme \<Rightarrow> string res" where
  "authenticate_api_key cfg api_key d =
     (let valid_format = (py_len api_key \<le> 96 \<and> re_api_key api_key \<and> starts_with (key_prefix cfg) api_key);
          candidate = api_digest cfg (if valid_format then api_key else ''invalid'');
          row = fetchone (\<lambda>t. t_api_key_digest t = candidate) (tenants d);
          dummy = token_bytes (ac_auth_pepper cfg) ''api-key'' [''not-a-real-key''];
          expected = (case row of Some t \<Rightarrow> t_api_key_digest t | None \<Rightarrow> dummy);
          verified = (candidate = expected)
      in case row of
           None \<Rightarrow> Inl authentication_failed
         | Some t \<Rightarrow> reject_if (\<not> valid_format \<or> t_state t \<noteq> Active \<or> \<not> verified) authentication_failed
             (Inr (t_tenant_id t)))"

text \<open>
  The number of rows an \<open>UPDATE ... WHERE P\<close> changes is compared with 1; the tenant
  identifier is a key, so it is 0 or 1.
\<close>

definition rotate_api_key ::
  "access_config \<Rightarrow> string \<Rightarrow> string \<Rightarrow> string \<Rightarrow> ('z access_db_scheme, string) txn" where
  "rotate_api_key cfg tid random timestamp d =
     reject_if (\<not> re_tenant_id tid) (Rejected ''invalid_tenant'')
    (let api_key = key_prefix cfg @ urlsafe random;
         hit = (\<lambda>t. t_tenant_id t = tid \<and> t_state t = Active);
         rows = update_where hit
                  (\<lambda>t. t\<lparr>t_api_key_digest := api_digest cfg api_key, t_updated_at := timestamp\<rparr>) (tenants d)
     in and_then (parse_access_timestamp timestamp) (\<lambda>_.
        reject_if (\<not> unique_on t_api_key_digest rows) IntegrityError
       (reject_if (length (filter hit (tenants d)) \<noteq> 1) authentication_failed
       (Inr (api_key, audit ''tenant.api_key_rotated'' timestamp (Some tid) None None
          (d\<lparr>tenants := rows\<rparr>))))))"

definition revoke_tenant :: "string \<Rightarrow> string \<Rightarrow> ('z access_db_scheme, unit) txn" where
  "revoke_tenant tid timestamp d =
     and_then (parse_access_timestamp timestamp) (\<lambda>_.
     let hit = (\<lambda>t. t_tenant_id t = tid \<and> t_state t = Active)
     in reject_if (length (filter hit (tenants d)) \<noteq> 1) authentication_failed
       (Inr ((), audit ''tenant.revoked'' timestamp (Some tid) None None
          (d\<lparr>tenants := update_where hit (\<lambda>t. t\<lparr>t_state := Revoked, t_updated_at := timestamp\<rparr>) (tenants d)\<rparr>))))"

subsection \<open>Quotes\<close>

definition derive_quote_id :: "access_config \<Rightarrow> string \<Rightarrow> string \<Rightarrow> string res" where
  "derive_quote_id cfg tid key =
     reject_if (\<not> re_tenant_id tid \<or> \<not> re_idempotency key) bad_request
     (Inr (''q_'' @ take 24 (hex_of (token_bytes (ac_auth_pepper cfg) ''quote-id'' [tid, key]))))"

definition derive_order_idempotency_key :: "access_config \<Rightarrow> string \<Rightarrow> string \<Rightarrow> string res" where
  "derive_order_idempotency_key cfg tid key =
     reject_if (\<not> re_tenant_id tid \<or> \<not> re_idempotency key) bad_request
     (Inr (''oid_'' @ take 32 (hex_of (token_bytes (ac_auth_pepper cfg) ''order-idempotency'' [tid, key]))))"

definition bind_quote ::
  "access_config \<Rightarrow> string \<Rightarrow> string \<Rightarrow> string \<Rightarrow> string \<Rightarrow> ('z access_db_scheme, unit) txn" where
  "bind_quote cfg tid qid key timestamp d =
     reject_if (\<not> re_quote_id qid \<or> \<not> re_idempotency key) bad_request
    (reject_if (\<not> is_ascii tid) ValueError
    (let digest = idempotency_digest cfg tid key
     in and_then (parse_access_timestamp timestamp) (\<lambda>_.
        and_then (require_active_tenant tid d) (\<lambda>_.
        reject_if (find_quote qid d = None) (Rejected ''object_not_found'')
       (case find_quote_binding qid d of
          Some b \<Rightarrow>
            reject_if (qb_tenant_id b \<noteq> tid \<or> qb_idempotency_digest b \<noteq> digest) authorization_failed (Inr ((), d))
        | None \<Rightarrow>
            reject_if ((tid, digest) \<in> (\<lambda>b. (qb_tenant_id b, qb_idempotency_digest b)) ` set (quote_bindings d))
              authorization_failed
           (Inr ((), audit ''quote.bound'' timestamp (Some tid) (Some qid) None
              (d\<lparr>quote_bindings := quote_bindings d @
                 [\<lparr>qb_quote_id = qid, qb_tenant_id = tid, qb_idempotency_digest = digest,
                   qb_created_at = timestamp\<rparr>]\<rparr>))))))))"

definition authorize_quote :: "string \<Rightarrow> string \<Rightarrow> 'z access_db_scheme \<Rightarrow> unit res" where
  "authorize_quote tid qid d =
     reject_if (\<not> list_ex (\<lambda>b. qb_quote_id b = qid \<and> qb_tenant_id b = tid \<and> active_tenant (qb_tenant_id b) d)
       (quote_bindings d)) authorization_failed (Inr ())"

definition tenant_resource_counts :: "string \<Rightarrow> 'z access_db_scheme \<Rightarrow> (nat \<times> nat) res" where
  "tenant_resource_counts tid d =
     and_then (require_active_tenant tid d) (\<lambda>_.
     Inr (length (filter (\<lambda>b. qb_tenant_id b = tid) (quote_bindings d)),
          length (filter (\<lambda>b. ob_tenant_id b = tid) (order_bindings d))))"

definition quote_owned :: "string \<Rightarrow> string \<Rightarrow> 'z access_db_scheme \<Rightarrow> bool" where
  "quote_owned tid qid d =
     list_ex (\<lambda>b. qb_tenant_id b = tid \<and> qb_quote_id b = qid \<and> active_tenant (qb_tenant_id b) d) (quote_bindings d)"

definition order_for_quote :: "string \<Rightarrow> string \<Rightarrow> 'z access_db_scheme \<Rightarrow> string option" where
  "order_for_quote tid qid d =
     map_option ob_order_id (fetchone (\<lambda>b. ob_tenant_id b = tid \<and> ob_quote_id b = qid \<and> active_tenant (ob_tenant_id b) d)
       (order_bindings d))"

subsection \<open>Orders and delivery capabilities\<close>

text \<open>\<open>_format_timestamp(moment + DELIVERY_TOKEN_TTL)\<close>\<close>

definition token_expiry :: "int \<Rightarrow> string res" where
  "token_expiry u = and_then (add_delta (Aware u 0) DELIVERY_TOKEN_TTL) format_utc"

definition new_order_binding ::
  "access_config \<Rightarrow> string \<Rightarrow> string \<Rightarrow> string \<Rightarrow> string \<Rightarrow> string \<Rightarrow> order_binding" where
  "new_order_binding cfg tid oid qid expires timestamp =
     \<lparr>ob_order_id = oid, ob_quote_id = qid, ob_tenant_id = tid, ob_token_version = 1,
      ob_token_digest = delivery_digest cfg (delivery_token cfg tid oid 1), ob_token_state = Active,
      ob_token_expires_at = expires, ob_result = None, ob_created_at = timestamp, ob_updated_at = timestamp\<rparr>"

definition bind_order ::
  "access_config \<Rightarrow> string \<Rightarrow> string \<Rightarrow> string \<Rightarrow> string \<Rightarrow> ('z access_db_scheme, string) txn" where
  "bind_order cfg tid oid qid timestamp d =
     reject_if (\<not> re_order_id oid \<or> \<not> re_quote_id qid) bad_request
    (and_then (parse_access_timestamp timestamp) (\<lambda>created.
     and_then (token_expiry created) (\<lambda>expires.
     and_then (require_active_tenant tid d) (\<lambda>_.
     case (find_quote_binding qid d, find_order oid d) of
       (Some b, Some r) \<Rightarrow>
         reject_if (qb_tenant_id b \<noteq> tid \<or> o_quote_id r \<noteq> qid) authorization_failed
        (case find_order_binding oid d of
           Some ob \<Rightarrow>
             reject_if (ob_tenant_id ob \<noteq> tid \<or> ob_quote_id ob \<noteq> qid) authorization_failed
            (reject_if (ob_token_state ob \<noteq> Active) authorization_failed
            (let token = delivery_token cfg tid oid (ob_token_version ob)
             in reject_if (delivery_digest cfg token \<noteq> ob_token_digest ob) authorization_failed (Inr (token, d))))
         | None \<Rightarrow>
             reject_if (qid \<in> ob_quote_id ` set (order_bindings d)) IntegrityError
            (Inr (delivery_token cfg tid oid 1,
               audit ''order.bound'' timestamp (Some tid) (Some qid) (Some oid)
                 (d\<lparr>order_bindings := order_bindings d @ [new_order_binding cfg tid oid qid expires timestamp]\<rparr>))))
     | _ \<Rightarrow> Inl authorization_failed))))"

record authorization =
  az_tenant_id :: string
  az_order_id :: string
  az_quote_id :: string
  az_token_version :: nat
  az_token_expires_at :: string
  az_result_sha256 :: "string option"

definition authorize_order ::
  "access_config \<Rightarrow> string \<Rightarrow> string \<Rightarrow> string \<Rightarrow> pydatetime \<Rightarrow> 'z access_db_scheme \<Rightarrow> authorization res" where
  "authorize_order cfg tid oid token now d =
     (let valid_format = (py_len token \<le> 64 \<and> re_delivery_token token);
          candidate = delivery_digest cfg (if valid_format then token else ''invalid'');
          row = fetchone (\<lambda>b. ob_order_id b = oid \<and> ob_tenant_id b = tid \<and> active_tenant (ob_tenant_id b) d)
                  (order_bindings d);
          dummy = token_bytes (ac_auth_pepper cfg) ''delivery-digest'' [''not-a-real-token''];
          expected = (case row of Some b \<Rightarrow> ob_token_digest b | None \<Rightarrow> dummy);
          verified = (candidate = expected)
      in reject_if (is_naive now) ValueError
        (and_then (astimezone_utc now) (\<lambda>moment.
         case row of
           None \<Rightarrow> Inl authorization_failed
         | Some b \<Rightarrow>
             and_then (parse_access_timestamp (ob_token_expires_at b)) (\<lambda>expires.
             reject_if (\<not> valid_format \<or> ob_token_state b \<noteq> Active \<or> \<not> verified \<or> moment \<ge> expires)
               authorization_failed
            (Inr \<lparr>az_tenant_id = ob_tenant_id b, az_order_id = ob_order_id b, az_quote_id = ob_quote_id b,
                  az_token_version = ob_token_version b, az_token_expires_at = ob_token_expires_at b,
                  az_result_sha256 = map_option fst (ob_result b)\<rparr>)))))"

text \<open>
  Rotation and revocation authorise first, on a connection of their own, and then write;
  the write checks the row again.
\<close>

definition rotate_delivery_token ::
  "access_config \<Rightarrow> string \<Rightarrow> string \<Rightarrow> string \<Rightarrow> string \<Rightarrow> ('z access_db_scheme, string) txn" where
  "rotate_delivery_token cfg tid oid current timestamp d =
     and_then (parse_access_timestamp timestamp) (\<lambda>updated.
     and_then (authorize_order cfg tid oid current (Aware updated 0) d) (\<lambda>_.
     and_then (token_expiry updated) (\<lambda>expires.
     case fetchone (\<lambda>b. ob_order_id b = oid \<and> ob_tenant_id b = tid) (order_bindings d) of
       None \<Rightarrow> Inl AssertionError
     | Some b \<Rightarrow>
         reject_if (ob_token_state b \<noteq> Active \<or> delivery_digest cfg current \<noteq> ob_token_digest b) authorization_failed
        (let version = ob_token_version b + 1; token = delivery_token cfg tid oid version
         in Inr (token, audit ''delivery_token.rotated'' timestamp (Some tid) (Some (ob_quote_id b)) (Some oid)
              (d\<lparr>order_bindings := update_where (\<lambda>b. ob_order_id b = oid)
                 (\<lambda>b. b\<lparr>ob_token_version := version, ob_token_digest := delivery_digest cfg token,
                   ob_token_expires_at := expires, ob_updated_at := timestamp\<rparr>) (order_bindings d)\<rparr>))))))"

definition revoke_delivery_token ::
  "access_config \<Rightarrow> string \<Rightarrow> string \<Rightarrow> string \<Rightarrow> string \<Rightarrow> ('z access_db_scheme, unit) txn" where
  "revoke_delivery_token cfg tid oid current timestamp d =
     and_then (parse_access_timestamp timestamp) (\<lambda>updated.
     and_then (authorize_order cfg tid oid current (Aware updated 0) d) (\<lambda>_.
     let hit = (\<lambda>b. ob_order_id b = oid \<and> ob_tenant_id b = tid \<and> ob_token_state b = Active
                  \<and> ob_token_digest b = delivery_digest cfg current)
     in reject_if (length (filter hit (order_bindings d)) \<noteq> 1) authorization_failed
       (case find_order_binding oid d of
          None \<Rightarrow> Inl TypeError
        | Some b \<Rightarrow>
            Inr ((), audit ''delivery_token.revoked'' timestamp (Some tid) (Some (ob_quote_id b)) (Some oid)
              (d\<lparr>order_bindings := update_where hit
                 (\<lambda>b. b\<lparr>ob_token_state := Revoked, ob_updated_at := timestamp\<rparr>) (order_bindings d)\<rparr>)))))"

subsection \<open>Results\<close>

definition publish_result :: "string \<Rightarrow> string \<Rightarrow> string \<Rightarrow> ('z access_db_scheme, string) txn" where
  "publish_result oid envelope timestamp d =
     reject_if (\<not> re_order_id oid) bad_delivery
    (reject_if (envelope = [] \<or> length envelope > MAX_RESULT_BYTES) bad_delivery
    (let digest = sha256_hex envelope
     in and_then (parse_access_timestamp timestamp) (\<lambda>_.
        case (find_order oid d, find_order_binding oid d) of
          (Some r, Some b) \<Rightarrow>
            reject_if (o_order_status r \<noteq> Delivered) not_ready
           (reject_if (o_envelope_sha256 r \<noteq> Some digest) bad_delivery
           (case ob_result b of
              Some (sha, body) \<Rightarrow>
                reject_if (sha \<noteq> digest \<or> body \<noteq> envelope) (Rejected ''idempotency_conflict'') (Inr (digest, d))
            | None \<Rightarrow>
                Inr (digest, audit ''result.published'' timestamp (Some (ob_tenant_id b)) (Some (ob_quote_id b)) (Some oid)
                  (d\<lparr>order_bindings := update_where (\<lambda>b. ob_order_id b = oid)
                     (\<lambda>b. b\<lparr>ob_result := Some (digest, envelope), ob_updated_at := timestamp\<rparr>) (order_bindings d)\<rparr>))))
        | _ \<Rightarrow> Inl not_ready)))"

definition get_result ::
  "access_config \<Rightarrow> string \<Rightarrow> string \<Rightarrow> string \<Rightarrow> pydatetime \<Rightarrow> 'z access_db_scheme \<Rightarrow> string res" where
  "get_result cfg tid oid token now d =
     and_then (authorize_order cfg tid oid token now d) (\<lambda>_.
     case fetchone (\<lambda>b. ob_order_id b = oid \<and> ob_tenant_id b = tid) (order_bindings d) of
       None \<Rightarrow> Inl not_ready
     | Some b \<Rightarrow> (case ob_result b of None \<Rightarrow> Inl not_ready | Some (sha, body) \<Rightarrow> Inr body))"

definition audit_events :: "string option \<Rightarrow> 'z access_db_scheme \<Rightarrow> audit_row list" where
  "audit_events oid d =
     (case oid of None \<Rightarrow> audit_events_table d
      | Some x \<Rightarrow> filter (\<lambda>a. au_order_id a = Some x) (audit_events_table d))"

end
