(* ===== verification/AccessInvariant.thy ===== *)
theory AccessInvariant
  imports StoreProperties CommerceAccess
begin

section \<open>The access state: its invariant\<close>

text \<open>
  The access tables and the store live in one database.  \<open>market_ok\<close> is the invariant of
  both; \<open>access_step\<close> has the writes of \<open>CommerceAccessStore\<close> and, as one more rule, those
  of \<open>CommerceStore\<close>; the theory makes them an instance of \<open>invariant_system\<close> and shows what
  no step undoes (\<open>access_keeps\<close>).
\<close>

subsection \<open>The invariant\<close>

definition token_ok :: "access_config \<Rightarrow> order_binding \<Rightarrow> bool" where
  "token_ok cfg b \<longleftrightarrow> 1 \<le> ob_token_version b
     \<and> ob_token_digest b = delivery_digest cfg (delivery_token cfg (ob_tenant_id b) (ob_order_id b) (ob_token_version b))
     \<and> (\<exists>u. parse_access_timestamp (ob_token_expires_at b) = Inr u)"

definition result_ok :: "order_row list \<Rightarrow> order_binding \<Rightarrow> bool" where
  "result_ok os b \<longleftrightarrow> (\<forall>sha body. ob_result b = Some (sha, body) \<longrightarrow> sha = sha256_hex body
     \<and> (\<exists>r \<in> set os. o_order_id r = ob_order_id b \<and> o_envelope_sha256 r = Some sha))"

definition owner_ok :: "quote_binding list \<Rightarrow> order_row list \<Rightarrow> order_binding \<Rightarrow> bool" where
  "owner_ok qs os b \<longleftrightarrow> (\<exists>q \<in> set qs. qb_quote_id q = ob_quote_id b \<and> qb_tenant_id q = ob_tenant_id b)
     \<and> (\<exists>r \<in> set os. o_order_id r = ob_order_id b \<and> o_quote_id r = ob_quote_id b)"

definition binding_ok :: "access_config \<Rightarrow> quote_binding list \<Rightarrow> order_row list \<Rightarrow> order_binding \<Rightarrow> bool" where
  "binding_ok cfg qs os b \<longleftrightarrow> token_ok cfg b \<and> result_ok os b \<and> owner_ok qs os b"

definition tenants_ok :: "tenant_row list \<Rightarrow> bool" where
  "tenants_ok ts \<longleftrightarrow> unique_on t_tenant_id ts \<and> unique_on t_api_key_digest ts
     \<and> (\<forall>t \<in> set ts. re_tenant_id (t_tenant_id t))"

definition quote_bindings_ok :: "tenant_row list \<Rightarrow> quote_row list \<Rightarrow> quote_binding list \<Rightarrow> bool" where
  "quote_bindings_ok ts qs bs \<longleftrightarrow> unique_on qb_quote_id bs
     \<and> unique_on (\<lambda>b. (qb_tenant_id b, qb_idempotency_digest b)) bs
     \<and> (\<forall>b \<in> set bs. qb_tenant_id b \<in> t_tenant_id ` set ts \<and> qb_quote_id b \<in> q_quote_id ` set qs)"

definition order_bindings_ok ::
  "access_config \<Rightarrow> quote_binding list \<Rightarrow> order_row list \<Rightarrow> order_binding list \<Rightarrow> bool" where
  "order_bindings_ok cfg qs os bs \<longleftrightarrow> unique_on ob_order_id bs \<and> unique_on ob_quote_id bs
     \<and> (\<forall>b \<in> set bs. binding_ok cfg qs os b)"

definition access_ok :: "access_config \<Rightarrow> 'z access_db_scheme \<Rightarrow> bool" where
  "access_ok cfg d \<longleftrightarrow> tenants_ok (tenants d) \<and> quote_bindings_ok (tenants d) (quotes d) (quote_bindings d)
     \<and> order_bindings_ok cfg (quote_bindings d) (orders d) (order_bindings d)"

definition market_ok :: "access_config \<Rightarrow> 'z access_db_scheme \<Rightarrow> bool" where
  "market_ok cfg d \<longleftrightarrow> store_ok (ac_environment cfg) d \<and> access_ok cfg d"

lemma store_ok_access_tables [simp]:
  "store_ok env (d\<lparr>tenants := ts\<rparr>) = store_ok env d"
  "store_ok env (d\<lparr>quote_bindings := qs\<rparr>) = store_ok env d"
  "store_ok env (d\<lparr>order_bindings := obs\<rparr>) = store_ok env d"
  "store_ok env (d\<lparr>audit_events_table := as\<rparr>) = store_ok env d"
  by (rule store_ok_cong; simp)+

lemma audit_tables [simp]:
  "tenants (audit e at t q oid d) = tenants d" "quote_bindings (audit e at t q oid d) = quote_bindings d"
  "order_bindings (audit e at t q oid d) = order_bindings d" "orders (audit e at t q oid d) = orders d"
  "quotes (audit e at t q oid d) = quotes d" "store_ok env (audit e at t q oid d) = store_ok env d"
  by (simp_all add: audit_def)

lemmas access_defs = market_ok_def access_ok_def tenants_ok_def quote_bindings_ok_def order_bindings_ok_def

subsection \<open>What each write does\<close>

lemma length_filter_key:
  assumes "unique_on key t" "\<And>r. P r \<Longrightarrow> key r = k"
  shows "length (filter P t) \<le> 1"
using assms(1)
proof (induction t)
  case (Cons r t)
  have "filter P t = []" if "P r"
    using that Cons.prems assms(2) by (auto simp: unique_on_def filter_empty_conv image_iff)
  with Cons show ?case by (auto simp: unique_on_def)
qed simp

lemma find_tenant_active:
  assumes "require_active_tenant tid d = Inr u"
  shows "re_tenant_id tid" "active_tenant tid d"
proof -
  from assms show "re_tenant_id tid" by (simp add: require_active_tenant_def txn_simps)
  from assms obtain t where "find_tenant tid d = Some t" "t_state t = Active"
    by (auto simp: require_active_tenant_def txn_simps split: option.splits)
  then show "active_tenant tid d"
    by (auto simp: active_tenant_def find_tenant_def list_ex_iff dest: find_SomeD)
qed

lemma active_tenant_member: "active_tenant tid d \<Longrightarrow> tid \<in> t_tenant_id ` set (tenants d)"
  by (auto simp: active_tenant_def list_ex_iff)

lemma find_quote_bindingD: "find_quote_binding qid d = Some b \<Longrightarrow> b \<in> set (quote_bindings d) \<and> qb_quote_id b = qid"
  by (auto simp: find_quote_binding_def dest: find_SomeD)

lemma find_order_bindingD: "find_order_binding oid d = Some b \<Longrightarrow> b \<in> set (order_bindings d) \<and> ob_order_id b = oid"
  by (auto simp: find_order_binding_def dest: find_SomeD)

lemma find_quote_member: "find_quote qid d \<noteq> None \<Longrightarrow> qid \<in> q_quote_id ` set (quotes d)"
  by (auto simp: find_quote_def find_None_iff)

lemma bind_quote_cases:
  assumes "bind_quote cfg tid qid key at d = Inr (v, d')"
  obtains (same) b where "find_quote_binding qid d = Some b" "qb_tenant_id b = tid" "d' = d"
  | (new) row where "re_tenant_id tid" "active_tenant tid d" "find_quote qid d \<noteq> None"
      "find_quote_binding qid d = None" "qb_tenant_id row = tid" "qb_quote_id row = qid"
      "(tid, qb_idempotency_digest row) \<notin> (\<lambda>b. (qb_tenant_id b, qb_idempotency_digest b)) ` set (quote_bindings d)"
      "d' = audit ''quote.bound'' at (Some tid) (Some qid) None (d\<lparr>quote_bindings := quote_bindings d @ [row]\<rparr>)"
proof -
  note run = assms [unfolded bind_quote_def reject_if_Inr and_then_Inr Let_def]
  from run obtain u where act: "require_active_tenant tid d = Inr u" by blast
  show thesis
  proof (cases "find_quote_binding qid d")
    case (Some b)
    with run have "qb_tenant_id b = tid" "d' = d" by (auto simp: txn_simps)
    with Some show thesis by (rule same)
  next
    case None
    let ?row = "\<lparr>qb_quote_id = qid, qb_tenant_id = tid, qb_idempotency_digest = idempotency_digest cfg tid key, qb_created_at = at\<rparr>"
    from run None have "find_quote qid d \<noteq> None"
      "(tid, idempotency_digest cfg tid key) \<notin> (\<lambda>b. (qb_tenant_id b, qb_idempotency_digest b)) ` set (quote_bindings d)"
      "d' = audit ''quote.bound'' at (Some tid) (Some qid) None (d\<lparr>quote_bindings := quote_bindings d @ [?row]\<rparr>)"
      by (auto simp: txn_simps)
    then show thesis using new [of ?row] find_tenant_active [OF act] None by simp
  qed
qed

lemma bind_order_cases:
  assumes "bind_order cfg tid oid qid at d = Inr (tok, d')"
  obtains (same) b where "find_order_binding oid d = Some b" "ob_tenant_id b = tid" "ob_quote_id b = qid"
      "ob_token_state b = Active" "tok = delivery_token cfg tid oid (ob_token_version b)"
      "delivery_digest cfg tok = ob_token_digest b" "active_tenant tid d" "d' = d"
  | (new) created expires q r where "parse_access_timestamp at = Inr created" "token_expiry created = Inr expires"
      "active_tenant tid d" "find_quote_binding qid d = Some q" "qb_tenant_id q = tid"
      "find_order oid d = Some r" "o_quote_id r = qid"
      "find_order_binding oid d = None" "qid \<notin> ob_quote_id ` set (order_bindings d)"
      "tok = delivery_token cfg tid oid 1"
      "d' = audit ''order.bound'' at (Some tid) (Some qid) (Some oid)
         (d\<lparr>order_bindings := order_bindings d @ [new_order_binding cfg tid oid qid expires at]\<rparr>)"
proof -
  note run = assms [unfolded bind_order_def reject_if_Inr and_then_Inr]
  from run obtain created expires u where at: "parse_access_timestamp at = Inr created" "token_expiry created = Inr expires"
    and act: "require_active_tenant tid d = Inr u" by blast
  from run at act obtain q r where q: "find_quote_binding qid d = Some q" and r: "find_order oid d = Some r"
    by (auto split: option.splits)
  note act' = find_tenant_active(2) [OF act]
  from run at act q r have own: "qb_tenant_id q = tid" "o_quote_id r = qid" by (simp_all add: reject_if_Inr)
  show thesis
  proof (cases "find_order_binding oid d")
    case (Some b)
    with run at act q r have "ob_tenant_id b = tid" "ob_quote_id b = qid" "ob_token_state b = Active"
      "tok = delivery_token cfg tid oid (ob_token_version b)" "delivery_digest cfg tok = ob_token_digest b" "d' = d"
      by (auto simp add: reject_if_Inr Let_def)
    from Some this(1-5) act' this(6) show thesis by (rule same)
  next
    case None
    with run at act q r have "qid \<notin> ob_quote_id ` set (order_bindings d)" "tok = delivery_token cfg tid oid 1"
      "d' = audit ''order.bound'' at (Some tid) (Some qid) (Some oid)
         (d\<lparr>order_bindings := order_bindings d @ [new_order_binding cfg tid oid qid expires at]\<rparr>)"
      by (simp_all add: reject_if_Inr)
    from at act' q own(1) r own(2) None this show thesis by (rule new)
  qed
qed

lemma authorize_order_cases:
  assumes "authorize_order cfg tid oid tok now d = Inr z"
  obtains b moment expires where "b \<in> set (order_bindings d)" "ob_order_id b = oid" "ob_tenant_id b = tid"
    "active_tenant tid d" "astimezone_utc now = Inr moment" "parse_access_timestamp (ob_token_expires_at b) = Inr expires"
    "moment < expires" "ob_token_state b = Active" "delivery_digest cfg tok = ob_token_digest b"
    "re_delivery_token tok" "py_len tok \<le> 64"
    "fetchone (\<lambda>b. ob_order_id b = oid \<and> ob_tenant_id b = tid \<and> active_tenant (ob_tenant_id b) d) (order_bindings d) = Some b"
proof -
  let ?P = "\<lambda>b. ob_order_id b = oid \<and> ob_tenant_id b = tid \<and> active_tenant (ob_tenant_id b) d"
  note run = assms [unfolded authorize_order_def Let_def reject_if_Inr and_then_Inr]
  then obtain moment where moment: "astimezone_utc now = Inr moment" by blast
  show thesis
  proof (cases "find ?P (order_bindings d)")
    case None
    with run show thesis by simp
  next
    case (Some b)
    with run moment obtain expires where "parse_access_timestamp (ob_token_expires_at b) = Inr expires"
      "moment < expires" "ob_token_state b = Active" "delivery_digest cfg tok = ob_token_digest b"
      "re_delivery_token tok" "py_len tok \<le> 64"
      by (auto simp: txn_simps not_le split: if_splits)
    with that Some moment find_SomeD [OF Some] show thesis by blast
  qed
qed

lemma rotate_delivery_token_cases:
  assumes "rotate_delivery_token cfg tid oid cur at d = Inr (tok, d')"
  obtains b updated expires where "b \<in> set (order_bindings d)" "ob_order_id b = oid" "ob_tenant_id b = tid"
    "active_tenant tid d" "ob_token_state b = Active" "delivery_digest cfg cur = ob_token_digest b"
    "parse_access_timestamp at = Inr updated" "token_expiry updated = Inr expires"
    "tok = delivery_token cfg tid oid (ob_token_version b + 1)"
    "d' = audit ''delivery_token.rotated'' at (Some tid) (Some (ob_quote_id b)) (Some oid)
       (d\<lparr>order_bindings := update_where (\<lambda>b. ob_order_id b = oid)
          (\<lambda>x. x\<lparr>ob_token_version := ob_token_version b + 1, ob_token_digest := delivery_digest cfg tok,
             ob_token_expires_at := expires, ob_updated_at := at\<rparr>) (order_bindings d)\<rparr>)"
proof -
  let ?P = "\<lambda>b. ob_order_id b = oid \<and> ob_tenant_id b = tid"
  note run = assms [unfolded rotate_delivery_token_def and_then_Inr]
  from run obtain updated expires z where at: "parse_access_timestamp at = Inr updated" "token_expiry updated = Inr expires"
    and auth: "authorize_order cfg tid oid cur (Aware updated 0) d = Inr z" by blast
  from auth have act: "active_tenant tid d" by (rule authorize_order_cases)
  show thesis
  proof (cases "find ?P (order_bindings d)")
    case None
    with run at auth show thesis by simp
  next
    case (Some b)
    with run at auth have "ob_token_state b = Active" "delivery_digest cfg cur = ob_token_digest b"
      "tok = delivery_token cfg tid oid (ob_token_version b + 1)"
      "d' = audit ''delivery_token.rotated'' at (Some tid) (Some (ob_quote_id b)) (Some oid)
       (d\<lparr>order_bindings := update_where (\<lambda>b. ob_order_id b = oid)
          (\<lambda>x. x\<lparr>ob_token_version := ob_token_version b + 1, ob_token_digest := delivery_digest cfg tok,
             ob_token_expires_at := expires, ob_updated_at := at\<rparr>) (order_bindings d)\<rparr>)"
      by (auto simp: reject_if_Inr Let_def)
    with that Some at act find_SomeD [OF Some] show thesis by blast
  qed
qed

lemma revoke_delivery_token_cases:
  assumes "revoke_delivery_token cfg tid oid cur at d = Inr (u, d')"
  obtains b where "find_order_binding oid d = Some b"
    "\<exists>x \<in> set (order_bindings d). ob_order_id x = oid \<and> ob_tenant_id x = tid \<and> ob_token_state x = Active
         \<and> ob_token_digest x = delivery_digest cfg cur"
    "d' = audit ''delivery_token.revoked'' at (Some tid) (Some (ob_quote_id b)) (Some oid)
       (d\<lparr>order_bindings := update_where (\<lambda>x. ob_order_id x = oid \<and> ob_tenant_id x = tid \<and> ob_token_state x = Active
                  \<and> ob_token_digest x = delivery_digest cfg cur)
          (\<lambda>x. x\<lparr>ob_token_state := Revoked, ob_updated_at := at\<rparr>) (order_bindings d)\<rparr>)"
proof -
  let ?P = "\<lambda>x. ob_order_id x = oid \<and> ob_tenant_id x = tid \<and> ob_token_state x = Active
         \<and> ob_token_digest x = delivery_digest cfg cur"
  note run = assms [unfolded revoke_delivery_token_def and_then_Inr Let_def]
  then have "filter ?P (order_bindings d) \<noteq> []" by (auto simp: reject_if_Inr)
  then have ex: "\<exists>x \<in> set (order_bindings d). ?P x" by (auto simp: filter_empty_conv)
  show thesis
  proof (cases "find_order_binding oid d")
    case None
    with run show thesis by (auto simp: reject_if_Inr)
  next
    case (Some b)
    with run ex that [OF Some] show thesis by (auto simp: reject_if_Inr)
  qed
qed

lemma publish_result_cases:
  assumes "publish_result oid body at d = Inr (digest, d')"
  obtains r b where "find_order oid d = Some r" "find_order_binding oid d = Some b" "o_order_status r = Delivered"
    "o_envelope_sha256 r = Some digest" "digest = sha256_hex body"
    "ob_result b = Some (digest, body) \<and> d' = d \<or> ob_result b = None \<and>
      d' = audit ''result.published'' at (Some (ob_tenant_id b)) (Some (ob_quote_id b)) (Some oid)
       (d\<lparr>order_bindings := update_where (\<lambda>x. ob_order_id x = oid)
          (\<lambda>x. x\<lparr>ob_result := Some (digest, body), ob_updated_at := at\<rparr>) (order_bindings d)\<rparr>)"
proof -
  note run = assms [unfolded publish_result_def and_then_Inr reject_if_Inr Let_def]
  show thesis
  proof (cases "find_order oid d"; cases "find_order_binding oid d")
    fix r b
    assume r: "find_order oid d = Some r" and b: "find_order_binding oid d = Some b"
    from run r b have deliv: "o_order_status r = Delivered" "o_envelope_sha256 r = Some (sha256_hex body)"
      by (simp_all add: reject_if_Inr)
    have dg: "digest = sha256_hex body"
      using run r b by (cases "ob_result b") (auto simp: reject_if_Inr)
    have "ob_result b = Some (digest, body) \<and> d' = d \<or> ob_result b = None \<and>
      d' = audit ''result.published'' at (Some (ob_tenant_id b)) (Some (ob_quote_id b)) (Some oid)
       (d\<lparr>order_bindings := update_where (\<lambda>x. ob_order_id x = oid)
          (\<lambda>x. x\<lparr>ob_result := Some (digest, body), ob_updated_at := at\<rparr>) (order_bindings d)\<rparr>)"
      using run r b by (cases "ob_result b") (auto simp: reject_if_Inr)
    with dg deliv r b that show thesis by metis
  qed (use run in \<open>auto simp: reject_if_Inr\<close>)
qed

subsection \<open>Every write keeps the invariant\<close>

lemma binding_ok_extend:
  assumes "binding_ok cfg qs os b" "set qs \<subseteq> set qs'"
    "\<forall>r \<in> set os. \<exists>r' \<in> set os'. o_order_id r' = o_order_id r \<and> o_quote_id r' = o_quote_id r
       \<and> (o_envelope_sha256 r \<noteq> None \<longrightarrow> o_envelope_sha256 r' = o_envelope_sha256 r)"
  shows "binding_ok cfg qs' os' b"
proof -
  have "result_ok os' b"
    unfolding result_ok_def
  proof (intro allI impI)
    fix sha body
    assume "ob_result b = Some (sha, body)"
    with assms(1) obtain r where "sha = sha256_hex body" "r \<in> set os" "o_order_id r = ob_order_id b" "o_envelope_sha256 r = Some sha"
      by (auto simp: binding_ok_def result_ok_def)
    with assms(3) show "sha = sha256_hex body \<and> (\<exists>r \<in> set os'. o_order_id r = ob_order_id b \<and> o_envelope_sha256 r = Some sha)"
      by (metis option.distinct(1))
  qed
  moreover from assms have "owner_ok qs' os' b" unfolding binding_ok_def owner_ok_def by (metis subset_iff)
  ultimately show ?thesis using assms(1) by (simp add: binding_ok_def)
qed

lemma order_bindings_ok_extend:
  assumes "order_bindings_ok cfg qs os bs" "set qs \<subseteq> set qs'"
    "\<forall>r \<in> set os. \<exists>r' \<in> set os'. o_order_id r' = o_order_id r \<and> o_quote_id r' = o_quote_id r
       \<and> (o_envelope_sha256 r \<noteq> None \<longrightarrow> o_envelope_sha256 r' = o_envelope_sha256 r)"
  shows "order_bindings_ok cfg qs' os' bs"
  using assms(1) binding_ok_extend [OF _ assms(2,3)] by (simp add: order_bindings_ok_def)

lemma order_bindings_ok_quotes:
  assumes "order_bindings_ok cfg qs os bs" "set qs \<subseteq> set qs'"
  shows "order_bindings_ok cfg qs' os bs"
  by (rule order_bindings_ok_extend [OF assms]) blast

lemma order_bindings_ok_update:
  assumes "order_bindings_ok cfg qs os bs" "\<And>b. b \<in> set bs \<Longrightarrow> P b \<Longrightarrow> binding_ok cfg qs os (f b)"
    "\<And>b. ob_order_id (f b) = ob_order_id b" "\<And>b. ob_quote_id (f b) = ob_quote_id b"
  shows "order_bindings_ok cfg qs os (update_where P f bs)"
  using assms by (auto simp: order_bindings_ok_def unique_on_update_where set_update_where)

lemma tenants_ok_update:
  assumes "tenants_ok ts" "\<And>t. t_tenant_id (f t) = t_tenant_id t" "unique_on t_api_key_digest (update_where P f ts)"
  shows "tenants_ok (update_where P f ts)"
  using assms by (auto simp: tenants_ok_def unique_on_update_where set_update_where)

lemma quote_bindings_ok_tenants:
  assumes "quote_bindings_ok ts qs bs" "t_tenant_id ` set ts \<subseteq> t_tenant_id ` set ts'"
    "q_quote_id ` set qs \<subseteq> q_quote_id ` set qs'"
  shows "quote_bindings_ok ts' qs' bs"
  using assms unfolding quote_bindings_ok_def by blast

lemma tenant_ids_update:
  "(\<And>t. t_tenant_id (f t) = t_tenant_id t) \<Longrightarrow> t_tenant_id ` set (update_where P f ts) = t_tenant_id ` set ts"
  using arg_cong [OF map_update_where [of P t_tenant_id f ts], of set] by simp

lemma provision_tenant_cases:
  assumes "provision_tenant cfg tid rnd at d = Inr (v, d')"
  obtains row where "re_tenant_id tid" "v = (tid, key_prefix cfg @ urlsafe rnd)"
    "row = \<lparr>t_tenant_id = tid, t_api_key_digest = api_digest cfg (key_prefix cfg @ urlsafe rnd), t_state = Active,
       t_created_at = at, t_updated_at = at\<rparr>"
    "tid \<notin> t_tenant_id ` set (tenants d)" "t_api_key_digest row \<notin> t_api_key_digest ` set (tenants d)"
    "d' = audit ''tenant.provisioned'' at (Some tid) None None (d\<lparr>tenants := tenants d @ [row]\<rparr>)"
  using assms unfolding provision_tenant_def reject_if_Inr and_then_Inr Let_def by simp

lemma provision_tenant_ok:
  assumes "market_ok cfg d" "provision_tenant cfg tid rnd at d = Inr (v, d')"
  shows "market_ok cfg d'"
  using assms(2)
proof (cases rule: provision_tenant_cases)
  case (1 row)
  have id: "t_tenant_id row = tid" by (simp add: 1(3))
  have "tenants_ok (tenants d @ [row])" using 1(1,4,5) id assms(1) by (simp add: access_defs)
  moreover have "quote_bindings_ok (tenants d @ [row]) (quotes d) (quote_bindings d)"
    by (rule quote_bindings_ok_tenants [of "tenants d" "quotes d"]) (use assms(1) in \<open>auto simp: market_ok_def access_ok_def\<close>)
  ultimately show ?thesis using assms(1) by (simp add: 1(6) market_ok_def access_ok_def)
qed

lemma update_tenants_ok:
  assumes ok: "market_ok cfg d" and id: "\<And>t. t_tenant_id (f t) = t_tenant_id t"
    and uniq: "unique_on t_api_key_digest (update_where P f (tenants d))"
  shows "market_ok cfg (audit e at t q oid (d\<lparr>tenants := update_where P f (tenants d)\<rparr>))"
proof -
  note parts = ok [unfolded market_ok_def access_ok_def]
  have "tenants_ok (update_where P f (tenants d))"
    by (rule tenants_ok_update [OF _ id uniq]) (use parts in simp)
  moreover have "quote_bindings_ok (update_where P f (tenants d)) (quotes d) (quote_bindings d)"
    by (rule quote_bindings_ok_tenants [of "tenants d" "quotes d"]) (use parts in \<open>simp_all add: tenant_ids_update [of f, OF id]\<close>)
  ultimately show ?thesis using parts by (simp add: market_ok_def access_ok_def)
qed

lemma rotate_api_key_ok:
  assumes "market_ok cfg d" "rotate_api_key cfg tid rnd at d = Inr (v, d')"
  shows "market_ok cfg d'"
  using assms(2) by (auto simp: rotate_api_key_def txn_simps Let_def intro!: update_tenants_ok [OF assms(1)])

lemma revoke_tenant_ok:
  assumes "market_ok cfg d" "revoke_tenant tid at d = Inr (v, d')"
  shows "market_ok cfg d'"
proof -
  have "unique_on t_api_key_digest (tenants d)" using assms(1) by (simp add: access_defs)
  then have "unique_on t_api_key_digest (update_where P (\<lambda>t. t\<lparr>t_state := Revoked, t_updated_at := at\<rparr>) (tenants d))" for P
    by (simp add: unique_on_update_where)
  with assms(2) show ?thesis
    by (auto simp: revoke_tenant_def txn_simps Let_def intro!: update_tenants_ok [OF assms(1)])
qed

lemma bind_quote_ok:
  assumes "market_ok cfg d" "bind_quote cfg tid qid key at d = Inr (v, d')"
  shows "market_ok cfg d'"
  using assms(2)
proof (cases rule: bind_quote_cases)
  case same
  then show ?thesis using assms(1) by simp
next
  case (new row)
  have "qid \<notin> qb_quote_id ` set (quote_bindings d)"
    using new(4) by (auto simp: find_quote_binding_def find_None_iff)
  then have "quote_bindings_ok (tenants d) (quotes d) (quote_bindings d @ [row])"
    using assms(1) new(5-7) active_tenant_member [OF new(2)] find_quote_member [OF new(3)]
    by (auto simp: access_defs)
  moreover have "order_bindings_ok cfg (quote_bindings d @ [row]) (orders d) (order_bindings d)"
    by (rule order_bindings_ok_quotes [of cfg "quote_bindings d"]) (use assms(1) in \<open>auto simp: market_ok_def access_ok_def\<close>)
  ultimately show ?thesis using assms(1) by (simp add: new(8) market_ok_def access_ok_def)
qed

lemma update_bindings_ok:
  assumes "market_ok cfg d"
    "\<And>b. b \<in> set (order_bindings d) \<Longrightarrow> P b \<Longrightarrow> binding_ok cfg (quote_bindings d) (orders d) b
       \<Longrightarrow> binding_ok cfg (quote_bindings d) (orders d) (f b)"
    "\<And>b. ob_order_id (f b) = ob_order_id b" "\<And>b. ob_quote_id (f b) = ob_quote_id b"
  shows "market_ok cfg (audit e at t q oid (d\<lparr>order_bindings := update_where P f (order_bindings d)\<rparr>))"
proof -
  have "order_bindings_ok cfg (quote_bindings d) (orders d) (order_bindings d)"
    using assms(1) by (simp add: market_ok_def access_ok_def)
  then have "order_bindings_ok cfg (quote_bindings d) (orders d) (update_where P f (order_bindings d))"
    by (rule order_bindings_ok_update) (use assms in \<open>auto simp: access_defs\<close>)
  then show ?thesis using assms(1) by (simp add: market_ok_def access_ok_def)
qed

lemma token_expiry_parses:
  assumes "token_expiry u = Inr e" shows "parse_access_timestamp e = Inr (floor_second (u + DELIVERY_TOKEN_TTL))"
proof -
  from assms have "e = iso_z (u + DELIVERY_TOKEN_TTL)" "0 \<le> u + DELIVERY_TOKEN_TTL" "u + DELIVERY_TOKEN_TTL < max_us"
    by (auto simp: token_expiry_def txn_simps format_utc_def split: if_splits)
  then show ?thesis using parse_access_timestamp_iso_z by simp
qed

lemma new_binding_token_ok:
  assumes "token_expiry u = Inr e" shows "token_ok cfg (new_order_binding cfg tid oid qid e at)"
  using token_expiry_parses [OF assms] by (simp add: token_ok_def new_order_binding_def)

lemma bind_order_ok:
  assumes "market_ok cfg d" "bind_order cfg tid oid qid at d = Inr (tok, d')"
  shows "market_ok cfg d'"
  using assms(2)
proof (cases rule: bind_order_cases)
  case same
  then show ?thesis using assms(1) by simp
next
  case (new created expires q r)
  let ?b = "new_order_binding cfg tid oid qid expires at"
  have id: "ob_order_id ?b = oid" "ob_quote_id ?b = qid" "ob_tenant_id ?b = tid" "ob_result ?b = None"
    by (simp_all add: new_order_binding_def)
  have "oid \<notin> ob_order_id ` set (order_bindings d)"
    using new(8) by (auto simp: find_order_binding_def find_None_iff)
  moreover have "owner_ok (quote_bindings d) (orders d) ?b"
    using find_quote_bindingD [OF new(4)] find_orderD [OF new(6)] new(5,7) unfolding owner_ok_def id by blast
  with new_binding_token_ok [OF new(2)] have "binding_ok cfg (quote_bindings d) (orders d) ?b"
    by (simp add: binding_ok_def result_ok_def id)
  ultimately show ?thesis using assms(1) new(9) by (simp add: new(11) access_defs id)
qed

lemma binding_unique:
  assumes "market_ok cfg d" "b \<in> set (order_bindings d)" "b' \<in> set (order_bindings d)" "ob_order_id b = ob_order_id b'"
  shows "b = b'"
  using assms unique_on_eq [of ob_order_id "order_bindings d" b b'] by (simp add: access_defs)

lemma rotate_delivery_token_ok:
  assumes "market_ok cfg d" "rotate_delivery_token cfg tid oid cur at d = Inr (tok, d')"
  shows "market_ok cfg d'"
  using assms(2)
proof (cases rule: rotate_delivery_token_cases)
  case (1 b updated expires)
  show ?thesis
    unfolding 1(10)
  proof (rule update_bindings_ok [OF assms(1)])
    fix x
    assume x: "x \<in> set (order_bindings d)" "ob_order_id x = oid" "binding_ok cfg (quote_bindings d) (orders d) x"
    then have "x = b" using 1(1,2) by (intro binding_unique [OF assms(1)]) simp_all
    with x 1(2,3) token_expiry_parses [OF 1(8)]
    show "binding_ok cfg (quote_bindings d) (orders d) (x\<lparr>ob_token_version := ob_token_version b + 1,
       ob_token_digest := delivery_digest cfg tok, ob_token_expires_at := expires, ob_updated_at := at\<rparr>)"
      by (simp add: binding_ok_def token_ok_def result_ok_def owner_ok_def 1(9))
  qed simp_all
qed

lemma revoke_delivery_token_ok:
  assumes "market_ok cfg d" "revoke_delivery_token cfg tid oid cur at d = Inr (u, d')"
  shows "market_ok cfg d'"
  using assms(2)
proof (cases rule: revoke_delivery_token_cases)
  case (1 b)
  show ?thesis unfolding 1(3)
    by (rule update_bindings_ok [OF assms(1)]) (simp_all add: binding_ok_def token_ok_def result_ok_def owner_ok_def)
qed

lemma publish_result_ok:
  assumes "market_ok cfg d" "publish_result oid body at d = Inr (digest, d')"
  shows "market_ok cfg d'"
  using assms(2)
proof (cases rule: publish_result_cases)
  case (1 r b)
  let ?f = "\<lambda>x. x\<lparr>ob_result := Some (digest, body), ob_updated_at := at\<rparr>"
  have ok: "binding_ok cfg (quote_bindings d) (orders d) (?f x)"
    if "ob_order_id x = oid" "binding_ok cfg (quote_bindings d) (orders d) x" for x
    using that 1(4,5) find_orderD [OF 1(1)] by (auto simp: binding_ok_def token_ok_def result_ok_def owner_ok_def)
  from 1(6) show ?thesis
  proof (elim disjE conjE)
    assume "d' = audit ''result.published'' at (Some (ob_tenant_id b)) (Some (ob_quote_id b)) (Some oid)
       (d\<lparr>order_bindings := update_where (\<lambda>x. ob_order_id x = oid) ?f (order_bindings d)\<rparr>)"
    then show ?thesis using update_bindings_ok [OF assms(1), of "\<lambda>x. ob_order_id x = oid" ?f] ok by simp
  qed (use assms(1) in simp)
qed

subsection \<open>The store underneath\<close>

text \<open>
  What a write of the store leaves alone: the metadata and the access tables
  (\<open>db.more\<close>), the recorded quotes, and for every order its quote and, once it is delivered,
  its envelope.
\<close>

definition store_frame :: "'z db_scheme \<Rightarrow> 'z db_scheme \<Rightarrow> bool" where
  "store_frame d d' \<longleftrightarrow> db.more d' = db.more d \<and> set (quotes d) \<subseteq> set (quotes d')
     \<and> (\<forall>r \<in> set (orders d). \<exists>r' \<in> set (orders d'). o_order_id r' = o_order_id r \<and> o_quote_id r' = o_quote_id r
       \<and> (o_envelope_sha256 r \<noteq> None \<longrightarrow> o_envelope_sha256 r' = o_envelope_sha256 r))"

lemma store_frame_same_orders [intro]:
  "db.more d' = db.more d \<Longrightarrow> set (quotes d) \<subseteq> set (quotes d') \<Longrightarrow> set (orders d) \<subseteq> set (orders d') \<Longrightarrow> store_frame d d'"
  unfolding store_frame_def by blast

lemma store_frame_history [simp]: "store_frame d (history oid dim p n s t d1) = store_frame d d1"
  by (simp add: store_frame_def)

lemma store_frame_update:
  assumes "update_order oid f d1 = Inr d2" "db.more d1 = db.more d" "quotes d1 = quotes d" "orders d1 = orders d"
    "\<And>r. o_order_id (f r) = o_order_id r" "\<And>r. o_quote_id (f r) = o_quote_id r"
    "\<And>r. r \<in> set (orders d) \<Longrightarrow> o_order_id r = oid \<Longrightarrow> o_envelope_sha256 r \<noteq> None \<Longrightarrow> o_envelope_sha256 (f r) = o_envelope_sha256 r"
  shows "store_frame d d2"
proof -
  have d2: "d2 = d1\<lparr>orders := update_where (\<lambda>r. o_order_id r = oid) f (orders d)\<rparr>"
    using assms(1,4) by (simp add: update_order_Inr)
  have "\<exists>r' \<in> set (update_where (\<lambda>r. o_order_id r = oid) f (orders d)). o_order_id r' = o_order_id r \<and> o_quote_id r' = o_quote_id r
       \<and> (o_envelope_sha256 r \<noteq> None \<longrightarrow> o_envelope_sha256 r' = o_envelope_sha256 r)" if "r \<in> set (orders d)" for r
  proof (cases "o_order_id r = oid")
    case True
    with that have "f r \<in> set (update_where (\<lambda>r. o_order_id r = oid) f (orders d))" by (auto simp: set_update_where)
    with assms(5-7) True that show ?thesis by blast
  next
    case False
    with that show ?thesis by (auto simp: set_update_where)
  qed
  with assms(2,3) show ?thesis by (simp add: store_frame_def d2)
qed

lemma store_frame_same_keys:
  assumes "same_keys d d'" shows "store_frame d d'"
proof -
  have "\<exists>r' \<in> set (orders d'). o_order_id r' = o_order_id r \<and> o_quote_id r' = o_quote_id r
       \<and> o_envelope_sha256 r' = o_envelope_sha256 r" if "r \<in> set (orders d)" for r
  proof -
    have "set (deliveries d') = set (deliveries d)" using same_keysD(7) [OF assms] by simp
    with that have "(o_order_id r, o_quote_id r, o_envelope_sha256 r) \<in> set (deliveries d')"
      by (simp add: deliveries_def image_iff) blast
    then show ?thesis by (auto simp: deliveries_def)
  qed
  with same_keysD(3,9) [OF assms] show ?thesis unfolding store_frame_def by (metis order_refl)
qed

lemma transition_frame:
  assumes "transition_order env oid t src at ds d = Inr (v, d')" shows "store_frame d d'"
  using assms
proof (cases rule: transition_order_cases)
  case (new r d1)
  have "store_frame d d1" by (rule store_frame_update [OF new(3)]) simp_all
  then show ?thesis by (simp add: new(4))
qed blast

lemma step_frame:
  assumes ok: "store_ok env d" and step: "store_step env d d'"
  shows "store_frame d d'"
  using step
proof cases
  case quote
  then show ?thesis by (rule create_quote_cases) (auto intro!: store_frame_same_orders)
next
  case order
  then show ?thesis
    by (rule create_order_cases) (auto simp: store_frame_history intro!: store_frame_same_orders)
next
  case (attach oid cid parg at v)
  then show ?thesis
  proof (cases rule: attach_checkout_cases)
    case (new r pid d1)
    have "store_frame d d1" by (rule store_frame_update [OF new(5)]) simp_all
    then show ?thesis by (simp add: new(6))
  qed blast
next
  case (bind_payment oid pid cid at v)
  then show ?thesis
  proof (cases rule: bind_provider_payment_cases)
    case (new r)
    show ?thesis by (rule store_frame_update [OF new(5)]) simp_all
  qed blast
next
  case (ingest ev rec res)
  from ok ingest show ?thesis
  proof (cases rule: ingest_cases)
    case (new e u er r r')
    have "store_frame d x \<longleftrightarrow> store_frame (d\<lparr>provider_events := p\<rparr>) x" for x p by (simp add: store_frame_def)
    with store_frame_same_keys [OF new(12)] show ?thesis by blast
  qed blast
next
  case (costs oid cs key ts v)
  then show ?thesis
  proof (cases rule: record_direct_costs_cases)
    case (new r d2)
    show ?thesis by (rule store_frame_update [OF new(5)]) (simp_all add: new(4))
  qed blast
next
  case begin_work
  then show ?thesis unfolding begin_fulfillment_def by (rule transition_frame)
next
  case fail_work
  then show ?thesis unfolding fail_fulfillment_def by (rule transition_frame)
next
  case (deliver_receipt oid rid rsha esha kid src at v)
  then show ?thesis
  proof (cases rule: deliver_cases)
    case (new r d1)
    have "o_envelope_sha256 x = None" if "x \<in> set (orders d)" "o_order_id x = oid" for x
    proof -
      have "x = r" using that find_orderD [OF new(1)] unique_on_eq [OF orders_uniqueD(1) [OF store_ok_parts(1) [OF ok]]] by metis
      with find_order_ok [OF ok new(1)] new(3) show ?thesis by (simp add: order_ok_def row_ok_def receipt_ok_def)
    qed
    then have "store_frame d d1" by (intro store_frame_update [OF new(4)]) simp_all
    then show ?thesis by (simp add: new(5))
  qed blast
qed

lemma access_tables_more:
  assumes "db.more d' = db.more d"
  shows "tenants d' = tenants d" "quote_bindings d' = quote_bindings d" "order_bindings d' = order_bindings d"
    "audit_events_table d' = audit_events_table d"
  using assms by (cases d; cases d'; simp)+

lemma store_step_market_ok:
  assumes "market_ok cfg d" "store_step (ac_environment cfg) d d'"
  shows "market_ok cfg d'"
proof -
  have ok: "store_ok (ac_environment cfg) d" using assms(1) by (simp add: market_ok_def)
  note frame = step_frame [OF ok assms(2), unfolded store_frame_def]
  note tabs = access_tables_more [OF conjunct1 [OF frame]]
  have "quote_bindings_ok (tenants d) (quotes d') (quote_bindings d)"
    by (rule quote_bindings_ok_tenants [of "tenants d" "quotes d"])
      (use frame assms(1) in \<open>auto simp: market_ok_def access_ok_def\<close>)
  moreover have "order_bindings_ok cfg (quote_bindings d) (orders d') (order_bindings d)"
    by (rule order_bindings_ok_extend [of cfg "quote_bindings d" "orders d"])
      (use frame assms(1) in \<open>simp_all add: market_ok_def access_ok_def\<close>)
  ultimately show ?thesis using assms(1) store.keep [OF ok assms(2)] by (simp add: market_ok_def access_ok_def tabs)
qed

subsection \<open>Steps, and what no step undoes\<close>

inductive access_step :: "access_config \<Rightarrow> 'z access_db_scheme \<Rightarrow> 'z access_db_scheme \<Rightarrow> bool" for cfg where
  provision: "provision_tenant cfg tid rnd at d = Inr (v, d') \<Longrightarrow> access_step cfg d d'"
| rotate_key: "rotate_api_key cfg tid rnd at d = Inr (key, d') \<Longrightarrow> access_step cfg d d'"
| revoke: "revoke_tenant tid at d = Inr (u, d') \<Longrightarrow> access_step cfg d d'"
| own_quote: "bind_quote cfg tid qid key at d = Inr (u, d') \<Longrightarrow> access_step cfg d d'"
| own_order: "bind_order cfg tid oid qid at d = Inr (tok, d') \<Longrightarrow> access_step cfg d d'"
| rotate_token: "rotate_delivery_token cfg tid oid cur at d = Inr (tok, d') \<Longrightarrow> access_step cfg d d'"
| revoke_token: "revoke_delivery_token cfg tid oid cur at d = Inr (u, d') \<Longrightarrow> access_step cfg d d'"
| publish: "publish_result oid body at d = Inr (digest, d') \<Longrightarrow> access_step cfg d d'"
| sell: "store_step (ac_environment cfg) d d' \<Longrightarrow> access_step cfg d d'"

definition market_initial :: "access_config \<Rightarrow> 'z access_db_scheme \<Rightarrow> bool" where
  "market_initial cfg d \<longleftrightarrow> store_initial (ac_environment cfg) d \<and> tenants d = [] \<and> quote_bindings d = []
     \<and> order_bindings d = [] \<and> audit_events_table d = []"

definition market_reachable :: "access_config \<Rightarrow> 'z access_db_scheme \<Rightarrow> bool" where
  "market_reachable cfg = reachable_from (market_initial cfg) (access_step cfg)"

lemma access_step_ok: "market_ok cfg d \<Longrightarrow> access_step cfg d d' \<Longrightarrow> market_ok cfg d'"
  by (erule access_step.cases)
    (auto intro: provision_tenant_ok rotate_api_key_ok revoke_tenant_ok bind_quote_ok bind_order_ok
      rotate_delivery_token_ok revoke_delivery_token_ok publish_result_ok store_step_market_ok)

interpretation market: invariant_system "market_initial cfg" "access_step cfg" "market_ok cfg" for cfg
proof
  show "market_ok cfg s" if "market_initial cfg s" for s
    using that store.start [of "ac_environment cfg" s] by (simp add: market_initial_def access_defs)
qed (rule access_step_ok)

definition rows_keep :: "('r \<Rightarrow> 'r \<Rightarrow> bool) \<Rightarrow> 'r list \<Rightarrow> 'r list \<Rightarrow> bool" where
  "rows_keep R t t' \<longleftrightarrow> (\<forall>x \<in> set t. \<exists>y \<in> set t'. R x y)"

lemma rows_keep_subset: "(\<And>x. R x x) \<Longrightarrow> set t \<subseteq> set t' \<Longrightarrow> rows_keep R t t'"
  unfolding rows_keep_def by blast

lemma rows_keep_update: "(\<And>x. R x x) \<Longrightarrow> (\<And>x. x \<in> set t \<Longrightarrow> P x \<Longrightarrow> R x (f x)) \<Longrightarrow> rows_keep R t (update_where P f t)"
  unfolding rows_keep_def set_update_where by blast

lemma rows_keep_trans:
  "rows_keep R t u \<Longrightarrow> rows_keep R u v \<Longrightarrow> (\<And>x y z. R x y \<Longrightarrow> R y z \<Longrightarrow> R x z) \<Longrightarrow> rows_keep R t v"
  unfolding rows_keep_def by metis

definition tenant_keeps :: "tenant_row \<Rightarrow> tenant_row \<Rightarrow> bool" where
  "tenant_keeps t t' \<longleftrightarrow> t_tenant_id t' = t_tenant_id t \<and> (t_state t = Revoked \<longrightarrow> t_state t' = Revoked)"

definition binding_keeps :: "order_binding \<Rightarrow> order_binding \<Rightarrow> bool" where
  "binding_keeps b b' \<longleftrightarrow> ob_order_id b' = ob_order_id b \<and> ob_quote_id b' = ob_quote_id b
     \<and> ob_tenant_id b' = ob_tenant_id b \<and> ob_token_version b \<le> ob_token_version b'
     \<and> (ob_token_state b = Revoked \<longrightarrow> ob_token_state b' = Revoked)
     \<and> (ob_result b \<noteq> None \<longrightarrow> ob_result b' = ob_result b)"

definition access_keeps :: "'z access_db_scheme \<Rightarrow> 'z access_db_scheme \<Rightarrow> bool" where
  "access_keeps d d' \<longleftrightarrow> rows_keep tenant_keeps (tenants d) (tenants d')
     \<and> rows_keep binding_keeps (order_bindings d) (order_bindings d')
     \<and> prefix (quote_bindings d) (quote_bindings d') \<and> prefix (audit_events_table d) (audit_events_table d')"

lemma keeps_refl [simp]: "tenant_keeps t t" "binding_keeps b b"
  by (simp_all add: tenant_keeps_def binding_keeps_def)

lemma access_keeps_same:
  assumes "tenants d' = tenants d" "quote_bindings d' = quote_bindings d" "order_bindings d' = order_bindings d"
    "audit_events_table d' = audit_events_table d"
  shows "access_keeps d d'"
  using assms by (simp add: access_keeps_def rows_keep_subset)

lemma access_keeps_trans: "access_keeps d d1 \<Longrightarrow> access_keeps d1 d2 \<Longrightarrow> access_keeps d d2"
  unfolding access_keeps_def
  by (auto elim!: rows_keep_trans prefix_order.order_trans simp: tenant_keeps_def binding_keeps_def)

lemma access_keeps_audit [simp]:
  "access_keeps d (audit e at t q oid d1) \<longleftrightarrow> rows_keep tenant_keeps (tenants d) (tenants d1)
     \<and> rows_keep binding_keeps (order_bindings d) (order_bindings d1) \<and> prefix (quote_bindings d) (quote_bindings d1)"
  if "audit_events_table d1 = audit_events_table d"
  using that by (simp add: access_keeps_def audit_def)

lemma access_keeps_tenants:
  "(\<And>x. P x \<Longrightarrow> tenant_keeps x (f x)) \<Longrightarrow>
     access_keeps d (audit e at t q oid (d\<lparr>tenants := update_where P f (tenants d)\<rparr>))"
  by (simp add: rows_keep_update rows_keep_subset)

lemma access_keeps_bindings:
  "(\<And>x. x \<in> set (order_bindings d) \<Longrightarrow> P x \<Longrightarrow> binding_keeps x (f x)) \<Longrightarrow>
     access_keeps d (audit e at t q oid (d\<lparr>order_bindings := update_where P f (order_bindings d)\<rparr>))"
  by (simp add: rows_keep_update rows_keep_subset)

lemma access_step_keeps:
  assumes ok: "market_ok cfg d" and step: "access_step cfg d d'"
  shows "access_keeps d d'"
  using step
proof cases
  case provision
  then show ?thesis by (rule provision_tenant_cases) (simp add: rows_keep_subset subset_insertI)
next
  case rotate_key
  then show ?thesis
    by (auto simp: rotate_api_key_def txn_simps Let_def tenant_keeps_def simp del: access_keeps_audit intro!: access_keeps_tenants)
next
  case revoke
  then show ?thesis
    by (auto simp: revoke_tenant_def txn_simps Let_def tenant_keeps_def simp del: access_keeps_audit intro!: access_keeps_tenants)
next
  case own_quote
  then show ?thesis by (rule bind_quote_cases) (simp_all add: access_keeps_same rows_keep_subset)
next
  case own_order
  then show ?thesis by (rule bind_order_cases) (simp_all add: access_keeps_same rows_keep_subset subset_insertI)
next
  case (rotate_token tid oid cur at tok)
  then show ?thesis
  proof (cases rule: rotate_delivery_token_cases)
    case (1 b updated expires)
    have same: "x = b" if "x \<in> set (order_bindings d)" "ob_order_id x = oid" for x
      using that 1(1,2) by (intro binding_unique [OF ok]) simp_all
    show ?thesis unfolding 1(10)
      by (rule access_keeps_bindings) (auto simp: binding_keeps_def dest: same)
  qed
next
  case revoke_token
  then show ?thesis
    by (rule revoke_delivery_token_cases)
      (auto simp: binding_keeps_def simp del: access_keeps_audit intro!: access_keeps_bindings)
next
  case (publish oid body at digest)
  then show ?thesis
  proof (cases rule: publish_result_cases)
    case (1 r b)
    have same: "x = b" if "x \<in> set (order_bindings d)" "ob_order_id x = oid" for x
      using that find_order_bindingD [OF 1(2)] by (intro binding_unique [OF ok]) simp_all
    from 1(6) show ?thesis
    proof (elim disjE conjE)
      assume "ob_result b = None" and d': "d' = audit ''result.published'' at (Some (ob_tenant_id b)) (Some (ob_quote_id b)) (Some oid)
       (d\<lparr>order_bindings := update_where (\<lambda>x. ob_order_id x = oid)
          (\<lambda>x. x\<lparr>ob_result := Some (digest, body), ob_updated_at := at\<rparr>) (order_bindings d)\<rparr>)"
      then show ?thesis unfolding d'
        by (intro access_keeps_bindings) (auto simp: binding_keeps_def dest: same)
    qed (simp add: access_keeps_same)
  qed
next
  case sell
  with ok have "db.more d' = db.more d" using step_frame [of "ac_environment cfg" d d'] by (simp add: market_ok_def store_frame_def)
  from access_tables_more [OF this] show ?thesis by (rule access_keeps_same)
qed

lemma run_keeps: "market_ok cfg d \<Longrightarrow> rtranclp (access_step cfg) d d' \<Longrightarrow> access_keeps d d'"
  by (rule market.run_related [where R = access_keeps])
    (auto intro: access_keeps_trans access_step_keeps access_keeps_same)

end
