(* ===== verification/AccessClaims.thy ===== *)
theory AccessClaims
  imports AccessInvariant StoreClaims
begin

section \<open>The access state: its guarantees\<close>

text \<open>
  What \<open>CommerceAccessStore\<close> promises to tenants: who is authorised, that revocation is
  final, that rotation replaces the token, and that a tenant is handed exactly the bytes
  whose digest the delivered order carries.
\<close>

subsection \<open>Helper lemmas\<close>

lemma urlsafe_32: "length s = 32 \<Longrightarrow> re_class is_token 43 43 (urlsafe s)"
  using b64url_tokens [of s] length_b64_body [of True s] by (simp add: re_class_def urlsafe_def b64url_no_pad_def)

lemma delivery_token_format [simp]:
  "re_delivery_token (delivery_token cfg tid oid v)" "py_len (delivery_token cfg tid oid v) \<le> 64"
proof -
  let ?s = "urlsafe (token_bytes (ac_delivery_secret cfg) ''delivery-token'' [tid, oid, show_nat v])"
  have s: "re_class is_token 43 43 ?s" by (rule urlsafe_32) (simp add: token_bytes_def)
  have "delivery_token cfg tid oid v = (if ac_environment cfg = Sandbox then ''vsd_test_'' else ''vsd_live_'') @ ?s"
    by (simp only: delivery_token_def)
  with s show "re_delivery_token (delivery_token cfg tid oid v)"
    by (cases "ac_environment cfg") (simp_all only: re_delivery_token_def re_prefix_append if_True if_False environment.simps simp_thms)
  have "length (delivery_token cfg tid oid v) = 52" using s by (simp add: delivery_token_def re_class_def)
  then show "py_len (delivery_token cfg tid oid v) \<le> 64" using py_len_le [of "delivery_token cfg tid oid v"] by simp
qed

lemma api_key_format:
  assumes "length rnd = 32"
  shows "re_api_key (key_prefix cfg @ urlsafe rnd)" "py_len (key_prefix cfg @ urlsafe rnd) \<le> 96"
proof -
  note s = urlsafe_32 [OF assms]
  from s show "re_api_key (key_prefix cfg @ urlsafe rnd)"
    by (cases "ac_environment cfg") (simp_all only: key_prefix_def re_api_key_def re_prefix_append if_True if_False environment.simps simp_thms)
  have "length (key_prefix cfg @ urlsafe rnd) = 52" using s by (simp add: key_prefix_def re_class_def)
  then show "py_len (key_prefix cfg @ urlsafe rnd) \<le> 96" using py_len_le [of "key_prefix cfg @ urlsafe rnd"] by simp
qed

lemma authorize_order_row:
  assumes ok: "market_ok cfg d" and b: "b \<in> set (order_bindings d)" "ob_order_id b = oid" "ob_tenant_id b = tid"
    and act: "active_tenant tid d" and now: "astimezone_utc now = Inr moment"
    and exp: "parse_access_timestamp (ob_token_expires_at b) = Inr expires"
    and tok: "re_delivery_token tok" "py_len tok \<le> 64"
  shows "authorize_order cfg tid oid tok now d =
    (if ob_token_state b = Active \<and> delivery_digest cfg tok = ob_token_digest b \<and> moment < expires
     then Inr \<lparr>az_tenant_id = tid, az_order_id = oid, az_quote_id = ob_quote_id b,
                  az_token_version = ob_token_version b, az_token_expires_at = ob_token_expires_at b,
                  az_result_sha256 = map_option fst (ob_result b)\<rparr>
     else Inl authorization_failed)"
proof -
  let ?P = "\<lambda>b. ob_order_id b = oid \<and> ob_tenant_id b = tid \<and> active_tenant (ob_tenant_id b) d"
  have "find ?P (order_bindings d) \<noteq> None" using b act by (auto simp: find_None_iff)
  then obtain x where x: "find ?P (order_bindings d) = Some x" by blast
  with b have "x = b" using find_SomeD [OF x] by (intro binding_unique [OF ok]) auto
  moreover have "\<not> is_naive now" using now by (cases now) simp_all
  ultimately show ?thesis using x b now exp tok by (auto simp: authorize_order_def Let_def reject_if_def)
qed

lemma inactive_stays:
  assumes keeps: "access_keeps d d'" and ok: "market_ok cfg d'" and out: "t \<in> set (tenants d)" "t_state t = Revoked"
  shows "\<not> active_tenant (t_tenant_id t) d'"
proof -
  from keeps out obtain t' where t': "t' \<in> set (tenants d')" "tenant_keeps t t'"
    unfolding access_keeps_def rows_keep_def by blast
  have "x = t'" if "x \<in> set (tenants d')" "t_tenant_id x = t_tenant_id t" for x
    using that t' ok unique_on_eq [of t_tenant_id "tenants d'" x t'] by (simp add: access_defs tenant_keeps_def)
  with t' out show ?thesis by (auto simp: active_tenant_def list_ex_iff tenant_keeps_def)
qed

subsection \<open>The invariant and authorisation\<close>

text \<open>
  Every state of the marketplace, the store and the access tables together, that the
  public operations can reach is well formed: tenants and keys are unique, every quote and
  order is bound to one existing tenant that owns the quote, every stored token digest is the digest
  of the token issued for its version, and a published result has the digest of the
  delivered envelope.
\<close>

theorem market_reachable_ok: "market_reachable cfg d \<Longrightarrow> market_ok cfg d"
  unfolding market_reachable_def by (rule market.reachable_inv)

definition demo_access :: access_config where
  "demo_access = \<lparr>ac_environment = Sandbox, ac_auth_pepper = replicate 32 CHR ''p'', ac_delivery_secret = replicate 32 CHR ''s''\<rparr>"

definition demo_tenant :: string where "demo_tenant = ''ten_'' @ replicate 24 CHR ''0''"
definition demo_at :: string where "demo_at = ''2026-07-01T00:06:00Z''"

definition access_over :: "db \<Rightarrow> access_db" where
  "access_over d = \<lparr>metadata = metadata d, quotes = quotes d, orders = orders d, provider_events = provider_events d,
     financial_entries = financial_entries d, cost_records = cost_records d, order_history = order_history d,
     access_metadata = [], tenants = [], quote_bindings = [], order_bindings = [], audit_events_table = []\<rparr>"

lemma demo_at_parses: "parse_access_timestamp demo_at = Inr 63918461160000000"
  by code_simp

lemma demo_tenant_format: "re_tenant_id demo_tenant"
  by code_simp

lemma demo_provision:
  "tenants d = [] \<Longrightarrow> \<exists>v d'. provision_tenant demo_access demo_tenant (replicate 32 CHR ''r'') demo_at d = Inr (v, d')"
  by (simp add: provision_tenant_def demo_tenant_format demo_at_parses Let_def)

theorem market_reachable_ok_witness:
  "\<exists>d :: access_db. market_reachable demo_access d \<and> tenants d \<noteq> [] \<and> market_ok demo_access d"
proof -
  have init: "market_initial demo_access (access_over empty_store)"
    by (simp add: market_initial_def store_initial_def access_over_def empty_store_def demo_access_def)
  have "tenants (access_over empty_store) = []" by (simp add: access_over_def)
  then obtain v d where d: "provision_tenant demo_access demo_tenant (replicate 32 CHR ''r'') demo_at (access_over empty_store) = Inr (v, d)"
    using demo_provision by blast
  from init have "market_reachable demo_access d"
    unfolding market_reachable_def reachable_from_def using access_step.provision [OF d] by blast
  moreover have "tenants d \<noteq> []" using d by (rule provision_tenant_cases) simp
  ultimately show ?thesis using market_reachable_ok [of demo_access d] by blast
qed

text \<open>
  C20. Whoever is authorised for an order owns it: the tenant is active, the order and its
  quote are bound to that tenant, the capability is active and not past its expiry, and the token
  presented has the digest of the one issued for the current version.
\<close>

theorem authorize_order_sound:
  assumes "market_ok cfg d" "authorize_order cfg tid oid tok now d = Inr z"
  shows "active_tenant tid d \<and> (\<exists>b \<in> set (order_bindings d). ob_order_id b = oid \<and> ob_tenant_id b = tid
    \<and> ob_token_state b = Active
    \<and> delivery_digest cfg tok = delivery_digest cfg (delivery_token cfg tid oid (ob_token_version b))
    \<and> (\<exists>m e. astimezone_utc now = Inr m \<and> parse_access_timestamp (ob_token_expires_at b) = Inr e \<and> m < e)
    \<and> quote_owned tid (ob_quote_id b) d \<and> (\<exists>r. find_order oid d = Some r \<and> o_quote_id r = ob_quote_id b))"
  using assms(2)
proof (cases rule: authorize_order_cases)
  case (1 b moment expires)
  have ok: "token_ok cfg b" "owner_ok (quote_bindings d) (orders d) b"
    using assms(1) 1(1) by (simp_all add: access_defs binding_ok_def)
  have "quote_owned tid (ob_quote_id b) d"
    using ok(2) 1(3,4) by (auto simp: owner_ok_def quote_owned_def list_ex_iff)
  moreover obtain r where "r \<in> set (orders d)" "o_order_id r = oid" "o_quote_id r = ob_quote_id b"
    using ok(2) 1(2) by (auto simp: owner_ok_def)
  moreover from this have "find_order oid d = Some r"
    using assms(1) find_order_self [of "ac_environment cfg" d r] by (simp add: market_ok_def)
  ultimately show ?thesis using 1 ok(1) unfolding token_ok_def by metis
qed

abbreviation demo_oid :: string where "demo_oid \<equiv> ''ord_test_000000000000000000000001''"
abbreviation demo_qid :: string where "demo_qid \<equiv> ''q_000000000000000000000000''"

definition demo_market :: access_db where
  "demo_market = (access_over running_store)\<lparr>
     tenants := [\<lparr>t_tenant_id = demo_tenant, t_api_key_digest = ''k'', t_state = Active, t_created_at = ''t'', t_updated_at = ''t''\<rparr>],
     quote_bindings := [\<lparr>qb_quote_id = demo_qid, qb_tenant_id = demo_tenant, qb_idempotency_digest = ''i'', qb_created_at = ''t''\<rparr>]\<rparr>"

lemma running_row:
  obtains r where "orders running_store = [r]" "o_order_id r = demo_oid" "o_quote_id r = demo_qid"
    "o_order_status r = Running" "o_direct_costs_recorded r" "quotes running_store = [demo_quote]"
proof -
  have "case orders running_store of [r] \<Rightarrow> o_order_id r = demo_oid \<and> o_quote_id r = demo_qid \<and> o_order_status r = Running
      \<and> o_direct_costs_recorded r | _ \<Rightarrow> False" by code_simp
  moreover have "quotes running_store = [demo_quote]" by code_simp
  ultimately show thesis using that by (auto split: list.splits)
qed

lemma demo_market_ok: "market_ok demo_access demo_market"
proof -
  obtain r where r: "orders running_store = [r]" "quotes running_store = [demo_quote]" by (rule running_row)
  have "store_ok Sandbox demo_market"
    by (subst store_ok_cong [of _ running_store]) (simp_all add: demo_market_def access_over_def running_store_ok)
  then show ?thesis
    using r demo_tenant_format
    by (simp add: access_defs demo_access_def demo_market_def access_over_def unique_on_def demo_quote_def)
qed

lemma demo_market_active: "active_tenant demo_tenant demo_market"
  by (simp add: active_tenant_def demo_market_def)

lemma demo_expiry_time: "token_expiry 63918461160000000 = Inr ''2026-07-31T00:06:00Z''"
  by code_simp

lemma demo_bind:
  "\<exists>d'. bind_order demo_access demo_tenant demo_oid demo_qid demo_at demo_market
     = Inr (delivery_token demo_access demo_tenant demo_oid 1, d')
   \<and> order_bindings d' = [new_order_binding demo_access demo_tenant demo_oid demo_qid ''2026-07-31T00:06:00Z'' demo_at]
   \<and> tenants d' = tenants demo_market \<and> orders d' = orders running_store"
proof -
  obtain r where r: "orders running_store = [r]" "o_order_id r = demo_oid" "o_quote_id r = demo_qid" by (rule running_row)
  have "re_order_id demo_oid" "re_quote_id demo_qid" by code_simp+
  moreover have "require_active_tenant demo_tenant demo_market = Inr ()"
    by (simp add: require_active_tenant_def demo_tenant_format find_tenant_def demo_market_def)
  moreover have "find_quote_binding demo_qid demo_market =
      Some \<lparr>qb_quote_id = demo_qid, qb_tenant_id = demo_tenant, qb_idempotency_digest = ''i'', qb_created_at = ''t''\<rparr>"
    by (simp add: find_quote_binding_def demo_market_def)
  moreover have "find_order demo_oid demo_market = Some r"
    using r by (simp add: find_order_def demo_market_def access_over_def)
  moreover have "order_bindings demo_market = []" "orders demo_market = orders running_store"
    by (simp_all add: demo_market_def access_over_def)
  ultimately show ?thesis
    using r by (simp add: bind_order_def demo_at_parses demo_expiry_time find_order_binding_def audit_def)
qed

text \<open>The state after the demonstration order is bound.\<close>

lemma bound_market:
  obtains d' b where "market_ok demo_access d'" "order_bindings d' = [b]" "tenants d' = tenants demo_market" "orders d' = orders running_store"
    "b = new_order_binding demo_access demo_tenant demo_oid demo_qid ''2026-07-31T00:06:00Z'' demo_at"
    "bind_order demo_access demo_tenant demo_oid demo_qid demo_at demo_market
       = Inr (delivery_token demo_access demo_tenant demo_oid 1, d')"
  using demo_bind bind_order_ok [OF demo_market_ok] by blast

lemma demo_deadline: "parse_access_timestamp ''2026-07-31T00:06:00Z'' = Inr 63921053160000000"
  by code_simp

lemma bound_market_authorizes:
  assumes "market_ok demo_access d'" "order_bindings d' = [b]" "tenants d' = tenants demo_market"
    "b = new_order_binding demo_access demo_tenant demo_oid demo_qid ''2026-07-31T00:06:00Z'' demo_at"
  shows "\<exists>z. authorize_order demo_access demo_tenant demo_oid (delivery_token demo_access demo_tenant demo_oid 1)
    (Aware 63918461160000000 0) d' = Inr z"
proof -
  have "active_tenant demo_tenant d'" using demo_market_active assms(3) by (simp add: active_tenant_def)
  then show ?thesis
    using assms(2,4) demo_deadline
    by (subst authorize_order_row [OF assms(1), of b, where moment = 63918461160000000 and expires = 63921053160000000])
      (simp_all add: new_order_binding_def max_us_def max_ordinal_def day_us_def)
qed

theorem authorize_order_sound_witness:
  "\<exists>d' :: access_db. active_tenant demo_tenant d' \<and> order_bindings d' \<noteq> []"
proof (rule bound_market)
  fix d' :: access_db and b
  assume d': "market_ok demo_access d'" "order_bindings d' = [b]" "tenants d' = tenants demo_market" "orders d' = orders running_store"
    "b = new_order_binding demo_access demo_tenant demo_oid demo_qid ''2026-07-31T00:06:00Z'' demo_at"
  then obtain z where "authorize_order demo_access demo_tenant demo_oid (delivery_token demo_access demo_tenant demo_oid 1)
    (Aware 63918461160000000 0) d' = Inr z" using bound_market_authorizes by blast
  from authorize_order_sound [OF d'(1) this] show ?thesis using d'(2) by auto
qed

subsection \<open>Revocation\<close>

text \<open>
  Revoking a delivery capability is final: whatever happens afterwards, no token
  authorises the order again, for any tenant and at any time.
\<close>

theorem revoked_token_is_dead:
  assumes "market_ok cfg d" "revoke_delivery_token cfg tid oid cur at d = Inr (u, d1)"
    and "rtranclp (access_step cfg) d1 d2"
  shows "authorize_order cfg tid' oid tok now d2 \<noteq> Inr z"
proof
  have ok1: "market_ok cfg d1" by (rule revoke_delivery_token_ok [OF assms(1,2)])
  have ok2: "market_ok cfg d2" by (rule market.run_inv [OF assms(3) ok1])
  obtain b1 where b1: "b1 \<in> set (order_bindings d1)" "ob_order_id b1 = oid" "ob_token_state b1 = Revoked"
    using assms(2)
  proof (cases rule: revoke_delivery_token_cases)
    case (1 b)
    then obtain x where x: "x \<in> set (order_bindings d)" "ob_order_id x = oid \<and> ob_tenant_id x = tid \<and> ob_token_state x = Active
         \<and> ob_token_digest x = delivery_digest cfg cur" by blast
    show thesis
      by (rule that [of "x\<lparr>ob_token_state := Revoked, ob_updated_at := at\<rparr>"])
        (use x in \<open>simp_all add: 1(3) set_update_where\<close>)
  qed
  from run_keeps [OF ok1 assms(3)] b1 obtain b2 where b2: "b2 \<in> set (order_bindings d2)" "binding_keeps b1 b2"
    unfolding access_keeps_def rows_keep_def by blast
  assume "authorize_order cfg tid' oid tok now d2 = Inr z"
  then show False
  proof (cases rule: authorize_order_cases)
    case (1 b m e)
    then have "b = b2" using b2 b1(2) by (intro binding_unique [OF ok2]) (simp_all add: binding_keeps_def)
    with 1 b1 b2 show False by (simp add: binding_keeps_def)
  qed
qed

theorem revoked_token_is_dead_witness:
  "\<exists>d1. \<forall>tok now z. authorize_order demo_access demo_tenant demo_oid tok now (d1 :: access_db) \<noteq> Inr z"
proof (rule bound_market)
  let ?tok = "delivery_token demo_access demo_tenant demo_oid 1"
  fix d' :: access_db and b
  assume d': "market_ok demo_access d'" "order_bindings d' = [b]" "tenants d' = tenants demo_market" "orders d' = orders running_store"
    "b = new_order_binding demo_access demo_tenant demo_oid demo_qid ''2026-07-31T00:06:00Z'' demo_at"
  then obtain z where z: "authorize_order demo_access demo_tenant demo_oid ?tok (Aware 63918461160000000 0) d' = Inr z"
    using bound_market_authorizes by blast
  then have "\<exists>u d1. revoke_delivery_token demo_access demo_tenant demo_oid ?tok demo_at d' = Inr (u, d1)"
    using d'(2,5) by (simp add: revoke_delivery_token_def demo_at_parses find_order_binding_def new_order_binding_def)
  then obtain u d1 where "revoke_delivery_token demo_access demo_tenant demo_oid ?tok demo_at d' = Inr (u, d1)" by blast
  from revoked_token_is_dead [OF d'(1) this rtranclp.rtrancl_refl] show ?thesis by blast
qed

text \<open>
  Revoking a tenant is final: whatever happens afterwards, no API key authenticates as
  that tenant, and the tenant is authorised for no order and no quote.
\<close>

theorem revoked_tenant_is_out:
  assumes "market_ok cfg d" "revoke_tenant tid at d = Inr (u, d1)" "rtranclp (access_step cfg) d1 d2"
  shows "authenticate_api_key cfg key d2 \<noteq> Inr tid \<and> authorize_order cfg tid oid tok now d2 \<noteq> Inr z
    \<and> authorize_quote tid qid d2 = Inl authorization_failed \<and> \<not> quote_owned tid qid d2"
proof -
  have ok1: "market_ok cfg d1" by (rule revoke_tenant_ok [OF assms(1,2)])
  have ok2: "market_ok cfg d2" by (rule market.run_inv [OF assms(3) ok1])
  let ?hit = "\<lambda>t. t_tenant_id t = tid \<and> t_state t = Active"
  let ?off = "\<lambda>t. t\<lparr>t_state := Revoked, t_updated_at := at\<rparr>"
  from assms(2) have len: "length (filter ?hit (tenants d)) = 1" and d1: "tenants d1 = update_where ?hit ?off (tenants d)"
    by (auto simp: revoke_tenant_def txn_simps Let_def)
  from len have "filter ?hit (tenants d) \<noteq> []" by auto
  then obtain t where "t \<in> set (tenants d)" "?hit t" by (auto simp: filter_empty_conv)
  then have "?off t \<in> set (tenants d1)" by (auto simp: d1 set_update_where)
  moreover have "t_tenant_id (?off t) = tid" "t_state (?off t) = Revoked" using \<open>?hit t\<close> by simp_all
  ultimately have out: "\<not> active_tenant tid d2" using inactive_stays [OF run_keeps [OF ok1 assms(3)] ok2] by metis
  have "authenticate_api_key cfg key d2 \<noteq> Inr tid"
  proof
    assume "authenticate_api_key cfg key d2 = Inr tid"
    then obtain x where "x \<in> set (tenants d2)" "t_state x = Active" "t_tenant_id x = tid"
      by (auto simp: authenticate_api_key_def Let_def txn_simps dest: find_SomeD split: option.splits)
    with out show False by (auto simp: active_tenant_def list_ex_iff)
  qed
  moreover have "authorize_order cfg tid oid tok now d2 \<noteq> Inr z"
    using out by (auto elim: authorize_order_cases)
  ultimately show ?thesis using out by (auto simp: authorize_quote_def quote_owned_def list_ex_iff reject_if_def)
qed

theorem revoked_tenant_is_out_witness:
  "\<exists>d1 :: access_db. \<forall>key. authenticate_api_key demo_access key d1 \<noteq> Inr demo_tenant"
proof -
  have "\<exists>u d1. revoke_tenant demo_tenant demo_at demo_market = Inr (u, d1)"
    by (simp add: revoke_tenant_def demo_at_parses demo_market_def)
  then obtain u d1 where "revoke_tenant demo_tenant demo_at demo_market = Inr (u, d1)" by blast
  from revoked_tenant_is_out [OF demo_market_ok this rtranclp.rtrancl_refl] show ?thesis by blast
qed

subsection \<open>Results\<close>

lemma find_own_binding:
  assumes "market_ok cfg d" "x \<in> set (order_bindings d)" "ob_order_id x = oid" "ob_tenant_id x = tid"
  shows "find (\<lambda>b. ob_order_id b = oid \<and> ob_tenant_id b = tid) (order_bindings d) = Some x"
proof -
  have "find (\<lambda>b. ob_order_id b = oid \<and> ob_tenant_id b = tid) (order_bindings d) \<noteq> None"
    using assms(2-4) by (auto simp: find_None_iff)
  then obtain y where y: "find (\<lambda>b. ob_order_id b = oid \<and> ob_tenant_id b = tid) (order_bindings d) = Some y" by blast
  have "y = x" by (rule binding_unique [OF assms(1)]) (use find_SomeD [OF y] assms in simp_all)
  with y show ?thesis by simp
qed

lemma published_row:
  assumes "publish_result oid body at d = Inr (digest, d')"
  obtains x where "x \<in> set (order_bindings d')" "ob_order_id x = oid" "ob_result x = Some (sha256_hex body, body)"
  using assms
proof (cases rule: publish_result_cases)
  case (1 r b)
  note b = find_order_bindingD [OF 1(2)]
  from 1(6) show thesis
  proof (elim disjE conjE)
    assume "ob_result b = Some (digest, body)" "d' = d"
    with b 1(5) that [of b] show thesis by simp
  next
    assume d': "d' = audit ''result.published'' at (Some (ob_tenant_id b)) (Some (ob_quote_id b)) (Some oid)
       (d\<lparr>order_bindings := update_where (\<lambda>x. ob_order_id x = oid)
          (\<lambda>x. x\<lparr>ob_result := Some (digest, body), ob_updated_at := at\<rparr>) (order_bindings d)\<rparr>)"
    show thesis
      by (rule that [of "b\<lparr>ob_result := Some (digest, body), ob_updated_at := at\<rparr>"])
        (use b in \<open>simp_all add: d' 1(5) set_update_where\<close>)
  qed
qed

lemma published_result:
  assumes "market_ok cfg d" "publish_result oid body at d = Inr (digest, d')"
    and auth: "authorize_order cfg tid oid tok now d' = Inr z"
  shows "get_result cfg tid oid tok now d' = Inr body \<and> az_result_sha256 z = Some (sha256_hex body)"
proof -
  have ok: "market_ok cfg d'" by (rule publish_result_ok [OF assms(1,2)])
  obtain x where x: "x \<in> set (order_bindings d')" "ob_order_id x = oid" "ob_result x = Some (sha256_hex body, body)"
    using assms(2) by (rule published_row)
  from auth show ?thesis
  proof (cases rule: authorize_order_cases)
    case (1 b m e)
    have bx: "b = x" using 1(1,2) x by (intro binding_unique [OF ok]) simp_all
    have "az_result_sha256 z = map_option fst (ob_result x)"
      using auth by (subst (asm) authorize_order_row [OF ok 1(1-6,10,11)]) (auto simp: bx split: if_splits)
    with find_own_binding [OF ok 1(1-3)] auth x(3) show ?thesis by (simp add: get_result_def bx)
  qed
qed


text \<open>
  C21. A tenant gets the delivered bytes and nothing else: what \<open>get_result\<close> returns has the
  digest that the delivered order carries as its envelope, and however the marketplace moves on,
  every later success returns the same bytes.
\<close>

theorem result_is_the_delivery:
  assumes "market_ok cfg d" "get_result cfg tid oid tok now d = Inr body"
    and "rtranclp (access_step cfg) d d2" "get_result cfg tid2 oid tok2 now2 d2 = Inr body2"
  shows "(\<exists>r. find_order oid d = Some r \<and> o_order_status r = Delivered \<and> o_envelope_sha256 r = Some (sha256_hex body))
    \<and> body2 = body"
proof -
  have got: "\<exists>b sha. b \<in> set (order_bindings x) \<and> ob_order_id b = oid \<and> ob_result b = Some (sha, bs)"
    if "get_result cfg t oid k n x = Inr bs" for t k n bs and x :: "'a access_db_scheme"
    using that by (auto simp: get_result_def txn_simps dest!: find_SomeD split: option.splits)
  from got [OF assms(2)] obtain b sha where b: "b \<in> set (order_bindings d)" "ob_order_id b = oid" "ob_result b = Some (sha, body)"
    by blast
  have "result_ok (orders d) b" using assms(1) b(1) by (simp add: access_defs binding_ok_def)
  with b(2,3) obtain r where r: "sha = sha256_hex body" "r \<in> set (orders d)" "o_order_id r = oid" "o_envelope_sha256 r = Some sha"
    by (auto simp: result_ok_def)
  have ok: "store_ok (ac_environment cfg) d" using assms(1) by (simp add: market_ok_def)
  have "row_ok (ac_environment cfg) r" using store_ok_parts(4) [OF ok r(2)] by (simp add: order_ok_def)
  with r(4) have "o_order_status r = Delivered" by (auto simp: row_simps split: if_splits)
  moreover have "find_order oid d = Some r" using find_order_self [OF ok r(2)] r(3) by simp
  moreover have "body2 = body"
  proof -
    from got [OF assms(4)] obtain b2 sha2 where b2: "b2 \<in> set (order_bindings d2)" "ob_order_id b2 = oid" "ob_result b2 = Some (sha2, body2)"
      by blast
    from run_keeps [OF assms(1,3)] b(1) obtain x where x: "x \<in> set (order_bindings d2)" "binding_keeps b x"
      unfolding access_keeps_def rows_keep_def by blast
    have "x = b2" by (rule binding_unique [OF market.run_inv [OF assms(3,1)] x(1) b2(1)]) (use x b b2 in \<open>simp add: binding_keeps_def\<close>)
    with x b b2 show ?thesis by (simp add: binding_keeps_def)
  qed
  ultimately show ?thesis using r(1,4) by simp
qed

lemma demo_delivers:
  fixes d :: access_db
  assumes "orders d = orders running_store" "re_class is_hex 64 64 esha"
  obtains v d2 r2 where "deliver Sandbox demo_oid demo_delivered_id demo_sha esha demo_key ''w'' demo_at d = Inr (v, d2)"
    "orders d2 = [r2]" "o_order_id r2 = demo_oid" "o_order_status r2 = Delivered" "o_envelope_sha256 r2 = Some esha"
    "tenants d2 = tenants d" "order_bindings d2 = order_bindings d"
proof (rule running_row)
  fix r
  assume r: "orders running_store = [r]" "o_order_id r = demo_oid" "o_quote_id r = demo_qid"
    "o_order_status r = Running" "o_direct_costs_recorded r" "quotes running_store = [demo_quote]"
  have t: "parse_timestamp demo_at = Inr 63918461160000000" by code_simp
  have u: "orders_unique [r\<lparr>o_order_status := Delivered, o_receipt_id := Some demo_delivered_id, o_receipt_sha256 := Some demo_sha,
      o_envelope_sha256 := Some esha, o_signing_keyid := Some demo_key, o_delivery_status := ''delivered'', o_updated_at := demo_at\<rparr>]"
    by (simp add: orders_unique_def unique_on_def unique_nullable_def)
  show thesis
    using that r assms t u demo_delivery_ids
    by (simp add: deliver_def require_order_def find_order_def update_order_def write_orders_def update_where_def
        on_integrity_error_def view_after_def order_view_def history_def)
qed

lemma published_market:
  obtains d :: access_db and digest d2 z where "market_ok demo_access d" "publish_result demo_oid ''result'' demo_at d = Inr (digest, d2)"
    "authorize_order demo_access demo_tenant demo_oid (delivery_token demo_access demo_tenant demo_oid 1) (Aware 63918461160000000 0) d2 = Inr z"
proof (rule bound_market)
  fix d' :: access_db and b
  assume d': "market_ok demo_access d'" "order_bindings d' = [b]" "tenants d' = tenants demo_market"
    "orders d' = orders running_store"
    "b = new_order_binding demo_access demo_tenant demo_oid demo_qid ''2026-07-31T00:06:00Z'' demo_at"
  have hex: "re_class is_hex 64 64 (sha256_hex ''result'')" using sha256_hex_chars by (simp add: re_class_def)
  obtain v d r where d: "deliver Sandbox demo_oid demo_delivered_id demo_sha (sha256_hex ''result'') demo_key ''w'' demo_at d' = Inr (v, d)"
    "orders d = [r]" "o_order_id r = demo_oid" "o_order_status r = Delivered" "o_envelope_sha256 r = Some (sha256_hex ''result'')"
    "tenants d = tenants d'" "order_bindings d = order_bindings d'"
    by (rule demo_delivers [OF d'(4) hex])
  have "access_step demo_access d' d"
    using store_step.deliver_receipt [OF d(1)] by (simp add: access_step.sell demo_access_def)
  then have ok: "market_ok demo_access d" by (rule access_step_ok [OF d'(1)])
  let ?b = "b\<lparr>ob_result := Some (sha256_hex ''result'', ''result''), ob_updated_at := demo_at\<rparr>"
  have "re_order_id demo_oid" by code_simp
  then have pub: "publish_result demo_oid ''result'' demo_at d = Inr (sha256_hex ''result'',
      audit ''result.published'' demo_at (Some demo_tenant) (Some demo_qid) (Some demo_oid) (d\<lparr>order_bindings := [?b]\<rparr>))"
    using d d'(2,5) by (simp add: publish_result_def demo_at_parses find_order_def find_order_binding_def new_order_binding_def
        update_where_def MAX_RESULT_BYTES_def Let_def)
  let ?d2 = "audit ''result.published'' demo_at (Some demo_tenant) (Some demo_qid) (Some demo_oid) (d\<lparr>order_bindings := [?b]\<rparr>)"
  have "active_tenant demo_tenant ?d2" using demo_market_active d(6) d'(3) by (simp add: active_tenant_def)
  then have "\<exists>z. authorize_order demo_access demo_tenant demo_oid (delivery_token demo_access demo_tenant demo_oid 1)
      (Aware 63918461160000000 0) ?d2 = Inr z"
    using d'(5) demo_deadline
    by (subst authorize_order_row [OF publish_result_ok [OF ok pub], of ?b, where moment = 63918461160000000 and expires = 63921053160000000])
      (simp_all add: new_order_binding_def max_us_def max_ordinal_def day_us_def)
  with ok pub that show thesis by blast
qed

theorem result_is_the_delivery_witness:
  "\<exists>(d :: access_db) r. find_order demo_oid d = Some r \<and> o_envelope_sha256 r = Some (sha256_hex ''result'')"
proof (rule published_market)
  fix d :: access_db and digest d2 z
  let ?tok = "delivery_token demo_access demo_tenant demo_oid 1" and ?now = "Aware 63918461160000000 0"
  assume d: "market_ok demo_access d" and pub: "publish_result demo_oid ''result'' demo_at d = Inr (digest, d2)"
    and auth: "authorize_order demo_access demo_tenant demo_oid ?tok ?now d2 = Inr z"
  note got = conjunct1 [OF published_result [OF d pub auth]]
  from result_is_the_delivery [OF publish_result_ok [OF d pub] got rtranclp.rtrancl_refl got] show ?thesis by blast
qed

text \<open>
  Publishing and fetching are inverse: after \<open>publish_result\<close> a tenant who is
  authorised gets back exactly the published bytes, and is told their digest.
\<close>

theorem publish_then_get:
  assumes "market_ok cfg d" "publish_result oid body at d = Inr (digest, d')"
    and "authorize_order cfg tid oid tok now d' = Inr z"
  shows "get_result cfg tid oid tok now d' = Inr body \<and> az_result_sha256 z = Some (sha256_hex body)"
  by (rule published_result [OF assms])

theorem publish_then_get_witness:
  "\<exists>d' :: access_db. get_result demo_access demo_tenant demo_oid (delivery_token demo_access demo_tenant demo_oid 1)
     (Aware 63918461160000000 0) d' = Inr ''result''"
  by (rule published_market) (blast dest: publish_then_get)

subsection \<open>Capabilities and keys that work\<close>

text \<open>
  Binding an order hands out a capability that works until it expires: the token
  \<open>bind_order\<close> returns, on the first call and on every retry, authorises the tenant for the
  order at every time before the recorded expiry and at none after.
\<close>

theorem bound_order_authorizes:
  assumes "market_ok cfg d" "bind_order cfg tid oid qid at d = Inr (tok, d')"
    and "astimezone_utc now = Inr moment"
  shows "\<exists>b expires. find_order_binding oid d' = Some b \<and> parse_access_timestamp (ob_token_expires_at b) = Inr expires
    \<and> (moment < expires \<longrightarrow> (\<exists>z. authorize_order cfg tid oid tok now d' = Inr z \<and> az_order_id z = oid \<and> az_quote_id z = qid))
    \<and> (expires \<le> moment \<longrightarrow> authorize_order cfg tid oid tok now d' = Inl authorization_failed)"
proof -
  have ok: "market_ok cfg d'" by (rule bind_order_ok [OF assms(1,2)])
  obtain b where b: "find_order_binding oid d' = Some b" "ob_tenant_id b = tid" "ob_quote_id b = qid"
    "ob_token_state b = Active" "delivery_digest cfg tok = ob_token_digest b" "tok = delivery_token cfg tid oid (ob_token_version b)"
    "active_tenant tid d'"
    using assms(2)
  proof (cases rule: bind_order_cases)
    case (same b)
    then show thesis using that [of b] by simp
  next
    case (new created expires q r)
    let ?b = "new_order_binding cfg tid oid qid expires at"
    show thesis
      by (rule that [of ?b])
        (use new in \<open>simp_all add: find_order_binding_def find_append audit_def new_order_binding_def active_tenant_def\<close>)
  qed
  note m = find_order_bindingD [OF b(1)]
  then obtain expires where e: "parse_access_timestamp (ob_token_expires_at b) = Inr expires"
    using ok by (auto simp: access_defs binding_ok_def token_ok_def)
  have f: "re_delivery_token tok" "py_len tok \<le> 64" by (simp_all add: b(6))
  note auth = authorize_order_row [OF ok conjunct1 [OF m] conjunct2 [OF m] b(2,7) assms(3) e f]
  show ?thesis by (rule exI [of _ b], rule exI [of _ expires]) (simp add: b(1) e auth b(3,4,5))
qed

theorem bound_order_authorizes_witness:
  "\<exists>d' :: access_db. find_order_binding demo_oid d' \<noteq> None"
proof (rule bound_market)
  fix d' :: access_db and b
  assume "bind_order demo_access demo_tenant demo_oid demo_qid demo_at demo_market
       = Inr (delivery_token demo_access demo_tenant demo_oid 1, d')"
  from bound_order_authorizes [OF demo_market_ok this demo_times(1)] show ?thesis by blast
qed

text \<open>
  Rotation replaces the capability: the new token authorises until its fresh expiry of
  thirty days, and a token that still authorises afterwards, the old one included, has the
  digest of the new one.
\<close>

theorem rotation_replaces_token:
  assumes "market_ok cfg d" "rotate_delivery_token cfg tid oid cur at d = Inr (tok, d')"
    and "parse_access_timestamp at = Inr u" "astimezone_utc now = Inr moment"
  shows "(moment < floor_second (u + DELIVERY_TOKEN_TTL) \<longrightarrow> (\<exists>z. authorize_order cfg tid oid tok now d' = Inr z))
    \<and> (\<forall>old z. authorize_order cfg tid oid old now d' = Inr z \<longrightarrow> delivery_digest cfg old = delivery_digest cfg tok)"
proof -
  have ok: "market_ok cfg d'" by (rule rotate_delivery_token_ok [OF assms(1,2)])
  from assms(2) show ?thesis
  proof (cases rule: rotate_delivery_token_cases)
    case (1 b updated expires)
    let ?b = "b\<lparr>ob_token_version := ob_token_version b + 1, ob_token_digest := delivery_digest cfg tok,
             ob_token_expires_at := expires, ob_updated_at := at\<rparr>"
    have b: "?b \<in> set (order_bindings d')" "ob_order_id ?b = oid" "ob_tenant_id ?b = tid"
      using 1(1-3) by (simp_all add: 1(10) set_update_where)
    have act: "active_tenant tid d'" using 1(4) by (simp add: 1(10) active_tenant_def audit_def)
    have "u = updated" using assms(3) 1(7) by simp
    then have e: "parse_access_timestamp (ob_token_expires_at ?b) = Inr (floor_second (u + DELIVERY_TOKEN_TTL))"
      using token_expiry_parses [OF 1(8)] by simp
    have f: "re_delivery_token tok" "py_len tok \<le> 64" by (simp_all add: 1(9))
    have "moment < floor_second (u + DELIVERY_TOKEN_TTL) \<Longrightarrow> \<exists>z. authorize_order cfg tid oid tok now d' = Inr z"
      by (subst authorize_order_row [OF ok b act assms(4) e f]) (simp add: 1(5))
    moreover have "delivery_digest cfg old = delivery_digest cfg tok"
      if "authorize_order cfg tid oid old now d' = Inr z" for old z
      using that
    proof (cases rule: authorize_order_cases)
      case (1 x m e)
      then have "x = ?b" using b by (intro binding_unique [OF ok]) simp_all
      with 1(9) show ?thesis by simp
    qed
    ultimately show ?thesis by blast
  qed
qed

theorem rotation_replaces_token_witness:
  "\<exists>(d1 :: access_db) tok z. authorize_order demo_access demo_tenant demo_oid tok (Aware 63918461160000000 0) d1 = Inr z"
proof (rule bound_market)
  let ?tok = "delivery_token demo_access demo_tenant demo_oid 1" and ?now = "Aware 63918461160000000 0"
  fix d' :: access_db and b
  assume d': "market_ok demo_access d'" "order_bindings d' = [b]" "tenants d' = tenants demo_market"
    "orders d' = orders running_store"
    "b = new_order_binding demo_access demo_tenant demo_oid demo_qid ''2026-07-31T00:06:00Z'' demo_at"
  obtain z where z: "authorize_order demo_access demo_tenant demo_oid ?tok ?now d' = Inr z"
    using bound_market_authorizes [OF d'(1-3,5)] by blast
  then have "\<exists>tok d1. rotate_delivery_token demo_access demo_tenant demo_oid ?tok demo_at d' = Inr (tok, d1)"
    using d'(2,5) by (simp add: rotate_delivery_token_def demo_at_parses demo_expiry_time new_order_binding_def Let_def)
  then obtain tok d1 where rot: "rotate_delivery_token demo_access demo_tenant demo_oid ?tok demo_at d' = Inr (tok, d1)" by blast
  have now: "astimezone_utc ?now = Inr 63918461160000000" by code_simp
  have "(63918461160000000 :: int) < floor_second (63918461160000000 + DELIVERY_TOKEN_TTL)" by code_simp
  with rotation_replaces_token [OF d'(1) rot demo_at_parses now] show ?thesis by blast
qed

text \<open>
  A provisioned key works: the API key handed out by \<open>provision_tenant\<close>, with 32 random
  bytes, authenticates as the new tenant, and no key that does not share its digest does.
\<close>

theorem provisioned_key_authenticates:
  assumes "market_ok cfg d" "provision_tenant cfg tid rnd at d = Inr ((tid', key), d')" "length rnd = 32"
  shows "tid' = tid \<and> authenticate_api_key cfg key d' = Inr tid
    \<and> (\<forall>other. authenticate_api_key cfg other d' = Inr tid \<longrightarrow> api_digest cfg other = api_digest cfg key)"
  using assms(2)
proof (cases rule: provision_tenant_cases)
  case (1 row)
  have ok: "market_ok cfg d'" by (rule provision_tenant_ok [OF assms(1,2)])
  have key: "key = key_prefix cfg @ urlsafe rnd" "tid' = tid" using 1(2) by simp_all
  have row: "row \<in> set (tenants d')" "t_tenant_id row = tid" "t_api_key_digest row = api_digest cfg key" "t_state row = Active"
    by (simp_all add: 1(3,6) key)
  have uniq: "unique_on t_api_key_digest (tenants d')" "unique_on t_tenant_id (tenants d')"
    using ok by (simp_all add: access_defs)
  have find: "find (\<lambda>t. t_api_key_digest t = api_digest cfg key) (tenants d') = Some row"
    using unique_on_find [OF uniq(1) row(1)] row(3) by simp
  have "starts_with (key_prefix cfg) key" by (simp add: key)
  with api_key_format [OF assms(3), of cfg] find row have "authenticate_api_key cfg key d' = Inr tid"
    by (simp add: authenticate_api_key_def Let_def key)
  moreover have "api_digest cfg other = api_digest cfg key" if "authenticate_api_key cfg other d' = Inr tid" for other
  proof -
    from that obtain t where t: "t \<in> set (tenants d')" "t_api_key_digest t = api_digest cfg other" "t_tenant_id t = tid"
      by (auto simp: authenticate_api_key_def Let_def txn_simps dest!: find_SomeD split: option.splits if_splits)
    then have "t = row" using unique_on_eq [OF uniq(2) t(1) row(1)] row(2) by simp
    with t(2) row(3) show ?thesis by simp
  qed
  ultimately show ?thesis using key(2) by blast
qed

theorem provisioned_key_authenticates_witness:
  "\<exists>(d' :: access_db) key. authenticate_api_key demo_access key d' = Inr demo_tenant"
proof -
  have t: "tenants (access_over empty_store) = []" by (simp add: access_over_def)
  have ok: "market_ok demo_access (access_over empty_store)"
    by (simp add: access_defs access_over_def empty_store_ok empty_store_def)
  from demo_provision [OF t] obtain i key d' where
    "provision_tenant demo_access demo_tenant (replicate 32 CHR ''r'') demo_at (access_over empty_store) = Inr ((i, key), d')"
    by auto
  from provisioned_key_authenticates [OF ok this] show ?thesis by auto
qed

end
