(* ===== verification/JsonText.thy ===== *)
theory JsonText
  imports Json Base64
begin

section \<open>Reading JSON\<close>

text \<open>
  \<open>json.loads\<close> of the standard library, with an \<open>object_pairs_hook\<close> that raises on a repeated
  key, as both loaders of the program install it.  The text is a \<open>str\<close>, its UTF-8 encoding
  here; a lone surrogate that an escape produces is written with three bytes.  The parser
  recurses with fuel; \<open>json_loads_returns\<close> shows that the fuel given is enough for every
  text.  The interpreter's limit on nesting is outside the model.
\<close>

subsection \<open>UTF-8\<close>

definition cont_byte :: "nat \<Rightarrow> nat \<Rightarrow> char \<Rightarrow> bool" where
  "cont_byte lo hi c \<longleftrightarrow> lo \<le> byte_of c \<and> byte_of c \<le> hi"

text \<open>\<open>raw.decode("utf-8")\<close> succeeds.\<close>

fun utf8_ok :: "string \<Rightarrow> bool" where
  "utf8_ok [] = True"
| "utf8_ok (a # s) =
     (let n = byte_of a in
      if n < 128 then utf8_ok s
      else if 194 \<le> n \<and> n \<le> 223 then
        (case s of b # t \<Rightarrow> cont_byte 128 191 b \<and> utf8_ok t | _ \<Rightarrow> False)
      else if 224 \<le> n \<and> n \<le> 239 then
        (case s of b # c # t \<Rightarrow>
           cont_byte (if n = 224 then 160 else 128) (if n = 237 then 159 else 191) b
           \<and> cont_byte 128 191 c \<and> utf8_ok t | _ \<Rightarrow> False)
      else if 240 \<le> n \<and> n \<le> 244 then
        (case s of b # c # d # t \<Rightarrow>
           cont_byte (if n = 240 then 144 else 128) (if n = 244 then 143 else 191) b
           \<and> cont_byte 128 191 c \<and> cont_byte 128 191 d \<and> utf8_ok t | _ \<Rightarrow> False)
      else False)"

definition utf8_char :: "nat \<Rightarrow> string" where
  "utf8_char n =
     (if n < 128 then [chr_of n]
      else if n < 2048 then [chr_of (192 + n div 64), chr_of (128 + n mod 64)]
      else if n < 65536 then [chr_of (224 + n div 4096), chr_of (128 + n div 64 mod 64), chr_of (128 + n mod 64)]
      else [chr_of (240 + n div 262144), chr_of (128 + n div 4096 mod 64), chr_of (128 + n div 64 mod 64),
            chr_of (128 + n mod 64)])"

lemma utf8_ok_ascii: "is_ascii s \<Longrightarrow> utf8_ok s"
  by (induction s) (auto simp: is_ascii_def Let_def)

subsection \<open>Scanning\<close>

fun skip_ws :: "string \<Rightarrow> string" where
  "skip_ws [] = []"
| "skip_ws (c # s) = (if byte_of c \<in> {32, 9, 10, 13} then skip_ws s else c # s)"

definition hex_val :: "char \<Rightarrow> nat option" where
  "hex_val c =
     (let n = byte_of c in
      if 48 \<le> n \<and> n \<le> 57 then Some (n - 48) else if 97 \<le> n \<and> n \<le> 102 then Some (n - 87)
      else if 65 \<le> n \<and> n \<le> 70 then Some (n - 55) else None)"

definition hex4 :: "char \<Rightarrow> char \<Rightarrow> char \<Rightarrow> char \<Rightarrow> nat option" where
  "hex4 a b c d =
     (case (hex_val a, hex_val b, hex_val c, hex_val d) of
        (Some w, Some x, Some y, Some z) \<Rightarrow> Some (((w * 16 + x) * 16 + y) * 16 + z)
      | _ \<Rightarrow> None)"

definition simple_escape :: "char \<Rightarrow> char option" where
  "simple_escape c = map_of
     [(chr_of 34, chr_of 34), (chr_of 92, chr_of 92), (CHR ''/'', CHR ''/''), (CHR ''b'', chr_of 8),
      (CHR ''f'', chr_of 12), (CHR ''n'', chr_of 10), (CHR ''r'', chr_of 13), (CHR ''t'', chr_of 9)] c"

definition prepend :: "string \<Rightarrow> (string \<times> string) res \<Rightarrow> (string \<times> string) res" where
  "prepend p r = and_then r (\<lambda>(v, rest). Inr (p @ v, rest))"

text \<open>
  What follows a backslash.  A high surrogate followed by the escape of a low one makes one
  character; an ill-formed second escape is an error either way.
\<close>

definition low_surrogate :: "string \<Rightarrow> nat option res" where
  "low_surrogate u =
     (case u of
        b # k # l1 # l2 # l3 # l4 # v \<Rightarrow>
          if byte_of b = 92 \<and> k = CHR ''u'' then
            (case hex4 l1 l2 l3 l4 of
               None \<Rightarrow> Inl JSONDecodeError
             | Some m \<Rightarrow> Inr (if 56320 \<le> m \<and> m \<le> 57343 then Some m else None))
          else Inr None
      | _ \<Rightarrow> Inr None)"

definition unescape_u :: "string \<Rightarrow> (string \<times> string) res" where
  "unescape_u t =
     (case t of
        h1 # h2 # h3 # h4 # u \<Rightarrow>
          (case hex4 h1 h2 h3 h4 of
             None \<Rightarrow> Inl JSONDecodeError
           | Some n \<Rightarrow>
               if 55296 \<le> n \<and> n \<le> 56319 then
                 and_then (low_surrogate u) (\<lambda>low.
                 case low of
                   Some m \<Rightarrow> Inr (utf8_char (65536 + (n - 55296) * 1024 + (m - 56320)), drop 6 u)
                 | None \<Rightarrow> Inr (utf8_char n, u))
               else Inr (utf8_char n, u))
      | _ \<Rightarrow> Inl JSONDecodeError)"

definition unescape :: "string \<Rightarrow> (string \<times> string) res" where
  "unescape s =
     (case s of
        [] \<Rightarrow> Inl JSONDecodeError
      | e # t \<Rightarrow>
          if e = CHR ''u'' then unescape_u t
          else case simple_escape e of None \<Rightarrow> Inl JSONDecodeError | Some d \<Rightarrow> Inr ([d], t))"

lemma unescape_shrinks: "unescape s = Inr (d, r) \<Longrightarrow> length r < length s"
  by (auto simp: unescape_def unescape_u_def txn_simps split: list.splits option.splits if_splits)

lemma unescape_error: "unescape s = Inl e \<Longrightarrow> e = JSONDecodeError"
  by (auto simp: unescape_def unescape_u_def low_surrogate_def and_then_Inl split: list.splits option.splits if_splits)

text \<open>The characters of a string up to the closing quote.\<close>

function scan_string :: "string \<Rightarrow> (string \<times> string) res" where
  "scan_string [] = Inl JSONDecodeError"
| "scan_string (c # s) =
     (if byte_of c = 34 then Inr ([], s)
      else if byte_of c = 92 then and_then (unescape s) (\<lambda>(d, r). prepend d (scan_string r))
      else if byte_of c < 32 then Inl JSONDecodeError
      else prepend [c] (scan_string s))"
  by pat_completeness auto
termination
  by (relation "measure length") (auto dest: unescape_shrinks)

text \<open>A number: the longest prefix of the grammar; an integer of more than 4300 digits is a \<open>ValueError\<close>.\<close>

definition int_part :: "string \<Rightarrow> string" where
  "int_part s =
     (case s of [] \<Rightarrow> [] | c # t \<Rightarrow> if c = CHR ''0'' then [c] else takeWhile is_digit s)"

definition fraction_part :: "string \<Rightarrow> string" where
  "fraction_part s =
     (case s of c # d # t \<Rightarrow> if c = CHR ''.'' \<and> is_digit d then c # takeWhile is_digit (d # t) else [] | _ \<Rightarrow> [])"

definition exponent_part :: "string \<Rightarrow> string" where
  "exponent_part s =
     (case s of
        [] \<Rightarrow> []
      | e # t \<Rightarrow>
          if e \<in> {CHR ''e'', CHR ''E''} then
            (let sign = (case t of x # _ \<Rightarrow> if x \<in> {CHR ''+'', CHR ''-''} then [x] else [] | [] \<Rightarrow> []);
                 ds = takeWhile is_digit (drop (length sign) t)
             in if ds = [] then [] else e # sign @ ds)
          else [])"

definition scan_number :: "string \<Rightarrow> (json \<times> string) res" where
  "scan_number s =
     (let sign = (if starts_with ''-'' s then ''-'' else []);
          digits = int_part (drop (length sign) s);
          rest = drop (length sign + length digits) s;
          frac = fraction_part rest;
          expo = exponent_part (drop (length frac) rest)
      in if digits = [] then Inl JSONDecodeError
         else if frac = [] \<and> expo = [] then
           (if length digits > 4300 then Inl ValueError
            else Inr (JInt (if sign = [] then int (digits_val digits) else - int (digits_val digits)), rest))
         else Inr (JFloat (sign @ digits @ frac @ expo), drop (length frac + length expo) rest))"

definition constants :: "(string \<times> json) list" where
  "constants = [(''null'', JNull), (''true'', JBool True), (''false'', JBool False),
     (''NaN'', JFloat ''NaN''), (''Infinity'', JFloat ''Infinity''), (''-Infinity'', JFloat ''-Infinity'')]"

definition scan_scalar :: "string \<Rightarrow> (json \<times> string) res" where
  "scan_scalar s =
     (case find (\<lambda>(k, v). starts_with k s) constants of
        Some (k, v) \<Rightarrow> Inr (v, drop (length k) s)
      | None \<Rightarrow> scan_number s)"

text \<open>Values, the elements of an array and the members of an object; \<open>dup\<close> is what the hook raises.\<close>

fun scan_value :: "exn \<Rightarrow> nat \<Rightarrow> string \<Rightarrow> (json \<times> string) res"
and scan_elements :: "exn \<Rightarrow> nat \<Rightarrow> json list \<Rightarrow> string \<Rightarrow> (json \<times> string) res"
and scan_members :: "exn \<Rightarrow> nat \<Rightarrow> (string \<times> json) list \<Rightarrow> string \<Rightarrow> (json \<times> string) res" where
  "scan_value dup 0 s = Inl NonTermination"
| "scan_value dup (Suc f) s =
     (case s of
        [] \<Rightarrow> Inl JSONDecodeError
      | c # t \<Rightarrow>
          if byte_of c = 34 then and_then (scan_string t) (\<lambda>(v, r). Inr (JStr v, r))
          else if c = CHR ''['' then
            (case skip_ws t of
               [] \<Rightarrow> Inl JSONDecodeError
             | d # u \<Rightarrow> if d = CHR '']'' then Inr (JArr [], u) else scan_elements dup f [] (d # u))
          else if c = CHR ''{'' then
            (case skip_ws t of
               [] \<Rightarrow> Inl JSONDecodeError
             | d # u \<Rightarrow> if d = CHR ''}'' then Inr (JObj [], u) else scan_members dup f [] (d # u))
          else scan_scalar s)"
| "scan_elements dup 0 vs s = Inl NonTermination"
| "scan_elements dup (Suc f) vs s =
     and_then (scan_value dup f s) (\<lambda>(v, r).
     case skip_ws r of
       [] \<Rightarrow> Inl JSONDecodeError
     | d # u \<Rightarrow>
         if d = CHR '']'' then Inr (JArr (vs @ [v]), u)
         else if d = CHR '','' then scan_elements dup f (vs @ [v]) (skip_ws u)
         else Inl JSONDecodeError)"
| "scan_members dup 0 kvs s = Inl NonTermination"
| "scan_members dup (Suc f) kvs s =
     (case s of
        [] \<Rightarrow> Inl JSONDecodeError
      | c # t \<Rightarrow>
          if byte_of c \<noteq> 34 then Inl JSONDecodeError
          else and_then (scan_string t) (\<lambda>(k, r).
            case skip_ws r of
              [] \<Rightarrow> Inl JSONDecodeError
            | d # u \<Rightarrow>
                if d \<noteq> CHR '':'' then Inl JSONDecodeError
                else and_then (scan_value dup f (skip_ws u)) (\<lambda>(v, r2).
                  case skip_ws r2 of
                    [] \<Rightarrow> Inl JSONDecodeError
                  | e # w \<Rightarrow>
                      if e = CHR ''}'' then
                        (if distinct (map fst (kvs @ [(k, v)])) then Inr (JObj (kvs @ [(k, v)]), w) else Inl dup)
                      else if e = CHR '','' then scan_members dup f (kvs @ [(k, v)]) (skip_ws w)
                      else Inl JSONDecodeError)))"

definition json_loads :: "exn \<Rightarrow> string \<Rightarrow> json res" where
  "json_loads dup s =
     (let t = skip_ws s
      in and_then (scan_value dup (2 * length t + 1) t) (\<lambda>(v, r).
         if skip_ws r = [] then Inr v else Inl JSONDecodeError))"

text \<open>\<open>_strict_json\<close>: every failure is the caller's code.\<close>

definition strict_json :: "string \<Rightarrow> string \<Rightarrow> json res" where
  "strict_json code raw =
     (if \<not> utf8_ok raw then Inl (Rejected code)
      else case json_loads ValueError raw of
        Inr v \<Rightarrow> Inr v
      | Inl e \<Rightarrow> Inl (if e \<in> {ValueError, JSONDecodeError} then Rejected code else e))"

text \<open>\<open>load_strict_commerce_json\<close> catches the decode error only.\<close>

definition load_strict_commerce_json :: "string \<Rightarrow> json res" where
  "load_strict_commerce_json text =
     (case json_loads (Rejected ''invalid_commerce_request'') text of
        Inl JSONDecodeError \<Rightarrow> Inl (Rejected ''invalid_commerce_request'')
      | r \<Rightarrow> r)"

subsection \<open>The parser always returns\<close>

lemma length_skip_ws: "length (skip_ws s) \<le> length s"
  by (induction s) auto

lemma skip_ws_Cons: "skip_ws s = d # u \<Longrightarrow> length u < length s"
  using length_skip_ws [of s] by simp

lemma prepend_Inr [simp]: "prepend p m = Inr (v, r) \<longleftrightarrow> (\<exists>w. m = Inr (w, r) \<and> v = p @ w)"
  by (auto simp: prepend_def txn_simps)

lemma prepend_Inl [simp]: "prepend p m = Inl e \<longleftrightarrow> m = Inl e"
  by (auto simp: prepend_def and_then_Inl)

lemma scan_string_shrinks: "scan_string s = Inr (v, r) \<Longrightarrow> length r < length s"
proof (induction s arbitrary: v rule: scan_string.induct)
  case (2 c s)
  then show ?case by (fastforce simp: txn_simps dest: unescape_shrinks split: if_splits)
qed simp

lemma scan_string_error: "scan_string s = Inl e \<Longrightarrow> e = JSONDecodeError"
  by (induction s rule: scan_string.induct) (auto simp: and_then_Inl dest: unescape_error split: if_splits)

lemma scan_number_shrinks: "scan_number s = Inr (v, r) \<Longrightarrow> length r < length s"
proof -
  assume run: "scan_number s = Inr (v, r)"
  let ?sign = "if starts_with ''-'' s then ''-'' else []"
  let ?ds = "int_part (drop (length ?sign) s)"
  from run have ds: "?ds \<noteq> []" by (auto simp: scan_number_def Let_def split: if_splits)
  then have "drop (length ?sign) s \<noteq> []" by (auto simp: int_part_def)
  then have "length ?sign < length s" by simp
  moreover from run ds have "length r \<le> length s - (length ?sign + length ?ds)"
    by (auto simp: scan_number_def Let_def split: if_splits)
  moreover have "0 < length ?ds" using ds by simp
  ultimately show ?thesis by linarith
qed

lemma scan_number_error: "scan_number s = Inl e \<Longrightarrow> e \<in> {JSONDecodeError, ValueError}"
  by (auto simp: scan_number_def Let_def split: if_splits)

lemma scan_scalar_shrinks: "scan_scalar s = Inr (v, r) \<Longrightarrow> length r < length s"
proof -
  assume run: "scan_scalar s = Inr (v, r)"
  show ?thesis
  proof (cases "find (\<lambda>(k, v). starts_with k s) constants")
    case None
    with run show ?thesis by (simp add: scan_scalar_def scan_number_shrinks)
  next
    case (Some kv)
    obtain k w where kv: "kv = (k, w)" by (cases kv)
    with Some have "(k, w) \<in> set constants" "starts_with k s" by (auto dest: find_SomeD)
    moreover from this have "k \<noteq> []" by (auto simp: constants_def)
    moreover from calculation have "s \<noteq> []" by (auto simp: starts_with_def)
    ultimately show ?thesis using run Some kv by (auto simp: scan_scalar_def)
  qed
qed

lemma scan_scalar_error: "scan_scalar s = Inl e \<Longrightarrow> e \<in> {JSONDecodeError, ValueError}"
  using scan_number_error [of s e] by (auto simp: scan_scalar_def split: option.splits)

text \<open>One step of each function, then: a call shrinks the text.\<close>

lemma scan_value_step:
  "scan_value dup (Suc f) s = Inr (j, r) \<Longrightarrow> \<exists>c t. s = c # t \<and> ((\<exists>v. scan_string t = Inr (v, r) \<and> j = JStr v)
     \<or> (\<exists>d u. skip_ws t = d # u \<and> (r = u \<and> j \<in> {JArr [], JObj []} \<or> scan_elements dup f [] (d # u) = Inr (j, r)
          \<or> scan_members dup f [] (d # u) = Inr (j, r)))
     \<or> scan_scalar s = Inr (j, r))"
  by (cases s) (auto simp: txn_simps split: if_splits list.splits)

lemma scan_elements_step:
  assumes "scan_elements dup (Suc f) vs s = Inr (j, r)"
  shows "\<exists>v x d u. scan_value dup f s = Inr (v, x) \<and> skip_ws x = d # u
     \<and> (r = u \<and> j = JArr (vs @ [v]) \<or> scan_elements dup f (vs @ [v]) (skip_ws u) = Inr (j, r))"
proof -
  from assms obtain v x where v: "scan_value dup f s = Inr (v, x)" by (auto simp: txn_simps)
  with assms show ?thesis by (cases "skip_ws x") (auto split: if_splits)
qed

lemma scan_members_step:
  assumes "scan_members dup (Suc f) kvs s = Inr (j, r)"
  shows "\<exists>c t k x d u v y e w. s = c # t \<and> scan_string t = Inr (k, x)
     \<and> skip_ws x = d # u \<and> scan_value dup f (skip_ws u) = Inr (v, y) \<and> skip_ws y = e # w
     \<and> (r = w \<and> j = JObj (kvs @ [(k, v)]) \<and> distinct (map fst (kvs @ [(k, v)]))
        \<or> scan_members dup f (kvs @ [(k, v)]) (skip_ws w) = Inr (j, r))"
proof -
  obtain c t where s: "s = c # t" using assms by (cases s) simp_all
  with assms obtain k x where k: "scan_string t = Inr (k, x)" by (auto simp: txn_simps split: if_splits)
  with assms s obtain d u where d: "skip_ws x = d # u" by (cases "skip_ws x") (auto split: if_splits)
  with assms s k obtain v y where v: "scan_value dup f (skip_ws u) = Inr (v, y)" by (auto simp: txn_simps split: if_splits)
  with assms s k d obtain e w where e: "skip_ws y = e # w" by (cases "skip_ws y") (auto split: if_splits)
  with assms s k d v have "r = w \<and> j = JObj (kvs @ [(k, v)]) \<and> distinct (map fst (kvs @ [(k, v)]))
        \<or> scan_members dup f (kvs @ [(k, v)]) (skip_ws w) = Inr (j, r)" by (auto split: if_splits)
  with s k d v e show ?thesis by blast
qed

lemma scan_shrinks:
  "(\<forall>s j r. scan_value dup f s = Inr (j, r) \<longrightarrow> length r < length s)
   \<and> (\<forall>vs s j r. scan_elements dup f vs s = Inr (j, r) \<longrightarrow> length r < length s)
   \<and> (\<forall>kvs s j r. scan_members dup f kvs s = Inr (j, r) \<longrightarrow> length r < length s)"
proof (induction f)
  case (Suc f)
  have val: "length r < length s" if "scan_value dup (Suc f) s = Inr (j, r)" for s j r
  proof -
    from scan_value_step [OF that] obtain c t where s: "s = c # t" and alt: "(\<exists>v. scan_string t = Inr (v, r))
      \<or> (\<exists>d u. skip_ws t = d # u \<and> (r = u \<or> length r < length (d # u))) \<or> scan_scalar s = Inr (j, r)"
      using Suc by blast
    from alt show ?thesis
    proof (elim disjE exE conjE)
      fix d u
      assume "skip_ws t = d # u" "length r < length (d # u)"
      then show ?thesis using skip_ws_Cons [of t d u] by (simp add: s)
    qed (auto simp: s dest: scan_string_shrinks scan_scalar_shrinks skip_ws_Cons)
  qed
  have elements: "length r < length s" if "scan_elements dup (Suc f) vs s = Inr (j, r)" for vs s j r
  proof -
    from scan_elements_step [OF that] Suc obtain x d u where "length x < length s" "skip_ws x = d # u"
      "r = u \<or> length r < length (skip_ws u)" by blast
    then show ?thesis using skip_ws_Cons [of x d u] length_skip_ws [of u] by auto
  qed
  have "length r < length s" if "scan_members dup (Suc f) kvs s = Inr (j, r)" for kvs s j r
  proof -
    from scan_members_step [OF that] Suc obtain c t k x d u y e w where "s = c # t" "scan_string t = Inr (k, x)"
      "skip_ws x = d # u" "length y < length (skip_ws u)" "skip_ws y = e # w" "r = w \<or> length r < length (skip_ws w)"
      by blast
    then show ?thesis
      using scan_string_shrinks [of t k x] skip_ws_Cons [of x d u] length_skip_ws [of u] skip_ws_Cons [of y e w]
        length_skip_ws [of w] by auto
  qed
  with val elements show ?case by blast
qed simp

lemma scan_value_shrinks: "scan_value dup f s = Inr (j, r) \<Longrightarrow> length r < length s"
  using scan_shrinks [of dup f] by blast

text \<open>Fuel beyond twice the length is enough.\<close>

lemma scan_returns:
  assumes dup: "dup \<noteq> NonTermination"
  shows "(\<forall>s. 2 * length s < f \<longrightarrow> scan_value dup f s \<noteq> Inl NonTermination)
    \<and> (\<forall>vs s. 2 * length s + 1 < f \<longrightarrow> scan_elements dup f vs s \<noteq> Inl NonTermination)
    \<and> (\<forall>kvs s. 2 * length s + 1 < f \<longrightarrow> scan_members dup f kvs s \<noteq> Inl NonTermination)"
proof (induction f)
  case (Suc f)
  have val: "scan_value dup (Suc f) s \<noteq> Inl NonTermination" if "2 * length s < Suc f" for s
  proof (cases s)
    case (Cons c t)
    have sub: "2 * length (d # u) + 1 < f" if "skip_ws t = d # u" for d u
      using skip_ws_Cons [OF that] \<open>2 * length s < Suc f\<close> by (simp add: Cons)
    with Suc show ?thesis
      by (auto simp: Cons and_then_Inl dest: scan_string_error scan_scalar_error split: list.splits)
  qed simp
  have elements: "scan_elements dup (Suc f) vs s \<noteq> Inl NonTermination" if "2 * length s + 1 < Suc f" for vs s
  proof -
    have "2 * length (skip_ws u) + 1 < f" if "scan_value dup f s = Inr (v, x)" "skip_ws x = d # u" for v x d u
      using scan_value_shrinks [OF that(1)] skip_ws_Cons [OF that(2)] length_skip_ws [of u] \<open>2 * length s + 1 < Suc f\<close> by simp
    moreover have "2 * length s < f" using that by simp
    ultimately show ?thesis using Suc by (auto simp: and_then_Inl split: list.splits)
  qed
  have "scan_members dup (Suc f) kvs s \<noteq> Inl NonTermination" if "2 * length s + 1 < Suc f" for kvs s
  proof (cases s)
    case (Cons c t)
    have 1: "2 * length (skip_ws u) < f" if "scan_string t = Inr (k, x)" "skip_ws x = d # u" for k x d u
      using scan_string_shrinks [OF that(1)] skip_ws_Cons [OF that(2)] length_skip_ws [of u] \<open>2 * length s + 1 < Suc f\<close>
      by (simp add: Cons)
    have 2: "2 * length (skip_ws w) + 1 < f" if "scan_string t = Inr (k, x)" "skip_ws x = d # u"
      "scan_value dup f (skip_ws u) = Inr (v, y)" "skip_ws y = e # w" for k x d u v y e w
      using 1 [OF that(1,2)] scan_value_shrinks [OF that(3)] skip_ws_Cons [OF that(4)] length_skip_ws [of w] by simp
    show ?thesis using Suc dup 1 2 by (auto simp: Cons and_then_Inl dest: scan_string_error split: list.splits)
  qed simp
  with val elements show ?case by blast
qed simp

lemma json_loads_returns: "dup \<noteq> NonTermination \<Longrightarrow> json_loads dup s \<noteq> Inl NonTermination"
proof -
  assume dup: "dup \<noteq> NonTermination"
  let ?t = "skip_ws s"
  from scan_returns [OF dup, of "2 * length ?t + 1"] have "scan_value dup (2 * length ?t + 1) ?t \<noteq> Inl NonTermination" by simp
  then show ?thesis by (auto simp: json_loads_def Let_def and_then_Inl)
qed

subsection \<open>Reading back what was written\<close>

text \<open>
  The values whose canonical text reads back: no floats, integers within the digit limit, no
  repeated keys; \<open>canon\<close> sorts the keys as the writer does.
\<close>

fun plain :: "json \<Rightarrow> bool" where
  "plain (JInt n) = (length (show_nat (nat \<bar>n\<bar>)) \<le> 4300)"
| "plain (JFloat t) = False"
| "plain (JArr vs) = list_all plain vs"
| "plain (JObj kvs) = (distinct (map fst kvs) \<and> list_all (\<lambda>(k, v). plain v) kvs)"
| "plain _ = True"

fun canon :: "json \<Rightarrow> json" where
  "canon (JArr vs) = JArr (map canon vs)"
| "canon (JObj kvs) = JObj (sort_key fst (map (\<lambda>(k, v). (k, canon v)) kvs))"
| "canon JNull = JNull"
| "canon (JBool b) = JBool b"
| "canon (JInt n) = JInt n"
| "canon (JFloat t) = JFloat t"
| "canon (JStr s) = JStr s"

lemma simple_escapes:
  "simple_escape (chr_of 34) = Some (chr_of 34)" "simple_escape (chr_of 92) = Some (chr_of 92)"
  "simple_escape CHR ''n'' = Some (chr_of 10)" "simple_escape CHR ''r'' = Some (chr_of 13)"
  "simple_escape CHR ''t'' = Some (chr_of 9)" "simple_escape CHR ''b'' = Some (chr_of 8)"
  "simple_escape CHR ''f'' = Some (chr_of 12)" "chr_of 34 \<noteq> CHR ''u''" "chr_of 92 \<noteq> CHR ''u''"
  by code_simp+

lemma unescape_control:
  assumes "n < 32"
  shows "unescape (CHR ''u'' # CHR ''0'' # CHR ''0'' # hex_char (n div 16) # hex_char (n mod 16) # s) = Inr ([chr_of n], s)"
proof -
  have "hex_val (hex_char d) = Some d" if "d < 16" for d
    using that by (auto simp: hex_val_def hex_char_def byte_of_chr_of)
  moreover have "hex_val CHR ''0'' = Some 0" by code_simp
  ultimately show ?thesis using assms by (simp add: unescape_def unescape_u_def hex4_def utf8_char_def)
qed

lemma scan_escape: "scan_string (escape_char c @ s) = prepend [c] (scan_string s)"
proof -
  have b: "byte_of (chr_of 92) = 92" by (simp add: byte_of_chr_of)
  have c: "chr_of n = c" if "byte_of c = n" for n using that by (metis chr_of_byte_of)
  have esc: "scan_string (chr_of 92 # x # s) = prepend [c] (scan_string s)" if "simple_escape x = Some c" "x \<noteq> CHR ''u''" for x
    using that by (simp add: b unescape_def)
  have ctl: "scan_string ([chr_of 92] @ ''u00'' @ [hex_char (byte_of c div 16), hex_char (byte_of c mod 16)] @ s)
      = prepend [c] (scan_string s)" if "byte_of c < 32"
    using unescape_control [OF that, of s] by (simp add: b)
  consider "byte_of c \<in> {34, 92, 10, 13, 9, 8, 12}" | "byte_of c < 32" "byte_of c \<notin> {34, 92, 10, 13, 9, 8, 12}"
    | "32 \<le> byte_of c" "byte_of c \<notin> {34, 92}" by force
  then show ?thesis
  proof cases
    case 1
    have one: "scan_string (escape_char c @ s) = prepend [c] (scan_string s)"
      if "byte_of c = n" "escape_char c = [chr_of 92, x]" "simple_escape x = Some (chr_of n)" "x \<noteq> CHR ''u''" for n x
      using esc [of x] that c [OF that(1)] by simp
    from 1 show ?thesis
    proof (elim insertE emptyE)
      assume "byte_of c = 34"
      from one [OF this, of "chr_of 34"] this show ?thesis by (simp add: escape_char_def simple_escapes)
    next
      assume "byte_of c = 92"
      from one [OF this, of "chr_of 92"] this show ?thesis by (simp add: escape_char_def simple_escapes)
    next
      assume "byte_of c = 10"
      from one [OF this, of "CHR ''n''"] this show ?thesis by (simp add: escape_char_def simple_escapes)
    next
      assume "byte_of c = 13"
      from one [OF this, of "CHR ''r''"] this show ?thesis by (simp add: escape_char_def simple_escapes)
    next
      assume "byte_of c = 9"
      from one [OF this, of "CHR ''t''"] this show ?thesis by (simp add: escape_char_def simple_escapes)
    next
      assume "byte_of c = 8"
      from one [OF this, of "CHR ''b''"] this show ?thesis by (simp add: escape_char_def simple_escapes)
    next
      assume "byte_of c = 12"
      from one [OF this, of "CHR ''f''"] this show ?thesis by (simp add: escape_char_def simple_escapes)
    qed
  next
    case 2
    then have "escape_char c = [chr_of 92] @ ''u00'' @ [hex_char (byte_of c div 16), hex_char (byte_of c mod 16)]"
      by (auto simp: escape_char_def Let_def)
    with ctl 2 show ?thesis by simp
  next
    case 3
    then have "escape_char c = [c]" by (auto simp: escape_char_def Let_def)
    with 3 show ?thesis by simp
  qed
qed

lemma scan_written_string: "scan_string (concat (map escape_char v) @ chr_of 34 # r) = Inr (v, r)"
  by (induction v) (simp_all add: scan_escape byte_of_chr_of del: scan_string.simps(2), simp add: byte_of_chr_of)

definition stops :: "string \<Rightarrow> bool" where
  "stops r \<longleftrightarrow> r = [] \<or> hd r \<in> {CHR '','', CHR '']'', CHR ''}'', CHR 0x0A}"

lemma show_nat_head: "0 < n \<Longrightarrow> hd (show_nat n) \<noteq> CHR ''0''"
proof (induction n rule: show_nat.induct)
  case (1 n)
  show ?case
  proof (cases "n < 10")
    case True
    then have "byte_of (hd (show_nat n)) = 48 + n" by (subst show_nat.simps) (simp add: byte_of_digit_char)
    with 1(2) show ?thesis by (metis add_cancel_right_right byte_of_literals(6) less_numeral_extra(3))
  next
    case False
    with 1 show ?thesis by (subst show_nat.simps) simp
  qed
qed

lemma not_digit_stop: "stops r \<Longrightarrow> takeWhile is_digit r = []"
  by (cases r) (auto simp: stops_def is_digit_def between_def byte_of_def)

lemma int_part_show_nat:
  assumes "stops r" shows "int_part (show_nat n @ r) = show_nat n"
proof (cases "n = 0")
  case True
  have "show_nat 0 = ''0''" by code_simp
  then show ?thesis by (simp add: True int_part_def)
next
  case False
  obtain c t where ct: "show_nat n = c # t" using show_nat_ne [of n] by (cases "show_nat n") auto
  then have "c \<noteq> CHR ''0''" using False show_nat_head [of n] by simp
  moreover have "takeWhile is_digit (show_nat n @ r) = show_nat n"
    using show_nat_digits [of n] not_digit_stop [OF assms] by (simp add: takeWhile_append2 list_all_iff)
  ultimately show ?thesis by (simp add: int_part_def ct)
qed

lemma stops_parts: "stops r \<Longrightarrow> fraction_part r = []" "stops r \<Longrightarrow> exponent_part r = []"
  by (auto simp: stops_def fraction_part_def exponent_part_def split: list.splits)

lemma digit_not_minus: "is_digit c \<Longrightarrow> c \<noteq> CHR ''-'' \<and> c \<noteq> CHR ''n'' \<and> c \<noteq> CHR ''t'' \<and> c \<noteq> CHR ''f'' \<and> c \<noteq> CHR ''N'' \<and> c \<noteq> CHR ''I''"
  by (auto simp: is_digit_def between_def byte_of_def)

lemma scan_written_int:
  assumes "stops r" "length (show_nat (nat \<bar>n\<bar>)) \<le> 4300"
  shows "scan_scalar (show_int n @ r) = Inr (JInt n, r)"
proof -
  obtain c t where ct: "show_nat (nat \<bar>n\<bar>) = c # t" using show_nat_ne [of "nat \<bar>n\<bar>"] by (cases "show_nat (nat \<bar>n\<bar>)") auto
  have d: "is_digit c" using show_nat_digits [of "nat \<bar>n\<bar>"] ct by simp
  have int: "show_int n = (if n < 0 then ''-'' else []) @ c # t" using ct by (auto simp: show_int_def)
  have "find (\<lambda>(k, v). starts_with k (show_int n @ r)) constants = None"
    using digit_not_minus [OF d] by (auto simp: constants_def int starts_with_def)
  moreover have "\<not> starts_with ''-'' (c # t @ r)" using digit_not_minus [OF d] by (simp add: starts_with_def)
  moreover have "int_part (c # t @ r) = c # t" using int_part_show_nat [OF assms(1), of "nat \<bar>n\<bar>"] ct by simp
  moreover have "digits_val (c # t) = nat \<bar>n\<bar>" using digits_val_show_nat [of "nat \<bar>n\<bar>"] ct by simp
  moreover have "length (c # t) \<le> 4300" using assms(2) ct by simp
  ultimately show ?thesis
    using stops_parts [OF assms(1)] by (auto simp: scan_scalar_def scan_number_def int Let_def starts_with_def)
qed

lemma byte_of_marks [simp]:
  "byte_of CHR ''}'' = 125" "byte_of CHR '','' = 44" "byte_of CHR '':'' = 58" "byte_of CHR '']'' = 93"
  "byte_of CHR ''['' = 91" "byte_of CHR ''{'' = 123" "byte_of (chr_of 34) = 34"
  by (simp_all add: byte_of_chr_of) (simp_all add: byte_of_def)

lemma insort_key_map: "insort_key f (g x) (map g xs) = map g (insort_key (\<lambda>x. f (g x)) x xs)"
  by (induction xs) auto

lemma sort_key_map: "sort_key f (map g xs) = map g (sort_key (\<lambda>x. f (g x)) xs)"
  by (induction xs) (simp_all add: insort_key_map)

definition dumps_entry :: "string \<times> json \<Rightarrow> string" where
  "dumps_entry kv = (case kv of (k, v) \<Rightarrow> dumps_str k @ '':'' @ dumps v)"

lemma dumps_obj: "dumps (JObj kvs) = ''{'' @ join_with CHR '','' (map dumps_entry (sort_key fst kvs)) @ ''}''"
proof -
  have "sort_key fst (map (\<lambda>(k, v). (k, dumps v)) kvs) = map (\<lambda>(k, v). (k, dumps v)) (sort_key fst kvs)"
    by (simp add: sort_key_map case_prod_unfold)
  then show ?thesis by (simp add: comp_def dumps_entry_def [abs_def] case_prod_unfold)
qed

lemma canon_obj: "canon (JObj kvs) = JObj (map (\<lambda>(k, v). (k, canon v)) (sort_key fst kvs))"
  by (simp add: sort_key_map case_prod_unfold)

lemma dumps_head:
  assumes "plain j"
  obtains c t where "dumps j = c # t" "byte_of c \<notin> {32, 9, 10, 13}" "c \<noteq> CHR '']''" "c \<noteq> CHR ''}''"
proof (cases j)
  case (JInt n)
  obtain c t where ct: "show_nat (nat \<bar>n\<bar>) = c # t" using show_nat_ne [of "nat \<bar>n\<bar>"] by (cases "show_nat (nat \<bar>n\<bar>)") auto
  have "is_digit c" using show_nat_digits [of "nat \<bar>n\<bar>"] ct by simp
  then have c: "byte_of c \<notin> {32, 9, 10, 13}" "c \<noteq> CHR '']''" "c \<noteq> CHR ''}''"
    by (auto simp: is_digit_def between_def byte_of_def)
  show thesis
  proof (cases "n < 0")
    case True
    then show thesis using that [of "CHR ''-''"] by (simp add: JInt show_int_def)
  next
    case False
    then have "dumps j = c # t" using ct by (simp add: JInt show_int_def)
    then show thesis using c by (rule that)
  qed
next
  case (JStr x)
  have q: "byte_of (chr_of 34) = 34" by (simp add: byte_of_chr_of)
  have "chr_of 34 \<noteq> CHR '']''" "chr_of 34 \<noteq> CHR ''}''" by code_simp+
  then show thesis using that [of "chr_of 34"] q by (simp add: JStr dumps_str_def)
next
  case (JBool b)
  then show thesis using that by (cases b) (simp_all add: byte_of_def)
qed (use assms that in \<open>auto simp: byte_of_def\<close>)

lemma skip_ws_dumps: "plain j \<Longrightarrow> skip_ws (dumps j @ r) = dumps j @ r"
  by (erule dumps_head) auto

lemma join_map_Cons: "join_with d (map h (x # xs)) = h x @ (if xs = [] then [] else d # join_with d (map h xs))"
  by (cases xs) auto

lemma length_join_Cons: "xs \<noteq> [] \<Longrightarrow> length (join_with d (map h (x # xs))) = Suc (length (h x) + length (join_with d (map h xs)))"
  by (cases xs) auto

lemma scan_written_elements:
  assumes "\<And>v f r. v \<in> set vs \<Longrightarrow> stops r \<Longrightarrow> 2 * length (dumps v) < f
      \<Longrightarrow> scan_value dup f (dumps v @ r) = Inr (canon v, r)"
    and "\<forall>v \<in> set vs. plain v" "vs \<noteq> []"
    and "2 * length (join_with CHR '','' (map dumps vs)) + 1 < f"
  shows "scan_elements dup f acc (join_with CHR '','' (map dumps vs) @ '']'' @ r) = Inr (JArr (acc @ map canon vs), r)"
  using assms
proof (induction vs arbitrary: acc f)
  case (Cons v vs)
  from Cons.prems(4) obtain g where f: "f = Suc g" by (cases f) auto
  show ?case
  proof (cases "vs = []")
    case True
    have "scan_value dup g (dumps v @ '']'' @ r) = Inr (canon v, '']'' @ r)"
      using Cons.prems(1) [of v] Cons.prems(4) True f by (simp add: stops_def)
    then show ?thesis by (simp add: f True byte_of_def)
  next
    case False
    let ?rest = "join_with CHR '','' (map dumps vs) @ '']'' @ r"
    have len: "2 * length (dumps v) < g" "2 * length (join_with CHR '','' (map dumps vs)) + 1 < g"
      using Cons.prems(4) length_join_Cons [OF False, of "CHR '',''" dumps v] f by simp_all
    have "scan_value dup g (dumps v @ CHR '','' # ?rest) = Inr (canon v, CHR '','' # ?rest)"
      by (rule Cons.prems(1)) (use len in \<open>simp_all add: stops_def\<close>)
    moreover have "skip_ws ?rest = ?rest"
    proof -
      obtain w ws where "vs = w # ws" using False by (cases vs) auto
      then show ?thesis using Cons.prems(2) skip_ws_dumps [of w] by (simp add: join_map_Cons del: list.map)
    qed
    moreover have "scan_elements dup g (acc @ [canon v]) ?rest = Inr (JArr ((acc @ [canon v]) @ map canon vs), r)"
      by (rule Cons.IH) (use Cons.prems False len in auto)
    ultimately show ?thesis
      using False by (simp add: f join_map_Cons byte_of_def del: list.map) simp
  qed
qed simp

lemma scan_written_members:
  assumes "\<And>k v f r. (k, v) \<in> set kvs \<Longrightarrow> stops r \<Longrightarrow> 2 * length (dumps v) < f
      \<Longrightarrow> scan_value dup f (dumps v @ r) = Inr (canon v, r)"
    and "\<forall>(k, v) \<in> set kvs. plain v" "kvs \<noteq> []" "distinct (map fst acc @ map fst kvs)"
    and "2 * length (join_with CHR '','' (map dumps_entry kvs)) + 1 < f"
  shows "scan_members dup f acc (join_with CHR '','' (map dumps_entry kvs) @ ''}'' @ r)
    = Inr (JObj (acc @ map (\<lambda>(k, v). (k, canon v)) kvs), r)"
  using assms
proof (induction kvs arbitrary: acc f)
  case (Cons kv kvs)
  obtain k v where kv: "kv = (k, v)" by (cases kv)
  from Cons.prems(5) obtain g where f: "f = Suc g" by (cases f) auto
  have plain: "plain v" using Cons.prems(2) kv by simp
  have entry: "dumps_entry (k, v) @ x = chr_of 34 # (concat (map escape_char k) @ chr_of 34 # ('':'' @ dumps v @ x))" for x
    by (simp add: dumps_entry_def dumps_str_def)
  have le: "length (dumps v) < length (dumps_entry kv)" by (simp add: dumps_entry_def kv)
  have dist: "distinct (map fst (acc @ [(k, canon v)]))" using Cons.prems(4) kv by auto
  show ?case
  proof (cases "kvs = []")
    case True
    have "scan_value dup g (dumps v @ ''}'' @ r) = Inr (canon v, ''}'' @ r)"
      using Cons.prems(1) [of k v] Cons.prems(5) True f le by (simp add: stops_def kv)
    then show ?thesis
      using dist by (simp add: f True entry scan_written_string skip_ws_dumps [OF plain] kv)
  next
    case False
    let ?rest = "join_with CHR '','' (map dumps_entry kvs) @ ''}'' @ r"
    have len: "2 * length (dumps v) < g" "2 * length (join_with CHR '','' (map dumps_entry kvs)) + 1 < g"
      using Cons.prems(5) length_join_Cons [OF False, of "CHR '',''" dumps_entry kv] f le by simp_all
    have "scan_value dup g (dumps v @ CHR '','' # ?rest) = Inr (canon v, CHR '','' # ?rest)"
      by (rule Cons.prems(1) [of k]) (use len kv in \<open>simp_all add: stops_def\<close>)
    moreover have "skip_ws ?rest = ?rest"
    proof -
      obtain w ws where "kvs = w # ws" using False by (cases kvs) auto
      then show ?thesis by (simp add: join_map_Cons dumps_entry_def dumps_str_def case_prod_unfold del: list.map)
    qed
    moreover have "scan_members dup g (acc @ [(k, canon v)]) ?rest
        = Inr (JObj ((acc @ [(k, canon v)]) @ map (\<lambda>(k, v). (k, canon v)) kvs), r)"
      by (rule Cons.IH) (use Cons.prems False len kv in auto)
    moreover have "join_with CHR '','' (map dumps_entry (kv # kvs)) @ ''}'' @ r = dumps_entry (k, v) @ CHR '','' # ?rest"
      using False by (simp add: join_map_Cons kv del: list.map)
    ultimately show ?thesis
      using dist by (simp only: f entry) (simp add: scan_written_string skip_ws_dumps [OF plain] kv)
  qed
qed simp

text \<open>What the canonical writer produces, the parser reads back, with the keys sorted.\<close>

lemma scan_written_value:
  "plain j \<Longrightarrow> stops r \<Longrightarrow> 2 * length (dumps j) < f \<Longrightarrow> scan_value dup f (dumps j @ r) = Inr (canon j, r)"
proof (induction j arbitrary: f r rule: canon.induct)
  case (1 vs)
  from 1(4) obtain g where f: "f = Suc g" by (cases f) auto
  show ?case
  proof (cases "vs = []")
    case True
    then show ?thesis by (simp add: f byte_of_def)
  next
    case False
    have "2 * length (join_with CHR '','' (map dumps vs)) + 1 < g" using 1(4) f by simp
    then have "scan_elements dup g [] (join_with CHR '','' (map dumps vs) @ '']'' @ r) = Inr (JArr ([] @ map canon vs), r)"
      using 1(1,2) False by (intro scan_written_elements) (auto simp: list_all_iff)
    moreover obtain w ws where vs: "vs = w # ws" using False by (cases vs) auto
    moreover have "plain w" using 1(2) vs by simp
    then obtain c t where "dumps w = c # t" "byte_of c \<notin> {32, 9, 10, 13}" "c \<noteq> CHR '']''" by (rule dumps_head)
    ultimately show ?thesis by (simp add: f byte_of_def join_map_Cons del: list.map scan_elements.simps)
  qed
next
  case (2 kvs)
  from 2(4) obtain g where f: "f = Suc g" by (cases f) auto
  have q: "chr_of 34 \<noteq> CHR ''}''" by code_simp
  let ?kvs = "sort_key fst kvs"
  show ?case
  proof (cases "kvs = []")
    case True
    then show ?thesis by (simp add: f byte_of_def)
  next
    case False
    then have ne: "?kvs \<noteq> []" by (metis set_empty set_sort)
    have len: "2 * length (join_with CHR '','' (map dumps_entry ?kvs)) + 1 < g"
      using 2(4) f by (simp add: dumps_obj del: dumps.simps)
    have "distinct (map fst ?kvs)"
      using 2(2) by (metis distinct_map distinct_sort plain.simps(4) set_sort)
    then have "scan_members dup g [] (join_with CHR '','' (map dumps_entry ?kvs) @ ''}'' @ r)
        = Inr (JObj ([] @ map (\<lambda>(k, v). (k, canon v)) ?kvs), r)"
      using 2(1,2) ne len by (intro scan_written_members) (auto simp: list_all_iff)
    moreover obtain w ws where kvs: "?kvs = w # ws" using ne by (cases ?kvs) auto
    moreover obtain t where "dumps_entry w = chr_of 34 # t" by (cases w) (simp add: dumps_entry_def dumps_str_def)
    ultimately show ?thesis
      by (simp add: f dumps_obj canon_obj q join_map_Cons del: list.map scan_members.simps dumps.simps canon.simps)
  qed
next
  case 3
  then show ?case by (cases f) (simp_all add: byte_of_def scan_scalar_def constants_def starts_with_def)
next
  case (4 b)
  then show ?case by (cases f; cases b) (simp_all add: byte_of_def scan_scalar_def constants_def starts_with_def)
next
  case (5 n)
  obtain c t where ct: "dumps (JInt n) = c # t" "byte_of c \<notin> {32, 9, 10, 13}" "c \<noteq> CHR '']''" "c \<noteq> CHR ''}''"
    using 5(1) by (rule dumps_head)
  have "c \<noteq> CHR ''['' \<and> c \<noteq> CHR ''{'' \<and> byte_of c \<noteq> 34"
  proof -
    obtain d u where d: "show_nat (nat \<bar>n\<bar>) = d # u" using show_nat_ne [of "nat \<bar>n\<bar>"] by (cases "show_nat (nat \<bar>n\<bar>)") auto
    then have "is_digit d" using show_nat_digits [of "nat \<bar>n\<bar>"] by simp
    moreover have "c = d \<or> c = CHR ''-''" using ct(1) d by (auto simp: show_int_def split: if_splits)
    ultimately show ?thesis by (auto simp: is_digit_def between_def byte_of_def)
  qed
  with ct(1) scan_written_int [of r n] 5 show ?case by (cases f) simp_all
next
  case (7 x)
  have "byte_of (chr_of 34) = 34" by (simp add: byte_of_chr_of)
  with 7 show ?case by (cases f) (simp_all add: dumps_str_def scan_written_string)
qed simp

lemma json_loads_dumps_end:
  assumes "plain j" "stops r" "skip_ws r = []"
  shows "json_loads dup (dumps j @ r) = Inr (canon j)"
proof -
  have "skip_ws (dumps j @ r) = dumps j @ r" by (rule skip_ws_dumps [OF assms(1)])
  moreover have "scan_value dup (2 * length (dumps j @ r) + 1) (dumps j @ r) = Inr (canon j, r)"
    by (rule scan_written_value [OF assms(1,2)]) simp
  ultimately show ?thesis using assms(3) by (simp add: json_loads_def del: scan_value.simps)
qed

theorem json_loads_dumps: "plain j \<Longrightarrow> json_loads dup (dumps j) = Inr (canon j)"
  using json_loads_dumps_end [of j "[]"] by (simp add: stops_def)

lemma json_loads_dumps_line: "plain j \<Longrightarrow> json_loads dup (dumps j @ [chr_of 10]) = Inr (canon j)"
proof -
  have "stops [chr_of 10]" "skip_ws [chr_of 10] = []" by code_simp+
  then show "plain j \<Longrightarrow> ?thesis" by (rule json_loads_dumps_end [rotated])
qed

lemma dumps_canon: "dumps (canon j) = dumps j"
proof (induction j rule: canon.induct)
  case (1 vs)
  then show ?case by (simp cong: map_cong)
next
  case (2 kvs)
  let ?S = "sort_key fst kvs"
  have "sort_key fst (map (\<lambda>(k, v). (k, canon v)) ?S) = map (\<lambda>(k, v). (k, canon v)) (sort_key fst ?S)"
    by (simp add: sort_key_map case_prod_unfold)
  also have "sort_key fst ?S = ?S" by (simp add: sort_key_id_if_sorted)
  finally have "dumps (canon (JObj kvs)) = ''{'' @ join_with CHR '','' (map dumps_entry (map (\<lambda>(k, v). (k, canon v)) ?S)) @ ''}''"
    by (simp only: canon_obj dumps_obj)
  moreover have "map dumps_entry (map (\<lambda>(k, v). (k, canon v)) ?S) = map dumps_entry ?S"
    using 2 by (auto simp: dumps_entry_def)
  ultimately show ?case by (simp only: dumps_obj)
qed simp_all

subsection \<open>No repeated keys\<close>

fun keys_distinct :: "json \<Rightarrow> bool" where
  "keys_distinct (JArr vs) = list_all keys_distinct vs"
| "keys_distinct (JObj kvs) = (distinct (map fst kvs) \<and> list_all (\<lambda>(k, v). keys_distinct v) kvs)"
| "keys_distinct _ = True"

lemma scan_scalar_distinct: "scan_scalar s = Inr (j, r) \<Longrightarrow> keys_distinct j"
  by (auto simp: scan_scalar_def scan_number_def Let_def constants_def split: option.splits if_splits)

lemma scan_distinct:
  "(\<forall>s j r. scan_value dup f s = Inr (j, r) \<longrightarrow> keys_distinct j)
   \<and> (\<forall>vs s j r. scan_elements dup f vs s = Inr (j, r) \<longrightarrow> list_all keys_distinct vs \<longrightarrow> keys_distinct j)
   \<and> (\<forall>kvs s j r. scan_members dup f kvs s = Inr (j, r) \<longrightarrow> list_all (\<lambda>(k, v). keys_distinct v) kvs \<longrightarrow> keys_distinct j)"
proof (induction f)
  case (Suc f)
  have "keys_distinct j" if "scan_value dup (Suc f) s = Inr (j, r)" for s j r
  proof -
    have nil: "list_all keys_distinct []" "list_all (\<lambda>(k, v). keys_distinct v) []" by simp_all
    from scan_value_step [OF that] consider v where "j = JStr v" | "j \<in> {JArr [], JObj []}"
      | d u where "scan_elements dup f [] (d # u) = Inr (j, r)" | d u where "scan_members dup f [] (d # u) = Inr (j, r)"
      | "scan_scalar s = Inr (j, r)" by blast
    then show ?thesis by cases (use Suc nil scan_scalar_distinct in \<open>auto intro: nil\<close>; use Suc nil in blast)+
  qed
  moreover have "keys_distinct j" if "scan_elements dup (Suc f) vs s = Inr (j, r)" "list_all keys_distinct vs" for vs s j r
  proof -
    from scan_elements_step [OF that(1)] obtain v x d u where v: "scan_value dup f s = Inr (v, x)"
      "r = u \<and> j = JArr (vs @ [v]) \<or> scan_elements dup f (vs @ [v]) (skip_ws u) = Inr (j, r)" by blast
    have "keys_distinct v" using Suc v(1) by blast
    with that(2) have all: "list_all keys_distinct (vs @ [v])" by simp
    from v(2) show ?thesis
    proof
      assume "scan_elements dup f (vs @ [v]) (skip_ws u) = Inr (j, r)"
      with all Suc show ?thesis by blast
    qed (use all in simp)
  qed
  moreover have "keys_distinct j" if "scan_members dup (Suc f) kvs s = Inr (j, r)" "list_all (\<lambda>(k, v). keys_distinct v) kvs"
    for kvs s j r
  proof -
    from scan_members_step [OF that(1)] obtain k u v y w where v: "scan_value dup f (skip_ws u) = Inr (v, y)"
      "r = w \<and> j = JObj (kvs @ [(k, v)]) \<and> distinct (map fst (kvs @ [(k, v)]))
        \<or> scan_members dup f (kvs @ [(k, v)]) (skip_ws w) = Inr (j, r)" by blast
    have "keys_distinct v" using Suc v(1) by blast
    with that(2) have all: "list_all (\<lambda>(k, v). keys_distinct v) (kvs @ [(k, v)])" by simp
    from v(2) show ?thesis
    proof
      assume "scan_members dup f (kvs @ [(k, v)]) (skip_ws w) = Inr (j, r)"
      with all Suc show ?thesis by blast
    qed (use all in simp)
  qed
  ultimately show ?case by blast
qed simp

lemma json_loads_distinct: "json_loads dup s = Inr j \<Longrightarrow> keys_distinct j"
  using scan_distinct [of dup "2 * length (skip_ws s) + 1"]
  by (auto simp: json_loads_def Let_def and_then_Inr simp del: scan_value.simps split: if_splits)

end
