(* ===== verification/TextClaims.thy ===== *)
theory TextClaims
  imports JsonText
begin

section \<open>JSON text: its guarantees\<close>

text \<open>
  The two loaders of the program over the model of \<open>json.loads\<close>: what is written canonically
  reads back, no accepted document repeats a key, and the only failures are the documented
  ones, with one exception.
\<close>

lemma scan_members_error_step:
  assumes run: "scan_members dup (Suc f) kvs s = Inl e"
  shows "e \<in> {JSONDecodeError, dup} \<or> (\<exists>t. scan_string t = Inl e) \<or> (\<exists>u. scan_value dup f u = Inl e)
    \<or> (\<exists>kvs' u. scan_members dup f kvs' u = Inl e)"
proof (cases s)
  case s: (Cons c t)
  show ?thesis
  proof (cases "byte_of c = 34")
    case q: True
    show ?thesis
    proof (cases "scan_string t")
      case k: (Inr kx)
      show ?thesis
      proof (cases "skip_ws (snd kx)")
        case d: (Cons d u)
        show ?thesis
        proof (cases "scan_value dup f (skip_ws u)")
          case v: (Inr vy)
          show ?thesis
            using run s q k d v by (cases kx; cases vy; cases "skip_ws (snd vy)") (auto split: if_splits)
        qed (use run s q k d in \<open>cases kx; auto split: if_splits\<close>)
      qed (use run s q k in \<open>cases kx; auto\<close>)
    qed (use run s q in auto)
  qed (use run s in simp)
qed (use run in simp)

lemma scan_errors:
  "(\<forall>s e. scan_value dup f s = Inl e \<longrightarrow> e \<in> {dup, JSONDecodeError, ValueError, NonTermination})
   \<and> (\<forall>vs s e. scan_elements dup f vs s = Inl e \<longrightarrow> e \<in> {dup, JSONDecodeError, ValueError, NonTermination})
   \<and> (\<forall>kvs s e. scan_members dup f kvs s = Inl e \<longrightarrow> e \<in> {dup, JSONDecodeError, ValueError, NonTermination})"
proof (induction f)
  case (Suc f)
  have "e \<in> {dup, JSONDecodeError, ValueError, NonTermination}" if "scan_value dup (Suc f) s = Inl e" for s e
  proof (cases s)
    case (Cons c t)
    with that Suc show ?thesis
      by (cases "skip_ws t") (auto simp: and_then_Inl dest: scan_string_error scan_scalar_error split: if_splits)
  qed (use that in simp)
  moreover have "e \<in> {dup, JSONDecodeError, ValueError, NonTermination}" if "scan_elements dup (Suc f) vs s = Inl e" for vs s e
  proof (cases "scan_value dup f s")
    case (Inr vr)
    with that Suc show ?thesis by (cases "skip_ws (snd vr)") (auto split: if_splits prod.splits)
  qed (use that Suc in auto)
  moreover have "e \<in> {dup, JSONDecodeError, ValueError, NonTermination}" if "scan_members dup (Suc f) kvs s = Inl e" for kvs s e
    using scan_members_error_step [OF that] Suc scan_string_error by blast
  ultimately show ?case by blast
qed simp

lemma json_loads_errors:
  assumes "json_loads dup s = Inl e" "dup \<noteq> NonTermination"
  shows "e \<in> {dup, JSONDecodeError, ValueError}"
proof -
  from assms(1) have "e \<in> {dup, JSONDecodeError, ValueError, NonTermination}"
    using scan_errors [of dup "2 * length (skip_ws s) + 1"]
    by (auto simp: json_loads_def Let_def and_then_Inl simp del: scan_value.simps split: if_splits)
  with json_loads_returns [OF assms(2), of s] assms(1) show ?thesis by auto
qed

text \<open>
  C22. Canonical text reads back: a document without floats, written with sorted keys as the
  receipts and feeds are, is accepted by the strict loader and read as the same document
  with its keys sorted; writing it again gives the same bytes.
\<close>

theorem canonical_text_reads_back:
  assumes "plain j" "utf8_ok (dumps j)"
  shows "strict_json code (dumps j) = Inr (canon j) \<and> dumps (canon j) = dumps j"
  using assms by (simp add: strict_json_def json_loads_dumps dumps_canon)

theorem canonical_text_reads_back_witness:
  "strict_json ''code'' (dumps (JObj [(''b'', JArr [JInt (-12), JNull]), (''a'', JStr ''x'')]))
     = Inr (JObj [(''a'', JStr ''x''), (''b'', JArr [JInt (-12), JNull])])"
proof -
  let ?j = "JObj [(''b'', JArr [JInt (-12), JNull]), (''a'', JStr ''x'')]"
  have plain: "plain ?j" by code_simp
  have utf8: "utf8_ok (dumps ?j)" by code_simp
  have canon: "canon ?j = JObj [(''a'', JStr ''x''), (''b'', JArr [JInt (-12), JNull])]" by code_simp
  show ?thesis using canonical_text_reads_back [OF plain utf8, of "''code''"] canon by simp
qed

text \<open>
  No accepted document repeats a key: whatever either loader returns has pairwise
  different keys in every object, at every depth.
\<close>

theorem accepted_keys_distinct:
  assumes "strict_json code raw = Inr j \<or> load_strict_commerce_json raw = Inr j"
  shows "keys_distinct j"
  using assms
proof
  assume "strict_json code raw = Inr j"
  then show ?thesis
    by (auto simp: strict_json_def dest: json_loads_distinct split: if_splits sum.splits)
next
  assume "load_strict_commerce_json raw = Inr j"
  then show ?thesis
    by (auto simp: load_strict_commerce_json_def dest: json_loads_distinct split: sum.splits exn.splits)
qed

theorem accepted_keys_distinct_witness:
  "keys_distinct (JObj [(''a'', JArr [JInt 1])])"
proof -
  have "load_strict_commerce_json (''{'' @ [chr_of 34] @ ''a'' @ [chr_of 34] @ '':[1]}'') = Inr (JObj [(''a'', JArr [JInt 1])])"
    by code_simp
  then show ?thesis using accepted_keys_distinct by blast
qed

text \<open>
  The strict loader fails in one way: on every byte string it returns a document or
  rejects with the caller's code; it never runs on and no other exception escapes.
\<close>

theorem strict_json_total:
  "(\<exists>j. strict_json code raw = Inr j) \<or> strict_json code raw = Inl (Rejected code)"
proof (cases "json_loads ValueError raw")
  case (Inl e)
  with json_loads_errors [OF Inl] show ?thesis by (auto simp: strict_json_def)
qed (auto simp: strict_json_def)

text \<open>
  The commerce loader catches \<open>JSONDecodeError\<close> only: an integer literal of more than 4300
  digits, which fits well into a request body, makes it raise a \<open>ValueError\<close>.
\<close>

lemma long_integer_escapes: "load_strict_commerce_json (replicate 4301 CHR ''1'') = Inl ValueError"
proof -
  let ?s = "replicate 4301 CHR ''1''"
  have d: "is_digit CHR ''1''" "byte_of CHR ''1'' = 49" by code_simp+
  have s: "?s = CHR ''1'' # replicate 4300 CHR ''1''" by (simp add: numeral_eq_Suc)
  have "find (\<lambda>(k, v). starts_with k ?s) constants = None"
    unfolding s by (simp add: constants_def starts_with_def)
  moreover have "int_part ?s = ?s"
  proof -
    have "takeWhile is_digit ?s = ?s" by (rule takeWhile_eq_all_conv [THEN iffD2]) (use d in auto)
    then show ?thesis unfolding int_part_def s by (simp only: list.case char.inject) simp
  qed
  moreover have "\<not> starts_with ''-'' ?s" unfolding s by (simp add: starts_with_def)
  ultimately have "scan_scalar ?s = Inl ValueError"
    by (simp add: scan_scalar_def scan_number_def Let_def fraction_part_def exponent_part_def del: replicate.simps(2))
  then have "scan_value dup (Suc n) ?s = Inl ValueError" for dup n unfolding s by (simp add: d)
  moreover have "skip_ws ?s = ?s" unfolding s by (simp add: d)
  ultimately have "json_loads dup ?s = Inl ValueError" for dup
    by (simp only: json_loads_def Let_def Suc_eq_plus1 [symmetric] and_then_simps)
  then show ?thesis by (simp add: load_strict_commerce_json_def)
qed

end
