(* ===== verification/Receipt.thy ===== *)
theory Receipt
  imports JsonText Sha256
begin

section \<open>Receipts: deterministic bytes and embedded integrity\<close>

text \<open>
  The part of \<^verbatim>\<open>receipt.py\<close> that verifiers use: the deterministic serialisation and
  \<open>verify_receipt_integrity\<close>.  The text of a float is its literal; \<open>fl\<close> is the parameter that
  gives the text Python prints for the value of a literal.
\<close>

fun with_floats :: "(string \<Rightarrow> string) \<Rightarrow> json \<Rightarrow> json" where
  "with_floats fl (JFloat t) = JFloat (fl t)"
| "with_floats fl (JArr vs) = JArr (map (with_floats fl) vs)"
| "with_floats fl (JObj kvs) = JObj (map (\<lambda>(k, v). (k, with_floats fl v)) kvs)"
| "with_floats fl v = v"

fun non_finite :: "json \<Rightarrow> bool" where
  "non_finite (JFloat t) \<longleftrightarrow> t \<in> {''nan'', ''inf'', ''-inf''}"
| "non_finite (JArr vs) \<longleftrightarrow> list_ex non_finite vs"
| "non_finite (JObj kvs) \<longleftrightarrow> list_ex (\<lambda>(k, v). non_finite v) kvs"
| "non_finite _ \<longleftrightarrow> False"

text \<open>
  \<open>allow_nan=False\<close> raises a \<open>ValueError\<close>; so does encoding a lone surrogate.
\<close>

definition deterministic_json :: "(string \<Rightarrow> string) \<Rightarrow> json \<Rightarrow> string res" where
  "deterministic_json fl v =
     (let w = with_floats fl v
      in if non_finite w \<or> \<not> utf8_ok (dumps w) then Inl ValueError else Inr (dumps w))"

definition RECEIPT_SCHEMA_VERSION :: string where "RECEIPT_SCHEMA_VERSION = ''1.1.0''"

definition DETERMINISTIC_JSON_PROFILE :: string where
  "DETERMINISTIC_JSON_PROFILE =
     ''capabilityproof-sorted-json-v1: UTF-8, lexicographically sorted object keys, ''
     @ ''compact separators, ensure_ascii=false, allow_nan=false; not RFC 8785 JCS''"

definition INTEGRITY_PROFILE :: string where
  "INTEGRITY_PROFILE = ''capabilityproof-payload-digest-v2''"

definition INTEGRITY_ASSURANCE :: string where
  "INTEGRITY_ASSURANCE = ''payload-digest-requires-external-dsse''"

definition without_keys :: "string list \<Rightarrow> (string \<times> json) list \<Rightarrow> (string \<times> json) list" where
  "without_keys ks kvs = filter (\<lambda>(k, v). k \<notin> set ks) kvs"

definition integrity_fields_ok :: "(string \<times> json) list \<Rightarrow> (string \<times> json) list \<Rightarrow> bool" where
  "integrity_fields_ok candidate integrity \<longleftrightarrow>
     jget candidate ''integrity_assurance'' = Some (JStr INTEGRITY_ASSURANCE)
   \<and> jget integrity ''profile'' = Some (JStr INTEGRITY_PROFILE)
   \<and> jget integrity ''deterministic_json_profile'' = Some (JStr DETERMINISTIC_JSON_PROFILE)
   \<and> (case jget integrity ''signature'' of
        Some (JObj s) \<Rightarrow> jget s ''status'' = Some (JStr ''external-envelope-required'')
          \<and> jget s ''profile'' = Some (JStr ''dsse-v1.0.2-ed25519'')
          \<and> jget s ''payload_type'' = Some (JStr ''application/vnd.vouchspec.capability-receipt.v1+json'')
      | _ \<Rightarrow> False)"

definition verify_receipt_integrity :: "(string \<Rightarrow> string) \<Rightarrow> (string \<times> json) list \<Rightarrow> bool res" where
  "verify_receipt_integrity fl receipt =
     (let candidate = without_keys [''integrity'', ''receipt_id''] receipt
      in case (jget receipt ''integrity'', jget receipt ''receipt_id'') of
           (Some (JObj integrity), Some (JStr receipt_id)) \<Rightarrow>
             if \<not> integrity_fields_ok candidate integrity then Inr False
             else and_then (deterministic_json fl (JObj candidate)) (\<lambda>bytes.
               let expected = sha256_hex bytes
               in Inr (jget integrity ''evidence_sha256'' = Some (JStr expected)
                     \<and> receipt_id = ''cpr_'' @ take 24 expected))
         | _ \<Rightarrow> Inr False)"

text \<open>The seal \<open>inspect_skill\<close> puts on the core of a receipt.\<close>

definition receipt_integrity :: "string \<Rightarrow> json" where
  "receipt_integrity digest = JObj
     [(''profile'', JStr INTEGRITY_PROFILE),
      (''deterministic_json_profile'', JStr DETERMINISTIC_JSON_PROFILE),
      (''evidence_sha256'', JStr digest),
      (''signature'', JObj [(''status'', JStr ''external-envelope-required''),
         (''profile'', JStr ''dsse-v1.0.2-ed25519''),
         (''payload_type'', JStr ''application/vnd.vouchspec.capability-receipt.v1+json'')]),
      (''replacement_warning'', JStr ''The inner digest alone is unauthenticated; verify the DSSE envelope before using this receipt.'')]"

definition seal_receipt :: "(string \<Rightarrow> string) \<Rightarrow> (string \<times> json) list \<Rightarrow> (string \<times> json) list res" where
  "seal_receipt fl core =
     and_then (deterministic_json fl (JObj core)) (\<lambda>bytes.
     let digest = sha256_hex bytes
     in Inr (core @ [(''receipt_id'', JStr (''cpr_'' @ take 24 digest)), (''integrity'', receipt_integrity digest)]))"

lemma without_keys_id: "\<forall>k \<in> set ks. k \<notin> fst ` set kvs \<Longrightarrow> without_keys ks kvs = kvs"
  by (auto simp: without_keys_def filter_id_conv image_iff)

lemma seal_verifies:
  assumes "seal_receipt fl core = Inr r" "''integrity'' \<notin> fst ` set core" "''receipt_id'' \<notin> fst ` set core"
    and "jget core ''integrity_assurance'' = Some (JStr INTEGRITY_ASSURANCE)"
  shows "verify_receipt_integrity fl r = Inr True"
proof -
  from assms(1) obtain bytes where b: "deterministic_json fl (JObj core) = Inr bytes" and
    r: "r = core @ [(''receipt_id'', JStr (''cpr_'' @ take 24 (sha256_hex bytes))), (''integrity'', receipt_integrity (sha256_hex bytes))]"
    by (auto simp: seal_receipt_def txn_simps Let_def)
  have none: "map_of core ''integrity'' = None" "map_of core ''receipt_id'' = None"
    using assms(2,3) by (simp_all add: map_of_eq_None_iff)
  have cand: "without_keys [''integrity'', ''receipt_id''] r = core"
  proof -
    have "without_keys [''integrity'', ''receipt_id''] core = core"
      by (rule without_keys_id) (use assms(2,3) in simp)
    then show ?thesis by (simp add: r without_keys_def)
  qed
  have get: "jget r ''integrity'' = Some (receipt_integrity (sha256_hex bytes))"
    "jget r ''receipt_id'' = Some (JStr (''cpr_'' @ take 24 (sha256_hex bytes)))"
    using none by (simp_all add: r jget_def map_add_def)
  show ?thesis
    unfolding verify_receipt_integrity_def Let_def cand get
    using assms(4) b by (simp add: receipt_integrity_def integrity_fields_ok_def jget_def)
qed

end
