(* ===== verification/Signing.thy ===== *)
theory Signing
  imports Receipt Base64
begin

section \<open>DSSE envelopes\<close>

text \<open>
  \<^verbatim>\<open>signing.py\<close>: strict base64, JWK thumbprints, the DSSE pre-authentication encoding,
  signing and verification.  Ed25519 is the third-party package \<open>cryptography\<close>; it is the record
  \<open>ed25519\<close> of three functions on raw keys, messages and signatures, an argument of everything
  that signs or verifies.  The key files of the command line are outside the model.
\<close>

record ed25519 =
  ed_public :: "string \<Rightarrow> string"
  ed_sign :: "string \<Rightarrow> string \<Rightarrow> string"
  ed_verify :: "string \<Rightarrow> string \<Rightarrow> string \<Rightarrow> bool"

definition RECEIPT_PAYLOAD_TYPE :: string where
  "RECEIPT_PAYLOAD_TYPE = ''application/vnd.vouchspec.capability-receipt.v1+json''"

definition MAX_ENVELOPE_BYTES :: nat where "MAX_ENVELOPE_BYTES = 2000000"
definition MAX_RECEIPT_BYTES :: nat where "MAX_RECEIPT_BYTES = 1000000"

abbreviation bad_base64 :: exn where "bad_base64 \<equiv> Rejected ''invalid_base64''"
abbreviation bad_key :: exn where "bad_key \<equiv> Rejected ''invalid_key''"
abbreviation bad_envelope :: exn where "bad_envelope \<equiv> Rejected ''invalid_envelope''"

subsection \<open>Strict base64\<close>

text \<open>\<open>any(character.isspace() for character in value)\<close>\<close>

fun has_space :: "string \<Rightarrow> bool" where
  "has_space [] \<longleftrightarrow> False"
| "has_space (c # s) \<longleftrightarrow> list_ex (\<lambda>w. starts_with w (c # s)) ws_codes \<or> has_space s"

definition b64url_decode :: "json \<Rightarrow> nat option \<Rightarrow> string res" where
  "b64url_decode v expected_bytes =
     (case v of
        JStr s \<Rightarrow>
          reject_if (s = [] \<or> has_space s) bad_base64
         (reject_if (CHR ''='' \<in> set s) bad_base64
         (case b64_decode True (s @ b64_pad (py_len s)) of
            None \<Rightarrow> Inl bad_base64
          | Some d \<Rightarrow>
              reject_if (b64url_no_pad d \<noteq> s) bad_base64
             (reject_if (expected_bytes \<noteq> None \<and> Some (length d) \<noteq> expected_bytes) bad_key (Inr d))))
      | _ \<Rightarrow> Inl bad_base64)"

definition b64_std_decode :: "json \<Rightarrow> nat \<Rightarrow> string res" where
  "b64_std_decode v maximum =
     (case v of
        JStr s \<Rightarrow>
          reject_if (s = [] \<or> has_space s) bad_base64
         (case b64_decode False s of
            None \<Rightarrow> Inl bad_base64
          | Some d \<Rightarrow> reject_if (length d > maximum \<or> b64_encode False d \<noteq> s) bad_base64 (Inr d))
      | _ \<Rightarrow> Inl bad_base64)"

subsection \<open>Keys\<close>

definition public_jwk :: "string \<Rightarrow> json" where
  "public_jwk raw = JObj [(''kty'', JStr ''OKP''), (''crv'', JStr ''Ed25519''), (''x'', JStr (b64url_no_pad raw))]"

definition jwk_thumbprint :: "json \<Rightarrow> string res" where
  "jwk_thumbprint jwk =
     (case jwk of
        JObj kvs \<Rightarrow>
          reject_if (\<not> has_keys [''kty'', ''crv'', ''x''] kvs) bad_key
         (reject_if (jget kvs ''kty'' \<noteq> Some (JStr ''OKP'') \<or> jget kvs ''crv'' \<noteq> Some (JStr ''Ed25519'')) bad_key
         (and_then (b64url_decode (jget_null kvs ''x'') (Some 32)) (\<lambda>_.
          let canonical = dumps (JObj [(''crv'', JStr ''Ed25519''), (''kty'', JStr ''OKP''), (''x'', jget_null kvs ''x'')])
          in Inr (b64url_no_pad (sha256 canonical)))))
      | _ \<Rightarrow> Inl bad_key)"

definition public_key_from_jwk :: "json \<Rightarrow> string res" where
  "public_key_from_jwk jwk =
     and_then (jwk_thumbprint jwk) (\<lambda>_.
     case jwk of JObj kvs \<Rightarrow> b64url_decode (jget_null kvs ''x'') (Some 32) | _ \<Rightarrow> Inl bad_key)"

subsection \<open>Envelopes\<close>

definition dsse_pae :: "string \<Rightarrow> string \<Rightarrow> string res" where
  "dsse_pae payload_type payload =
     reject_if (payload_type = [] \<or> \<not> is_ascii payload_type) (Rejected ''invalid_payload_type'')
     (Inr (''DSSEv1 '' @ show_nat (length payload_type) @ '' '' @ payload_type @ '' ''
        @ show_nat (length payload) @ '' '' @ payload))"

definition sign_dsse_payload :: "ed25519 \<Rightarrow> string \<Rightarrow> string \<Rightarrow> string \<Rightarrow> nat \<Rightarrow> json res" where
  "sign_dsse_payload ed payload_type payload private_key maximum_payload_bytes =
     reject_if (payload = [] \<or> length payload > maximum_payload_bytes) (Rejected ''invalid_payload'')
    (let key = public_jwk (ed_public ed private_key)
     in and_then (dsse_pae payload_type payload) (\<lambda>pae.
        let signature = ed_sign ed private_key pae
        in and_then (jwk_thumbprint key) (\<lambda>keyid.
           Inr (JObj [(''payloadType'', JStr payload_type), (''payload'', JStr (b64_encode False payload)),
             (''signatures'', JArr [JObj [(''keyid'', JStr keyid), (''sig'', JStr (b64_encode False signature))]])]))))"

definition sign_receipt_bytes :: "ed25519 \<Rightarrow> (string \<Rightarrow> string) \<Rightarrow> string \<Rightarrow> string \<Rightarrow> json res" where
  "sign_receipt_bytes ed fl receipt_bytes private_key =
     reject_if (receipt_bytes = [] \<or> length receipt_bytes > MAX_RECEIPT_BYTES) (Rejected ''invalid_receipt'')
    (and_then (strict_json ''invalid_receipt'' receipt_bytes) (\<lambda>receipt.
     case receipt of
       JObj kvs \<Rightarrow>
         and_then (verify_receipt_integrity fl kvs) (\<lambda>ok.
         reject_if (\<not> ok) (Rejected ''invalid_receipt_integrity'')
           (sign_dsse_payload ed RECEIPT_PAYLOAD_TYPE receipt_bytes private_key MAX_RECEIPT_BYTES))
     | _ \<Rightarrow> Inl (Rejected ''invalid_receipt_integrity'')))"

definition verify_dsse_envelope :: "ed25519 \<Rightarrow> string \<Rightarrow> string \<Rightarrow> json \<Rightarrow> nat \<Rightarrow> string res" where
  "verify_dsse_envelope ed envelope_bytes expected_payload_type trusted_jwk maximum_payload_bytes =
     reject_if (envelope_bytes = [] \<or> length envelope_bytes > MAX_ENVELOPE_BYTES) bad_envelope
    (and_then (strict_json ''invalid_envelope'' envelope_bytes) (\<lambda>envelope.
     case envelope of
       JObj kvs \<Rightarrow>
         reject_if (\<not> has_keys [''payloadType'', ''payload'', ''signatures''] kvs) bad_envelope
        (reject_if (jget kvs ''payloadType'' \<noteq> Some (JStr expected_payload_type)) (Rejected ''invalid_payload_type'')
        (case jget kvs ''signatures'' of
           Some (JArr [JObj sig]) \<Rightarrow>
             reject_if (\<not> has_keys [''keyid'', ''sig''] sig) bad_envelope
            (and_then (jwk_thumbprint trusted_jwk) (\<lambda>expected_keyid.
             reject_if (jget sig ''keyid'' \<noteq> Some (JStr expected_keyid)) (Rejected ''untrusted_key'')
            (and_then (b64_std_decode (jget_null kvs ''payload'') maximum_payload_bytes) (\<lambda>payload.
             and_then (b64_std_decode (jget_null sig ''sig'') 128) (\<lambda>signature.
             reject_if (length signature \<noteq> 64) (Rejected ''invalid_signature'')
            (and_then (public_key_from_jwk trusted_jwk) (\<lambda>public_key.
             and_then (dsse_pae expected_payload_type payload) (\<lambda>pae.
             reject_if (\<not> ed_verify ed public_key pae signature) (Rejected ''invalid_signature'')
               (Inr payload)))))))))
         | _ \<Rightarrow> Inl bad_envelope))
     | _ \<Rightarrow> Inl bad_envelope))"

text \<open>\<open>schema_ok\<close> is the validation of the third-party \<open>jsonschema\<close> against the packaged schema.\<close>

definition verify_receipt_envelope ::
  "ed25519 \<Rightarrow> (string \<Rightarrow> string) \<Rightarrow> (json \<Rightarrow> bool) \<Rightarrow> string \<Rightarrow> json \<Rightarrow> ((string \<times> json) list \<times> string) res" where
  "verify_receipt_envelope ed fl schema_ok envelope_bytes trusted_jwk =
     and_then (verify_dsse_envelope ed envelope_bytes RECEIPT_PAYLOAD_TYPE trusted_jwk MAX_RECEIPT_BYTES) (\<lambda>payload.
     and_then (strict_json ''invalid_receipt'' payload) (\<lambda>receipt.
     case receipt of
       JObj kvs \<Rightarrow>
         and_then (verify_receipt_integrity fl kvs) (\<lambda>ok.
         reject_if (\<not> ok) (Rejected ''invalid_receipt_integrity'')
        (reject_if (\<not> schema_ok receipt) (Rejected ''invalid_receipt_schema'') (Inr (kvs, payload))))
     | _ \<Rightarrow> Inl (Rejected ''invalid_receipt_integrity'')))"

end
