(* ===== verification/Lifecycle.thy ===== *)
theory Lifecycle
  imports Signing PyTime
begin

section \<open>Receipt lifecycle feeds\<close>

text \<open>
  \<^verbatim>\<open>lifecycle.py\<close>: the validation of a root-signed feed, the file with the highest sequence
  seen for each root, and the evaluation of a receipt.  The state file is its bytes, \<open>None\<close>
  when it does not exist; the thread lock, the file lock and the atomic replacement make one
  call one step of this model and are not modelled further.
\<close>

definition LIFECYCLE_PAYLOAD_TYPE :: string where
  "LIFECYCLE_PAYLOAD_TYPE = ''application/vnd.vouchspec.receipt-lifecycle.v1+json''"

definition LIFECYCLE_SCHEMA_VERSION :: string where "LIFECYCLE_SCHEMA_VERSION = ''1.0.0''"

definition ISSUER_STATUSES :: "string list" where
  "ISSUER_STATUSES = [''active'', ''retired'', ''compromised'']"

definition RECEIPT_STATUSES :: "string list" where
  "RECEIPT_STATUSES = [''current'', ''superseded'', ''revoked_evaluator_defect'', ''revoked_key_compromise'']"

datatype lifecycle_state =
    Current | Superseded | Expired | Revoked_Evaluator_Defect | Revoked_Key_Compromise
  | Signature_Valid_Lifecycle_Unknown

abbreviation bad_state :: exn where "bad_state \<equiv> Rejected ''invalid_sequence_state''"
abbreviation bad_feed :: exn where "bad_feed \<equiv> Rejected ''invalid_lifecycle_feed''"

subsection \<open>Text with \<open>ensure_ascii\<close>\<close>

text \<open>
  The state file is written by \<open>json.dumps\<close> with its default \<open>ensure_ascii=True\<close>.
\<close>

definition u_escape :: "nat \<Rightarrow> string" where
  "u_escape n = [chr_of 92] @ ''u'' @ [hex_char (n div 4096 mod 16), hex_char (n div 256 mod 16),
     hex_char (n div 16 mod 16), hex_char (n mod 16)]"

fun ascii_escape :: "string \<Rightarrow> string" where
  "ascii_escape (a # b # c # d # s) =
     (if byte_of a \<ge> 240 then
        (let n = (byte_of a mod 8) * 262144 + (byte_of b mod 64) * 4096 + (byte_of c mod 64) * 64 + byte_of d mod 64 - 65536
         in u_escape (55296 + n div 1024) @ u_escape (56320 + n mod 1024) @ ascii_escape s)
      else if byte_of a \<ge> 224 then
        u_escape ((byte_of a mod 16) * 4096 + (byte_of b mod 64) * 64 + byte_of c mod 64) @ ascii_escape (d # s)
      else if byte_of a \<ge> 192 then u_escape ((byte_of a mod 32) * 64 + byte_of b mod 64) @ ascii_escape (c # d # s)
      else if byte_of a = 127 then u_escape 127 @ ascii_escape (b # c # d # s)
      else escape_char a @ ascii_escape (b # c # d # s))"
| "ascii_escape [a, b, c] =
     (if byte_of a \<ge> 224 then u_escape ((byte_of a mod 16) * 4096 + (byte_of b mod 64) * 64 + byte_of c mod 64)
      else if byte_of a \<ge> 192 then u_escape ((byte_of a mod 32) * 64 + byte_of b mod 64) @ ascii_escape [c]
      else if byte_of a = 127 then u_escape 127 @ ascii_escape [b, c]
      else escape_char a @ ascii_escape [b, c])"
| "ascii_escape [a, b] =
     (if byte_of a \<ge> 192 then u_escape ((byte_of a mod 32) * 64 + byte_of b mod 64)
      else if byte_of a = 127 then u_escape 127 @ ascii_escape [b]
      else escape_char a @ ascii_escape [b])"
| "ascii_escape [a] = (if byte_of a = 127 then u_escape 127 else escape_char a)"
| "ascii_escape [] = []"

fun dumps_ascii :: "json \<Rightarrow> string" where
  "dumps_ascii (JStr s) = [chr_of 34] @ ascii_escape s @ [chr_of 34]"
| "dumps_ascii (JArr vs) = ''['' @ join_with CHR '','' (map dumps_ascii vs) @ '']''"
| "dumps_ascii (JObj kvs) =
     ''{'' @ join_with CHR '','' (map (\<lambda>(k, t). [chr_of 34] @ ascii_escape k @ [chr_of 34] @ '':'' @ t)
        (sort_key fst (map (\<lambda>(k, v). (k, dumps_ascii v)) kvs))) @ ''}''"
| "dumps_ascii v = dumps v"

subsection \<open>The sequence state\<close>

type_synonym sequence_record = "int \<times> string option"

text \<open>
  \<open>schema_version in {1, 2}\<close> holds for every Python value that equals 1 or 2, \<open>true\<close> and
  \<open>1.0\<close> among them; \<open>fl\<close> gives the text Python prints for a float literal.
\<close>

fun state_version :: "(string \<Rightarrow> string) \<Rightarrow> json \<Rightarrow> nat option" where
  "state_version fl (JInt n) = (if n = 1 then Some 1 else if n = 2 then Some 2 else None)"
| "state_version fl (JBool b) = (if b then Some 1 else None)"
| "state_version fl (JFloat t) =
     (if fl t = ''1.0'' then Some 1 else if fl t = ''2.0'' then Some 2 else None)"
| "state_version fl _ = None"

definition sequence_entry :: "nat \<Rightarrow> json \<Rightarrow> sequence_record res" where
  "sequence_entry version raw =
     (let entry = (if version = 1 then JObj [(''sequence'', raw), (''feed_sha256'', JNull)] else raw)
      in case entry of
           JObj r \<Rightarrow>
             reject_if (\<not> has_keys [''sequence'', ''feed_sha256''] r) bad_state
            (case jget_null r ''sequence'' of
               JInt n \<Rightarrow>
                 reject_if (n < 1) bad_state
                (case jget_null r ''feed_sha256'' of
                   JNull \<Rightarrow> Inr (n, None)
                 | JStr h \<Rightarrow> reject_if (py_len h \<noteq> 64) bad_state (Inr (n, Some h))
                 | _ \<Rightarrow> Inl bad_state)
             | _ \<Rightarrow> Inl bad_state)
         | _ \<Rightarrow> Inl bad_state)"

definition load_entries :: "nat \<Rightarrow> (string \<times> json) list \<Rightarrow> (string \<times> sequence_record) list res" where
  "load_entries version roots = map_res (\<lambda>(keyid, raw). and_then (sequence_entry version raw) (\<lambda>e. Inr (keyid, e))) roots"

definition load_sequences :: "(string \<Rightarrow> string) \<Rightarrow> string option \<Rightarrow> (string \<times> sequence_record) list res" where
  "load_sequences fl file =
     (case file of
        None \<Rightarrow> Inr []
      | Some bytes \<Rightarrow>
          reject_if (length bytes > 64000) bad_state
         (and_then (strict_json ''invalid_sequence_state'' bytes) (\<lambda>v.
          case v of
            JObj kvs \<Rightarrow>
              reject_if (\<not> hashable (jget_null kvs ''schema_version'')) TypeError
             (case state_version fl (jget_null kvs ''schema_version'') of
                None \<Rightarrow> Inl bad_state
              | Some version \<Rightarrow>
                  reject_if (\<not> has_keys [''schema_version'', ''roots''] kvs) bad_state
                 (case jget_null kvs ''roots'' of
                    JObj roots \<Rightarrow> reject_if (length roots > 100) bad_state (load_entries version roots)
                  | _ \<Rightarrow> Inl bad_state))
          | _ \<Rightarrow> Inl bad_state)))"

definition minimum_sequence :: "(string \<Rightarrow> string) \<Rightarrow> json \<Rightarrow> string option \<Rightarrow> int res" where
  "minimum_sequence fl root_jwk file =
     and_then (load_sequences fl file) (\<lambda>roots.
     and_then (jwk_thumbprint root_jwk) (\<lambda>keyid.
     Inr (case map_of roots keyid of None \<Rightarrow> 0 | Some (n, _) \<Rightarrow> n)))"

text \<open>Assigning to a key of a dictionary keeps its place.\<close>

definition dict_set :: "'k \<Rightarrow> 'v \<Rightarrow> ('k \<times> 'v) list \<Rightarrow> ('k \<times> 'v) list" where
  "dict_set k v d = (if k \<in> fst ` set d then map (\<lambda>(k', v'). (k', if k' = k then v else v')) d else d @ [(k, v)])"

definition entry_json :: "sequence_record \<Rightarrow> json" where
  "entry_json = (\<lambda>(n, h). JObj [(''sequence'', JInt n), (''feed_sha256'', case h of None \<Rightarrow> JNull | Some d \<Rightarrow> JStr d)])"

definition sequence_document :: "(string \<times> sequence_record) list \<Rightarrow> json" where
  "sequence_document roots =
     JObj [(''schema_version'', JInt 2), (''roots'', JObj (map (\<lambda>(k, r). (k, entry_json r)) roots))]"

definition sequence_bytes :: "(string \<times> sequence_record) list \<Rightarrow> string" where
  "sequence_bytes roots = dumps_ascii (sequence_document roots) @ [chr_of 10]"

text \<open>Python writes no integer of more than 4300 digits.\<close>

definition record_sequence ::
  "(string \<Rightarrow> string) \<Rightarrow> json \<Rightarrow> int \<Rightarrow> string \<Rightarrow> (string option, unit) txn" where
  "record_sequence fl root_jwk n digest file =
     reject_if (n < 1) bad_state
    (reject_if (length digest \<noteq> 64 \<or> \<not> list_all is_hex digest) bad_state
    (and_then (load_sequences fl file) (\<lambda>roots.
     and_then (jwk_thumbprint root_jwk) (\<lambda>keyid.
     let written = sequence_bytes (dict_set keyid (n, Some digest) roots);
         write = reject_if (length (show_int n) > 4300) ValueError (Inr ((), Some written))
     in case map_of roots keyid of
          None \<Rightarrow> write
        | Some (m, h) \<Rightarrow>
            reject_if (n < m) (Rejected ''lifecycle_rollback'')
           (reject_if (n = m \<and> h \<noteq> None \<and> h \<noteq> Some digest) (Rejected ''lifecycle_equivocation'')
           (if n = m \<and> h = Some digest then Inr ((), file) else write))))))"

subsection \<open>Feeds\<close>

definition lifecycle_time :: "json \<Rightarrow> int res" where
  "lifecycle_time v =
     (case v of
        JStr s \<Rightarrow>
          reject_if (py_len s > 64) bad_feed
         (case fromisoformat (normalize_z s) of
            Inl _ \<Rightarrow> Inl bad_feed
          | Inr dt \<Rightarrow>
              reject_if (is_naive dt) bad_feed
             (case astimezone_utc dt of Inl _ \<Rightarrow> Inl bad_feed | Inr u \<Rightarrow> Inr u))
      | _ \<Rightarrow> Inl bad_feed)"

definition FEED_KEYS :: "string list" where
  "FEED_KEYS = [''schema_version'', ''sequence'', ''generated_at'', ''expires_at'', ''issuer_keys'', ''receipts'']"

text \<open>One issuer key; \<open>seen\<close> are the key ids before it.\<close>

definition check_issuer :: "json \<Rightarrow> string list \<Rightarrow> string list res" where
  "check_issuer item seen =
     (case item of
        JObj r \<Rightarrow>
          reject_if (\<not> has_keys [''keyid'', ''jwk'', ''status''] r) bad_feed
         (and_then (in_strings (jget_null r ''status'') ISSUER_STATUSES) (\<lambda>known.
          reject_if (\<not> known) bad_feed
         (and_then (jwk_thumbprint (jget_null r ''jwk'')) (\<lambda>keyid.
          reject_if (jget_null r ''keyid'' \<noteq> JStr keyid \<or> keyid \<in> set seen) bad_feed
            (Inr (seen @ [keyid]))))))
      | _ \<Rightarrow> Inl bad_feed)"

definition reason_ok :: "json \<Rightarrow> bool" where
  "reason_ok v \<longleftrightarrow> (case v of JNull \<Rightarrow> True | JStr s \<Rightarrow> 1 \<le> py_len s \<and> py_len s \<le> 500 | _ \<Rightarrow> False)"

text \<open>One receipt record; \<open>seen\<close> are the receipts before it.\<close>

definition check_record :: "json \<Rightarrow> string list \<Rightarrow> string list res" where
  "check_record item seen =
     (case item of
        JObj r \<Rightarrow>
          reject_if (\<not> {''receipt_id'', ''status''} \<subseteq> fst ` set r) bad_feed
         (reject_if (\<not> fst ` set r \<subseteq> {''receipt_id'', ''status'', ''superseded_by'', ''reason''}) bad_feed
         (case jget_null r ''receipt_id'' of
            JStr rid \<Rightarrow>
              reject_if (\<not> starts_with ''cpr_'' rid \<or> rid \<in> set seen) bad_feed
             (and_then (in_strings (jget_null r ''status'') RECEIPT_STATUSES) (\<lambda>known.
              reject_if (\<not> known) bad_feed
             (reject_if (jget_null r ''status'' = JStr ''superseded''
                  \<and> \<not> str_matches (starts_with ''cpr_'') (jget_null r ''superseded_by'')) bad_feed
             (reject_if (jget_null r ''status'' \<noteq> JStr ''superseded'' \<and> ''superseded_by'' \<in> fst ` set r) bad_feed
             (reject_if (\<not> reason_ok (jget_null r ''reason'')) bad_feed
                (Inr (seen @ [rid])))))))
          | _ \<Rightarrow> Inl bad_feed))
      | _ \<Rightarrow> Inl bad_feed)"

definition validate_lifecycle_feed :: "json \<Rightarrow> (string \<times> json) list res" where
  "validate_lifecycle_feed feed =
     (case feed of
        JObj kvs \<Rightarrow>
          reject_if (\<not> has_keys FEED_KEYS kvs) bad_feed
         (reject_if (jget_null kvs ''schema_version'' \<noteq> JStr LIFECYCLE_SCHEMA_VERSION) bad_feed
         (case jget_null kvs ''sequence'' of
            JInt n \<Rightarrow>
              reject_if (n < 1) bad_feed
             (and_then (lifecycle_time (jget_null kvs ''generated_at'')) (\<lambda>generated.
              and_then (lifecycle_time (jget_null kvs ''expires_at'')) (\<lambda>expires.
              reject_if (expires \<le> generated) bad_feed
             (case jget_null kvs ''issuer_keys'' of
                JArr issuers \<Rightarrow>
                  reject_if (issuers = [] \<or> length issuers > 100) bad_feed
                 (and_then (fold_res check_issuer issuers []) (\<lambda>_.
                  case jget_null kvs ''receipts'' of
                    JArr receipts \<Rightarrow>
                      reject_if (length receipts > 100000) bad_feed
                     (and_then (fold_res check_record receipts []) (\<lambda>_. Inr kvs))
                  | _ \<Rightarrow> Inl bad_feed))
              | _ \<Rightarrow> Inl bad_feed))))
          | _ \<Rightarrow> Inl bad_feed))
      | _ \<Rightarrow> Inl bad_feed)"

definition sign_lifecycle_feed :: "ed25519 \<Rightarrow> string \<Rightarrow> string \<Rightarrow> json res" where
  "sign_lifecycle_feed ed feed_bytes root_key =
     and_then (strict_json ''invalid_lifecycle_feed'' feed_bytes) (\<lambda>feed.
     and_then (validate_lifecycle_feed feed) (\<lambda>_.
     sign_dsse_payload ed LIFECYCLE_PAYLOAD_TYPE feed_bytes root_key MAX_RECEIPT_BYTES))"

definition verify_lifecycle_envelope :: "ed25519 \<Rightarrow> string \<Rightarrow> json \<Rightarrow> ((string \<times> json) list \<times> string) res" where
  "verify_lifecycle_envelope ed envelope_bytes root_jwk =
     and_then (verify_dsse_envelope ed envelope_bytes LIFECYCLE_PAYLOAD_TYPE root_jwk 1000000) (\<lambda>payload.
     and_then (strict_json ''invalid_lifecycle_feed'' payload) (\<lambda>feed.
     and_then (validate_lifecycle_feed feed) (\<lambda>kvs. Inr (kvs, payload))))"

definition envelope_keyid :: "string \<Rightarrow> string res" where
  "envelope_keyid envelope_bytes =
     and_then (strict_json ''invalid_envelope'' envelope_bytes) (\<lambda>envelope.
     case envelope of
       JObj kvs \<Rightarrow>
         (case jget_null kvs ''signatures'' of
            JArr [JObj sig] \<Rightarrow>
              (case jget_null sig ''keyid'' of JStr k \<Rightarrow> Inr k | _ \<Rightarrow> Inl bad_envelope)
          | _ \<Rightarrow> Inl bad_envelope)
     | _ \<Rightarrow> Inl bad_envelope)"

subsection \<open>Evaluation\<close>

text \<open>The views of the records of a validated feed.\<close>

definition feed_sequence :: "(string \<times> json) list \<Rightarrow> int" where
  "feed_sequence feed = the_int (jget_null feed ''sequence'')"

definition feed_issuers :: "(string \<times> json) list \<Rightarrow> (string \<times> json) list list" where
  "feed_issuers feed = map obj_of (arr_of (jget_null feed ''issuer_keys''))"

definition feed_records :: "(string \<times> json) list \<Rightarrow> (string \<times> json) list list" where
  "feed_records feed = map obj_of (arr_of (jget_null feed ''receipts''))"

text \<open>\<open>value[k1][k2]\<close>\<close>

fun json_path :: "string list \<Rightarrow> json \<Rightarrow> json res" where
  "json_path [] v = Inr v"
| "json_path (k # ks) (JObj kvs) = (case jget kvs k of None \<Rightarrow> Inl KeyError | Some v \<Rightarrow> json_path ks v)"
| "json_path (k # ks) _ = Inl TypeError"

text \<open>The fields beside the state are absent when nothing is said of the receipt.\<close>

record lifecycle_result =
  lr_lifecycle :: lifecycle_state
  lr_reason :: json
  lr_feed_sequence :: int
  lr_receipt_id :: "string option"
  lr_artifact_sha256 :: "json option"
  lr_source_commit :: "json option"
  lr_issuer_keyid :: "string option"

definition feed_unknown :: "string \<Rightarrow> int \<Rightarrow> lifecycle_result" where
  "feed_unknown why n = \<lparr>lr_lifecycle = Signature_Valid_Lifecycle_Unknown, lr_reason = JStr why, lr_feed_sequence = n,
     lr_receipt_id = None, lr_artifact_sha256 = None, lr_source_commit = None, lr_issuer_keyid = None\<rparr>"

definition recorded_reason :: "(string \<times> json) list \<Rightarrow> string \<Rightarrow> json" where
  "recorded_reason r fallback = (case jget r ''reason'' of None \<Rightarrow> JStr fallback | Some v \<Rightarrow> v)"

definition receipt_state :: "(string \<times> json) list option \<Rightarrow> json \<Rightarrow> int \<Rightarrow> (lifecycle_state \<times> json) res" where
  "receipt_state entry receipt now =
     (case entry of
        None \<Rightarrow> Inr (Signature_Valid_Lifecycle_Unknown,
          JStr ''receipt is absent from the current root-signed lifecycle feed'')
      | Some r \<Rightarrow>
          if jget_null r ''status'' = JStr ''revoked_key_compromise''
          then Inr (Revoked_Key_Compromise, recorded_reason r ''receipt revoked for signing-key compromise'')
          else if jget_null r ''status'' = JStr ''revoked_evaluator_defect''
          then Inr (Revoked_Evaluator_Defect, recorded_reason r ''receipt revoked for evaluator defect'')
          else and_then (json_path [''validity'', ''expires_at''] receipt) (\<lambda>t.
               and_then (lifecycle_time t) (\<lambda>expires.
               if expires \<le> now then Inr (Expired, JStr ''receipt expiration time has passed'')
               else if jget_null r ''status'' = JStr ''superseded''
               then Inr (Superseded, recorded_reason r (''superseded by '' @ the_str (jget_null r ''superseded_by'')))
               else Inr (Current, JStr ''receipt signature, expiry, signer status, and lifecycle entry are current''))))"

definition evaluate_receipt_lifecycle ::
  "ed25519 \<Rightarrow> (string \<Rightarrow> string) \<Rightarrow> (json \<Rightarrow> bool) \<Rightarrow> string \<Rightarrow> string \<Rightarrow> json \<Rightarrow> int \<Rightarrow> int \<Rightarrow> lifecycle_result res" where
  "evaluate_receipt_lifecycle ed fl schema_ok receipt_envelope lifecycle_envelope root_jwk now minimum =
     and_then (verify_lifecycle_envelope ed lifecycle_envelope root_jwk) (\<lambda>(feed, _).
     and_then (envelope_keyid receipt_envelope) (\<lambda>keyid.
     case find (\<lambda>r. jget r ''keyid'' = Some (JStr keyid)) (feed_issuers feed) of
       None \<Rightarrow> Inl (Rejected ''untrusted_key'')
     | Some issuer \<Rightarrow>
         and_then (verify_receipt_envelope ed fl schema_ok receipt_envelope (jget_null issuer ''jwk'')) (\<lambda>(receipt, _).
         let receipt_id = the_str (jget_null receipt ''receipt_id''); n = feed_sequence feed
         in if n < minimum
            then Inr (feed_unknown ''lifecycle feed sequence is lower than the verifier's last-seen sequence'' n)
            else and_then (lifecycle_time (jget_null feed ''generated_at'')) (\<lambda>generated.
            if generated > now then Inr (feed_unknown ''root-signed lifecycle feed is future-dated'' n)
            else and_then (lifecycle_time (jget_null feed ''expires_at'')) (\<lambda>expires.
            if expires \<le> now then Inr (feed_unknown ''root-signed lifecycle feed is stale'' n)
            else and_then
              (if jget_null issuer ''status'' = JStr ''compromised''
               then Inr (Revoked_Key_Compromise, JStr ''root feed marks the receipt-signing key compromised'')
               else receipt_state (find (\<lambda>r. jget r ''receipt_id'' = Some (JStr receipt_id)) (feed_records feed))
                 (JObj receipt) now) (\<lambda>(state, reason).
            and_then (json_path [''artifact'', ''digest'', ''sha256''] (JObj receipt)) (\<lambda>artifact.
            and_then (json_path [''provenance'', ''source_commit''] (JObj receipt)) (\<lambda>commit.
            Inr \<lparr>lr_lifecycle = state, lr_reason = reason, lr_feed_sequence = n, lr_receipt_id = Some receipt_id,
              lr_artifact_sha256 = Some artifact, lr_source_commit = Some commit, lr_issuer_keyid = Some keyid\<rparr>))))))))"

definition evaluate_with_state ::
  "ed25519 \<Rightarrow> (string \<Rightarrow> string) \<Rightarrow> (json \<Rightarrow> bool) \<Rightarrow> string \<Rightarrow> string \<Rightarrow> json \<Rightarrow> int
    \<Rightarrow> (string option, lifecycle_result) txn" where
  "evaluate_with_state ed fl schema_ok receipt_envelope lifecycle_envelope root_jwk now file =
     and_then (verify_lifecycle_envelope ed lifecycle_envelope root_jwk) (\<lambda>(feed, payload).
     and_then (minimum_sequence fl root_jwk file) (\<lambda>minimum.
     and_then (evaluate_receipt_lifecycle ed fl schema_ok receipt_envelope lifecycle_envelope root_jwk now minimum) (\<lambda>result.
     if lr_feed_sequence result \<ge> minimum
     then and_then (record_sequence fl root_jwk (feed_sequence feed) (sha256_hex payload) file) (\<lambda>(_, file'). Inr (result, file'))
     else Inr (result, file))))"

end
