(* ===== verification/PaidLifecycle.thy ===== *)
theory PaidLifecycle
  imports Lifecycle CommerceAccess
begin

section \<open>Publication of lifecycle feeds for paid receipts\<close>

text \<open>
  \<^verbatim>\<open>paid_lifecycle.py\<close>: drafts of a feed over the delivered orders, the import of a feed signed
  by the offline root, and the evaluation of the receipt of an order.  The three tables extend
  the database of the store.  A datetime argument is a \<open>pydatetime\<close>; the clock is an argument.
\<close>

subsection \<open>Tables\<close>

record publication =
  pb_sequence :: int
  pb_root_keyid :: string
  pb_payload_sha256 :: string
  pb_feed_json :: string
  pb_envelope_body :: string
  pb_generated_at :: string
  pb_expires_at :: string
  pb_published_at :: string

record status_row =
  sr_receipt_id :: string
  sr_order_id :: string
  sr_status :: string
  sr_superseded_by :: "string option"
  sr_reason :: "string option"
  sr_sequence :: int
  sr_updated_at :: string

record paid_db = access_db +
  pl_metadata :: "(string \<times> string) list"
  pl_publications :: "publication list"
  pl_status :: "status_row list"

definition PAID_LIFECYCLE_SCHEMA_VERSION :: string where "PAID_LIFECYCLE_SCHEMA_VERSION = ''1''"

definition MAX_FEED_LIFETIME :: int where "MAX_FEED_LIFETIME = 7 * day_us"

definition aware_datetime :: "pydatetime \<Rightarrow> int res" where
  "aware_datetime dt = reject_if (is_naive dt) bad_feed (astimezone_utc dt)"

definition format_time :: "int \<Rightarrow> string" where
  "format_time u = iso_z u"

definition paid_parse_time :: "json \<Rightarrow> int res" where
  "paid_parse_time v =
     (case v of
        JStr s \<Rightarrow>
          reject_if (py_len s > 64) bad_feed
         (case fromisoformat (normalize_z s) of
            Inl _ \<Rightarrow> Inl bad_feed
          | Inr dt \<Rightarrow> reject_if (is_naive dt) bad_feed (astimezone_utc dt))
      | _ \<Rightarrow> Inl bad_feed)"

definition canonical_feed :: "(string \<times> json) list \<Rightarrow> string" where
  "canonical_feed feed = dumps (JObj feed)"

definition paid_initialize :: "environment \<Rightarrow> 'z paid_db_scheme \<Rightarrow> 'z paid_db_scheme res" where
  "paid_initialize env d =
     reject_if (map_of (metadata d) ''environment'' \<noteq> Some (environment_value env)) (Rejected ''commerce_environment_mismatch'')
    (let expected = [(''schema_version'', PAID_LIFECYCLE_SCHEMA_VERSION), (''environment'', environment_value env)]
     in if pl_metadata d = [] then Inr (d\<lparr>pl_metadata := expected\<rparr>)
        else reject_if (\<not> list_all (\<lambda>(k, v). map_of (pl_metadata d) k = Some v) expected)
          (Rejected ''commerce_environment_mismatch'') (Inr d))"

definition latest_publication :: "publication list \<Rightarrow> publication option" where
  "latest_publication ps = (case rev (sort_key pb_sequence ps) of [] \<Rightarrow> None | p # _ \<Rightarrow> Some p)"

text \<open>\<open>json.loads\<close> of a stored feed.\<close>

definition stored_feed :: "publication \<Rightarrow> (string \<times> json) list res" where
  "stored_feed p = and_then (json_loads ValueError (pb_feed_json p)) (\<lambda>v. Inr (obj_of v))"

subsection \<open>Delivered orders\<close>

abbreviation order_rid :: "public_order \<Rightarrow> string" where
  "order_rid v \<equiv> the (o_receipt_id (ov_order v))"

definition evidence_complete :: "public_order \<Rightarrow> bool" where
  "evidence_complete v \<longleftrightarrow> list_all (\<lambda>x. x \<notin> {None, Some []})
     (map (\<lambda>f. f (ov_order v)) [o_receipt_id, o_receipt_sha256, o_envelope_sha256, o_signing_keyid])"

definition delivered_orders :: "environment \<Rightarrow> 'z db_scheme \<Rightarrow> public_order list res" where
  "delivered_orders env d =
     and_then (list_delivered_orders env d) (\<lambda>os.
     reject_if (\<not> list_all evidence_complete os) (Rejected ''invalid_delivery'') (Inr os))"

text \<open>\<open>by_receipt\<close>: a later order replaces an earlier one of the same receipt.\<close>

definition receipt_ids :: "public_order list \<Rightarrow> string list" where
  "receipt_ids os = map order_rid os"

definition order_by_receipt :: "public_order list \<Rightarrow> string \<Rightarrow> public_order option" where
  "order_by_receipt os rid = find (\<lambda>v. order_rid v = rid) (rev os)"

subsection \<open>Validation of a feed against the state\<close>

definition issuer_ids :: "(string \<times> json) list \<Rightarrow> json list" where
  "issuer_ids feed = map (\<lambda>r. jget_null r ''keyid'') (feed_issuers feed)"

definition validate_issuer_coverage :: "(string \<times> json) list \<Rightarrow> public_order list \<Rightarrow> unit res" where
  "validate_issuer_coverage feed os =
     reject_if (set (map (\<lambda>v. JStr (the (o_signing_keyid (ov_order v)))) os) \<noteq> set (issuer_ids feed))
       (Rejected ''paid_lifecycle_coverage'') (Inr ())"

definition issuer_status :: "(string \<times> json) list \<Rightarrow> json \<Rightarrow> json" where
  "issuer_status feed keyid =
     (case find (\<lambda>r. jget_null r ''keyid'' = keyid) (rev (feed_issuers feed)) of
        None \<Rightarrow> JNull | Some r \<Rightarrow> jget_null r ''status'')"

definition validate_issuer_transitions :: "(string \<times> json) list \<Rightarrow> (string \<times> json) list option \<Rightarrow> unit res" where
  "validate_issuer_transitions feed prior_feed =
     (case prior_feed of
        None \<Rightarrow> Inr ()
      | Some prior \<Rightarrow>
          reject_if (\<not> set (issuer_ids prior) \<subseteq> set (issuer_ids feed)) (Rejected ''lifecycle_rollback'')
         (fold_res (\<lambda>keyid _.
            let old = issuer_status prior keyid; status = issuer_status feed keyid
            in reject_if (old = JStr ''compromised'' \<and> status \<noteq> JStr ''compromised'') (Rejected ''lifecycle_rollback'')
              (reject_if (old = JStr ''retired'' \<and> status = JStr ''active'') (Rejected ''lifecycle_rollback'') (Inr ())))
            (issuer_ids prior) ()))"

definition record_from_row :: "status_row \<Rightarrow> (string \<times> json) list" where
  "record_from_row row = [(''receipt_id'', JStr (sr_receipt_id row)), (''status'', JStr (sr_status row))]
     @ (case sr_superseded_by row of None \<Rightarrow> [] | Some s \<Rightarrow> [(''superseded_by'', JStr s)])
     @ (case sr_reason row of None \<Rightarrow> [] | Some s \<Rightarrow> [(''reason'', JStr s)])"

text \<open>Equality of dictionaries does not look at the order of the keys.\<close>

definition dict_eq :: "(string \<times> json) list \<Rightarrow> (string \<times> json) list \<Rightarrow> bool" where
  "dict_eq a b \<longleftrightarrow> fst ` set a = fst ` set b \<and> (\<forall>k \<in> fst ` set a. jget a k = jget b k)"

definition validate_transition ::
  "status_row option \<Rightarrow> (string \<times> json) list \<Rightarrow> string list \<Rightarrow> unit res" where
  "validate_transition prior r delivered =
     (let status = jget_null r ''status''
      in and_then (in_strings status RECEIPT_STATUSES) (\<lambda>known.
         reject_if (\<not> known) bad_feed
        (reject_if (status = JStr ''current'' \<and> (''reason'' \<in> fst ` set r \<or> ''superseded_by'' \<in> fst ` set r)) bad_feed
        (and_then (if status = JStr ''superseded'' then in_strings (jget_null r ''superseded_by'') delivered else Inr True) (\<lambda>successor.
         reject_if (status = JStr ''superseded''
             \<and> (\<not> successor \<or> jget_null r ''superseded_by'' = jget_null r ''receipt_id'')) bad_feed
        (reject_if (starts_with ''revoked_'' (the_str status) \<and> \<not> is_jstr (jget_null r ''reason'')) bad_feed
        (case prior of
           None \<Rightarrow> reject_if (status \<noteq> JStr ''current'') bad_feed (Inr ())
         | Some row \<Rightarrow>
             let p = record_from_row row
             in reject_if (sr_status row \<noteq> ''current'' \<and> \<not> dict_eq p r) (Rejected ''lifecycle_rollback'')
               (reject_if (sr_status row = ''current'' \<and> status = JStr ''current'' \<and> \<not> dict_eq p r)
                  (Rejected ''lifecycle_equivocation'') (Inr ())))))))))"

definition prior_status :: "string \<Rightarrow> status_row list \<Rightarrow> status_row option" where
  "prior_status rid t = find (\<lambda>row. sr_receipt_id row = rid) t"

subsection \<open>Drafts\<close>

definition derive_record ::
  "status_row list \<Rightarrow> (string \<times> json) list \<Rightarrow> string list \<Rightarrow> string \<Rightarrow> json res" where
  "derive_record previous requested delivered rid =
     (let prior = prior_status rid previous
      in and_then
        (case jget_null requested rid of
           JNull \<Rightarrow> Inr (case prior of None \<Rightarrow> [(''receipt_id'', JStr rid), (''status'', JStr ''current'')] | Some row \<Rightarrow> record_from_row row)
         | JObj change \<Rightarrow>
             reject_if (''status'' \<notin> fst ` set change \<or> \<not> fst ` set change \<subseteq> {''status'', ''superseded_by'', ''reason''}) bad_feed
               (Inr ((''receipt_id'', JStr rid) # change))
         | _ \<Rightarrow> Inl bad_feed) (\<lambda>r.
         and_then (validate_transition prior r delivered) (\<lambda>_. Inr (JObj r))))"

definition derive_records ::
  "public_order list \<Rightarrow> status_row list \<Rightarrow> (string \<times> json) list \<Rightarrow> json list res" where
  "derive_records os previous requested =
     reject_if (\<not> fst ` set requested \<subseteq> set (receipt_ids os)) (Rejected ''paid_lifecycle_coverage'')
       (map_res (derive_record previous requested (receipt_ids os)) (sort (remdups (receipt_ids os))))"

definition next_sequence :: "publication list \<Rightarrow> int" where
  "next_sequence ps = (case latest_publication ps of None \<Rightarrow> 1 | Some p \<Rightarrow> pb_sequence p + 1)"

definition prior_feed :: "publication list \<Rightarrow> (string \<times> json) list option res" where
  "prior_feed ps = (case latest_publication ps of None \<Rightarrow> Inr None | Some p \<Rightarrow> and_then (stored_feed p) (\<lambda>f. Inr (Some f)))"

definition draft_feed :: "int \<Rightarrow> int \<Rightarrow> int \<Rightarrow> json list \<Rightarrow> json list \<Rightarrow> (string \<times> json) list" where
  "draft_feed n generated expires issuer_keys records =
     [(''schema_version'', JStr ''1.0.0''), (''sequence'', JInt n),
      (''generated_at'', JStr (format_time generated)), (''expires_at'', JStr (format_time expires)),
      (''issuer_keys'', JArr issuer_keys), (''receipts'', JArr records)]"

definition build_draft ::
  "environment \<Rightarrow> (string \<Rightarrow> string) \<Rightarrow> json list \<Rightarrow> pydatetime \<Rightarrow> pydatetime \<Rightarrow> (string \<times> json) list \<Rightarrow> 'z paid_db_scheme \<Rightarrow> string res" where
  "build_draft env fl issuer_keys generated_at expires_at changes d =
     and_then (aware_datetime generated_at) (\<lambda>generated.
     and_then (aware_datetime expires_at) (\<lambda>expires.
     reject_if (expires \<le> generated \<or> expires - generated > MAX_FEED_LIFETIME) bad_feed
    (reject_if (length changes > 100000) bad_feed
    (and_then (delivered_orders env d) (\<lambda>os.
     reject_if (os = []) (Rejected ''paid_lifecycle_empty'')
    (and_then (derive_records os (pl_status d) changes) (\<lambda>records.
     let feed = draft_feed (next_sequence (pl_publications d)) generated expires issuer_keys records
     in and_then (validate_lifecycle_feed (JObj feed)) (\<lambda>_.
        and_then (validate_issuer_coverage feed os) (\<lambda>_.
        and_then (prior_feed (pl_publications d)) (\<lambda>prior.
        and_then (validate_issuer_transitions feed prior) (\<lambda>_.
        deterministic_json fl (JObj feed))))))))))))"

subsection \<open>Publication\<close>

record publication_view =
  pv_sequence :: int
  pv_root_keyid :: string
  pv_payload_sha256 :: string
  pv_generated_at :: string
  pv_expires_at :: string
  pv_published_at :: string
  pv_receipts :: "json list"

definition publication_view_of :: "int \<Rightarrow> 'z paid_db_scheme \<Rightarrow> publication_view res" where
  "publication_view_of n d =
     (case fetchone (\<lambda>p. pb_sequence p = n) (pl_publications d) of
        None \<Rightarrow> Inl (Rejected ''paid_lifecycle_missing'')
      | Some p \<Rightarrow>
          and_then (stored_feed p) (\<lambda>feed.
          and_then (map_res (\<lambda>r.
             case fetchone (\<lambda>row. map_option JStr (o_receipt_id row) = Some (jget_null r ''receipt_id'')) (rev (orders d)) of
               None \<Rightarrow> Inl KeyError
             | Some row \<Rightarrow> Inr (JObj (r @ [(''order_id'', JStr (o_order_id row))]))) (feed_records feed)) (\<lambda>receipts.
          Inr \<lparr>pv_sequence = pb_sequence p, pv_root_keyid = pb_root_keyid p, pv_payload_sha256 = pb_payload_sha256 p,
            pv_generated_at = pb_generated_at p, pv_expires_at = pb_expires_at p, pv_published_at = pb_published_at p,
            pv_receipts = receipts\<rparr>)))"

definition opt_str :: "json \<Rightarrow> string option" where
  "opt_str v = (case v of JStr s \<Rightarrow> Some s | _ \<Rightarrow> None)"

text \<open>\<open>INSERT ... ON CONFLICT(receipt_id) DO UPDATE\<close>: an existing row keeps its order.\<close>

definition upsert_status :: "int \<Rightarrow> string \<Rightarrow> public_order list \<Rightarrow> (string \<times> json) list \<Rightarrow> status_row list \<Rightarrow> status_row list res" where
  "upsert_status n published os r t =
     (let rid = the_str (jget_null r ''receipt_id'')
      in case order_by_receipt os rid of
           None \<Rightarrow> Inl KeyError
         | Some v \<Rightarrow>
             let row = \<lparr>sr_receipt_id = rid, sr_order_id = o_order_id (ov_order v), sr_status = the_str (jget_null r ''status''),
               sr_superseded_by = opt_str (jget_null r ''superseded_by''), sr_reason = opt_str (jget_null r ''reason''),
               sr_sequence = n, sr_updated_at = published\<rparr>
             in if rid \<in> sr_receipt_id ` set t
                then Inr (update_where (\<lambda>x. sr_receipt_id x = rid) (\<lambda>x. row\<lparr>sr_order_id := sr_order_id x\<rparr>) t)
                else reject_if (o_order_id (ov_order v) \<in> sr_order_id ` set t) IntegrityError (Inr (t @ [row])))"

text \<open>The part inside the write transaction.\<close>

definition publish_commit ::
  "(string \<times> json) list \<Rightarrow> string \<Rightarrow> string \<Rightarrow> string \<Rightarrow> string \<Rightarrow> public_order list \<Rightarrow> ('z paid_db_scheme, publication_view) txn" where
  "publish_commit feed digest root_keyid envelope_bytes published os d =
     (let n = feed_sequence feed; bound = map_of (pl_metadata d) ''root_keyid''; latest = latest_publication (pl_publications d)
      in reject_if (bound \<noteq> None \<and> bound \<noteq> Some root_keyid) (Rejected ''untrusted_key'')
        (reject_if (\<exists>p. latest = Some p \<and> n < pb_sequence p) (Rejected ''lifecycle_rollback'')
        (if latest \<noteq> None \<and> n = pb_sequence (the latest) then
           reject_if (digest \<noteq> pb_payload_sha256 (the latest)) (Rejected ''lifecycle_equivocation'')
             (and_then (publication_view_of n d) (\<lambda>v. Inr (v, d)))
         else
           reject_if (n \<noteq> next_sequence (pl_publications d)) (Rejected ''lifecycle_rollback'')
          (and_then (prior_feed (pl_publications d)) (\<lambda>prior.
           and_then (validate_issuer_transitions feed prior) (\<lambda>_.
           and_then (fold_res (\<lambda>r _. validate_transition (prior_status (the_str (jget_null r ''receipt_id'')) (pl_status d)) r (receipt_ids os))
              (feed_records feed) ()) (\<lambda>_.
           reject_if (\<not> utf8_ok (canonical_feed feed)) ValueError
          (reject_if (digest \<in> pb_payload_sha256 ` set (pl_publications d)) IntegrityError
          (let row = \<lparr>pb_sequence = n, pb_root_keyid = root_keyid, pb_payload_sha256 = digest,
              pb_feed_json = canonical_feed feed, pb_envelope_body = envelope_bytes,
              pb_generated_at = the_str (jget_null feed ''generated_at''), pb_expires_at = the_str (jget_null feed ''expires_at''),
              pb_published_at = published\<rparr>;
               d1 = d\<lparr>pl_publications := pl_publications d @ [row],
                 pl_metadata := (if bound = None then pl_metadata d @ [(''root_keyid'', root_keyid)] else pl_metadata d)\<rparr>
           in and_then (fold_res (upsert_status n published os) (feed_records feed) (pl_status d)) (\<lambda>t.
              let d2 = d1\<lparr>pl_status := t\<rparr>
              in and_then (publication_view_of n d2) (\<lambda>v. Inr (v, d2))))))))))))"

text \<open>The checks before it; the orders are read on a connection of their own.\<close>

definition publish_checks ::
  "environment \<Rightarrow> ed25519 \<Rightarrow> string \<Rightarrow> json \<Rightarrow> pydatetime \<Rightarrow> 'z paid_db_scheme
    \<Rightarrow> ((string \<times> json) list \<times> string \<times> string \<times> string \<times> public_order list) res" where
  "publish_checks env ed envelope_bytes root_jwk published_at d =
     reject_if (envelope_bytes = [] \<or> length envelope_bytes > 1100000) bad_feed
    (and_then (verify_lifecycle_envelope ed envelope_bytes root_jwk) (\<lambda>(feed, payload).
     and_then (jwk_thumbprint root_jwk) (\<lambda>root_keyid.
     and_then (aware_datetime published_at) (\<lambda>observed.
     and_then (paid_parse_time (jget_null feed ''generated_at'')) (\<lambda>generated.
     and_then (paid_parse_time (jget_null feed ''expires_at'')) (\<lambda>expires.
     reject_if (observed + 5 * minute_us \<ge> max_us) OverflowError
    (reject_if (generated > observed + 5 * minute_us \<or> expires \<le> observed \<or> expires - generated > MAX_FEED_LIFETIME) bad_feed
    (and_then (delivered_orders env d) (\<lambda>os.
     reject_if (os = []) (Rejected ''paid_lifecycle_empty'')
    (and_then (validate_issuer_coverage feed os) (\<lambda>_.
     reject_if (set (map (\<lambda>r. jget_null r ''receipt_id'') (feed_records feed)) \<noteq> JStr ` set (receipt_ids os))
       (Rejected ''paid_lifecycle_coverage'')
     (Inr (feed, sha256_hex payload, root_keyid, format_time observed, os)))))))))))))"

definition publish ::
  "environment \<Rightarrow> ed25519 \<Rightarrow> string \<Rightarrow> json \<Rightarrow> pydatetime \<Rightarrow> ('z paid_db_scheme, publication_view) txn" where
  "publish env ed envelope_bytes root_jwk published_at d =
     and_then (publish_checks env ed envelope_bytes root_jwk published_at d) (\<lambda>(feed, digest, root_keyid, published, os).
     publish_commit feed digest root_keyid envelope_bytes published os d)"

subsection \<open>Queries\<close>

definition latest_envelope :: "'z paid_db_scheme \<Rightarrow> string res" where
  "latest_envelope d =
     (case latest_publication (pl_publications d) of
        None \<Rightarrow> Inl (Rejected ''paid_lifecycle_missing'') | Some p \<Rightarrow> Inr (pb_envelope_body p))"

definition evaluate_order_receipt ::
  "environment \<Rightarrow> ed25519 \<Rightarrow> (string \<Rightarrow> string) \<Rightarrow> (json \<Rightarrow> bool) \<Rightarrow> string \<Rightarrow> string \<Rightarrow> json \<Rightarrow> pydatetime
    \<Rightarrow> 'z paid_db_scheme \<Rightarrow> lifecycle_result res" where
  "evaluate_order_receipt env ed fl schema_ok order_id receipt_envelope root_jwk now d =
     and_then (aware_datetime now) (\<lambda>moment.
     and_then (get_order env order_id d) (\<lambda>order.
     reject_if (o_delivery_status (ov_order order) \<noteq> ''delivered'' \<or> o_envelope_sha256 (ov_order order) = None)
       (Rejected ''invalid_delivery'')
    (reject_if (Some (sha256_hex receipt_envelope) \<noteq> o_envelope_sha256 (ov_order order)) (Rejected ''invalid_delivery'')
    (and_then (latest_envelope d) (\<lambda>envelope.
     and_then (evaluate_receipt_lifecycle ed fl schema_ok receipt_envelope envelope root_jwk moment 0) (\<lambda>result.
     reject_if (lr_receipt_id result \<noteq> o_receipt_id (ov_order order)) (Rejected ''invalid_delivery'') (Inr result)))))))"

definition publications :: "'z paid_db_scheme \<Rightarrow> publication_view list res" where
  "publications d = map_res (\<lambda>p. publication_view_of (pb_sequence p) d) (sort_key pb_sequence (pl_publications d))"

end
