(* ===== verification/SigningLemmas.thy ===== *)
theory SigningLemmas
  imports Signing
begin

section \<open>Facts about encodings and envelopes\<close>

text \<open>
  What the properties of signatures rest on: base64 texts need no escaping and contain no
  space, the strict decoders accept exactly what the encoders write, the signed bytes
  determine type and payload, and a signed envelope verifies.
\<close>

subsection \<open>Base64 texts\<close>

definition b64_text :: "char \<Rightarrow> bool" where
  "b64_text c \<longleftrightarrow> is_alnum c \<or> c \<in> {CHR ''+'', CHR ''/'', CHR ''-'', CHR ''_'', CHR ''=''}"

lemma b64_char_text: "n < 64 \<Longrightarrow> b64_text (b64_char url n)"
  by (erule sextet_cases)
    (auto simp: b64_text_def is_alnum_def is_digit_def is_lower_def is_upper_def between_def b64_char_def byte_of_chr_of)

lemma b64_body_not_pad: "CHR ''='' \<notin> set (b64_body url s)"
  using b64_body_digits [of url s] b64_char_not_pad by metis

lemma b64_encode_text: "list_all b64_text (b64_encode url s)"
proof -
  have "\<forall>c \<in> set (b64_body url s). b64_text c" using b64_body_digits [of url s] b64_char_text by auto
  then show ?thesis by (auto simp: b64_encode_def b64_pad_def list_all_iff b64_text_def)
qed

lemma b64url_text: "list_all b64_text (b64url_no_pad s)"
  using b64_body_digits [of True s] b64_char_text by (auto simp: b64url_no_pad_def list_all_iff)

lemma b64_text_byte: "b64_text c \<Longrightarrow> 43 \<le> byte_of c \<and> byte_of c < 128 \<and> byte_of c \<noteq> 92"
  by (auto simp: b64_text_def is_alnum_def is_digit_def is_lower_def is_upper_def between_def)

lemma ws_codes_bytes: "w \<in> set ws_codes \<Longrightarrow> w \<noteq> [] \<and> (byte_of (hd w) < 33 \<or> 128 \<le> byte_of (hd w))"
proof -
  have "\<forall>w \<in> set ws_codes. w \<noteq> [] \<and> (byte_of (hd w) < 33 \<or> 128 \<le> byte_of (hd w))"
    by code_simp
  then show "w \<in> set ws_codes \<Longrightarrow> ?thesis" by blast
qed

lemma no_space: "list_all b64_text s \<Longrightarrow> \<not> has_space s"
proof (induction s)
  case (Cons c s)
  have "\<not> starts_with w (c # s)" if "w \<in> set ws_codes" for w
    using ws_codes_bytes [OF that] b64_text_byte [of c] Cons.prems by (cases w) (auto simp: starts_with_def)
  with Cons show ?case by (auto simp: list_ex_iff)
qed simp

lemma text_ascii: "list_all b64_text s \<Longrightarrow> is_ascii s"
  by (auto simp: is_ascii_def list_all_iff dest: b64_text_byte)

lemma ascii_py_len: "is_ascii s \<Longrightarrow> py_len s = length s"
  by (induction s) (auto simp: is_ascii_def py_len_def continues_def)

lemma escape_text: "list_all b64_text s \<Longrightarrow> concat (map escape_char s) = s"
  by (induction s) (auto simp: escape_char_def Let_def dest: b64_text_byte)

lemma dumps_text: "list_all b64_text s \<Longrightarrow> dumps_str s = [chr_of 34] @ s @ [chr_of 34]"
  by (simp add: dumps_str_def escape_text)

lemma b64_encode_Nil [simp]: "b64_encode url s = [] \<longleftrightarrow> s = []"
  by (cases "(url, s)" rule: b64_body.cases) (auto simp: b64_encode_def b64_pad_def Let_def)

lemma b64url_Nil [simp]: "b64url_no_pad s = [] \<longleftrightarrow> s = []"
  by (cases "(True, s)" rule: b64_body.cases) (auto simp: b64url_no_pad_def Let_def)

lemma length_b64_encode: "length (b64_encode url s) = (length s + 2) div 3 * 4"
proof -
  have pad: "(4 * n + 2) div 3 + (4 - (4 * n + 2) div 3 mod 4) mod 4 = (n + 2) div 3 * 4" for n :: nat
  proof -
    obtain q r where n: "n = 3 * q + r" "r < 3" using mod_div_decomp [of n 3] mod_less_divisor [of 3 n]
      by (metis mult.commute zero_less_numeral)
    then consider "n = 3 * q" | "n = 3 * q + 1" | "n = 3 * q + 2" by linarith
    then show ?thesis
    proof cases
      case 1
      then have "(4 * n + 2) div 3 = 4 * q" "(n + 2) div 3 = q" by simp_all
      then show ?thesis by simp
    next
      case 2
      then have "(4 * n + 2) div 3 = 4 * q + 2" "(n + 2) div 3 = q + 1" by simp_all
      moreover have "(4 * q + 2) mod 4 = 2" by presburger
      ultimately show ?thesis by (simp del: add_2_eq_Suc' One_nat_def)
    next
      case 3
      then have "(4 * n + 2) div 3 = 4 * q + 3" "(n + 2) div 3 = q + 1" by simp_all
      moreover have "(4 * q + 3) mod 4 = 3" by presburger
      ultimately show ?thesis by (simp del: add_2_eq_Suc' One_nat_def)
    qed
  qed
  show ?thesis using pad [of "length s"] by (simp add: b64_encode_def b64_pad_def length_b64_body)
qed

subsection \<open>The strict decoders\<close>

lemma b64url_decode_iff:
  "b64url_decode (JStr s) None = Inr d \<longleftrightarrow> s = b64url_no_pad d \<and> d \<noteq> []"
proof
  assume "b64url_decode (JStr s) None = Inr d"
  then show "s = b64url_no_pad d \<and> d \<noteq> []"
    by (auto simp: b64url_decode_def txn_simps split: option.splits)
next
  assume s: "s = b64url_no_pad d \<and> d \<noteq> []"
  then have chars: "list_all b64_text s" using b64url_text by simp
  have "CHR ''='' \<notin> set s" using s b64_body_not_pad by (simp add: b64url_no_pad_def)
  moreover have "s @ b64_pad (py_len s) = b64_encode True d"
    using s ascii_py_len [OF text_ascii [OF chars]] by (simp add: b64_encode_def b64url_no_pad_def)
  ultimately show "b64url_decode (JStr s) None = Inr d"
    using s no_space [OF chars] by (auto simp: b64url_decode_def b64_decode_encode)
qed

lemma b64url_decode_sized:
  "b64url_decode v (Some n) = Inr d \<longleftrightarrow> v = JStr (b64url_no_pad d) \<and> d \<noteq> [] \<and> length d = n"
proof (cases v)
  case (JStr s)
  have "b64url_decode v (Some n) = Inr d \<longleftrightarrow> b64url_decode (JStr s) None = Inr d \<and> length d = n"
    using JStr by (auto simp: b64url_decode_def txn_simps split: option.splits)
  then show ?thesis using JStr b64url_decode_iff by auto
qed (auto simp: b64url_decode_def)

lemma b64_std_decode_iff:
  "b64_std_decode v n = Inr d \<longleftrightarrow> v = JStr (b64_encode False d) \<and> d \<noteq> [] \<and> length d \<le> n"
proof (cases v)
  case (JStr s)
  show ?thesis
  proof (cases "s = b64_encode False d")
    case True
    then show ?thesis using no_space [OF b64_encode_text [of False d]] JStr
      by (auto simp: b64_std_decode_def txn_simps b64_decode_encode)
  qed (use JStr in \<open>auto simp: b64_std_decode_def txn_simps split: option.splits\<close>)
qed (auto simp: b64_std_decode_def)

subsection \<open>Keys\<close>

text \<open>What Ed25519 promises of one private key.\<close>

definition ed25519_correct :: "ed25519 \<Rightarrow> string \<Rightarrow> bool" where
  "ed25519_correct ed sk \<longleftrightarrow> length (ed_public ed sk) = 32
     \<and> (\<forall>m. length (ed_sign ed sk m) = 64 \<and> ed_verify ed (ed_public ed sk) m (ed_sign ed sk m))"

lemma jget_public_jwk [simp]:
  "jget [(''kty'', a), (''crv'', b), (''x'', c)] ''kty'' = Some a"
  "jget [(''kty'', a), (''crv'', b), (''x'', c)] ''crv'' = Some b"
  "jget_null [(''kty'', a), (''crv'', b), (''x'', c)] ''x'' = c"
  by (simp_all add: jget_def jget_null_def)

definition raw_thumbprint :: "string \<Rightarrow> string" where
  "raw_thumbprint raw = b64url_no_pad (sha256 (dumps (JObj [(''crv'', JStr ''Ed25519''), (''kty'', JStr ''OKP''),
     (''x'', JStr (b64url_no_pad raw))])))"

lemma thumbprint_public: "length raw = 32 \<Longrightarrow> jwk_thumbprint (public_jwk raw) = Inr (raw_thumbprint raw)"
  using b64url_decode_sized [of "JStr (b64url_no_pad raw)" 32 raw]
  by (auto simp: jwk_thumbprint_def public_jwk_def raw_thumbprint_def has_keys_def Let_def)

lemma key_of_public: "length raw = 32 \<Longrightarrow> public_key_from_jwk (public_jwk raw) = Inr raw"
  using b64url_decode_sized [of "JStr (b64url_no_pad raw)" 32 raw]
  by (auto simp: public_key_from_jwk_def thumbprint_public) (auto simp: public_jwk_def)

lemma thumbprint_of_key:
  assumes "jwk_thumbprint jwk = Inr keyid"
  obtains kvs raw where "jwk = JObj kvs" "has_keys [''kty'', ''crv'', ''x''] kvs" "length raw = 32"
    "jget kvs ''x'' = Some (JStr (b64url_no_pad raw))" "keyid = raw_thumbprint raw"
    "public_key_from_jwk jwk = Inr raw"
proof -
  from assms obtain kvs raw where j: "jwk = JObj kvs" "has_keys [''kty'', ''crv'', ''x''] kvs"
    "b64url_decode (jget_null kvs ''x'') (Some 32) = Inr raw"
    "keyid = b64url_no_pad (sha256 (dumps (JObj [(''crv'', JStr ''Ed25519''), (''kty'', JStr ''OKP''), (''x'', jget_null kvs ''x'')])))"
    by (cases jwk) (auto simp: jwk_thumbprint_def txn_simps Let_def simp del: dumps.simps)
  moreover from j(3) have "jget_null kvs ''x'' = JStr (b64url_no_pad raw)" "length raw = 32"
    by (auto simp: b64url_decode_sized)
  moreover have "jget kvs ''x'' = Some (jget_null kvs ''x'')" using has_keys_jget_null [OF j(2), of "''x''"] by simp
  moreover have "public_key_from_jwk jwk = Inr raw"
    using assms j(1,3) by (simp add: public_key_from_jwk_def)
  ultimately show ?thesis using that by (simp add: raw_thumbprint_def)
qed

lemma raw_thumbprint_text: "list_all b64_text (raw_thumbprint raw)"
  by (simp add: raw_thumbprint_def b64url_text)

lemma length_raw_thumbprint [simp]: "length (raw_thumbprint raw) = 43"
  by (simp add: raw_thumbprint_def b64url_no_pad_def length_b64_body)

subsection \<open>The signed bytes\<close>

lemma digits_then_space:
  assumes "show_nat m @ CHR '' '' # s = show_nat n @ CHR '' '' # t"
  shows "m = n \<and> s = t"
proof -
  have space: "\<not> is_digit CHR '' ''" by code_simp
  have "takeWhile is_digit (show_nat k @ CHR '' '' # u) = show_nat k" for k u
    using show_nat_digits [of k] space by (simp add: takeWhile_append list_all_iff)
  with assms have "show_nat m = show_nat n" by metis
  with assms show ?thesis using show_nat_inj by auto
qed

lemma dsse_pae_inj:
  assumes "dsse_pae t p = Inr x" "dsse_pae t' p' = Inr x"
  shows "t = t' \<and> p = p'"
proof -
  let ?x = "\<lambda>t p. ''DSSEv1 '' @ show_nat (length t) @ '' '' @ t @ '' '' @ show_nat (length p) @ '' '' @ p"
  from assms have "?x t p = ?x t' p'" by (auto simp: dsse_pae_def txn_simps)
  then have "length t = length t' \<and> t @ '' '' @ show_nat (length p) @ '' '' @ p = t' @ '' '' @ show_nat (length p') @ '' '' @ p'"
    using digits_then_space [of "length t" _ "length t'"] by simp
  then have "t = t'" "show_nat (length p) @ CHR '' '' # p = show_nat (length p') @ CHR '' '' # p'" by auto
  then show ?thesis using digits_then_space [of "length p" p "length p'" p'] by blast
qed

subsection \<open>The written size and alphabet of a document\<close>

lemma ascii_append [simp]: "is_ascii (s @ t) \<longleftrightarrow> is_ascii s \<and> is_ascii t"
  by (simp add: is_ascii_def)

lemma ascii_Nil [simp]: "is_ascii []"
  by (simp add: is_ascii_def)

lemma ascii_Cons [simp]: "is_ascii (c # s) \<longleftrightarrow> byte_of c < 128 \<and> is_ascii s"
  by (simp add: is_ascii_def)

lemma ascii_dumps_str: "is_ascii s \<Longrightarrow> is_ascii (dumps_str s)"
proof (induction s)
  case Nil
  show ?case by code_simp
next
  case (Cons c s)
  have letters: "byte_of CHR ''b'' < 128" "byte_of CHR ''t'' < 128" "byte_of CHR ''u'' < 128" "byte_of CHR ''f'' < 128"
    "byte_of CHR ''r'' < 128" "byte_of CHR ''n'' < 128" by (simp_all add: byte_of_def)
  have "is_ascii (escape_char c)" using Cons.prems
    by (auto simp: escape_char_def Let_def is_ascii_def byte_of_chr_of hex_char_def letters)
  with Cons show ?case by (auto simp: dumps_str_def is_ascii_def byte_of_chr_of)
qed

lemma length_escape: "length (concat (map escape_char s)) \<le> 6 * length s"
proof (induction s)
  case (Cons c s)
  have "length (escape_char c) \<le> 6" by (simp add: escape_char_def Let_def)
  with Cons show ?case by simp
qed simp

fun ascii_json :: "json \<Rightarrow> bool" where
  "ascii_json (JFloat t) \<longleftrightarrow> is_ascii t"
| "ascii_json (JStr s) \<longleftrightarrow> is_ascii s"
| "ascii_json (JArr vs) \<longleftrightarrow> list_all ascii_json vs"
| "ascii_json (JObj kvs) \<longleftrightarrow> list_all (\<lambda>(k, v). is_ascii k \<and> ascii_json v) kvs"
| "ascii_json JNull \<longleftrightarrow> True"
| "ascii_json (JBool b) \<longleftrightarrow> True"
| "ascii_json (JInt n) \<longleftrightarrow> True"

lemma ascii_join: "(\<forall>w \<in> set ws. is_ascii w) \<Longrightarrow> byte_of d < 128 \<Longrightarrow> is_ascii (join_with d ws)"
  by (induction d ws rule: join_with.induct) (auto simp: is_ascii_def)

lemma ascii_show_nat: "is_ascii (show_nat n)"
  using show_nat_digits [of n] by (auto simp: is_ascii_def list_all_iff is_digit_def between_def byte_of_def)

lemma ascii_marks: "byte_of CHR '','' < 128" "byte_of CHR ''-'' < 128" "is_ascii '':''" "is_ascii ''null''"
  "is_ascii ''true''" "is_ascii ''false''" "is_ascii ''[''" "is_ascii '']''" "is_ascii ''{''" "is_ascii ''}''"
  by (simp_all add: byte_of_def is_ascii_def)

lemma ascii_dumps: "ascii_json j \<Longrightarrow> is_ascii (dumps j)"
proof (induction j rule: ascii_json.induct)
  case (3 vs)
  then have "\<forall>w \<in> set (map dumps vs). is_ascii w" by (auto simp: list_all_iff)
  then show ?case using ascii_marks by (simp add: ascii_join)
next
  case (4 kvs)
  then have "\<forall>w \<in> set (map dumps_entry (sort_key fst kvs)). is_ascii w"
    using ascii_marks by (auto simp: list_all_iff dumps_entry_def ascii_dumps_str)
  then show ?case unfolding dumps_obj using ascii_marks by (simp add: ascii_join)
next
  case (7 n)
  show ?case using ascii_show_nat ascii_marks by (auto simp: show_int_def is_ascii_def)
qed (use ascii_marks in \<open>auto simp: ascii_dumps_str\<close>)

text \<open>An upper bound of the written length.\<close>

fun json_size :: "json \<Rightarrow> nat" where
  "json_size (JStr s) = 6 * length s + 2"
| "json_size (JArr vs) = 2 + sum_list (map (\<lambda>v. json_size v + 1) vs)"
| "json_size (JObj kvs) = 2 + sum_list (map (\<lambda>(k, v). 6 * length k + json_size v + 4) kvs)"
| "json_size (JInt n) = length (show_int n)"
| "json_size (JFloat t) = length t"
| "json_size _ = 5"

lemma length_join: "length (join_with d ws) \<le> sum_list (map (\<lambda>w. length w + 1) ws)"
  by (induction d ws rule: join_with.induct) auto

lemma sum_list_sort_key: "sum_list (map (g :: 'a \<Rightarrow> nat) (sort_key f xs)) = sum_list (map g xs)"
proof (induction xs)
  case (Cons x xs)
  have "sum_list (map g (insort_key f x ys)) = g x + sum_list (map g ys)" for ys by (induction ys) auto
  with Cons show ?case by (simp add: sort_key_simps)
qed simp

lemma dumps_size: "length (dumps j) \<le> json_size j"
proof (induction j rule: json_size.induct)
  case (1 s)
  then show ?case using length_escape [of s] by (simp add: dumps_str_def)
next
  case (2 vs)
  have "length (join_with CHR '','' (map dumps vs)) \<le> sum_list (map (\<lambda>v. length (dumps v) + 1) vs)"
    using length_join [of "CHR '',''" "map dumps vs"] by (simp add: comp_def)
  also have "\<dots> \<le> sum_list (map (\<lambda>v. json_size v + 1) vs)"
    by (rule sum_list_mono) (use 2 in auto)
  finally show ?case by simp
next
  case (3 kvs)
  have "length (join_with CHR '','' (map dumps_entry (sort_key fst kvs))) \<le> sum_list (map (\<lambda>e. length (dumps_entry e) + 1) (sort_key fst kvs))"
    using length_join [of "CHR '',''" "map dumps_entry (sort_key fst kvs)"] by (simp add: comp_def)
  also have "\<dots> = sum_list (map (\<lambda>e. length (dumps_entry e) + 1) kvs)" by (rule sum_list_sort_key)
  also have "\<dots> \<le> sum_list (map (\<lambda>(k, v). 6 * length k + json_size v + 4) kvs)"
  proof (rule sum_list_mono)
    fix e assume e: "e \<in> set kvs"
    obtain k v where kv: "e = (k, v)" by (cases e)
    with 3 e have "length (dumps v) \<le> json_size v" by blast
    then show "length (dumps_entry e) + 1 \<le> (case e of (k, v) \<Rightarrow> 6 * length k + json_size v + 4)"
      using length_escape [of k] kv by (simp add: dumps_entry_def dumps_str_def)
  qed
  finally show ?case unfolding dumps_obj by simp
qed auto


lemma ascii_take: "is_ascii s \<Longrightarrow> is_ascii (take n s)"
  by (auto simp: is_ascii_def list_all_iff dest: in_set_takeD)

lemma ascii_sha256_hex: "is_ascii (sha256_hex m)"
proof -
  have "is_hex c \<Longrightarrow> byte_of c < 128" for c by (auto simp: is_hex_def is_digit_def between_def byte_of_def)
  then show ?thesis using sha256_hex_chars [of m] by (auto simp: is_ascii_def list_all_iff)
qed

end
