(* ===== verification/FeedOrder.thy ===== *)
theory FeedOrder
  imports Prelude
begin

section \<open>Feeds that only move forward\<close>

text \<open>
  The contract of a verifier that remembers the newest publication it has accepted from a
  publisher: accepting pins the publication, every step of the component keeps the pins, and
  a pin guards what may be accepted next.  Both the file of sequences of \<^verbatim>\<open>lifecycle.py\<close> and the
  publication tables of \<^verbatim>\<open>paid_lifecycle.py\<close> have it; what follows from it is that a publisher
  can neither roll back nor equivocate, however the calls interleave.
\<close>

locale monotone_feed =
  fixes inv :: "'s \<Rightarrow> bool" and step :: "'s \<Rightarrow> 's \<Rightarrow> bool"
    and accept :: "'k \<Rightarrow> int \<Rightarrow> 'd \<Rightarrow> 's \<Rightarrow> 's \<Rightarrow> bool" and pinned :: "'s \<Rightarrow> 'k \<Rightarrow> int \<Rightarrow> 'd \<Rightarrow> bool"
  assumes inv_step: "inv s \<Longrightarrow> step s t \<Longrightarrow> inv t"
    and accept_step: "accept k n d s t \<Longrightarrow> step s t"
    and accept_pins: "inv s \<Longrightarrow> accept k n d s t \<Longrightarrow> pinned t k n d"
    and pin_kept: "inv s \<Longrightarrow> step s t \<Longrightarrow> pinned s k n d \<Longrightarrow> pinned t k n d"
    and pin_guards: "inv s \<Longrightarrow> pinned s k n d \<Longrightarrow> accept k n' d' s t \<Longrightarrow> n \<le> n' \<and> (n' = n \<longrightarrow> d' = d)"
begin

lemma run_inv: "rtranclp step s t \<Longrightarrow> inv s \<Longrightarrow> inv t"
  by (induction rule: rtranclp_induct) (auto intro: inv_step)

lemma run_pin: "rtranclp step s t \<Longrightarrow> inv s \<Longrightarrow> pinned s k n d \<Longrightarrow> pinned t k n d"
proof (induction rule: rtranclp_induct)
  case (step y z)
  with run_inv [OF step.hyps(1)] show ?case by (auto intro: pin_kept)
qed

lemma forward_from_pin:
  assumes "inv s" "pinned s k n d" "rtranclp step s s'" "accept k n' d' s' t"
  shows "n \<le> n' \<and> (n' = n \<longrightarrow> d' = d)"
  using pin_guards [OF run_inv [OF assms(3,1)] run_pin [OF assms(3,1,2)] assms(4)] .

lemma forward:
  assumes "inv s" "accept k n d s s1" "rtranclp step s1 s2" "accept k n' d' s2 s3"
  shows "n \<le> n' \<and> (n' = n \<longrightarrow> d' = d)"
  using forward_from_pin [OF inv_step [OF assms(1) accept_step [OF assms(2)]] accept_pins [OF assms(1,2)] assms(3,4)] .

end

end
