(* ===== verification/LifecycleLemmas.thy ===== *)
theory LifecycleLemmas
  imports Lifecycle SigningLemmas FeedOrder
begin

section \<open>The sequence state: round trip and order\<close>

text \<open>
  What \<open>record_sequence\<close> writes is read back by \<open>load_sequences\<close>, unless the file has
  outgrown the limits of the reader; the component is a \<open>monotone_feed\<close>.
\<close>

subsection \<open>Writing and reading the file\<close>

lemma escape_small: "(\<forall>c \<in> set s. byte_of c < 127) \<Longrightarrow> ascii_escape s = concat (map escape_char s)"
  by (induction s rule: ascii_escape.induct) auto

lemma b64_text_small: "list_all b64_text s \<Longrightarrow> \<forall>c \<in> set s. byte_of c < 127"
proof
  fix c assume "list_all b64_text s" "c \<in> set s"
  then have "b64_text c" by (auto simp: list_all_iff)
  then show "byte_of c < 127"
    by (auto simp: b64_text_def is_alnum_def is_digit_def is_lower_def is_upper_def between_def)
qed

definition clean_entry :: "string \<times> sequence_record \<Rightarrow> bool" where
  "clean_entry = (\<lambda>(k, n, h). list_all b64_text k \<and> 1 \<le> n \<and> length (show_int n) \<le> 4300
     \<and> (\<exists>d. h = Some d \<and> length d = 64 \<and> list_all is_hex d))"

definition clean_roots :: "(string \<times> sequence_record) list \<Rightarrow> bool" where
  "clean_roots roots \<longleftrightarrow> distinct (map fst roots) \<and> list_all clean_entry roots"

lemma hex_is_b64: "list_all is_hex d \<Longrightarrow> list_all b64_text d"
  by (auto simp: list_all_iff is_hex_def is_digit_def between_def b64_text_def is_alnum_def is_lower_def byte_of_def)

lemma ascii_key: "list_all b64_text k \<Longrightarrow> [chr_of 34] @ ascii_escape k @ [chr_of 34] = dumps_str k"
  by (simp add: escape_small b64_text_small dumps_str_def)

lemma dumps_ascii_obj:
  assumes "\<And>k v. (k, v) \<in> set kvs \<Longrightarrow> list_all b64_text k \<and> dumps_ascii v = dumps v"
  shows "dumps_ascii (JObj kvs) = dumps (JObj kvs)"
proof -
  have eq: "map (\<lambda>(k, v). (k, dumps_ascii v)) kvs = map (\<lambda>(k, v). (k, dumps v)) kvs" using assms by auto
  let ?S = "sort_key fst (map (\<lambda>(k, v). (k, dumps v)) kvs)"
  have "map (\<lambda>(k, t). [chr_of 34] @ ascii_escape k @ [chr_of 34] @ '':'' @ t) ?S = map (\<lambda>(k, t). dumps_str k @ '':'' @ t) ?S"
  proof (rule map_cong [OF refl])
    fix x assume "x \<in> set ?S"
    then obtain k v where "x = (k, dumps v)" "(k, v) \<in> set kvs" by auto
    with assms ascii_key [of k] show "(case x of (k, t) \<Rightarrow> [chr_of 34] @ ascii_escape k @ [chr_of 34] @ '':'' @ t)
        = (case x of (k, t) \<Rightarrow> dumps_str k @ '':'' @ t)"
      by (metis (no_types, lifting) append_assoc case_prod_conv)
  qed
  then show ?thesis by (simp only: dumps_ascii.simps dumps.simps eq)
qed

lemma dumps_ascii_entry: "clean_entry (k, r) \<Longrightarrow> dumps_ascii (entry_json r) = dumps (entry_json r)"
proof -
  assume c: "clean_entry (k, r)"
  have lits: "list_all b64_text ''sequence''" "list_all b64_text ''feed_sha256''" by code_simp+
  from c obtain n d where d: "r = (n, Some d)" "list_all is_hex d" by (cases r) (auto simp: clean_entry_def)
  have "dumps_ascii (JStr d) = dumps (JStr d)" using ascii_key [OF hex_is_b64 [OF d(2)]] by simp
  then show ?thesis unfolding entry_json_def d(1) prod.case option.case
    by (intro dumps_ascii_obj) (use lits in auto)
qed

lemma dumps_ascii_document:
  assumes "clean_roots roots"
  shows "dumps_ascii (sequence_document roots) = dumps (sequence_document roots)"
proof -
  have lits: "list_all b64_text ''schema_version''" "list_all b64_text ''roots''" by code_simp+
  have "dumps_ascii (JObj (map (\<lambda>(k, r). (k, entry_json r)) roots)) = dumps (JObj (map (\<lambda>(k, r). (k, entry_json r)) roots))"
  proof (rule dumps_ascii_obj)
    fix k v assume "(k, v) \<in> set (map (\<lambda>(k, r). (k, entry_json r)) roots)"
    then obtain r where e: "(k, r) \<in> set roots" "v = entry_json r" by auto
    with assms have "clean_entry (k, r)" by (auto simp: clean_roots_def list_all_iff)
    then show "list_all b64_text k \<and> dumps_ascii v = dumps v"
      unfolding e(2) using dumps_ascii_entry by (auto simp: clean_entry_def simp del: dumps.simps)
  qed
  moreover have "dumps_ascii (JInt 2) = dumps (JInt 2)" by simp
  ultimately show ?thesis unfolding sequence_document_def
  proof (intro dumps_ascii_obj)
    fix k v
    assume rs: "dumps_ascii (JObj (map (\<lambda>(k, r). (k, entry_json r)) roots)) = dumps (JObj (map (\<lambda>(k, r). (k, entry_json r)) roots))"
      and two: "dumps_ascii (JInt 2) = dumps (JInt 2)"
    assume "(k, v) \<in> set [(''schema_version'', JInt 2), (''roots'', JObj (map (\<lambda>(k, r). (k, entry_json r)) roots))]"
    then consider "k = ''schema_version''" "v = JInt 2" | "k = ''roots''" "v = JObj (map (\<lambda>(k, r). (k, entry_json r)) roots)"
      by (simp del: dumps.simps dumps_ascii.simps) blast
    then show "list_all b64_text k \<and> dumps_ascii v = dumps v" using lits rs two by cases (simp_all only: simp_thms)
  qed
qed

lemma plain_document:
  assumes "clean_roots roots"
  shows "plain (sequence_document roots)"
proof -
  have entry: "plain (entry_json r)" if "clean_entry (k, r)" for k r
  proof -
    from that obtain n d where r: "r = (n, Some d)" "1 \<le> n" "length (show_int n) \<le> 4300" by (cases r) (auto simp: clean_entry_def)
    then have "show_int n = show_nat (nat \<bar>n\<bar>)" by (simp add: show_int_def)
    with r show ?thesis by (simp add: entry_json_def)
  qed
  have "fst \<circ> (\<lambda>(k :: string, r). (k, entry_json r)) = fst" by auto
  moreover have "length (show_nat 2) \<le> 4300" by code_simp
  ultimately show ?thesis using assms entry
    by (auto simp: sequence_document_def clean_roots_def list_all_iff)
qed

lemma canon_document:
  "canon (sequence_document roots) =
     JObj [(''roots'', JObj (map (\<lambda>(k, r). (k, canon (entry_json r))) (sort_key fst roots))), (''schema_version'', JInt 2)]"
  by (simp add: sequence_document_def canon_obj sort_key_map case_prod_unfold comp_def)

lemma ascii_document:
  assumes "clean_roots roots"
  shows "is_ascii (sequence_bytes roots)"
proof -
  have "ascii_json (entry_json r) \<and> is_ascii k" if "clean_entry (k, r)" for k r
    using that text_ascii [OF hex_is_b64] text_ascii [of k]
    by (cases r) (auto simp: clean_entry_def entry_json_def byte_of_def)
  then have "ascii_json (sequence_document roots)"
    using assms by (auto simp: sequence_document_def clean_roots_def list_all_iff byte_of_def)
  then show ?thesis
    by (simp add: sequence_bytes_def dumps_ascii_document [OF assms] ascii_dumps byte_of_chr_of)
qed

lemma canon_entry: "canon (entry_json (n, h)) = JObj [(''feed_sha256'', case h of None \<Rightarrow> JNull | Some d \<Rightarrow> JStr d), (''sequence'', JInt n)]"
  by (cases h) (simp_all add: entry_json_def)

lemma entry_back:
  assumes "clean_entry (k, r)"
  shows "sequence_entry 2 (canon (entry_json r)) = Inr r"
proof -
  from assms obtain n d where r: "r = (n, Some d)" "1 \<le> n" "length d = 64" "list_all is_hex d"
    by (cases r) (auto simp: clean_entry_def)
  have "py_len d = 64" using ascii_py_len [OF text_ascii [OF hex_is_b64 [OF r(4)]]] r(3) by simp
  with r show ?thesis
    by (simp add: sequence_entry_def canon_entry has_keys_def jget_null_def insert_commute)
qed

lemma entries_back: "list_all clean_entry roots \<Longrightarrow> load_entries 2 (map (\<lambda>(k, r). (k, canon (entry_json r))) roots) = Inr roots"
  by (induction roots) (auto simp: load_entries_def entry_back)

theorem load_written:
  assumes "clean_roots roots"
  shows "load_sequences fl (Some (sequence_bytes roots)) =
    reject_if (length (sequence_bytes roots) > 64000 \<or> length roots > 100) bad_state (Inr (sort_key fst roots))"
proof -
  have "json_loads e (sequence_bytes roots) = Inr (canon (sequence_document roots))" for e
    using json_loads_dumps_line [OF plain_document [OF assms]]
    by (simp add: sequence_bytes_def dumps_ascii_document [OF assms])
  then have parsed: "strict_json c (sequence_bytes roots) = Inr (canon (sequence_document roots))" for c
    using utf8_ok_ascii [OF ascii_document [OF assms]] by (simp add: strict_json_def)
  have "list_all clean_entry (sort_key fst roots)" using assms by (simp add: clean_roots_def list_all_iff)
  note read = entries_back [OF this]
  show ?thesis
    unfolding load_sequences_def option.case parsed and_then_simps canon_document json.case
    using read by (auto simp: jget_null_def has_keys_def reject_if_def insert_commute)
qed

subsection \<open>The state only moves forward\<close>

definition seq_ok :: "string option \<Rightarrow> bool" where
  "seq_ok file \<longleftrightarrow> file = None \<or> (\<exists>roots. clean_roots roots \<and> file = Some (sequence_bytes roots))"

definition seq_step :: "(string \<Rightarrow> string) \<Rightarrow> string option \<Rightarrow> string option \<Rightarrow> bool" where
  "seq_step fl file file' \<longleftrightarrow> (\<exists>jwk n digest. record_sequence fl jwk n digest file = Inr ((), file'))"

definition seq_accept :: "(string \<Rightarrow> string) \<Rightarrow> string \<Rightarrow> int \<Rightarrow> string \<Rightarrow> string option \<Rightarrow> string option \<Rightarrow> bool" where
  "seq_accept fl keyid n digest file file' \<longleftrightarrow>
     (\<exists>jwk. jwk_thumbprint jwk = Inr keyid \<and> record_sequence fl jwk n digest file = Inr ((), file'))"

definition seq_pinned :: "string option \<Rightarrow> string \<Rightarrow> int \<Rightarrow> string \<Rightarrow> bool" where
  "seq_pinned file keyid n digest \<longleftrightarrow> (\<exists>roots m h. clean_roots roots \<and> file = Some (sequence_bytes roots)
     \<and> map_of roots keyid = Some (m, Some h) \<and> n \<le> m \<and> (m = n \<longrightarrow> h = digest))"

lemma dict_set_map_of: "map_of (dict_set k v d) = (map_of d)(k \<mapsto> v)"
proof -
  have "map_of (map (\<lambda>(k', v'). (k', if k' = k then v else v')) d) x = (if x = k \<and> k \<in> fst ` set d then Some v else map_of d x)" for x
  proof (induction d)
    case (Cons a d)
    obtain k' v' where "a = (k', v')" by (cases a)
    then show ?case using Cons by (cases "x = k"; cases "k' = k") simp_all
  qed simp
  note update = this
  show ?thesis
  proof (cases "k \<in> fst ` set d")
    case True
    then show ?thesis by (simp add: dict_set_def fun_eq_iff update)
  next
    case False
    then have "map_of d k = None" by (simp add: map_of_eq_None_iff)
    with False show ?thesis by (simp add: dict_set_def fun_eq_iff map_add_def split: option.split)
  qed
qed

lemma dict_set_keys: "fst ` set (dict_set k v d) = insert k (fst ` set d)"
  by (force simp: dict_set_def)

lemma dict_set_distinct: "distinct (map fst d) \<Longrightarrow> distinct (map fst (dict_set k v d))"
proof -
  have "fst \<circ> (\<lambda>(k', v'). (k', if k' = k then v else v')) = fst" by auto
  then have "map fst (map (\<lambda>(k', v'). (k', if k' = k then v else v')) d) = map fst d" by (simp only: map_map)
  moreover have "k \<notin> fst ` set d \<Longrightarrow> distinct (map fst d) \<Longrightarrow> distinct (map fst (d @ [(k, v)]))" by simp
  ultimately show "distinct (map fst d) \<Longrightarrow> ?thesis" by (simp only: dict_set_def split: if_split) metis
qed

lemma dict_set_clean:
  assumes "clean_roots roots" "clean_entry (k, e)"
  shows "clean_roots (dict_set k e roots)"
proof -
  have "clean_entry x" if x: "x \<in> set (dict_set k e roots)" for x
  proof -
    from x have "x = (k, e) \<or> x \<in> set roots" by (auto simp: dict_set_def split: if_splits)
    with assms show ?thesis by (auto simp: clean_roots_def list_all_iff)
  qed
  with assms dict_set_distinct [of roots] show ?thesis by (auto simp: clean_roots_def list_all_iff)
qed

lemma map_of_sorted: "distinct (map fst xs) \<Longrightarrow> map_of (sort_key fst xs) = map_of xs"
proof (rule map_of_inject_set [THEN iffD2])
  assume d: "distinct (map fst xs)"
  show "distinct (map fst (sort_key fst xs))" using d
    by (metis distinct_map distinct_sort set_sort)
qed simp_all

lemma clean_sorted: "clean_roots roots \<Longrightarrow> clean_roots (sort_key fst roots)"
  by (auto simp: clean_roots_def list_all_iff distinct_map)

text \<open>What a successful load of such a file means.\<close>

lemma seq_load:
  assumes "seq_ok file" "load_sequences fl file = Inr roots"
  shows "clean_roots roots" "\<exists>stored. (file = None \<and> stored = [] \<or> clean_roots stored \<and> file = Some (sequence_bytes stored))
     \<and> map_of roots = map_of stored"
proof -
  consider "file = None" | stored where "clean_roots stored" "file = Some (sequence_bytes stored)"
    using assms(1) by (auto simp: seq_ok_def)
  then show "clean_roots roots" "\<exists>stored. (file = None \<and> stored = [] \<or> clean_roots stored \<and> file = Some (sequence_bytes stored))
     \<and> map_of roots = map_of stored"
  proof (atomize (full), cases)
    case 1
    with assms(2) show "clean_roots roots \<and> (\<exists>stored. (file = None \<and> stored = [] \<or> clean_roots stored \<and> file = Some (sequence_bytes stored))
     \<and> map_of roots = map_of stored)" by (auto simp: load_sequences_def clean_roots_def)
  next
    case (2 stored)
    then have "roots = sort_key fst stored" using assms(2) by (simp add: load_written reject_if_Inr)
    with 2 show "clean_roots roots \<and> (\<exists>stored. (file = None \<and> stored = [] \<or> clean_roots stored \<and> file = Some (sequence_bytes stored))
     \<and> map_of roots = map_of stored)"
      using clean_sorted map_of_sorted by (metis clean_roots_def)
  qed
qed

lemma record_inv:
  assumes "seq_ok file" "record_sequence fl jwk n digest file = Inr ((), file')" "jwk_thumbprint jwk = Inr keyid"
  obtains roots where "load_sequences fl file = Inr roots" "clean_entry (keyid, n, Some digest)"
      "map_of roots keyid = None \<or> (\<exists>m h. map_of roots keyid = Some (m, Some h) \<and> m \<le> n \<and> (m = n \<longrightarrow> h = digest))"
      "file' = Some (sequence_bytes (dict_set keyid (n, Some digest) roots)) \<or> map_of roots keyid = Some (n, Some digest) \<and> file' = file"
    | roots where "load_sequences fl file = Inr roots" "map_of roots keyid = Some (n, Some digest)" "file' = file"
proof -
  note run = assms(2) [unfolded record_sequence_def reject_if_Inr and_then_Inr]
  then obtain roots where roots: "load_sequences fl file = Inr roots" by blast
  note clean = seq_load(1) [OF assms(1) roots]
  have key: "list_all b64_text keyid" using assms(3) by (auto elim!: thumbprint_of_key simp: raw_thumbprint_text)
  have some: "\<exists>d. h = Some d" if "map_of roots keyid = Some (m, h)" for m h
    using that clean by (auto simp: clean_roots_def list_all_iff clean_entry_def dest: map_of_SomeD)
  show ?thesis
  proof (cases "map_of roots keyid = Some (n, Some digest) \<and> file' = file")
    case True
    with that(2) roots show ?thesis by blast
  next
    case False
    with run roots assms(3) key some that(1) show ?thesis
      by (fastforce simp: clean_entry_def Let_def reject_if_Inr split: option.splits if_splits)
  qed
qed

lemma seq_keep: "seq_ok file \<Longrightarrow> seq_step fl file file' \<Longrightarrow> seq_ok file'"
proof -
  assume ok: "seq_ok file" and "seq_step fl file file'"
  then obtain jwk n digest where run: "record_sequence fl jwk n digest file = Inr ((), file')" by (auto simp: seq_step_def)
  then obtain keyid where keyid: "jwk_thumbprint jwk = Inr keyid" by (auto simp: record_sequence_def txn_simps)
  from record_inv [OF ok run keyid] show "seq_ok file'"
  proof cases
    case (1 roots)
    have "clean_roots (dict_set keyid (n, Some digest) roots)"
      by (rule dict_set_clean [OF seq_load(1) [OF ok 1(1)] 1(2)])
    with 1(4) ok show ?thesis by (auto simp: seq_ok_def)
  qed (use ok in simp)
qed

lemma seq_accept_step: "seq_accept fl keyid n digest file file' \<Longrightarrow> seq_step fl file file'"
  by (auto simp: seq_accept_def seq_step_def)

lemma pinned_by_root:
  assumes "seq_ok file" "load_sequences fl file = Inr roots" "map_of roots keyid = Some (m, Some h)" "n \<le> m" "m = n \<longrightarrow> h = digest"
  shows "seq_pinned file keyid n digest"
proof -
  from seq_load(2) [OF assms(1,2)] obtain stored where
    "file = None \<and> stored = [] \<or> clean_roots stored \<and> file = Some (sequence_bytes stored)" "map_of roots = map_of stored"
    by blast
  with assms(3-5) show ?thesis by (auto simp: seq_pinned_def)
qed

lemma seq_accept_pins:
  assumes ok: "seq_ok file" and acc: "seq_accept fl keyid n digest file file'"
  shows "seq_pinned file' keyid n digest"
proof -
  from acc obtain jwk where run: "jwk_thumbprint jwk = Inr keyid" "record_sequence fl jwk n digest file = Inr ((), file')"
    by (auto simp: seq_accept_def)
  from record_inv [OF ok run(2,1)] show ?thesis
  proof cases
    case (1 roots)
    have "clean_roots (dict_set keyid (n, Some digest) roots)"
      by (rule dict_set_clean [OF seq_load(1) [OF ok 1(1)] 1(2)])
    with 1(4) show ?thesis
      using pinned_by_root [OF ok 1(1), of keyid n digest n digest] by (auto simp: seq_pinned_def dict_set_map_of)
  next
    case (2 roots)
    then show ?thesis using pinned_by_root [OF ok 2(1,2)] by simp
  qed
qed

lemma pinned_load:
  assumes "seq_pinned file keyid n digest" "load_sequences fl file = Inr roots"
  obtains m h where "map_of roots keyid = Some (m, Some h)" "n \<le> m" "m = n \<longrightarrow> h = digest"
proof -
  from assms(1) obtain stored m h where st: "clean_roots stored" "file = Some (sequence_bytes stored)"
     "map_of stored keyid = Some (m, Some h)" "n \<le> m" "m = n \<longrightarrow> h = digest" by (auto simp: seq_pinned_def)
  have "roots = sort_key fst stored" using assms(2) st(1,2) by (simp add: load_written reject_if_Inr)
  then have "map_of roots = map_of stored" using st(1) by (simp add: clean_roots_def map_of_sorted)
  with st that show ?thesis by simp
qed

lemma seq_pin_kept:
  assumes ok: "seq_ok file" and "seq_step fl file file'" and pin: "seq_pinned file keyid n digest"
  shows "seq_pinned file' keyid n digest"
proof -
  from assms(2) obtain jwk n' digest' where run: "record_sequence fl jwk n' digest' file = Inr ((), file')" by (auto simp: seq_step_def)
  then obtain keyid' where keyid': "jwk_thumbprint jwk = Inr keyid'" by (auto simp: record_sequence_def txn_simps)
  from record_inv [OF ok run keyid'] show ?thesis
  proof cases
    case (1 roots)
    obtain m h where mh: "map_of roots keyid = Some (m, Some h)" "n \<le> m" "m = n \<longrightarrow> h = digest"
      using pinned_load [OF pin 1(1)] by blast
    have "clean_roots (dict_set keyid' (n', Some digest') roots)"
      by (rule dict_set_clean [OF seq_load(1) [OF ok 1(1)] 1(2)])
    with 1(3,4) mh pin show ?thesis by (fastforce simp: seq_pinned_def dict_set_map_of)
  qed (use pin in simp)
qed

lemma seq_pin_guards:
  assumes ok: "seq_ok file" and pin: "seq_pinned file keyid n digest" and acc: "seq_accept fl keyid n' digest' file file'"
  shows "n \<le> n' \<and> (n' = n \<longrightarrow> digest' = digest)"
proof -
  from acc obtain jwk where run: "jwk_thumbprint jwk = Inr keyid" "record_sequence fl jwk n' digest' file = Inr ((), file')"
    by (auto simp: seq_accept_def)
  from record_inv [OF ok run(2,1)] show ?thesis
  proof cases
    case (1 roots)
    then show ?thesis using pinned_load [OF pin 1(1)] by fastforce
  next
    case (2 roots)
    then show ?thesis using pinned_load [OF pin 2(1)] by fastforce
  qed
qed

interpretation last_seen: monotone_feed seq_ok "seq_step fl" "seq_accept fl" seq_pinned
  by unfold_locales (blast intro: seq_keep seq_accept_step seq_accept_pins seq_pin_kept dest: seq_pin_guards)+

end
