(* ===== verification/SigningClaims.thy ===== *)
theory SigningClaims
  imports SigningLemmas
begin

section \<open>Properties of signatures and receipts\<close>

text \<open>
  Strict base64, the signed bytes, what a verified envelope guarantees, and that what is
  signed verifies.  The witnesses use \<open>demo_ed\<close>, a signature scheme on strings that satisfies
  the law of a signature scheme.
\<close>

definition demo_ed :: ed25519 where
  "demo_ed = \<lparr>ed_public = (\<lambda>sk. take 32 (sk @ replicate 32 CHR ''k'')),
     ed_sign = (\<lambda>sk m. sha256 (take 32 (sk @ replicate 32 CHR ''k'') @ m) @ sha256 m),
     ed_verify = (\<lambda>pk m sig. sig = sha256 (pk @ m) @ sha256 m)\<rparr>"

lemma demo_ed_correct: "ed25519_correct demo_ed sk"
  by (simp add: ed25519_correct_def demo_ed_def)

subsection \<open>Signing and verifying\<close>

text \<open>The envelope \<open>sign_dsse_payload\<close> makes.\<close>

abbreviation packed :: "string \<Rightarrow> string \<Rightarrow> string \<Rightarrow> string \<Rightarrow> json" where
  "packed pt payload keyid signature \<equiv>
     JObj [(''payloadType'', JStr pt), (''payload'', JStr (b64_encode False payload)),
       (''signatures'', JArr [JObj [(''keyid'', JStr keyid), (''sig'', JStr (b64_encode False signature))]])]"

lemma signed_envelope:
  assumes "ed25519_correct ed sk"
  shows "sign_dsse_payload ed pt payload sk n = Inr env
    \<longleftrightarrow> payload \<noteq> [] \<and> length payload \<le> n \<and> (\<exists>pae. dsse_pae pt payload = Inr pae
        \<and> env = packed pt payload (raw_thumbprint (ed_public ed sk)) (ed_sign ed sk pae))"
proof -
  have "length (ed_public ed sk) = 32" using assms by (simp add: ed25519_correct_def)
  then show ?thesis by (auto simp: sign_dsse_payload_def txn_simps Let_def thumbprint_public)
qed

lemma verify_signed:
  assumes env: "strict_json ''invalid_envelope'' bytes = Inr (JObj kvs)"
    and size: "bytes \<noteq> []" "length bytes \<le> MAX_ENVELOPE_BYTES"
    and fields: "has_keys [''payloadType'', ''payload'', ''signatures''] kvs"
      "jget kvs ''payloadType'' = Some (JStr pt)" "jget kvs ''payload'' = Some (JStr (b64_encode False payload))"
      "jget kvs ''signatures'' = Some (JArr [JObj [(''keyid'', JStr (raw_thumbprint raw)), (''sig'', JStr (b64_encode False sig))]])"
    and payload: "payload \<noteq> []" "length payload \<le> n" and sig: "length sig = 64" and raw: "length raw = 32"
    and pae: "dsse_pae pt payload = Inr pae" "ed_verify ed raw pae sig"
  shows "verify_dsse_envelope ed bytes pt (public_jwk raw) n = Inr payload"
proof -
  have p: "b64_std_decode (jget_null kvs ''payload'') n = Inr payload"
    using fields(3) payload by (simp add: b64_std_decode_iff jget_null_def jget_def)
  have s: "b64_std_decode (JStr (b64_encode False sig)) 128 = Inr sig"
    using sig by (auto simp: b64_std_decode_iff)
  have k: "has_keys [''keyid'', ''sig''] [(''keyid'', a), (''sig'', b)]" for a b by (simp add: has_keys_def)
  have g: "jget [(''keyid'', a), (''sig'', b)] ''keyid'' = Some a" "jget_null [(''keyid'', a), (''sig'', b)] ''sig'' = b" for a b
    by (simp_all add: jget_def jget_null_def)
  show ?thesis
    unfolding verify_dsse_envelope_def env
    using size fields p s sig pae by (simp add: k g thumbprint_public [OF raw] key_of_public [OF raw])
qed

lemma dumps_envelope:
  "dumps (JObj [(''payloadType'', JStr pt), (''payload'', JStr p), (''signatures'', JArr [JObj [(''keyid'', JStr k), (''sig'', JStr s)]])])
     = ''{'' @ dumps_str ''payload'' @ '':'' @ dumps_str p @ '','' @ dumps_str ''payloadType'' @ '':'' @ dumps_str pt @ '',''
       @ dumps_str ''signatures'' @ '':[{'' @ dumps_str ''keyid'' @ '':'' @ dumps_str k @ '','' @ dumps_str ''sig'' @ '':''
       @ dumps_str s @ ''}]}''"
  by simp

lemma canon_envelope:
  "canon (JObj [(''payloadType'', JStr pt), (''payload'', JStr p), (''signatures'', JArr [JObj [(''keyid'', JStr k), (''sig'', JStr s)]])])
     = JObj [(''payload'', JStr p), (''payloadType'', JStr pt), (''signatures'', JArr [JObj [(''keyid'', JStr k), (''sig'', JStr s)]])]"
  by simp

lemma envelope_bytes_ok:
  fixes pt p k s :: string
  defines "bytes \<equiv> dumps (JObj [(''payloadType'', JStr pt), (''payload'', JStr p),
      (''signatures'', JArr [JObj [(''keyid'', JStr k), (''sig'', JStr s)]])])"
  assumes "is_ascii pt" "list_all b64_text p" "list_all b64_text k" "list_all b64_text s"
  shows "utf8_ok bytes" "bytes \<noteq> []" "length bytes \<le> 200 + 6 * length pt + length p + length k + length s"
proof -
  let ?lits = "[''payload'', ''payloadType'', ''signatures'', ''keyid'', ''sig'', ''{'', '':'', '','', '':[{'', ''}]}'']"
  have lits: "\<forall>w \<in> set ?lits. is_ascii w \<and> is_ascii (dumps_str w)" by code_simp
  have "is_ascii (dumps_str pt)" "is_ascii (dumps_str p)" "is_ascii (dumps_str k)" "is_ascii (dumps_str s)"
    by (intro ascii_dumps_str text_ascii assms)+
  then have "is_ascii bytes" unfolding bytes_def dumps_envelope ascii_append using lits by simp
  then show "utf8_ok bytes" by (rule utf8_ok_ascii)
  show "bytes \<noteq> []" unfolding bytes_def dumps_envelope by simp
  have lens: "length (dumps_str ''payload'') = 9" "length (dumps_str ''payloadType'') = 13"
    "length (dumps_str ''signatures'') = 12" "length (dumps_str ''keyid'') = 7" "length (dumps_str ''sig'') = 5"
    by code_simp+
  have "length (dumps_str pt) \<le> 6 * length pt + 2" using length_escape [of pt] by (simp add: dumps_str_def)
  then show "length bytes \<le> 200 + 6 * length pt + length p + length k + length s"
    unfolding bytes_def dumps_envelope using assms by (simp add: lens dumps_text)
qed

lemma packed_verifies:
  fixes ed sk pt payload pae
  defines "env \<equiv> packed pt payload (raw_thumbprint (ed_public ed sk)) (ed_sign ed sk pae)"
  assumes ed: "ed25519_correct ed sk" and pae: "dsse_pae pt payload = Inr pae"
    and payload: "payload \<noteq> []" "length payload \<le> n" and bounds: "n \<le> MAX_RECEIPT_BYTES" "length pt \<le> 1000"
  shows "strict_json code (dumps env) = Inr (canon env)"
    "verify_dsse_envelope ed (dumps env) pt (public_jwk (ed_public ed sk)) n = Inr payload"
proof -
  have ascii: "is_ascii pt" using pae by (auto simp: dsse_pae_def txn_simps)
  note ok = envelope_bytes_ok [OF ascii b64_encode_text [of False payload]
      raw_thumbprint_text [of "ed_public ed sk"] b64_encode_text [of False "ed_sign ed sk pae"], folded env_def]
  have "plain env" by (simp add: env_def)
  with ok(1) have parsed: "strict_json c (dumps env) = Inr (canon env)" for c
    by (simp add: strict_json_def json_loads_dumps)
  then show "strict_json code (dumps env) = Inr (canon env)" .
  have law: "length (ed_public ed sk) = 32" "length (ed_sign ed sk pae) = 64"
    "ed_verify ed (ed_public ed sk) pae (ed_sign ed sk pae)"
    using ed by (auto simp: ed25519_correct_def)
  have "length (dumps env) \<le> MAX_ENVELOPE_BYTES"
    using ok(3) bounds payload law by (simp add: length_b64_encode MAX_ENVELOPE_BYTES_def MAX_RECEIPT_BYTES_def)
  moreover have "canon env = JObj [(''payload'', JStr (b64_encode False payload)), (''payloadType'', JStr pt),
     (''signatures'', JArr [JObj [(''keyid'', JStr (raw_thumbprint (ed_public ed sk))),
        (''sig'', JStr (b64_encode False (ed_sign ed sk pae)))]])]"
    by (simp only: env_def canon_envelope)
  ultimately show "verify_dsse_envelope ed (dumps env) pt (public_jwk (ed_public ed sk)) n = Inr payload"
    using verify_signed [OF parsed [unfolded \<open>canon env = _\<close>] ok(2), where pt = pt and payload = payload
      and raw = "ed_public ed sk" and sig = "ed_sign ed sk pae" and n = n and ed = ed and pae = pae]
      pae payload law by (simp add: has_keys_def jget_def insert_commute)
qed

text \<open>
  C24. What is signed verifies: the envelope of \<open>sign_dsse_payload\<close>, written as JSON and
  checked against the signer's public key with the same type and size limit, gives back the
  exact payload, provided the signature scheme is correct for the key.
\<close>

theorem signed_payload_verifies:
  assumes signed: "sign_dsse_payload ed pt payload sk n = Inr env" and ed: "ed25519_correct ed sk"
    and bounds: "n \<le> MAX_RECEIPT_BYTES" "length pt \<le> 1000"
  shows "verify_dsse_envelope ed (dumps env) pt (public_jwk (ed_public ed sk)) n = Inr payload"
  using signed packed_verifies(2) [OF ed _ _ _ bounds] by (auto simp: signed_envelope [OF ed] simp del: dumps.simps)

lemma demo_pae: "dsse_pae ''t'' ''{}'' = Inr (''DSSEv1 '' @ show_nat (length ''t'') @ '' t '' @ show_nat (length ''{}'') @ '' {}'')"
  by (simp add: dsse_pae_def is_ascii_def byte_of_def)

theorem signed_payload_verifies_witness:
  "\<exists>env. verify_dsse_envelope demo_ed (dumps env) ''t'' (public_jwk (ed_public demo_ed ''s'')) 10 = Inr ''{}''"
proof -
  obtain env where "sign_dsse_payload demo_ed ''t'' ''{}'' ''s'' 10 = Inr env"
    by (auto simp: signed_envelope [OF demo_ed_correct] demo_pae)
  from signed_payload_verifies [OF this demo_ed_correct] show ?thesis by (auto simp: MAX_RECEIPT_BYTES_def)
qed

subsection \<open>What a verified envelope guarantees\<close>

lemma verify_dsse_inv:
  assumes "verify_dsse_envelope ed bytes pt jwk n = Inr payload"
  obtains raw sig pae where "public_key_from_jwk jwk = Inr raw" "length raw = 32" "length sig = 64"
    "dsse_pae pt payload = Inr pae" "ed_verify ed raw pae sig" "payload \<noteq> []" "length payload \<le> n"
proof -
  note run = assms [unfolded verify_dsse_envelope_def reject_if_Inr and_then_Inr]
  from run obtain env where env: "strict_json ''invalid_envelope'' bytes = Inr env" by blast
  obtain kvs where kvs: "env = JObj kvs" using run env by (cases env) auto
  obtain sg where "jget kvs ''signatures'' = Some (JArr [JObj sg])"
    using run env kvs by (auto simp: reject_if_Inr split: option.splits json.splits list.splits)
  with run env kvs obtain keyid sig raw pae where
    "jwk_thumbprint jwk = Inr keyid" "b64_std_decode (jget_null kvs ''payload'') n = Inr payload"
    "length sig = 64" "public_key_from_jwk jwk = Inr raw" "dsse_pae pt payload = Inr pae" "ed_verify ed raw pae sig"
    by (auto simp: txn_simps)
  moreover from this(1,4) have "length raw = 32" by (auto elim!: thumbprint_of_key)
  moreover from calculation(2) have "payload \<noteq> []" "length payload \<le> n" by (auto simp: b64_std_decode_iff)
  ultimately show ?thesis using that by blast
qed

text \<open>
  C23. A payload is returned only if it was signed: the trusted key is a well-formed Ed25519
  key, its 64-byte signature holds over the pre-authentication encoding of the expected type
  and this payload, the payload is within its limit, and those signed bytes encode no other
  type or payload.
\<close>

theorem verified_payload_was_signed:
  assumes "verify_dsse_envelope ed bytes pt jwk n = Inr payload"
  shows "\<exists>raw sig pae. public_key_from_jwk jwk = Inr raw \<and> length raw = 32 \<and> length sig = 64
     \<and> dsse_pae pt payload = Inr pae \<and> ed_verify ed raw pae sig \<and> 0 < length payload \<and> length payload \<le> n
     \<and> \<not> (\<exists>t p. dsse_pae t p = Inr pae \<and> (t, p) \<noteq> (pt, payload))"
proof -
  from assms obtain raw sig pae where ok: "public_key_from_jwk jwk = Inr raw" "length raw = 32" "length sig = 64"
    "dsse_pae pt payload = Inr pae" "ed_verify ed raw pae sig" "payload \<noteq> []" "length payload \<le> n"
    by (rule verify_dsse_inv)
  have "\<not> (\<exists>t p. dsse_pae t p = Inr pae \<and> (t, p) \<noteq> (pt, payload))"
    using dsse_pae_inj [OF ok(4)] by blast
  with ok show ?thesis by blast
qed

theorem verified_payload_was_signed_witness:
  "\<exists>raw sig pae. public_key_from_jwk (public_jwk (ed_public demo_ed ''s'')) = Inr raw \<and> length sig = 64
     \<and> dsse_pae ''t'' ''{}'' = Inr pae \<and> ed_verify demo_ed raw pae sig"
proof -
  note packed_verifies(2) [OF demo_ed_correct demo_pae, of 10 "''s''"]
  then obtain env where "verify_dsse_envelope demo_ed env ''t'' (public_jwk (ed_public demo_ed ''s'')) 10 = Inr ''{}''"
    by (auto simp: MAX_RECEIPT_BYTES_def)
  from verified_payload_was_signed [OF this] show ?thesis by blast
qed

text \<open>
  The key fields of a JWK are in one form only: the strict decoder accepts a JSON value
  exactly when it is the unpadded base64url text of the bytes it returns, which are not empty
  and have the expected length.
\<close>

theorem key_fields_canonical:
  "b64url_decode v expected = Inr d
     \<longleftrightarrow> v = JStr (b64url_no_pad d) \<and> d \<noteq> [] \<and> expected \<in> {None, Some (length d)}"
proof (cases expected)
  case None
  show ?thesis
  proof (cases v)
    case (JStr s)
    then show ?thesis using None b64url_decode_iff [of s d] by auto
  qed (auto simp: None b64url_decode_def)
qed (use b64url_decode_sized [of v _ d] in auto)

subsection \<open>Receipts\<close>

lemma receipt_type: "dsse_pae RECEIPT_PAYLOAD_TYPE p = Inr (''DSSEv1 '' @ show_nat (length RECEIPT_PAYLOAD_TYPE) @ '' ''
    @ RECEIPT_PAYLOAD_TYPE @ '' '' @ show_nat (length p) @ '' '' @ p)" "length RECEIPT_PAYLOAD_TYPE \<le> 1000"
proof -
  have "is_ascii RECEIPT_PAYLOAD_TYPE" "RECEIPT_PAYLOAD_TYPE \<noteq> []" by code_simp+
  then show "dsse_pae RECEIPT_PAYLOAD_TYPE p = Inr (''DSSEv1 '' @ show_nat (length RECEIPT_PAYLOAD_TYPE) @ '' ''
    @ RECEIPT_PAYLOAD_TYPE @ '' '' @ show_nat (length p) @ '' '' @ p)" by (simp add: dsse_pae_def)
  show "length RECEIPT_PAYLOAD_TYPE \<le> 1000" by code_simp
qed

lemma integrity_inv:
  assumes "verify_receipt_integrity fl r = Inr True"
  obtains bytes where "deterministic_json fl (JObj (without_keys [''integrity'', ''receipt_id''] r)) = Inr bytes"
    "jget r ''receipt_id'' = Some (JStr (''cpr_'' @ take 24 (sha256_hex bytes)))"
proof -
  note run = assms [unfolded verify_receipt_integrity_def Let_def]
  then obtain i rid where get: "jget r ''integrity'' = Some (JObj i)" "jget r ''receipt_id'' = Some (JStr rid)"
    by (auto split: option.splits json.splits)
  with run that show ?thesis by (auto simp: and_then_Inr split: if_splits)
qed

lemma verify_receipt_inv:
  assumes "verify_receipt_envelope ed fl schema_ok bytes jwk = Inr (kvs, payload)"
  shows "verify_dsse_envelope ed bytes RECEIPT_PAYLOAD_TYPE jwk MAX_RECEIPT_BYTES = Inr payload"
    "strict_json ''invalid_receipt'' payload = Inr (JObj kvs)" "verify_receipt_integrity fl kvs = Inr True"
    "schema_ok (JObj kvs)"
  using assms by (auto simp: verify_receipt_envelope_def txn_simps)

text \<open>
  C25. A verified receipt is authentic, intact and valid: the payload carries a valid
  signature of the trusted key, the receipt is what those bytes say, with no repeated key,
  its identifier is derived from the SHA-256 digest of its own content, and it satisfies the
  packaged schema.
\<close>

theorem verified_receipt_is_intact:
  assumes "verify_receipt_envelope ed fl schema_ok bytes jwk = Inr (receipt, payload)"
  shows "(\<exists>raw sig pae. public_key_from_jwk jwk = Inr raw \<and> dsse_pae RECEIPT_PAYLOAD_TYPE payload = Inr pae \<and> ed_verify ed raw pae sig)
     \<and> strict_json ''invalid_receipt'' payload = Inr (JObj receipt) \<and> distinct (map fst receipt) \<and> schema_ok (JObj receipt)
     \<and> (\<exists>content. deterministic_json fl (JObj (without_keys [''integrity'', ''receipt_id''] receipt)) = Inr content
          \<and> jget receipt ''receipt_id'' = Some (JStr (''cpr_'' @ take 24 (sha256_hex content))))"
proof -
  note ok = verify_receipt_inv [OF assms]
  from ok(2) have "keys_distinct (JObj receipt)"
    by (auto simp: strict_json_def dest: json_loads_distinct split: if_splits sum.splits)
  then show ?thesis using ok by (auto elim!: verify_dsse_inv integrity_inv)
qed

text \<open>A sealed receipt, signed by the demo signer.\<close>

definition demo_core :: "(string \<times> json) list" where
  "demo_core = [(''artifact'', JObj [(''digest'', jstr_obj [(''sha256'', ''d'')])]), (''integrity_assurance'', JStr INTEGRITY_ASSURANCE),
     (''provenance'', jstr_obj [(''source_commit'', ''c'')]), (''validity'', jstr_obj [(''expires_at'', ''2027-01-01T00:00:00Z'')])]"

definition demo_digest :: string where "demo_digest = sha256_hex (dumps (JObj demo_core))"

definition demo_id :: string where "demo_id = ''cpr_'' @ take 24 demo_digest"

definition demo_receipt :: "(string \<times> json) list" where
  "demo_receipt = [(''artifact'', JObj [(''digest'', jstr_obj [(''sha256'', ''d'')])]), (''integrity'', canon (receipt_integrity demo_digest)),
     (''integrity_assurance'', JStr INTEGRITY_ASSURANCE), (''provenance'', jstr_obj [(''source_commit'', ''c'')]),
     (''receipt_id'', JStr demo_id), (''validity'', jstr_obj [(''expires_at'', ''2027-01-01T00:00:00Z'')])]"

lemma demo_receipt_plain: "plain (JObj demo_receipt)" "canon (JObj demo_receipt) = JObj demo_receipt"
  by (simp_all add: demo_receipt_def jstr_obj_def receipt_integrity_def)

lemma demo_receipt_bytes:
  "is_ascii (dumps (JObj demo_receipt))" "length (dumps (JObj demo_receipt)) \<le> 9000"
proof -
  have lits: "is_ascii demo_id" "is_ascii demo_digest"
    unfolding demo_id_def demo_digest_def using ascii_take [OF ascii_sha256_hex] by (simp_all add: ascii_sha256_hex byte_of_def)
  have "ascii_json (canon (receipt_integrity demo_digest))"
    unfolding receipt_integrity_def INTEGRITY_PROFILE_def DETERMINISTIC_JSON_PROFILE_def using lits
    by (simp add: byte_of_def)
  moreover have "ascii_json (JObj demo_core)"
    "\<forall>k \<in> set [''artifact'', ''integrity'', ''integrity_assurance'', ''receipt_id'', ''provenance'', ''validity'']. is_ascii k"
    by code_simp+
  ultimately show "is_ascii (dumps (JObj demo_receipt))"
    using lits by (intro ascii_dumps) (simp add: demo_receipt_def demo_core_def)
  have "length demo_digest = 64" by (simp add: demo_digest_def)
  moreover from this have "length demo_id = 28" by (simp add: demo_id_def)
  ultimately have "json_size (JObj demo_receipt) \<le> 9000"
    by (simp add: demo_receipt_def receipt_integrity_def INTEGRITY_PROFILE_def DETERMINISTIC_JSON_PROFILE_def
        INTEGRITY_ASSURANCE_def jstr_obj_def)
  then show "length (dumps (JObj demo_receipt)) \<le> 9000" using dumps_size [of "JObj demo_receipt"] by linarith
qed

lemma demo_receipt_integrity: "verify_receipt_integrity id demo_receipt = Inr True"
proof -
  have cand: "without_keys [''integrity'', ''receipt_id''] demo_receipt = demo_core"
    by (simp add: without_keys_def demo_receipt_def demo_core_def)
  have "with_floats id (JObj demo_core) = JObj demo_core" "\<not> non_finite (JObj demo_core)" "utf8_ok (dumps (JObj demo_core))"
    by code_simp+
  then have det: "deterministic_json id (JObj demo_core) = Inr (dumps (JObj demo_core))"
    by (simp add: deterministic_json_def del: dumps.simps)
  show ?thesis
    unfolding verify_receipt_integrity_def Let_def cand
    by (simp add: det demo_receipt_def jget_def receipt_integrity_def integrity_fields_ok_def demo_core_def [symmetric] demo_id_def demo_digest_def
        del: dumps.simps) (simp add: demo_core_def)
qed

lemma signed_receipt_verifies:
  assumes "sign_receipt_bytes ed fl bytes sk = Inr env" "ed25519_correct ed sk"
    and "strict_json ''invalid_receipt'' bytes = Inr (JObj kvs)" "schema_ok (JObj kvs)"
  shows "verify_receipt_envelope ed fl schema_ok (dumps env) (public_jwk (ed_public ed sk)) = Inr (kvs, bytes)"
proof -
  from assms(1,3) have ok: "verify_receipt_integrity fl kvs = Inr True"
    "sign_dsse_payload ed RECEIPT_PAYLOAD_TYPE bytes sk MAX_RECEIPT_BYTES = Inr env"
    by (auto simp: sign_receipt_bytes_def txn_simps)
  from ok(2) have "verify_dsse_envelope ed (dumps env) RECEIPT_PAYLOAD_TYPE (public_jwk (ed_public ed sk)) MAX_RECEIPT_BYTES = Inr bytes"
    using packed_verifies(2) [OF assms(2) _ _ _ order_refl receipt_type(2)]
    by (auto simp: signed_envelope [OF assms(2)] simp del: dumps.simps)
  with ok(1) assms(3,4) show ?thesis by (simp add: verify_receipt_envelope_def)
qed

lemma demo_receipt_parsed: "strict_json code (dumps (JObj demo_receipt)) = Inr (JObj demo_receipt)"
  using demo_receipt_plain json_loads_dumps [OF demo_receipt_plain(1)] utf8_ok_ascii [OF demo_receipt_bytes(1)]
  by (simp add: strict_json_def del: dumps.simps canon.simps plain.simps)

lemma demo_receipt_signed:
  obtains env where "sign_receipt_bytes demo_ed id (dumps (JObj demo_receipt)) sk = Inr env"
    "env = packed RECEIPT_PAYLOAD_TYPE (dumps (JObj demo_receipt)) (raw_thumbprint (ed_public demo_ed sk))
       (ed_sign demo_ed sk (projr (dsse_pae RECEIPT_PAYLOAD_TYPE (dumps (JObj demo_receipt)))))"
proof -
  have ne: "dumps (JObj demo_receipt) \<noteq> []" by simp
  have len: "length (dumps (JObj demo_receipt)) \<le> MAX_RECEIPT_BYTES"
    using demo_receipt_bytes(2) by (simp add: MAX_RECEIPT_BYTES_def del: dumps.simps)
  show ?thesis using ne len that
    by (simp add: sign_receipt_bytes_def demo_receipt_parsed demo_receipt_integrity signed_envelope [OF demo_ed_correct]
        receipt_type(1) del: dumps.simps)
qed

theorem verified_receipt_is_intact_witness:
  "\<exists>content. deterministic_json id (JObj (without_keys [''integrity'', ''receipt_id''] demo_receipt)) = Inr content
     \<and> jget demo_receipt ''receipt_id'' = Some (JStr (''cpr_'' @ take 24 (sha256_hex content)))"
proof -
  obtain env where "sign_receipt_bytes demo_ed id (dumps (JObj demo_receipt)) ''s'' = Inr env"
    by (rule demo_receipt_signed)
  from signed_receipt_verifies [OF this demo_ed_correct demo_receipt_parsed, of "\<lambda>_. True"]
  have "verify_receipt_envelope demo_ed id (\<lambda>_. True) (dumps env) (public_jwk (ed_public demo_ed ''s'')) = Inr (demo_receipt, dumps (JObj demo_receipt))"
    by simp
  from verified_receipt_is_intact [OF this] show ?thesis by blast
qed

end
