(* ===== verification/LifecycleClaims.thy ===== *)
theory LifecycleClaims
  imports LifecycleLemmas SigningClaims
begin

section \<open>Properties of lifecycle feeds\<close>

text \<open>
  What an accepted feed is, what \<open>CURRENT\<close> means, and that a root can neither roll back nor
  equivocate towards a verifier that keeps its sequence file.
\<close>

subsection \<open>Accepted feeds\<close>

definition issuer_is :: "json \<Rightarrow> string \<Rightarrow> bool" where
  "issuer_is item keyid \<longleftrightarrow> (\<exists>r. item = JObj r \<and> has_keys [''keyid'', ''jwk'', ''status''] r
     \<and> jget_null r ''status'' \<in> JStr ` set ISSUER_STATUSES \<and> jwk_thumbprint (jget_null r ''jwk'') = Inr keyid
     \<and> jget_null r ''keyid'' = JStr keyid)"

definition record_is :: "json \<Rightarrow> string \<Rightarrow> bool" where
  "record_is item rid \<longleftrightarrow> (\<exists>r. item = JObj r \<and> {''receipt_id'', ''status''} \<subseteq> fst ` set r
     \<and> fst ` set r \<subseteq> {''receipt_id'', ''status'', ''superseded_by'', ''reason''}
     \<and> jget_null r ''receipt_id'' = JStr rid \<and> starts_with ''cpr_'' rid \<and> jget_null r ''status'' \<in> JStr ` set RECEIPT_STATUSES
     \<and> (if jget_null r ''status'' = JStr ''superseded'' then str_matches (starts_with ''cpr_'') (jget_null r ''superseded_by'')
        else ''superseded_by'' \<notin> fst ` set r)
     \<and> reason_ok (jget_null r ''reason''))"

definition well_formed_feed :: "(string \<times> json) list \<Rightarrow> bool" where
  "well_formed_feed feed \<longleftrightarrow> has_keys FEED_KEYS feed \<and> jget_null feed ''schema_version'' = JStr ''1.0.0''
     \<and> (\<exists>n \<ge> 1. jget_null feed ''sequence'' = JInt n)
     \<and> (\<exists>generated expires. lifecycle_time (jget_null feed ''generated_at'') = Inr generated
          \<and> lifecycle_time (jget_null feed ''expires_at'') = Inr expires \<and> generated < expires)
     \<and> (\<exists>issuers keyids. jget_null feed ''issuer_keys'' = JArr issuers \<and> issuers \<noteq> [] \<and> length issuers \<le> 100
          \<and> list_all2 issuer_is issuers keyids \<and> distinct keyids)
     \<and> (\<exists>receipts ids. jget_null feed ''receipts'' = JArr receipts \<and> length receipts \<le> 100000
          \<and> list_all2 record_is receipts ids \<and> distinct ids)"

lemma check_issuer_iff:
  "check_issuer item seen = Inr out \<longleftrightarrow> (\<exists>k. issuer_is item k \<and> k \<notin> set seen \<and> out = seen @ [k])"
proof (cases item)
  case (JObj r)
  have h: "x \<in> JStr ` S \<Longrightarrow> hashable x" for x S by auto
  show ?thesis unfolding JObj
    by (auto simp: check_issuer_def issuer_is_def txn_simps in_strings_def dest: h)
qed (auto simp: check_issuer_def issuer_is_def)

lemma check_record_iff:
  "check_record item seen = Inr out \<longleftrightarrow> (\<exists>k. record_is item k \<and> k \<notin> set seen \<and> out = seen @ [k])"
proof (cases item)
  case (JObj r)
  have h: "x \<in> JStr ` S \<Longrightarrow> hashable x" for x S by auto
  show ?thesis unfolding JObj
    by (auto simp: check_record_def record_is_def txn_simps in_strings_def simp del: insert_subset dest: h split: if_splits)
qed (auto simp: check_record_def record_is_def)

lemma validate_iff: "validate_lifecycle_feed feed = Inr kvs \<longleftrightarrow> feed = JObj kvs \<and> well_formed_feed kvs"
proof (cases feed)
  case (JObj r)
  show ?thesis
    unfolding JObj validate_lifecycle_feed_def well_formed_feed_def json.case LIFECYCLE_SCHEMA_VERSION_def
      txn_simps fold_unique [OF check_issuer_iff] fold_unique [OF check_record_iff] not_not not_le not_less de_Morgan_disj
    by (simp only: list.set Int_empty_right append_Nil simp_thms json.inject sum.inject) blast
qed (auto simp: validate_lifecycle_feed_def)

subsection \<open>A feed and a receipt for the witnesses\<close>

text \<open>The demo signer is both the root and the issuer of the demo receipt.\<close>

abbreviation demo_raw :: string where "demo_raw \<equiv> ed_public demo_ed ''s''"
abbreviation demo_root :: json where "demo_root \<equiv> public_jwk demo_raw"

definition demo_jwk :: "(string \<times> json) list" where
  "demo_jwk = [(''crv'', JStr ''Ed25519''), (''kty'', JStr ''OKP''), (''x'', JStr (b64url_no_pad demo_raw))]"

definition feed_about :: "json \<Rightarrow> (string \<times> json) list" where
  "feed_about entry =
     [(''expires_at'', JStr ''2026-06-08T00:00:00Z''), (''generated_at'', JStr ''2026-06-01T00:00:00Z''),
      (''issuer_keys'', JArr [JObj [(''jwk'', JObj demo_jwk), (''keyid'', JStr (raw_thumbprint demo_raw)), (''status'', JStr ''active'')]]),
      (''receipts'', JArr [entry]),
      (''schema_version'', JStr ''1.0.0''), (''sequence'', JInt 1)]"

definition demo_entry :: json where
  "demo_entry = JObj [(''receipt_id'', JStr demo_id), (''status'', JStr ''current'')]"

abbreviation demo_feed :: "(string \<times> json) list" where "demo_feed \<equiv> feed_about demo_entry"
abbreviation demo_feed_bytes :: string where "demo_feed_bytes \<equiv> dumps (JObj demo_feed)"

text \<open>What an entry must satisfy for the feed about it to be accepted.\<close>

definition entry_fine :: "json \<Rightarrow> bool" where
  "entry_fine entry \<longleftrightarrow> record_is entry demo_id \<and> plain entry \<and> canon entry = entry \<and> ascii_json entry \<and> json_size entry \<le> 2000"

lemma demo_raw_length: "length demo_raw = 32"
  using demo_ed_correct [of "''s''"] by (simp add: ed25519_correct_def)

lemma demo_jwks:
  "jwk_thumbprint demo_root = Inr (raw_thumbprint demo_raw)" "public_key_from_jwk demo_root = Inr demo_raw"
  "jwk_thumbprint (JObj demo_jwk) = Inr (raw_thumbprint demo_raw)" "public_key_from_jwk (JObj demo_jwk) = Inr demo_raw"
proof -
  show "jwk_thumbprint demo_root = Inr (raw_thumbprint demo_raw)" "public_key_from_jwk demo_root = Inr demo_raw"
    by (simp_all add: thumbprint_public key_of_public demo_raw_length)
  have x: "b64url_decode (JStr (b64url_no_pad demo_raw)) (Some 32) = Inr demo_raw"
    using demo_raw_length by (auto simp: b64url_decode_sized)
  show t: "jwk_thumbprint (JObj demo_jwk) = Inr (raw_thumbprint demo_raw)"
    by (simp add: jwk_thumbprint_def demo_jwk_def has_keys_def jget_def jget_null_def x raw_thumbprint_def insert_commute del: dumps.simps)
  then show "public_key_from_jwk (JObj demo_jwk) = Inr demo_raw"
    by (simp add: public_key_from_jwk_def demo_jwk_def jget_null_def x)
qed

lemma demo_feed_times:
  "lifecycle_time (JStr ''2026-06-01T00:00:00Z'') = Inr 63915868800000000"
  "lifecycle_time (JStr ''2026-06-08T00:00:00Z'') = Inr 63916473600000000"
  "lifecycle_time (JStr ''2027-01-01T00:00:00Z'') = Inr 63934358400000000"
  by code_simp+

lemma demo_id_short: "is_ascii demo_id" "length demo_id \<le> 28"
  unfolding demo_id_def demo_digest_def using ascii_take [OF ascii_sha256_hex] by (simp_all add: byte_of_def)

lemma feed_about_parsed:
  assumes entry: "entry_fine entry"
  shows "strict_json code (dumps (JObj (feed_about entry))) = Inr (JObj (feed_about entry))"
    "length (dumps (JObj (feed_about entry))) \<le> 11000"
proof -
  note fine = entry [unfolded entry_fine_def]
  have len1: "length (show_nat 1) = 1" by code_simp
  have plain: "plain (JObj (feed_about entry))" "canon (JObj (feed_about entry)) = JObj (feed_about entry)"
    using fine by (simp_all add: feed_about_def demo_jwk_def len1 [simplified])
  have keys: "is_ascii (b64url_no_pad demo_raw)" "is_ascii (raw_thumbprint demo_raw)" "length (b64url_no_pad demo_raw) = 43"
    using text_ascii [OF b64url_text] text_ascii [OF raw_thumbprint_text] demo_raw_length
    by (simp_all add: b64url_no_pad_def length_b64_body)
  have ascii: "is_ascii (dumps (JObj (feed_about entry)))"
    by (rule ascii_dumps) (use fine keys in \<open>simp add: feed_about_def demo_jwk_def byte_of_def\<close>)
  show "strict_json code (dumps (JObj (feed_about entry))) = Inr (JObj (feed_about entry))"
    using json_loads_dumps [OF plain(1)] utf8_ok_ascii [OF ascii] plain(2)
    by (simp add: strict_json_def del: dumps.simps canon.simps plain.simps)
  have "length (show_int 1) = 1" by code_simp
  then have "json_size (JObj (feed_about entry)) \<le> 9000 + json_size entry" using keys(3) by (simp add: feed_about_def demo_jwk_def)
  then show "length (dumps (JObj (feed_about entry))) \<le> 11000" using fine dumps_size [of "JObj (feed_about entry)"] by linarith
qed

lemma feed_about_fields:
  "jget_null (feed_about entry) ''sequence'' = JInt 1" "jget_null (feed_about entry) ''schema_version'' = JStr ''1.0.0''"
  "jget_null (feed_about entry) ''generated_at'' = JStr ''2026-06-01T00:00:00Z''" "jget_null (feed_about entry) ''expires_at'' = JStr ''2026-06-08T00:00:00Z''"
  "jget_null (feed_about entry) ''issuer_keys'' = JArr [JObj [(''jwk'', JObj demo_jwk), (''keyid'', JStr (raw_thumbprint demo_raw)), (''status'', JStr ''active'')]]"
  "jget_null (feed_about entry) ''receipts'' = JArr [entry]"
  "has_keys FEED_KEYS (feed_about entry)"
  by (simp_all add: feed_about_def jget_null_def has_keys_def FEED_KEYS_def insert_commute)

lemma feed_about_well_formed:
  assumes entry: "entry_fine entry"
  shows "well_formed_feed (feed_about entry)"
proof -
  have issuer: "issuer_is (JObj [(''jwk'', JObj demo_jwk), (''keyid'', JStr (raw_thumbprint demo_raw)), (''status'', JStr ''active'')]) (raw_thumbprint demo_raw)"
    by (simp add: issuer_is_def has_keys_def jget_null_def demo_jwks ISSUER_STATUSES_def insert_commute)
  have rec: "record_is entry demo_id" using entry by (simp add: entry_fine_def)
  show ?thesis unfolding well_formed_feed_def feed_about_fields
    using issuer rec demo_feed_times feed_about_fields(7) by (auto simp: list_all2_Cons1)
qed

lemma feed_about_envelope:
  assumes entry: "entry_fine entry"
  obtains env where "verify_lifecycle_envelope demo_ed env demo_root = Inr (feed_about entry, dumps (JObj (feed_about entry)))"
proof -
  let ?bytes = "dumps (JObj (feed_about entry))"
  have "is_ascii LIFECYCLE_PAYLOAD_TYPE" "LIFECYCLE_PAYLOAD_TYPE \<noteq> []" "length LIFECYCLE_PAYLOAD_TYPE \<le> 1000" by code_simp+
  then obtain pae where pae: "dsse_pae LIFECYCLE_PAYLOAD_TYPE ?bytes = Inr pae" by (simp add: dsse_pae_def del: dumps.simps)
  have ne: "?bytes \<noteq> []" by simp
  obtain env where "verify_dsse_envelope demo_ed env LIFECYCLE_PAYLOAD_TYPE demo_root 1000000 = Inr ?bytes"
    using packed_verifies(2) [OF demo_ed_correct pae ne, of 1000000] feed_about_parsed(2) [OF entry] \<open>length LIFECYCLE_PAYLOAD_TYPE \<le> 1000\<close>
    by (auto simp: MAX_RECEIPT_BYTES_def simp del: dumps.simps)
  then have "verify_lifecycle_envelope demo_ed env demo_root = Inr (feed_about entry, ?bytes)"
    using feed_about_parsed(1) [OF entry] feed_about_well_formed [OF entry]
    by (simp add: verify_lifecycle_envelope_def validate_iff [THEN iffD2] del: dumps.simps)
  then show thesis by (rule that)
qed

lemma demo_entry_fine: "entry_fine demo_entry"
  using demo_id_short by (simp add: entry_fine_def demo_entry_def record_is_def jget_null_def RECEIPT_STATUSES_def reason_ok_def
    starts_with_def byte_of_def) (simp add: demo_id_def)

lemmas demo_feed_envelope = feed_about_envelope [OF demo_entry_fine]

lemma verify_same_key:
  assumes "jwk_thumbprint jwk = jwk_thumbprint jwk'" "public_key_from_jwk jwk = public_key_from_jwk jwk'"
  shows "verify_receipt_envelope ed fl schema_ok env jwk = verify_receipt_envelope ed fl schema_ok env jwk'"
  unfolding verify_receipt_envelope_def verify_dsse_envelope_def assms ..

lemma demo_receipt_envelope:
  obtains env where "envelope_keyid env = Inr (raw_thumbprint demo_raw)"
    "verify_receipt_envelope demo_ed id (\<lambda>_. True) env (JObj demo_jwk) = Inr (demo_receipt, dumps (JObj demo_receipt))"
proof -
  let ?b = "dumps (JObj demo_receipt)"
  define pae where "pae = projr (dsse_pae RECEIPT_PAYLOAD_TYPE ?b)"
  have pae: "dsse_pae RECEIPT_PAYLOAD_TYPE ?b = Inr pae" by (simp add: receipt_type(1) pae_def del: dumps.simps)
  obtain env where env: "sign_receipt_bytes demo_ed id ?b ''s'' = Inr env"
    "env = packed RECEIPT_PAYLOAD_TYPE ?b (raw_thumbprint demo_raw) (ed_sign demo_ed ''s'' pae)"
    unfolding pae_def by (rule demo_receipt_signed)
  have ne: "?b \<noteq> []" by simp
  have "strict_json ''invalid_envelope'' (dumps env) = Inr (canon env)"
    using packed_verifies(1) [OF demo_ed_correct pae ne _ order_refl receipt_type(2)] demo_receipt_bytes(2)
    by (simp add: env(2) MAX_RECEIPT_BYTES_def del: dumps.simps canon.simps)
  then have "envelope_keyid (dumps env) = Inr (raw_thumbprint demo_raw)"
    by (simp add: envelope_keyid_def env(2) canon_envelope jget_null_def del: dumps.simps canon.simps)
  moreover have "verify_receipt_envelope demo_ed id (\<lambda>_. True) (dumps env) (JObj demo_jwk) = Inr (demo_receipt, ?b)"
    using signed_receipt_verifies [OF env(1) demo_ed_correct demo_receipt_parsed, of "\<lambda>_. True"]
      verify_same_key [of demo_root "JObj demo_jwk"] demo_jwks by simp
  ultimately show thesis using that by blast
qed

lemma demo_evaluates:
  obtains renv fenv where "verify_lifecycle_envelope demo_ed fenv demo_root = Inr (demo_feed, demo_feed_bytes)"
    "\<And>minimum. minimum \<le> 1 \<Longrightarrow> evaluate_receipt_lifecycle demo_ed id (\<lambda>_. True) renv fenv demo_root 63916000000000000 minimum =
       Inr \<lparr>lr_lifecycle = Current, lr_reason = JStr ''receipt signature, expiry, signer status, and lifecycle entry are current'',
         lr_feed_sequence = 1, lr_receipt_id = Some demo_id, lr_artifact_sha256 = Some (JStr ''d''),
         lr_source_commit = Some (JStr ''c''), lr_issuer_keyid = Some (raw_thumbprint demo_raw)\<rparr>"
proof -
  obtain fenv where f: "verify_lifecycle_envelope demo_ed fenv demo_root = Inr (demo_feed, demo_feed_bytes)"
    by (rule demo_feed_envelope)
  obtain renv where r: "envelope_keyid renv = Inr (raw_thumbprint demo_raw)"
    "verify_receipt_envelope demo_ed id (\<lambda>_. True) renv (JObj demo_jwk) = Inr (demo_receipt, dumps (JObj demo_receipt))"
    by (rule demo_receipt_envelope)
  have feed: "feed_issuers demo_feed = [[(''jwk'', JObj demo_jwk), (''keyid'', JStr (raw_thumbprint demo_raw)), (''status'', JStr ''active'')]]"
    "feed_records demo_feed = [[(''receipt_id'', JStr demo_id), (''status'', JStr ''current'')]]"
    "feed_sequence demo_feed = 1" "jget_null demo_feed ''generated_at'' = JStr ''2026-06-01T00:00:00Z''"
    "jget_null demo_feed ''expires_at'' = JStr ''2026-06-08T00:00:00Z''"
    by (simp_all add: feed_issuers_def feed_records_def feed_sequence_def feed_about_def demo_entry_def jget_null_def obj_of_def arr_of_def)
  have receipt: "jget_null demo_receipt ''receipt_id'' = JStr demo_id"
    "json_path [''validity'', ''expires_at''] (JObj demo_receipt) = Inr (JStr ''2027-01-01T00:00:00Z'')"
    "json_path [''artifact'', ''digest'', ''sha256''] (JObj demo_receipt) = Inr (JStr ''d'')"
    "json_path [''provenance'', ''source_commit''] (JObj demo_receipt) = Inr (JStr ''c'')"
    by (simp_all add: demo_receipt_def jget_null_def jget_def jstr_obj_def)
  let ?issuer = "[(''jwk'', JObj demo_jwk), (''keyid'', JStr (raw_thumbprint demo_raw)), (''status'', JStr ''active'')]"
  let ?entry = "[(''receipt_id'', JStr demo_id), (''status'', JStr ''current'')]"
  have found: "find (\<lambda>r. jget r ''keyid'' = Some (JStr (raw_thumbprint demo_raw))) [?issuer] = Some ?issuer"
    "find (\<lambda>r. jget r ''receipt_id'' = Some (JStr demo_id)) [?entry] = Some ?entry"
    "jget_null ?issuer ''jwk'' = JObj demo_jwk" "jget_null ?issuer ''status'' = JStr ''active''"
    "jget_null ?entry ''status'' = JStr ''current''"
    by (simp_all add: jget_def jget_null_def)
  have state: "receipt_state (Some ?entry) (JObj demo_receipt) 63916000000000000
      = Inr (Current, JStr ''receipt signature, expiry, signer status, and lifecycle entry are current'')"
    unfolding receipt_state_def option.case found receipt and_then_simps by (simp add: demo_feed_times)
  have "evaluate_receipt_lifecycle demo_ed id (\<lambda>_. True) renv fenv demo_root 63916000000000000 minimum =
       Inr \<lparr>lr_lifecycle = Current, lr_reason = JStr ''receipt signature, expiry, signer status, and lifecycle entry are current'',
         lr_feed_sequence = 1, lr_receipt_id = Some demo_id, lr_artifact_sha256 = Some (JStr ''d''),
         lr_source_commit = Some (JStr ''c''), lr_issuer_keyid = Some (raw_thumbprint demo_raw)\<rparr>" if "minimum \<le> 1" for minimum
    unfolding evaluate_receipt_lifecycle_def f r(1) and_then_simps prod.case feed found option.case r(2) Let_def receipt the_str.simps
    using that by (simp add: demo_feed_times state)
  with f show thesis using that by blast
qed

subsection \<open>The properties\<close>

text \<open>
  C28. A feed is accepted exactly when it is well formed: the six fields, a positive sequence,
  an expiry after its generation, one to a hundred issuer keys of pairwise different key ids,
  each the thumbprint of its own key, and pairwise different receipts with a known status,
  a successor exactly when superseded, and a bounded reason.
\<close>

theorem accepted_feeds:
  "(validate_lifecycle_feed feed = Inr kvs) = (feed = JObj kvs \<and> well_formed_feed kvs)"
  by (rule validate_iff)

lemma evaluate_inv:
  assumes "evaluate_receipt_lifecycle ed fl schema_ok renv fenv root now minimum = Inr res" "lr_lifecycle res \<noteq> Signature_Valid_Lifecycle_Unknown"
  obtains feed payload keyid issuer receipt bytes state generated expires where
    "verify_lifecycle_envelope ed fenv root = Inr (feed, payload)" "envelope_keyid renv = Inr keyid"
    "find (\<lambda>r. jget r ''keyid'' = Some (JStr keyid)) (feed_issuers feed) = Some issuer"
    "verify_receipt_envelope ed fl schema_ok renv (jget_null issuer ''jwk'') = Inr (receipt, bytes)"
    "minimum \<le> feed_sequence feed" "lr_feed_sequence res = feed_sequence feed"
    "lifecycle_time (jget_null feed ''generated_at'') = Inr generated" "generated \<le> now"
    "lifecycle_time (jget_null feed ''expires_at'') = Inr expires" "now < expires"
    "if jget_null issuer ''status'' = JStr ''compromised'' then lr_lifecycle res = Revoked_Key_Compromise
     else receipt_state (find (\<lambda>r. jget r ''receipt_id'' = Some (JStr (the_str (jget_null receipt ''receipt_id'')))) (feed_records feed))
       (JObj receipt) now = Inr (lr_lifecycle res, lr_reason res)"
    "lr_receipt_id res = Some (the_str (jget_null receipt ''receipt_id''))"
proof -
  note run = assms(1) [unfolded evaluate_receipt_lifecycle_def]
  obtain feed payload where f: "verify_lifecycle_envelope ed fenv root = Inr (feed, payload)"
    using run by (cases "verify_lifecycle_envelope ed fenv root") auto
  obtain keyid where k: "envelope_keyid renv = Inr keyid" using run f by (cases "envelope_keyid renv") auto
  obtain issuer where issuer: "find (\<lambda>r. jget r ''keyid'' = Some (JStr keyid)) (feed_issuers feed) = Some issuer"
    using run f k by (auto split: option.splits)
  obtain receipt bytes where receipt: "verify_receipt_envelope ed fl schema_ok renv (jget_null issuer ''jwk'') = Inr (receipt, bytes)"
    using run f k issuer by (cases "verify_receipt_envelope ed fl schema_ok renv (jget_null issuer ''jwk'')") auto
  note fk = f k
  show thesis
    using run fk issuer receipt assms(2) that [OF fk issuer receipt]
    by (auto simp: Let_def and_then_Inr feed_unknown_def split: if_splits)
qed

lemma evaluate_minimum:
  assumes "evaluate_receipt_lifecycle ed fl schema_ok renv fenv root now minimum = Inr res" "lr_lifecycle res \<noteq> Signature_Valid_Lifecycle_Unknown"
  shows "minimum \<le> lr_feed_sequence res"
  by (rule evaluate_inv [OF assms]) simp

lemma evaluate_sequence:
  assumes "evaluate_receipt_lifecycle ed fl schema_ok renv fenv root now minimum = Inr res"
    "verify_lifecycle_envelope ed fenv root = Inr (feed, payload)"
  shows "lr_feed_sequence res = feed_sequence feed"
  using assms by (auto simp: evaluate_receipt_lifecycle_def and_then_Inr Let_def feed_unknown_def split: option.splits if_splits)

lemma find_in: "find P xs = Some x \<Longrightarrow> x \<in> set xs \<and> P x"
  by (rule find_SomeD)

text \<open>
  C26. \<open>CURRENT\<close> is never said too easily: then the root's signature over the feed and the
  issuer's over the receipt hold, the feed is well formed, of a sequence not below the
  remembered one, generated and not expired, the issuer is listed in it and not compromised,
  the receipt is listed as current, and the receipt's own expiry lies ahead.
\<close>

theorem current_means_current:
  assumes "evaluate_receipt_lifecycle ed fl schema_ok renv fenv root now minimum = Inr res" "lr_lifecycle res = Current"
  shows "\<exists>feed payload issuer entry receipt bytes t expires.
     verify_lifecycle_envelope ed fenv root = Inr (feed, payload) \<and> well_formed_feed feed \<and> minimum \<le> feed_sequence feed
     \<and> (\<exists>generated expiry. lifecycle_time (jget_null feed ''generated_at'') = Inr generated
          \<and> lifecycle_time (jget_null feed ''expires_at'') = Inr expiry \<and> generated \<le> now \<and> now < expiry)
     \<and> issuer \<in> set (feed_issuers feed) \<and> jget_null issuer ''status'' \<noteq> JStr ''compromised''
     \<and> verify_receipt_envelope ed fl schema_ok renv (jget_null issuer ''jwk'') = Inr (receipt, bytes)
     \<and> entry \<in> set (feed_records feed) \<and> jget entry ''receipt_id'' = map_option JStr (lr_receipt_id res)
     \<and> jget_null receipt ''receipt_id'' = JStr (the (lr_receipt_id res)) \<and> jget_null entry ''status'' = JStr ''current''
     \<and> json_path [''validity'', ''expires_at''] (JObj receipt) = Inr t \<and> lifecycle_time t = Inr expires \<and> now < expires"
proof -
  have "lr_lifecycle res \<noteq> Signature_Valid_Lifecycle_Unknown" using assms(2) by simp
  from evaluate_inv [OF assms(1) this] obtain feed payload keyid issuer receipt bytes generated expires where ok:
    "verify_lifecycle_envelope ed fenv root = Inr (feed, payload)" "envelope_keyid renv = Inr keyid"
    "find (\<lambda>r. jget r ''keyid'' = Some (JStr keyid)) (feed_issuers feed) = Some issuer"
    "verify_receipt_envelope ed fl schema_ok renv (jget_null issuer ''jwk'') = Inr (receipt, bytes)"
    "minimum \<le> feed_sequence feed"
    "lifecycle_time (jget_null feed ''generated_at'') = Inr generated" "generated \<le> now"
    "lifecycle_time (jget_null feed ''expires_at'') = Inr expires" "now < expires"
    "if jget_null issuer ''status'' = JStr ''compromised'' then lr_lifecycle res = Revoked_Key_Compromise
     else receipt_state (find (\<lambda>r. jget r ''receipt_id'' = Some (JStr (the_str (jget_null receipt ''receipt_id'')))) (feed_records feed))
       (JObj receipt) now = Inr (lr_lifecycle res, lr_reason res)"
    "lr_receipt_id res = Some (the_str (jget_null receipt ''receipt_id''))" .
  have wf: "well_formed_feed feed"
    using ok(1) by (auto simp: verify_lifecycle_envelope_def txn_simps validate_iff)
  obtain content where "jget receipt ''receipt_id'' = Some (JStr content)"
    using verify_receipt_inv(3) [OF ok(4)] by (auto elim!: integrity_inv)
  then have rid: "jget_null receipt ''receipt_id'' = JStr (the (lr_receipt_id res))"
    by (simp add: ok(11) jget_null_def jget_def)
  from ok(10) assms(2) have live: "jget_null issuer ''status'' \<noteq> JStr ''compromised''"
    "receipt_state (find (\<lambda>r. jget r ''receipt_id'' = Some (JStr (the (lr_receipt_id res)))) (feed_records feed))
       (JObj receipt) now = Inr (Current, lr_reason res)"
    using rid by (auto split: if_splits)
  from live(2) obtain entry t e where entry: "find (\<lambda>r. jget r ''receipt_id'' = Some (JStr (the (lr_receipt_id res)))) (feed_records feed) = Some entry"
    "jget_null entry ''status'' \<notin> {JStr ''revoked_key_compromise'', JStr ''revoked_evaluator_defect'', JStr ''superseded''}"
    "json_path [''validity'', ''expires_at''] (JObj receipt) = Inr t" "lifecycle_time t = Inr e" "now < e"
    by (auto simp: receipt_state_def and_then_Inr simp del: json_path.simps split: option.splits if_splits)
  note member = find_in [OF entry(1)]
  have "jget_null entry ''status'' \<in> JStr ` set RECEIPT_STATUSES"
  proof -
    from wf obtain receipts ids where rs: "jget_null feed ''receipts'' = JArr receipts" "list_all2 record_is receipts ids"
      by (auto simp: well_formed_feed_def)
    with member obtain item where "item \<in> set receipts" "entry = obj_of item" by (auto simp: feed_records_def arr_of_def)
    with rs(2) show ?thesis by (auto simp: list_all2_conv_all_nth in_set_conv_nth record_is_def obj_of_def)
  qed
  with entry(2) have "jget_null entry ''status'' = JStr ''current''" by (auto simp: RECEIPT_STATUSES_def)
  then show ?thesis
    using ok(1,4-9) wf rid live(1) member entry(3-5) find_in [OF ok(3)] ok(11)
    by (intro exI [of _ feed] exI [of _ payload] exI [of _ issuer] exI [of _ entry] exI [of _ receipt] exI [of _ bytes]
        exI [of _ t] exI [of _ e]) (simp del: json_path.simps)
qed

theorem current_means_current_witness:
  "\<exists>(res :: lifecycle_result) feed. lr_lifecycle res = Current \<and> well_formed_feed feed \<and> lr_receipt_id res = Some demo_id"
proof -
  obtain renv fenv where "\<And>minimum. minimum \<le> 1 \<Longrightarrow> evaluate_receipt_lifecycle demo_ed id (\<lambda>_. True) renv fenv demo_root 63916000000000000 minimum =
       Inr \<lparr>lr_lifecycle = Current, lr_reason = JStr ''receipt signature, expiry, signer status, and lifecycle entry are current'',
         lr_feed_sequence = 1, lr_receipt_id = Some demo_id, lr_artifact_sha256 = Some (JStr ''d''),
         lr_source_commit = Some (JStr ''c''), lr_issuer_keyid = Some (raw_thumbprint demo_raw)\<rparr>"
    using demo_evaluates by metis
  then obtain res where "evaluate_receipt_lifecycle demo_ed id (\<lambda>_. True) renv fenv demo_root 63916000000000000 0 = Inr res"
    "lr_lifecycle res = Current" "lr_receipt_id res = Some demo_id" by simp
  moreover from current_means_current [OF this(1,2)] obtain feed where "well_formed_feed feed" by (elim exE conjE) (rule that)
  ultimately show ?thesis by blast
qed

subsection \<open>No rollback\<close>

text \<open>An evaluation with state records the feed, unless a newer one was seen.\<close>

lemma with_state_inv:
  assumes ok: "seq_ok file" and run: "evaluate_with_state ed fl schema_ok renv fenv root now file = Inr (res, file')"
  obtains feed payload minimum keyid where "verify_lifecycle_envelope ed fenv root = Inr (feed, payload)"
    "jwk_thumbprint root = Inr keyid" "lr_feed_sequence res = feed_sequence feed"
    "lr_lifecycle res \<noteq> Signature_Valid_Lifecycle_Unknown \<longrightarrow> minimum \<le> feed_sequence feed"
    "minimum \<le> feed_sequence feed \<longrightarrow> seq_accept fl keyid (feed_sequence feed) (sha256_hex payload) file file'"
    "\<not> minimum \<le> feed_sequence feed \<longrightarrow> file' = file \<and> (minimum = 0 \<or> (\<exists>h. seq_pinned file keyid minimum h))"
proof -
  note unfolded = run [unfolded evaluate_with_state_def]
  obtain feed payload where f: "verify_lifecycle_envelope ed fenv root = Inr (feed, payload)"
    using unfolded by (cases "verify_lifecycle_envelope ed fenv root") auto
  obtain minimum where m: "minimum_sequence fl root file = Inr minimum"
    using unfolded f by (cases "minimum_sequence fl root file") auto
  have e: "evaluate_receipt_lifecycle ed fl schema_ok renv fenv root now minimum = Inr res"
    "if minimum \<le> lr_feed_sequence res
     then record_sequence fl root (feed_sequence feed) (sha256_hex payload) file = Inr ((), file') else file' = file"
    using unfolded f m by (auto simp: and_then_Inr split: if_splits)
  from m obtain roots keyid where roots: "load_sequences fl file = Inr roots" "jwk_thumbprint root = Inr keyid"
    "minimum = (case map_of roots keyid of None \<Rightarrow> 0 | Some (n, _) \<Rightarrow> n)" by (auto simp: minimum_sequence_def and_then_Inr)
  have seq: "lr_feed_sequence res = feed_sequence feed" by (rule evaluate_sequence [OF e(1) f])
  have "minimum = 0 \<or> (\<exists>h. seq_pinned file keyid minimum h)"
  proof (cases "map_of roots keyid")
    case (Some r)
    obtain m h where r: "r = (m, h)" by (cases r)
    have "clean_entry (keyid, r)" using seq_load(1) [OF ok roots(1)] map_of_SomeD [OF Some]
      by (auto simp: clean_roots_def list_all_iff)
    then obtain d where "h = Some d" using r by (auto simp: clean_entry_def)
    then show ?thesis using pinned_by_root [OF ok roots(1), of keyid m d m d] Some r roots(3) by auto
  qed (use roots(3) in simp)
  moreover have "lr_lifecycle res \<noteq> Signature_Valid_Lifecycle_Unknown \<longrightarrow> minimum \<le> feed_sequence feed"
    using evaluate_minimum [OF e(1)] seq by simp
  moreover have "minimum \<le> feed_sequence feed \<longrightarrow> seq_accept fl keyid (feed_sequence feed) (sha256_hex payload) file file'"
    using e(2) seq roots(2) by (auto simp: seq_accept_def)
  moreover have "\<not> minimum \<le> feed_sequence feed \<longrightarrow> file' = file" using e(2) seq by simp
  ultimately show thesis using that [OF f roots(2) seq] by blast
qed

text \<open>
  C27. A root cannot take back what it published: after a verifier has evaluated one feed, and
  whatever is recorded in its file in between, an evaluation that says anything about a
  receipt uses a feed of the same root with no lower sequence, and with the same sequence
  only if the signed payloads have the same SHA-256 digest.
\<close>

theorem no_feed_rollback:
  assumes ok: "seq_ok file0" and first: "evaluate_with_state ed fl schema_ok renv1 fenv1 root now1 file0 = Inr (res1, file1)"
    and between: "rtranclp (seq_step fl) file1 file2"
    and second: "evaluate_with_state ed fl schema_ok renv2 fenv2 root now2 file2 = Inr (res2, file3)"
    and said: "lr_lifecycle res2 \<noteq> Signature_Valid_Lifecycle_Unknown"
  shows "lr_feed_sequence res1 \<le> lr_feed_sequence res2
    \<and> (lr_feed_sequence res1 = lr_feed_sequence res2 \<longrightarrow>
        (\<exists>feed1 payload1 feed2 payload2. verify_lifecycle_envelope ed fenv1 root = Inr (feed1, payload1)
           \<and> verify_lifecycle_envelope ed fenv2 root = Inr (feed2, payload2) \<and> sha256 payload1 = sha256 payload2))"
proof -
  obtain feed1 payload1 min1 keyid where one: "verify_lifecycle_envelope ed fenv1 root = Inr (feed1, payload1)"
    "jwk_thumbprint root = Inr keyid" "lr_feed_sequence res1 = feed_sequence feed1"
    "min1 \<le> feed_sequence feed1 \<longrightarrow> seq_accept fl keyid (feed_sequence feed1) (sha256_hex payload1) file0 file1"
    "\<not> min1 \<le> feed_sequence feed1 \<longrightarrow> file1 = file0 \<and> (min1 = 0 \<or> (\<exists>h. seq_pinned file0 keyid min1 h))"
    by (rule with_state_inv [OF ok first])
  have ok1: "seq_ok file1"
    using one(4,5) ok seq_keep seq_accept_step by metis
  then have ok2: "seq_ok file2" using last_seen.run_inv [OF between] by simp
  obtain feed2 payload2 min2 where two: "verify_lifecycle_envelope ed fenv2 root = Inr (feed2, payload2)"
    "lr_feed_sequence res2 = feed_sequence feed2"
    "min2 \<le> feed_sequence feed2"
    "min2 \<le> feed_sequence feed2 \<longrightarrow> seq_accept fl keyid (feed_sequence feed2) (sha256_hex payload2) file2 file3"
    using with_state_inv [OF ok2 second] said one(2) by (metis sum.inject(2))
  then have acc2: "seq_accept fl keyid (feed_sequence feed2) (sha256_hex payload2) file2 file3" by blast
  show ?thesis
  proof (cases "min1 \<le> feed_sequence feed1")
    case True
    then have "seq_accept fl keyid (feed_sequence feed1) (sha256_hex payload1) file0 file1" using one(4) by blast
    from last_seen.forward [OF ok this between acc2] show ?thesis
      using one(1,3) two(1,2) by (auto simp: sha256_hex_inj)
  next
    case False
    have "1 \<le> feed_sequence feed1"
      using one(1) by (auto simp: verify_lifecycle_envelope_def and_then_Inr validate_iff well_formed_feed_def feed_sequence_def)
    then obtain h where "seq_pinned file1 keyid min1 h" using False one(5) by auto
    from last_seen.forward_from_pin [OF ok1 this between acc2] show ?thesis using False one(3) two(2) by simp
  qed
qed

text \<open>The demo feed is evaluated twice, first with no file.\<close>

lemma demo_first_record:
  "record_sequence id demo_root 1 (sha256_hex p) None =
     Inr ((), Some (sequence_bytes [(raw_thumbprint demo_raw, 1, Some (sha256_hex p))]))"
proof -
  have "length (show_int 1) = 1" by code_simp
  then show ?thesis
    by (simp add: record_sequence_def load_sequences_def demo_jwks sha256_hex_chars dict_set_def)
qed

theorem no_feed_rollback_witness:
  "\<exists>(res1 :: lifecycle_result) (res2 :: lifecycle_result) file1. file1 \<noteq> None
     \<and> lr_lifecycle res2 = Current \<and> lr_feed_sequence res1 \<le> lr_feed_sequence res2"
proof -
  obtain renv fenv where f: "verify_lifecycle_envelope demo_ed fenv demo_root = Inr (demo_feed, demo_feed_bytes)"
    and ev: "\<And>minimum. minimum \<le> 1 \<Longrightarrow> evaluate_receipt_lifecycle demo_ed id (\<lambda>_. True) renv fenv demo_root 63916000000000000 minimum =
       Inr \<lparr>lr_lifecycle = Current, lr_reason = JStr ''receipt signature, expiry, signer status, and lifecycle entry are current'',
         lr_feed_sequence = 1, lr_receipt_id = Some demo_id, lr_artifact_sha256 = Some (JStr ''d''),
         lr_source_commit = Some (JStr ''c''), lr_issuer_keyid = Some (raw_thumbprint demo_raw)\<rparr>"
    using demo_evaluates by metis
  define d where "d = sha256_hex demo_feed_bytes"
  define kept where "kept = Some (sequence_bytes [(raw_thumbprint demo_raw, 1, Some d)])"
  have seq: "feed_sequence demo_feed = 1" by (simp add: feed_sequence_def feed_about_def jget_null_def)
  have one: "minimum_sequence id demo_root None = Inr 0" by (simp add: minimum_sequence_def load_sequences_def demo_jwks)
  obtain res where first: "evaluate_with_state demo_ed id (\<lambda>_. True) renv fenv demo_root 63916000000000000 None = Inr (res, kept)"
    "lr_lifecycle res = Current"
    using ev [of 0] demo_first_record [of demo_feed_bytes]
    by (simp add: evaluate_with_state_def f one seq kept_def d_def del: dumps.simps)
  have clean: "clean_roots [(raw_thumbprint demo_raw, 1, Some d)]"
  proof -
    have "length (show_int 1) = 1" by code_simp
    then show ?thesis by (simp add: clean_roots_def clean_entry_def raw_thumbprint_text sha256_hex_chars d_def)
  qed
  have size: "length (sequence_bytes [(raw_thumbprint demo_raw, 1, Some d)]) \<le> 64000"
  proof -
    have "length (show_int 1) = 1" "length (show_int 2) = 1" by code_simp+
    then have "json_size (sequence_document [(raw_thumbprint demo_raw, 1, Some d)]) \<le> 60000"
      by (simp add: sequence_document_def entry_json_def d_def)
    then show ?thesis using dumps_size [of "sequence_document [(raw_thumbprint demo_raw, 1, Some d)]"]
      by (simp add: sequence_bytes_def dumps_ascii_document [OF clean])
  qed
  have load: "load_sequences id kept = Inr [(raw_thumbprint demo_raw, 1, Some d)]"
    using load_written [OF clean, of id] size by (simp add: kept_def)
  then have two: "minimum_sequence id demo_root kept = Inr 1" by (simp add: minimum_sequence_def demo_jwks)
  have again: "record_sequence id demo_root 1 d kept = Inr ((), kept)"
    by (simp add: record_sequence_def load demo_jwks sha256_hex_chars d_def)
  obtain res2 where second: "evaluate_with_state demo_ed id (\<lambda>_. True) renv fenv demo_root 63916000000000000 kept = Inr (res2, kept)"
    "lr_lifecycle res2 = Current"
    using ev [of 1] again by (simp add: evaluate_with_state_def f two seq d_def del: dumps.simps)
  have "seq_ok None" by (simp add: seq_ok_def)
  from no_feed_rollback [OF this first(1) rtranclp.rtrancl_refl second(1)] second(2)
  have "lr_feed_sequence res \<le> lr_feed_sequence res2" by simp
  moreover have "kept \<noteq> None" by (simp add: kept_def)
  ultimately show ?thesis using second(2) by blast
qed

text \<open>
  The sequence file has no room for a hundred-and-first root: recording a feed of a new
  root in a file with a hundred roots succeeds, and from then on the file cannot be read any
  more, by whomever: every later query and every later record is rejected.
\<close>

theorem hundred_and_first_root:
  assumes ok: "seq_ok file" and full: "load_sequences fl file = Inr roots" "length roots = 100"
    and new: "jwk_thumbprint root = Inr keyid" "keyid \<notin> fst ` set roots"
    and args: "1 \<le> n" "length (show_int n) \<le> 4300" "length digest = 64" "list_all is_hex digest"
  shows "\<exists>file'. record_sequence fl root n digest file = Inr ((), file')
     \<and> minimum_sequence fl other file' = Inl (Rejected ''invalid_sequence_state'')
     \<and> (\<forall>m d. \<not> (\<exists>x. record_sequence fl other m d file' = Inr x))"
proof -
  define roots' where "roots' = dict_set keyid (n, Some digest) roots"
  have none: "map_of roots keyid = None" using new(2) by (simp add: map_of_eq_None_iff)
  have "list_all b64_text keyid" using new(1) by (auto elim!: thumbprint_of_key simp: raw_thumbprint_text)
  then have clean: "clean_roots roots'"
    unfolding roots'_def using args seq_load(1) [OF ok full(1)] by (intro dict_set_clean) (auto simp: clean_entry_def)
  have "length roots' = 101" using full(2) new(2) by (simp add: roots'_def dict_set_def)
  then have bad: "load_sequences fl (Some (sequence_bytes roots')) = Inl bad_state" by (simp add: load_written [OF clean])
  have "record_sequence fl root n digest file = Inr ((), Some (sequence_bytes roots'))"
    using args full new none by (simp add: record_sequence_def roots'_def Let_def)
  moreover have "\<not> (\<exists>x. record_sequence fl other m d (Some (sequence_bytes roots')) = Inr x)" for m d
    by (auto simp: record_sequence_def bad reject_if_Inr)
  ultimately show ?thesis by (auto simp: minimum_sequence_def bad)
qed

definition demo_roots :: "(string \<times> sequence_record) list" where
  "demo_roots = map (\<lambda>i. (show_nat i, 1, Some (replicate 64 CHR ''0''))) [0..<100]"

lemma demo_roots_facts: "clean_roots demo_roots" "length demo_roots = 100" "json_size (sequence_document demo_roots) \<le> 63000"
  "\<forall>x \<in> set demo_roots. length (fst x) < 43"
proof -
  have "map fst demo_roots = map show_nat [0..<100]" by (simp add: demo_roots_def)
  then have "distinct (map fst demo_roots)" by (simp add: distinct_map inj_on_def show_nat_inj del: upt_rec_numeral)
  moreover have "list_all b64_text (show_nat i)" for i
    using show_nat_digits [of i] by (auto simp: list_all_iff b64_text_def is_alnum_def)
  moreover have "length (show_int 1) \<le> 4300" "list_all is_hex (replicate 64 CHR ''0'')" by code_simp+
  ultimately show "clean_roots demo_roots"
    by (auto simp: clean_roots_def clean_entry_def list_all_iff demo_roots_def)
  show len: "length demo_roots = 100" by (simp add: demo_roots_def)
  have "length (show_nat i) \<le> 2" if "i < 100" for i
    using that show_nat.simps [of i] show_nat.simps [of "i div 10"] by auto
  then have short: "\<forall>x \<in> set demo_roots. length (fst x) \<le> 2" by (auto simp: demo_roots_def)
  then show "\<forall>x \<in> set demo_roots. length (fst x) < 43" by fastforce
  have num: "length (show_int 1) = 1" "length (show_int 2) = 1" by code_simp+
  have "6 * length (fst x) + json_size (entry_json (snd x)) + 4 \<le> 600" if "x \<in> set demo_roots" for x
  proof -
    from that have "snd x = (1, Some (replicate 64 CHR ''0''))" by (auto simp: demo_roots_def)
    then have "json_size (entry_json (snd x)) \<le> 520" by (simp add: entry_json_def num)
    with short that show ?thesis by fastforce
  qed
  then have "sum_list (map (\<lambda>x. 6 * length (fst x) + json_size (entry_json (snd x)) + 4) demo_roots) \<le> sum_list (map (\<lambda>x. 600) demo_roots)"
    by (intro sum_list_mono)
  then show "json_size (sequence_document demo_roots) \<le> 63000"
    by (simp add: sequence_document_def len num case_prod_unfold comp_def sum_list_triv)
qed

theorem hundred_and_first_root_witness:
  "\<exists>file file'. record_sequence id demo_root 1 (replicate 64 CHR ''0'') file = Inr ((), file')
     \<and> minimum_sequence id demo_root file' = Inl (Rejected ''invalid_sequence_state'')"
proof -
  let ?file = "Some (sequence_bytes demo_roots)"
  have "length (sequence_bytes demo_roots) \<le> 64000"
    using dumps_size [of "sequence_document demo_roots"] demo_roots_facts
    by (simp add: sequence_bytes_def dumps_ascii_document)
  then have load: "load_sequences id ?file = Inr (sort_key fst demo_roots)" "length (sort_key fst demo_roots) = 100"
    by (simp_all add: load_written demo_roots_facts)
  have ok: "seq_ok ?file" using demo_roots_facts(1) by (auto simp: seq_ok_def)
  have new: "raw_thumbprint demo_raw \<notin> fst ` set (sort_key fst demo_roots)" using demo_roots_facts(4) by fastforce
  have args: "(1 :: int) \<le> 1" "length (show_int 1) \<le> 4300" "length (replicate 64 CHR ''0'') = 64" "list_all is_hex (replicate 64 CHR ''0'')"
    by code_simp+
  from hundred_and_first_root [OF ok load demo_jwks(1) new args, of demo_root] show ?thesis by blast
qed

end
