(* ===== verification/PaidInvariant.thy ===== *)
theory PaidInvariant
  imports PaidLifecycle AccessInvariant LifecycleClaims
begin

section \<open>Published lifecycle state: its invariant\<close>

text \<open>
  The steps of the publication tables beside those of the store and the access tables, the
  invariant \<open>paid_ok\<close>, and what no step undoes.  A publication step takes the outcome of its
  checks from any database: between the checks and the write transaction other steps may run.
\<close>

subsection \<open>Steps\<close>

inductive paid_step :: "access_config \<Rightarrow> ed25519 \<Rightarrow> 'z paid_db_scheme \<Rightarrow> 'z paid_db_scheme \<Rightarrow> bool" for cfg ed where
  market: "access_step cfg d d' \<Longrightarrow> paid_step cfg ed d d'"
| import_feed: "publish_checks (ac_environment cfg) ed bytes jwk at (d0 :: 'z paid_db_scheme) = Inr (feed, digest, keyid, published, os)
    \<Longrightarrow> publish_commit feed digest keyid bytes published os d = Inr (v, d') \<Longrightarrow> paid_step cfg ed d d'"

lemma audit_more [simp]: "access_db.more (audit e at t q oid d) = access_db.more d"
  by (simp add: audit_def)

lemma paid_tables_more:
  assumes "access_db.more d' = access_db.more d"
  shows "pl_metadata d' = pl_metadata d" "pl_publications d' = pl_publications d" "pl_status d' = pl_status d"
  using assms by (cases d; cases d'; simp)+

lemma db_more_access: "db.more d' = db.more d \<Longrightarrow> access_db.more d' = access_db.more d"
  by (cases d; cases d'; simp)

lemma access_step_more:
  assumes ok: "market_ok cfg d" and step: "access_step cfg d d'"
  shows "access_db.more d' = access_db.more d"
  using step
proof cases
  case provision
  then show ?thesis by (rule provision_tenant_cases) simp
next
  case rotate_key
  then show ?thesis by (auto simp: rotate_api_key_def txn_simps Let_def)
next
  case revoke
  then show ?thesis by (auto simp: revoke_tenant_def txn_simps Let_def)
next
  case own_quote
  then show ?thesis by (rule bind_quote_cases) simp_all
next
  case own_order
  then show ?thesis by (rule bind_order_cases) simp_all
next
  case rotate_token
  then show ?thesis by (rule rotate_delivery_token_cases) simp
next
  case revoke_token
  then show ?thesis by (rule revoke_delivery_token_cases) simp
next
  case publish
  then show ?thesis by (rule publish_result_cases) auto
next
  case sell
  have "store_ok (ac_environment cfg) d" using ok by (simp add: market_ok_def)
  from step_frame [OF this sell] have "db.more d' = db.more d" by (simp add: store_frame_def)
  then show ?thesis by (rule db_more_access)
qed

subsection \<open>What a publication writes\<close>

lemma publish_commit_cases:
  assumes "publish_commit feed digest keyid bytes published os d = Inr (v, d')"
  obtains (again) p where "latest_publication (pl_publications d) = Some p" "feed_sequence feed = pb_sequence p"
      "pb_payload_sha256 p = digest" "map_of (pl_metadata d) ''root_keyid'' \<in> {None, Some keyid}" "d' = d"
    | (new) t where "feed_sequence feed = next_sequence (pl_publications d)" "map_of (pl_metadata d) ''root_keyid'' \<in> {None, Some keyid}"
      "\<forall>r \<in> set (feed_records feed). validate_transition (prior_status (the_str (jget_null r ''receipt_id'')) (pl_status d)) r (receipt_ids os) = Inr ()"
      "digest \<notin> pb_payload_sha256 ` set (pl_publications d)"
      "fold_res (upsert_status (feed_sequence feed) published os) (feed_records feed) (pl_status d) = Inr t"
      "d' = d\<lparr>pl_publications := pl_publications d @ [\<lparr>pb_sequence = feed_sequence feed, pb_root_keyid = keyid, pb_payload_sha256 = digest,
              pb_feed_json = canonical_feed feed, pb_envelope_body = bytes,
              pb_generated_at = the_str (jget_null feed ''generated_at''), pb_expires_at = the_str (jget_null feed ''expires_at''),
              pb_published_at = published\<rparr>],
          pl_metadata := (if map_of (pl_metadata d) ''root_keyid'' = None then pl_metadata d @ [(''root_keyid'', keyid)] else pl_metadata d),
          pl_status := t\<rparr>"
proof -
  note run = assms [unfolded publish_commit_def Let_def reject_if_Inr]
  have root: "map_of (pl_metadata d) ''root_keyid'' \<in> {None, Some keyid}" using conjunct1 [OF run] by blast
  note rest = conjunct2 [OF conjunct2 [OF run]]
  show thesis
  proof (cases "latest_publication (pl_publications d) \<noteq> None \<and> feed_sequence feed = pb_sequence (the (latest_publication (pl_publications d)))")
    case True
    then obtain p where p: "latest_publication (pl_publications d) = Some p" "feed_sequence feed = pb_sequence p" by auto
    have "reject_if (digest \<noteq> pb_payload_sha256 p) (Rejected ''lifecycle_equivocation'')
       (and_then (publication_view_of (feed_sequence feed) d) (\<lambda>v. Inr (v, d))) = Inr (v, d')"
      using rest [unfolded if_P [OF True]] p(1) by simp
    then have "pb_payload_sha256 p = digest" "d' = d" by (simp_all add: reject_if_Inr and_then_Inr)
    then show thesis using p root by (intro again)
  next
    case False
    have all: "fold_res (\<lambda>r _. validate_transition (P r) r ids) rs () = Inr x \<longleftrightarrow> (\<forall>r \<in> set rs. validate_transition (P r) r ids = Inr ())" for P ids rs x
      by (induction rs) (auto simp: and_then_Inr)
    note rest' = rest [unfolded if_not_P [OF False] reject_if_Inr and_then_Inr]
    from rest' have "feed_sequence feed = next_sequence (pl_publications d)"
      "\<forall>r \<in> set (feed_records feed). validate_transition (prior_status (the_str (jget_null r ''receipt_id'')) (pl_status d)) r (receipt_ids os) = Inr ()"
      "digest \<notin> pb_payload_sha256 ` set (pl_publications d)"
      by (auto simp: and_then_Inr reject_if_Inr all)
    moreover obtain t where "fold_res (upsert_status (feed_sequence feed) published os) (feed_records feed) (pl_status d) = Inr t"
      "d' = d\<lparr>pl_publications := pl_publications d @ [\<lparr>pb_sequence = feed_sequence feed, pb_root_keyid = keyid, pb_payload_sha256 = digest,
              pb_feed_json = canonical_feed feed, pb_envelope_body = bytes,
              pb_generated_at = the_str (jget_null feed ''generated_at''), pb_expires_at = the_str (jget_null feed ''expires_at''),
              pb_published_at = published\<rparr>],
          pl_metadata := (if map_of (pl_metadata d) ''root_keyid'' = None then pl_metadata d @ [(''root_keyid'', keyid)] else pl_metadata d),
          pl_status := t\<rparr>"
      using rest' by (auto simp: and_then_Inr reject_if_Inr)
    ultimately show thesis using root by (intro new)
  qed
qed

subsection \<open>The status table\<close>

definition row_view :: "status_row \<Rightarrow> string \<times> string option \<times> string option" where
  "row_view row = (sr_status row, sr_superseded_by row, sr_reason row)"

definition record_view :: "(string \<times> json) list \<Rightarrow> string \<times> string option \<times> string option" where
  "record_view r = (the_str (jget_null r ''status''), opt_str (jget_null r ''superseded_by''), opt_str (jget_null r ''reason''))"

abbreviation record_rid :: "(string \<times> json) list \<Rightarrow> string" where
  "record_rid r \<equiv> the_str (jget_null r ''receipt_id'')"

lemma upsert_prior:
  assumes "upsert_status n published os r t = Inr t'"
  shows "\<exists>row. prior_status (record_rid r) t' = Some row \<and> row_view row = record_view r"
    "q \<noteq> record_rid r \<Longrightarrow> prior_status q t' = prior_status q t"
proof -
  from assms obtain v where v: "order_by_receipt os (record_rid r) = Some v"
    by (auto simp: upsert_status_def Let_def split: option.splits)
  define row where "row = \<lparr>sr_receipt_id = record_rid r, sr_order_id = o_order_id (ov_order v), sr_status = the_str (jget_null r ''status''),
     sr_superseded_by = opt_str (jget_null r ''superseded_by''), sr_reason = opt_str (jget_null r ''reason''), sr_sequence = n, sr_updated_at = published\<rparr>"
  have t': "t' = (if record_rid r \<in> sr_receipt_id ` set t
      then update_where (\<lambda>x. sr_receipt_id x = record_rid r) (\<lambda>x. row\<lparr>sr_order_id := sr_order_id x\<rparr>) t else t @ [row])"
    using assms v by (auto simp: upsert_status_def Let_def row_def reject_if_Inr split: if_splits)
  have rid: "sr_receipt_id row = record_rid r" by (simp add: row_def)
  have upd: "prior_status q (update_where (\<lambda>x. sr_receipt_id x = record_rid r) (\<lambda>x. row\<lparr>sr_order_id := sr_order_id x\<rparr>) t)
      = map_option (\<lambda>x. if sr_receipt_id x = record_rid r then row\<lparr>sr_order_id := sr_order_id x\<rparr> else x) (prior_status q t)" for q
    unfolding prior_status_def by (rule find_update_where) (simp add: rid)
  have view: "row_view (row\<lparr>sr_order_id := x\<rparr>) = record_view r" "row_view row = record_view r" for x
    by (simp_all add: row_view_def record_view_def row_def)
  show "\<exists>row. prior_status (record_rid r) t' = Some row \<and> row_view row = record_view r"
  proof (cases "record_rid r \<in> sr_receipt_id ` set t")
    case True
    then obtain x where "prior_status (record_rid r) t = Some x"
      by (cases "prior_status (record_rid r) t") (auto simp: prior_status_def find_None_iff)
    moreover from this have "sr_receipt_id x = record_rid r" by (auto simp: prior_status_def dest: find_SomeD)
    ultimately show ?thesis using True view by (simp add: t' upd)
  next
    case False
    then have "prior_status (record_rid r) t = None" by (force simp: prior_status_def find_None_iff)
    with False show ?thesis using view rid by (simp add: t' prior_status_def find_append)
  qed
  show "q \<noteq> record_rid r \<Longrightarrow> prior_status q t' = prior_status q t"
  proof (cases "record_rid r \<in> sr_receipt_id ` set t")
    case True
    assume q: "q \<noteq> record_rid r"
    then have "prior_status q t = Some x \<Longrightarrow> sr_receipt_id x \<noteq> record_rid r" for x
      by (auto simp: prior_status_def dest: find_SomeD)
    then show ?thesis using True by (cases "prior_status q t") (auto simp: t' upd)
  next
    case False
    assume "q \<noteq> record_rid r"
    with False show ?thesis using rid by (simp add: t' prior_status_def find_append split: option.splits)
  qed
qed

lemma upsert_all:
  assumes "fold_res (upsert_status n published os) rs t = Inr t'" "distinct (map record_rid rs)"
  shows "\<forall>r \<in> set rs. \<exists>row. prior_status (record_rid r) t' = Some row \<and> row_view row = record_view r"
    "q \<notin> record_rid ` set rs \<Longrightarrow> prior_status q t' = prior_status q t"
proof -
  have "(\<forall>r \<in> set rs. \<exists>row. prior_status (record_rid r) t' = Some row \<and> row_view row = record_view r)
     \<and> (\<forall>q. q \<notin> record_rid ` set rs \<longrightarrow> prior_status q t' = prior_status q t)"
    using assms
  proof (induction rs arbitrary: t)
    case (Cons r rs)
    then obtain u where u: "upsert_status n published os r t = Inr u" "fold_res (upsert_status n published os) rs u = Inr t'"
      by (auto simp: and_then_Inr)
    have new: "record_rid r \<notin> record_rid ` set rs" using Cons.prems(2) by auto
    note ih = Cons.IH [OF u(2)] Cons.prems(2)
    obtain row where "prior_status (record_rid r) u = Some row" "row_view row = record_view r" using upsert_prior(1) [OF u(1)] by blast
    moreover have "prior_status (record_rid r) t' = prior_status (record_rid r) u" using ih new by simp
    moreover have "q \<noteq> record_rid r \<Longrightarrow> prior_status q u = prior_status q t" for q by (rule upsert_prior(2) [OF u(1)])
    ultimately show ?case using ih by auto
  qed simp
  then show "\<forall>r \<in> set rs. \<exists>row. prior_status (record_rid r) t' = Some row \<and> row_view row = record_view r"
    "q \<notin> record_rid ` set rs \<Longrightarrow> prior_status q t' = prior_status q t" by auto
qed

subsection \<open>The invariant\<close>

text \<open>The publications are numbered from one, all by the bound root.\<close>

definition chain_ok :: "(string \<times> string) list \<Rightarrow> publication list \<Rightarrow> bool" where
  "chain_ok md ps \<longleftrightarrow> map pb_sequence ps = map int [1..<Suc (length ps)]
     \<and> (\<forall>p \<in> set ps. map_of md ''root_keyid'' = Some (pb_root_keyid p))"

text \<open>Each is an envelope of its root whose payload has the recorded digest and sequence.\<close>

definition publication_ok :: "ed25519 \<Rightarrow> publication \<Rightarrow> bool" where
  "publication_ok ed p \<longleftrightarrow> (\<exists>jwk feed payload. verify_lifecycle_envelope ed (pb_envelope_body p) jwk = Inr (feed, payload)
     \<and> jwk_thumbprint jwk = Inr (pb_root_keyid p) \<and> pb_payload_sha256 p = sha256_hex payload \<and> pb_sequence p = feed_sequence feed)"

text \<open>The status table says what the newest feed says.\<close>

definition status_ok :: "ed25519 \<Rightarrow> publication list \<Rightarrow> status_row list \<Rightarrow> bool" where
  "status_ok ed ps t \<longleftrightarrow> (\<forall>jwk feed payload. ps \<noteq> [] \<longrightarrow> verify_lifecycle_envelope ed (pb_envelope_body (last ps)) jwk = Inr (feed, payload)
     \<longrightarrow> (\<forall>r \<in> set (feed_records feed). \<exists>row. prior_status (record_rid r) t = Some row \<and> row_view row = record_view r))"

definition paid_ok :: "access_config \<Rightarrow> ed25519 \<Rightarrow> 'z paid_db_scheme \<Rightarrow> bool" where
  "paid_ok cfg ed d \<longleftrightarrow> market_ok cfg d \<and> chain_ok (pl_metadata d) (pl_publications d)
     \<and> list_all (publication_ok ed) (pl_publications d) \<and> status_ok ed (pl_publications d) (pl_status d)"

lemma market_ok_paid [simp]:
  "market_ok cfg (d\<lparr>pl_publications := ps\<rparr>) = market_ok cfg d" "market_ok cfg (d\<lparr>pl_metadata := md\<rparr>) = market_ok cfg d"
  "market_ok cfg (d\<lparr>pl_status := t\<rparr>) = market_ok cfg d"
proof -
  have "store_ok env (d\<lparr>pl_publications := ps\<rparr>) = store_ok env d" "store_ok env (d\<lparr>pl_metadata := md\<rparr>) = store_ok env d"
    "store_ok env (d\<lparr>pl_status := t\<rparr>) = store_ok env d" for env
    by (rule store_ok_cong; simp)+
  then show "market_ok cfg (d\<lparr>pl_publications := ps\<rparr>) = market_ok cfg d" "market_ok cfg (d\<lparr>pl_metadata := md\<rparr>) = market_ok cfg d"
    "market_ok cfg (d\<lparr>pl_status := t\<rparr>) = market_ok cfg d"
    by (simp_all add: market_ok_def access_ok_def)
qed

lemma chain_sorted: "chain_ok md ps \<Longrightarrow> sort_key pb_sequence ps = ps"
proof -
  assume "chain_ok md ps"
  then have "sorted (map pb_sequence ps)" by (simp add: chain_ok_def sorted_map del: upt_Suc)
  then show ?thesis by (rule sort_key_id_if_sorted)
qed

lemma chain_latest: "chain_ok md ps \<Longrightarrow> latest_publication ps = (if ps = [] then None else Some (last ps))"
  by (cases ps rule: rev_cases) (simp_all add: latest_publication_def chain_sorted)

lemma chain_last: "chain_ok md ps \<Longrightarrow> ps \<noteq> [] \<Longrightarrow> pb_sequence (last ps) = int (length ps)"
proof -
  assume "chain_ok md ps" "ps \<noteq> []"
  then have "last (map pb_sequence ps) = last (map int [1..<Suc (length ps)])" by (simp add: chain_ok_def)
  moreover have "last (map pb_sequence ps) = pb_sequence (last ps)" using \<open>ps \<noteq> []\<close> by (rule last_map)
  moreover have "1 \<le> length ps" using \<open>ps \<noteq> []\<close> by (cases ps) auto
  ultimately show ?thesis by simp
qed

lemma chain_next: "chain_ok md ps \<Longrightarrow> next_sequence ps = int (length ps) + 1"
  by (simp add: next_sequence_def chain_latest chain_last)

lemma chain_append:
  assumes "chain_ok md ps" "map_of md ''root_keyid'' \<in> {None, Some (pb_root_keyid p)}" "pb_sequence p = int (length ps) + 1"
  shows "chain_ok (if map_of md ''root_keyid'' = None then md @ [(''root_keyid'', pb_root_keyid p)] else md) (ps @ [p])"
proof -
  have "map_of (if map_of md ''root_keyid'' = None then md @ [(''root_keyid'', pb_root_keyid p)] else md) ''root_keyid'' = Some (pb_root_keyid p)"
    using assms(2) by (auto simp: map_add_def)
  moreover have "\<forall>q \<in> set ps. pb_root_keyid q = pb_root_keyid p" using assms(1,2) by (fastforce simp: chain_ok_def)
  ultimately show ?thesis using assms(1,3) by (simp add: chain_ok_def)
qed

text \<open>The payload of an envelope does not depend on the key that verifies it.\<close>

lemma verify_dsse_same:
  assumes "verify_dsse_envelope ed bytes pt jwk n = Inr p" "verify_dsse_envelope ed bytes pt jwk' n = Inr p'"
  shows "p = p'"
proof -
  have payload: "\<exists>kvs. strict_json ''invalid_envelope'' bytes = Inr (JObj kvs) \<and> b64_std_decode (jget_null kvs ''payload'') n = Inr q"
    if "verify_dsse_envelope ed bytes pt j n = Inr q" for j q
  proof -
    note run = that [unfolded verify_dsse_envelope_def reject_if_Inr and_then_Inr]
    from run obtain env where env: "strict_json ''invalid_envelope'' bytes = Inr env" by blast
    obtain kvs where kvs: "env = JObj kvs" using run env by (cases env) auto
    obtain sg where "jget kvs ''signatures'' = Some (JArr [JObj sg])"
      using run env kvs by (auto simp: reject_if_Inr split: option.splits json.splits list.splits)
    with run env kvs show ?thesis by (auto simp: txn_simps)
  qed
  from payload [OF assms(1)] payload [OF assms(2)] show ?thesis by auto
qed

lemma verify_feed_same:
  assumes "verify_lifecycle_envelope ed bytes jwk = Inr (f, p)" "verify_lifecycle_envelope ed bytes jwk' = Inr (f', p')"
  shows "f = f' \<and> p = p'"
proof -
  from assms have "verify_dsse_envelope ed bytes LIFECYCLE_PAYLOAD_TYPE jwk 1000000 = Inr p" "verify_dsse_envelope ed bytes LIFECYCLE_PAYLOAD_TYPE jwk' 1000000 = Inr p'"
    by (auto simp: verify_lifecycle_envelope_def and_then_Inr)
  then have "p = p'" by (rule verify_dsse_same)
  with assms show ?thesis by (auto simp: verify_lifecycle_envelope_def and_then_Inr)
qed

lemma verified_records:
  assumes "verify_lifecycle_envelope ed bytes jwk = Inr (feed, payload)"
  shows "well_formed_feed feed" "distinct (map record_rid (feed_records feed))"
    "r \<in> set (feed_records feed) \<Longrightarrow> jget_null r ''receipt_id'' = JStr (record_rid r) \<and> jget_null r ''status'' \<in> JStr ` set RECEIPT_STATUSES
       \<and> record_is (JObj r) (record_rid r)"
proof -
  show wf: "well_formed_feed feed" using assms by (auto simp: verify_lifecycle_envelope_def txn_simps validate_iff)
  then obtain receipts ids where rs: "jget_null feed ''receipts'' = JArr receipts" "list_all2 record_is receipts ids" "distinct ids"
    by (auto simp: well_formed_feed_def)
  have recs: "feed_records feed = map obj_of receipts" by (simp add: feed_records_def rs(1) arr_of_def)
  have one: "record_is item i \<Longrightarrow> record_rid (obj_of item) = i \<and> item = JObj (obj_of item)" for item i
    by (auto simp: record_is_def obj_of_def)
  from rs(2) have "map record_rid (feed_records feed) = ids" unfolding recs by (induction rule: list_all2_induct) (auto dest: one)
  with rs(3) show "distinct (map record_rid (feed_records feed))" by simp
  assume "r \<in> set (feed_records feed)"
  then obtain k where k: "k < length receipts" "r = obj_of (receipts ! k)" unfolding recs by (auto simp: in_set_conv_nth)
  then have item: "record_is (receipts ! k) (ids ! k)" using rs(2) by (simp add: list_all2_conv_all_nth)
  with one [OF item] k(2) show "jget_null r ''receipt_id'' = JStr (record_rid r) \<and> jget_null r ''status'' \<in> JStr ` set RECEIPT_STATUSES
       \<and> record_is (JObj r) (record_rid r)"
    by (auto simp: record_is_def obj_of_def)
qed

lemma publish_checks_inv:
  assumes "publish_checks env ed bytes jwk at d = Inr (feed, digest, keyid, published, os)"
  obtains payload where "verify_lifecycle_envelope ed bytes jwk = Inr (feed, payload)" "jwk_thumbprint jwk = Inr keyid"
    "digest = sha256_hex payload" "delivered_orders env d = Inr os" "os \<noteq> []"
    "set (map (\<lambda>r. jget_null r ''receipt_id'') (feed_records feed)) = JStr ` set (receipt_ids os)"
  using assms by (auto simp: publish_checks_def txn_simps)

lemma paid_step_ok:
  assumes ok: "paid_ok cfg ed d" and step: "paid_step cfg ed d d'"
  shows "paid_ok cfg ed d'"
  using step
proof cases
  case market
  have m: "market_ok cfg d" using ok by (simp add: paid_ok_def)
  show ?thesis using ok access_step_ok [OF m market] paid_tables_more [OF access_step_more [OF m market]] by (simp add: paid_ok_def)
next
  case (import_feed bytes jwk at d0 feed digest keyid published os v)
  from import_feed(1) obtain payload where f: "verify_lifecycle_envelope ed bytes jwk = Inr (feed, payload)"
    "jwk_thumbprint jwk = Inr keyid" "digest = sha256_hex payload" by (rule publish_checks_inv)
  from import_feed(2) show ?thesis
  proof (cases rule: publish_commit_cases)
    case (new t)
    define p where "p = \<lparr>pb_sequence = feed_sequence feed, pb_root_keyid = keyid, pb_payload_sha256 = digest,
              pb_feed_json = canonical_feed feed, pb_envelope_body = bytes,
              pb_generated_at = the_str (jget_null feed ''generated_at''), pb_expires_at = the_str (jget_null feed ''expires_at''),
              pb_published_at = published\<rparr>"
    have chain: "chain_ok (pl_metadata d) (pl_publications d)" using ok by (simp add: paid_ok_def)
    have "chain_ok (pl_metadata d') (pl_publications d')"
    proof -
      have "pl_publications d' = pl_publications d @ [p]" "pb_root_keyid p = keyid" "pb_sequence p = feed_sequence feed"
        "pl_metadata d' = (if map_of (pl_metadata d) ''root_keyid'' = None then pl_metadata d @ [(''root_keyid'', keyid)] else pl_metadata d)"
        by (simp_all add: new(6) p_def)
      moreover have "chain_ok (if map_of (pl_metadata d) ''root_keyid'' = None then pl_metadata d @ [(''root_keyid'', pb_root_keyid p)] else pl_metadata d)
          (pl_publications d @ [p])"
        by (rule chain_append [OF chain]) (use new(1,2) chain_next [OF chain] in \<open>simp_all add: p_def\<close>)
      ultimately show ?thesis by (simp only:)
    qed
    moreover have "publication_ok ed p" using f by (auto simp: publication_ok_def p_def)
    moreover have "status_ok ed (pl_publications d') t"
      using upsert_all(1) [OF new(5) verified_records(2) [OF f(1)]] verify_feed_same [OF f(1)]
      by (auto simp: status_ok_def new(6))
    moreover have "market_ok cfg d'" using ok by (simp add: paid_ok_def new(6))
    ultimately show ?thesis using ok by (simp add: paid_ok_def new(6) p_def)
  qed (use ok in simp)
qed

subsection \<open>What no step undoes\<close>

text \<open>An invalidated receipt keeps its status, successor and reason.\<close>

definition final_kept :: "'z paid_db_scheme \<Rightarrow> 'z paid_db_scheme \<Rightarrow> bool" where
  "final_kept d d' \<longleftrightarrow> (\<forall>rid row. prior_status rid (pl_status d) = Some row \<longrightarrow> sr_status row \<noteq> ''current''
     \<longrightarrow> (\<exists>row'. prior_status rid (pl_status d') = Some row' \<and> row_view row' = row_view row))"

lemma final_kept_refl [simp]: "final_kept d d"
  by (simp add: final_kept_def)

lemma final_keptD:
  assumes "final_kept d d'" "prior_status rid (pl_status d) = Some row" "sr_status row \<noteq> ''current''"
  obtains row' where "prior_status rid (pl_status d') = Some row'" "row_view row' = row_view row" "sr_status row' = sr_status row"
proof -
  from assms obtain row' where "prior_status rid (pl_status d') = Some row'" "row_view row' = row_view row"
    unfolding final_kept_def by blast
  moreover from this(2) have "sr_status row' = sr_status row" by (simp add: row_view_def)
  ultimately show thesis by (rule that)
qed

lemma final_kept_trans:
  assumes "final_kept d d1" "final_kept d1 d2" shows "final_kept d d2"
  unfolding final_kept_def
proof (intro allI impI)
  fix rid row assume a: "prior_status rid (pl_status d) = Some row" "sr_status row \<noteq> ''current''"
  obtain r1 where r1: "prior_status rid (pl_status d1) = Some r1" "row_view r1 = row_view row" "sr_status r1 = sr_status row"
    by (rule final_keptD [OF assms(1) a])
  with a(2) have "sr_status r1 \<noteq> ''current''" by simp
  with assms(2) r1(1) obtain r2 where "prior_status rid (pl_status d2) = Some r2" "row_view r2 = row_view r1"
    unfolding final_kept_def by blast
  with r1(2) show "\<exists>row'. prior_status rid (pl_status d2) = Some row' \<and> row_view row' = row_view row" by simp
qed

lemma row_values: "jget (record_from_row row) ''status'' = Some (JStr (sr_status row))"
  "jget (record_from_row row) ''superseded_by'' = map_option JStr (sr_superseded_by row)"
  "jget (record_from_row row) ''reason'' = map_option JStr (sr_reason row)"
  by (cases "sr_superseded_by row"; cases "sr_reason row"; simp add: record_from_row_def jget_def)+

lemma dict_eq_view:
  assumes "dict_eq (record_from_row row) r"
  shows "record_view r = row_view row"
proof -
  have get: "jget r k = jget (record_from_row row) k" for k
  proof (cases "k \<in> fst ` set (record_from_row row)")
    case False
    with assms have "k \<notin> fst ` set r" by (simp add: dict_eq_def)
    with False show ?thesis by (simp add: jget_def map_of_eq_None_iff [symmetric])
  next
    case True
    with assms show ?thesis unfolding dict_eq_def by metis
  qed
  have null: "jget_null r k = (case jget r k of None \<Rightarrow> JNull | Some v \<Rightarrow> v)" for k by (simp add: jget_null_def jget_def)
  show ?thesis
    by (cases "sr_superseded_by row"; cases "sr_reason row") (simp_all add: record_view_def row_view_def null get row_values opt_str_def)
qed

lemma transition_keeps_final:
  assumes "validate_transition (Some row) r ids = Inr ()" "sr_status row \<noteq> ''current''"
  shows "record_view r = row_view row"
proof (rule dict_eq_view)
  show "dict_eq (record_from_row row) r"
    using assms by (auto simp: validate_transition_def Let_def reject_if_Inr and_then_Inr)
qed

lemma paid_step_final:
  assumes ok: "paid_ok cfg ed d" and step: "paid_step cfg ed d d'"
  shows "final_kept d d'"
  using step
proof cases
  case market
  have m: "market_ok cfg d" using ok by (simp add: paid_ok_def)
  show ?thesis using paid_tables_more(3) [OF access_step_more [OF m market]] by (simp add: final_kept_def)
next
  case (import_feed bytes jwk at d0 feed digest keyid published os v)
  from import_feed(1) obtain payload where f: "verify_lifecycle_envelope ed bytes jwk = Inr (feed, payload)" by (rule publish_checks_inv)
  from import_feed(2) show ?thesis
  proof (cases rule: publish_commit_cases)
    case (new t)
    note all = upsert_all [OF new(5) verified_records(2) [OF f]]
    show ?thesis unfolding final_kept_def
    proof (intro allI impI)
      fix rid row assume prior: "prior_status rid (pl_status d) = Some row" "sr_status row \<noteq> ''current''"
      have t: "pl_status d' = t" by (simp add: new(6))
      show "\<exists>row'. prior_status rid (pl_status d') = Some row' \<and> row_view row' = row_view row"
      proof (cases "rid \<in> record_rid ` set (feed_records feed)")
        case True
        then obtain r where r: "r \<in> set (feed_records feed)" "rid = record_rid r" by blast
        with new(3) prior have "validate_transition (Some row) r (receipt_ids os) = Inr ()" by metis
        from transition_keeps_final [OF this prior(2)] all(1) r t show ?thesis by auto
      next
        case False
        with all(2) prior(1) t show ?thesis by auto
      qed
    qed
  qed simp
qed

interpretation paid: invariant_system "\<lambda>d. market_initial cfg d \<and> map_of (pl_metadata d) ''root_keyid'' = None \<and> pl_publications d = [] \<and> pl_status d = []"
  "paid_step cfg ed" "paid_ok cfg ed" for cfg ed
proof
  fix d :: "'z paid_db_scheme"
  assume "market_initial cfg d \<and> map_of (pl_metadata d) ''root_keyid'' = None \<and> pl_publications d = [] \<and> pl_status d = []"
  then show "paid_ok cfg ed d"
    using market.start [of cfg d] by (simp add: paid_ok_def chain_ok_def status_ok_def)
qed (rule paid_step_ok)

subsection \<open>The publications as an append-only log\<close>

type_synonym feed_log = "string option \<times> string list"

fun log_accept :: "string \<Rightarrow> int \<Rightarrow> string \<Rightarrow> feed_log \<Rightarrow> feed_log option" where
  "log_accept keyid n digest (root, ds) =
     (if root \<noteq> None \<and> root \<noteq> Some keyid then None
      else if ds \<noteq> [] \<and> n = int (length ds) then (if last ds = digest then Some (root, ds) else None)
      else if n = int (length ds) + 1 then Some (Some keyid, ds @ [digest]) else None)"

definition log_of :: "'z paid_db_scheme \<Rightarrow> feed_log" where
  "log_of d = (map_of (pl_metadata d) ''root_keyid'', map pb_payload_sha256 (pl_publications d))"

lemma publish_refines:
  assumes ok: "paid_ok cfg ed d" and run: "publish_commit feed digest keyid bytes published os d = Inr (v, d')"
  shows "log_accept keyid (feed_sequence feed) digest (log_of d) = Some (log_of d')"
proof -
  have chain: "chain_ok (pl_metadata d) (pl_publications d)" using ok by (simp add: paid_ok_def)
  from run show ?thesis
  proof (cases rule: publish_commit_cases)
    case (again p)
    then have "pl_publications d \<noteq> []" "p = last (pl_publications d)" by (auto simp: chain_latest [OF chain] split: if_splits)
    with again chain_last [OF chain] show ?thesis by (auto simp: log_of_def last_map)
  next
    case (new t)
    with chain_next [OF chain] show ?thesis by (auto simp: log_of_def map_add_def)
  qed
qed

definition feed_accept :: "string \<Rightarrow> int \<Rightarrow> string \<Rightarrow> 'z paid_db_scheme \<Rightarrow> 'z paid_db_scheme \<Rightarrow> access_config \<Rightarrow> ed25519 \<Rightarrow> bool" where
  "feed_accept keyid n digest d d' cfg ed \<longleftrightarrow> (\<exists>bytes jwk at (d0 :: 'z paid_db_scheme) feed published os v.
     publish_checks (ac_environment cfg) ed bytes jwk at d0 = Inr (feed, digest, keyid, published, os)
     \<and> publish_commit feed digest keyid bytes published os d = Inr (v, d') \<and> n = feed_sequence feed)"

definition feed_pinned :: "'z paid_db_scheme \<Rightarrow> string \<Rightarrow> int \<Rightarrow> string \<Rightarrow> bool" where
  "feed_pinned d keyid n digest \<longleftrightarrow> (\<exists>p \<in> set (pl_publications d). pb_sequence p = n \<and> pb_payload_sha256 p = digest)"

lemma chain_bound: "chain_ok md ps \<Longrightarrow> p \<in> set ps \<Longrightarrow> pb_sequence p \<le> int (length ps)"
proof -
  assume "chain_ok md ps" "p \<in> set ps"
  then have "pb_sequence p \<in> set (map int [1..<Suc (length ps)])" unfolding chain_ok_def by (metis image_eqI set_map)
  then show ?thesis by auto
qed

lemma chain_unique:
  assumes "chain_ok md ps" "p \<in> set ps" "q \<in> set ps" "pb_sequence p = pb_sequence q"
  shows "p = q"
proof -
  have "distinct (map int [1..<Suc (length ps)])" by (simp add: distinct_map del: upt_Suc)
  with assms(1) have "distinct (map pb_sequence ps)" by (simp add: chain_ok_def del: upt_Suc)
  with assms(2-4) show ?thesis by (auto simp: distinct_map inj_on_def)
qed

interpretation published: monotone_feed "paid_ok cfg ed" "paid_step cfg ed" "\<lambda>keyid n digest d d'. feed_accept keyid n digest d d' cfg ed"
  feed_pinned for cfg ed
proof
  fix d d' d'' :: "'z paid_db_scheme" and k n dg n' dg'
  show "paid_ok cfg ed d \<Longrightarrow> paid_step cfg ed d d' \<Longrightarrow> paid_ok cfg ed d'" by (rule paid_step_ok)
  show "feed_accept k n dg d d' cfg ed \<Longrightarrow> paid_step cfg ed d d'" unfolding feed_accept_def by (blast intro: paid_step.import_feed)
  show "feed_pinned d' k n dg" if ok: "paid_ok cfg ed d" and acc: "feed_accept k n dg d d' cfg ed"
  proof -
    from acc obtain bytes published os v feed where run: "publish_commit feed dg k bytes published os d = Inr (v, d')" "n = feed_sequence feed"
      by (auto simp: feed_accept_def)
    have chain: "chain_ok (pl_metadata d) (pl_publications d)" using ok by (simp add: paid_ok_def)
    from run(1) show ?thesis
    proof (cases rule: publish_commit_cases)
      case (again p)
      then have "p \<in> set (pl_publications d)" by (auto simp: chain_latest [OF chain] split: if_splits)
      with again run(2) show ?thesis by (auto simp: feed_pinned_def)
    qed (use run(2) in \<open>auto simp: feed_pinned_def\<close>)
  qed
  show "feed_pinned d' k n dg" if ok: "paid_ok cfg ed d" and step: "paid_step cfg ed d d'" and pin: "feed_pinned d k n dg"
    using step
  proof cases
    case market
    have "market_ok cfg d" using ok by (simp add: paid_ok_def)
    with pin paid_tables_more(2) [OF access_step_more [OF this market]] show ?thesis by (simp add: feed_pinned_def)
  next
    case import_feed
    from import_feed(2) show ?thesis by (cases rule: publish_commit_cases) (use pin in \<open>auto simp: feed_pinned_def\<close>)
  qed
  show "n \<le> n' \<and> (n' = n \<longrightarrow> dg' = dg)" if ok: "paid_ok cfg ed d" and pin: "feed_pinned d k n dg" and acc: "feed_accept k n' dg' d d' cfg ed"
  proof -
    from acc obtain bytes published os v feed where run: "publish_commit feed dg' k bytes published os d = Inr (v, d')" "n' = feed_sequence feed"
      by (auto simp: feed_accept_def)
    have chain: "chain_ok (pl_metadata d) (pl_publications d)" using ok by (simp add: paid_ok_def)
    from pin obtain q where q: "q \<in> set (pl_publications d)" "pb_sequence q = n" "pb_payload_sha256 q = dg" by (auto simp: feed_pinned_def)
    from run(1) show ?thesis
    proof (cases rule: publish_commit_cases)
      case (again p)
      then have p: "p \<in> set (pl_publications d)" "pb_sequence p = int (length (pl_publications d))"
        by (auto simp: chain_latest [OF chain] chain_last [OF chain] split: if_splits)
      show ?thesis using again run(2) p q chain_bound [OF chain q(1)] chain_unique [OF chain p(1) q(1)] by auto
    next
      case new
      then show ?thesis using run(2) q chain_bound [OF chain q(1)] chain_next [OF chain] by simp
    qed
  qed
qed

end
