(* ===== verification/PaidClaims.thy ===== *)
theory PaidClaims
  imports PaidInvariant
begin

section \<open>Published lifecycle state: its guarantees\<close>

text \<open>
  The publication tables refine an append-only log of one root, an invalidated receipt is
  never reported as current again, and neither a rollback nor an equivocation is imported.
\<close>

subsection \<open>Runs of the log\<close>

definition log_step :: "feed_log \<Rightarrow> feed_log \<Rightarrow> bool" where
  "log_step l l' \<longleftrightarrow> (\<exists>keyid n digest. log_accept keyid n digest l = Some l')"

lemma log_step_extends: "log_step l l' \<Longrightarrow> \<exists>more. snd l' = snd l @ more"
  by (cases l) (auto simp: log_step_def split: if_splits)

lemma log_run_extends: "rtranclp log_step l l' \<Longrightarrow> \<exists>more. snd l' = snd l @ more"
proof (induction rule: rtranclp_induct)
  case (step y z)
  with log_step_extends [OF step(2)] show ?case by auto
qed simp

lemma paid_step_log:
  assumes ok: "paid_ok cfg ed d" and step: "paid_step cfg ed d d'"
  shows "rtranclp log_step (log_of d) (log_of d')"
  using step
proof cases
  case market
  have "market_ok cfg d" using ok by (simp add: paid_ok_def)
  from paid_tables_more [OF access_step_more [OF this market]] show ?thesis by (simp add: log_of_def)
next
  case (import_feed bytes jwk at d0 feed digest keyid published os v)
  have "log_step (log_of d) (log_of d')" unfolding log_step_def using publish_refines [OF ok import_feed(2)] by blast
  then show ?thesis by blast
qed

lemma paid_run_log:
  assumes "paid_ok cfg ed d" "rtranclp (paid_step cfg ed) d d'"
  shows "rtranclp log_step (log_of d) (log_of d')"
  by (rule paid.run_related [OF assms(2,1)]) (auto intro: paid_step_log)

subsection \<open>The receipt of an order\<close>

lemma current_entry:
  assumes run: "evaluate_receipt_lifecycle ed fl schema_ok renv fenv root now minimum = Inr res" and cur: "lr_lifecycle res = Current"
  obtains feed payload r where "verify_lifecycle_envelope ed fenv root = Inr (feed, payload)" "r \<in> set (feed_records feed)"
    "lr_receipt_id res = Some (record_rid r)" "jget_null r ''status'' = JStr ''current''"
proof -
  have said: "lr_lifecycle res \<noteq> Signature_Valid_Lifecycle_Unknown" using cur by simp
  obtain feed payload issuer receipt where f: "verify_lifecycle_envelope ed fenv root = Inr (feed, payload)"
    and state: "if jget_null issuer ''status'' = JStr ''compromised'' then lr_lifecycle res = Revoked_Key_Compromise
     else receipt_state (find (\<lambda>r. jget r ''receipt_id'' = Some (JStr (the_str (jget_null receipt ''receipt_id'')))) (feed_records feed))
       (JObj receipt) now = Inr (lr_lifecycle res, lr_reason res)"
    and rid: "lr_receipt_id res = Some (the_str (jget_null receipt ''receipt_id''))"
    by (rule evaluate_inv [OF run said])
  define id where "id = the_str (jget_null receipt ''receipt_id'')"
  have "receipt_state (find (\<lambda>r. jget r ''receipt_id'' = Some (JStr id)) (feed_records feed)) (JObj receipt) now = Inr (Current, lr_reason res)"
    using state cur by (simp add: id_def split: if_splits)
  then obtain r where r: "find (\<lambda>r. jget r ''receipt_id'' = Some (JStr id)) (feed_records feed) = Some r"
    "jget_null r ''status'' \<notin> {JStr ''revoked_key_compromise'', JStr ''revoked_evaluator_defect'', JStr ''superseded''}"
    by (auto simp: receipt_state_def and_then_Inr simp del: json_path.simps split: option.splits if_splits)
  from find_in [OF r(1)] have member: "r \<in> set (feed_records feed)" "record_rid r = id" by (auto simp: jget_null_def jget_def)
  with verified_records(3) [OF f this(1)] r(2) have "jget_null r ''status'' = JStr ''current''" by (auto simp: RECEIPT_STATUSES_def)
  with f member rid show thesis by (intro that) (simp_all add: id_def)
qed

lemma current_row:
  assumes ok: "paid_ok cfg ed d" and run: "evaluate_order_receipt env ed fl schema_ok oid renv root now d = Inr res"
    and cur: "lr_lifecycle res = Current"
  obtains rid row where "lr_receipt_id res = Some rid" "prior_status rid (pl_status d) = Some row" "sr_status row = ''current''"
proof -
  obtain fenv moment where e: "latest_envelope d = Inr fenv" "evaluate_receipt_lifecycle ed fl schema_ok renv fenv root moment 0 = Inr res"
    using run [unfolded evaluate_order_receipt_def and_then_Inr reject_if_Inr] by blast
  have chain: "chain_ok (pl_metadata d) (pl_publications d)" using ok by (simp add: paid_ok_def)
  from e(1) have last: "pl_publications d \<noteq> []" "fenv = pb_envelope_body (last (pl_publications d))"
    by (auto simp: latest_envelope_def chain_latest [OF chain] split: if_splits)
  obtain feed payload r where r: "verify_lifecycle_envelope ed fenv root = Inr (feed, payload)" "r \<in> set (feed_records feed)"
    "lr_receipt_id res = Some (record_rid r)" "jget_null r ''status'' = JStr ''current''"
    by (rule current_entry [OF e(2) cur])
  from ok last r(1,2) obtain row where "prior_status (record_rid r) (pl_status d) = Some row" "row_view row = record_view r"
    unfolding paid_ok_def status_ok_def by blast
  with r(3,4) show thesis by (intro that) (auto simp: row_view_def record_view_def)
qed

subsection \<open>A database for the witnesses\<close>

text \<open>One publication about the demo receipt, with the row of the status table it calls for.\<close>

definition demo_paid :: "string \<Rightarrow> json \<Rightarrow> status_row \<Rightarrow> paid_db" where
  "demo_paid body entry row =
     \<lparr>metadata = [(''schema_version'', STORE_SCHEMA_VERSION), (''environment'', ''sandbox'')], quotes = [], orders = [], provider_events = [],
      financial_entries = [], cost_records = [], order_history = [],
      access_metadata = [], tenants = [], quote_bindings = [], order_bindings = [], audit_events_table = [],
      pl_metadata = [(''root_keyid'', raw_thumbprint demo_raw)],
      pl_publications = [\<lparr>pb_sequence = 1, pb_root_keyid = raw_thumbprint demo_raw,
        pb_payload_sha256 = sha256_hex (dumps (JObj (feed_about entry))), pb_feed_json = canonical_feed (feed_about entry),
        pb_envelope_body = body, pb_generated_at = ''2026-06-01T00:00:00Z'', pb_expires_at = ''2026-06-08T00:00:00Z'',
        pb_published_at = ''2026-06-01T00:01:00Z''\<rparr>],
      pl_status = [row]\<rparr>"

definition demo_config :: access_config where
  "demo_config = \<lparr>ac_environment = Sandbox, ac_auth_pepper = replicate 32 CHR ''p'', ac_delivery_secret = replicate 32 CHR ''s''\<rparr>"

lemma demo_paid_ok:
  assumes env: "verify_lifecycle_envelope demo_ed body demo_root = Inr (feed_about (JObj r), dumps (JObj (feed_about (JObj r))))"
    and row: "sr_receipt_id row = record_rid r" "row_view row = record_view r"
  shows "paid_ok demo_config demo_ed (demo_paid body (JObj r) row)"
proof -
  have recs: "feed_records (feed_about (JObj r)) = [r]" "feed_sequence (feed_about (JObj r)) = 1"
    by (simp_all add: feed_records_def feed_sequence_def feed_about_fields arr_of_def obj_of_def)
  have "market_initial demo_config (demo_paid body (JObj r) row)"
    by (simp add: market_initial_def store_initial_def demo_paid_def demo_config_def)
  then have "market_ok demo_config (demo_paid body (JObj r) row)" by (rule market.start)
  moreover have "status_ok demo_ed (pl_publications (demo_paid body (JObj r) row)) (pl_status (demo_paid body (JObj r) row))"
    using verify_feed_same [OF env] row recs(1) by (auto simp: status_ok_def demo_paid_def prior_status_def)
  moreover have "list_all (publication_ok demo_ed) (pl_publications (demo_paid body (JObj r) row))"
    using env recs(2) demo_jwks(1) by (auto simp: demo_paid_def publication_ok_def)
  ultimately show ?thesis by (simp add: paid_ok_def chain_ok_def demo_paid_def)
qed

definition revoked_fields :: "(string \<times> json) list" where
  "revoked_fields = [(''reason'', JStr ''wrong artifact''), (''receipt_id'', JStr demo_id), (''status'', JStr ''revoked_evaluator_defect'')]"

definition revoked_row :: status_row where
  "revoked_row = \<lparr>sr_receipt_id = demo_id, sr_order_id = ''ord_test_000000000000000000000001'', sr_status = ''revoked_evaluator_defect'',
     sr_superseded_by = None, sr_reason = Some ''wrong artifact'', sr_sequence = 1, sr_updated_at = ''2026-06-01T00:01:00Z''\<rparr>"

lemma revoked_fine: "entry_fine (JObj revoked_fields)"
proof -
  have "py_len ''wrong artifact'' = 14" by code_simp
  then have "reason_ok (JStr ''wrong artifact'')" by (simp add: reason_ok_def)
  then show ?thesis
    using demo_id_short by (simp add: entry_fine_def revoked_fields_def record_is_def jget_null_def RECEIPT_STATUSES_def
      starts_with_def byte_of_def) (simp add: demo_id_def)
qed

lemma revoked_paid:
  obtains body where "paid_ok demo_config demo_ed (demo_paid body (JObj revoked_fields) revoked_row)"
proof -
  obtain body where "verify_lifecycle_envelope demo_ed body demo_root = Inr (feed_about (JObj revoked_fields), dumps (JObj (feed_about (JObj revoked_fields))))"
    by (rule feed_about_envelope [OF revoked_fine])
  from demo_paid_ok [OF this, of revoked_row] show thesis
    by (intro that) (simp add: revoked_row_def revoked_fields_def row_view_def record_view_def jget_null_def opt_str_def)
qed

subsection \<open>The properties\<close>

text \<open>
  C29. However publications, orders and the calls of the access layer interleave, the tables
  refine an append-only log of one root: every publication extends the log or repeats its last
  entry, nothing is removed or replaced, and entry \<open>i\<close> of the log is the digest of the payload of
  an envelope that the bound root signed and whose sequence is \<open>i + 1\<close>.
\<close>

theorem publications_refine_log:
  assumes ok: "paid_ok cfg ed d" and run: "rtranclp (paid_step cfg ed) d d'"
  shows "rtranclp log_step (log_of d) (log_of d') \<and> (\<exists>more. snd (log_of d') = snd (log_of d) @ more)
    \<and> (\<forall>i < length (pl_publications d'). \<exists>jwk feed payload.
         verify_lifecycle_envelope ed (pb_envelope_body (pl_publications d' ! i)) jwk = Inr (feed, payload)
         \<and> jwk_thumbprint jwk = Inr (the (fst (log_of d')))
         \<and> snd (log_of d') ! i = sha256_hex payload \<and> feed_sequence feed = int i + 1)"
proof (intro conjI allI impI)
  show steps: "rtranclp log_step (log_of d) (log_of d')" by (rule paid_run_log [OF ok run])
  show "\<exists>more. snd (log_of d') = snd (log_of d) @ more" by (rule log_run_extends [OF steps])
  fix i assume i: "i < length (pl_publications d')"
  let ?p = "pl_publications d' ! i"
  have ok': "paid_ok cfg ed d'" by (rule paid.run_inv [OF run ok])
  with i have chain: "chain_ok (pl_metadata d') (pl_publications d')" and good: "publication_ok ed ?p"
    by (simp_all add: paid_ok_def list_all_length)
  from chain have "map pb_sequence (pl_publications d') ! i = map int [1..<Suc (length (pl_publications d'))] ! i"
    by (simp add: chain_ok_def)
  with i have n: "pb_sequence ?p = int i + 1" by (simp del: upt_Suc)
  from chain i have "fst (log_of d') = Some (pb_root_keyid ?p)" by (simp add: chain_ok_def log_of_def)
  with good n i show "\<exists>jwk feed payload. verify_lifecycle_envelope ed (pb_envelope_body ?p) jwk = Inr (feed, payload)
         \<and> jwk_thumbprint jwk = Inr (the (fst (log_of d')))
         \<and> snd (log_of d') ! i = sha256_hex payload \<and> feed_sequence feed = int i + 1"
    unfolding publication_ok_def by (force simp: log_of_def)
qed

theorem publications_refine_log_witness:
  "\<exists>(d :: paid_db) jwk feed payload. length (pl_publications d) = 1
     \<and> verify_lifecycle_envelope demo_ed (pb_envelope_body (pl_publications d ! 0)) jwk = Inr (feed, payload) \<and> feed_sequence feed = 1"
proof -
  obtain body where ok: "paid_ok demo_config demo_ed (demo_paid body (JObj revoked_fields) revoked_row)" by (rule revoked_paid)
  have one: "length (pl_publications (demo_paid body (JObj revoked_fields) revoked_row)) = 1" by (simp add: demo_paid_def)
  let ?d = "demo_paid body (JObj revoked_fields) revoked_row"
  from publications_refine_log [OF ok rtranclp.rtrancl_refl, THEN conjunct2, THEN conjunct2, THEN spec [of _ 0]] one
  obtain jwk feed payload where f: "verify_lifecycle_envelope demo_ed (pb_envelope_body (pl_publications ?d ! 0)) jwk = Inr (feed, payload)"
    "feed_sequence feed = int 0 + 1"
    by (elim impE exE conjE) simp_all
  from f(2) have "feed_sequence feed = 1" by simp
  with one f(1) show ?thesis by (intro exI [of _ ?d] exI [of _ jwk] exI [of _ feed] exI [of _ payload] conjI)
qed

text \<open>
  C30. An invalidated receipt stays invalidated: once the status table says that a receipt is
  superseded or revoked, every later state has the same status, successor and reason for it,
  and no evaluation of the receipt of any order, at any time and with any root key, reports
  it as current.
\<close>

theorem invalidated_never_current:
  assumes ok: "paid_ok cfg ed d" and row: "prior_status rid (pl_status d) = Some row" "sr_status row \<noteq> ''current''"
    and run: "rtranclp (paid_step cfg ed) d d'"
  shows "(\<exists>row'. prior_status rid (pl_status d') = Some row' \<and> sr_status row' = sr_status row
       \<and> sr_superseded_by row' = sr_superseded_by row \<and> sr_reason row' = sr_reason row)
    \<and> \<not> (\<exists>env oid renv root now (res :: lifecycle_result).
          evaluate_order_receipt env ed fl schema_ok oid renv root now d' = Inr res
          \<and> lr_receipt_id res = Some rid \<and> lr_lifecycle res = Current)"
proof -
  have kept: "final_kept d d'"
    by (rule paid.run_related [OF run ok]) (auto intro: final_kept_trans paid_step_final)
  obtain row' where row': "prior_status rid (pl_status d') = Some row'" "row_view row' = row_view row" "sr_status row' = sr_status row"
    by (rule final_keptD [OF kept row])
  have ok': "paid_ok cfg ed d'" by (rule paid.run_inv [OF run ok])
  have "False" if "evaluate_order_receipt env ed fl schema_ok oid renv root now d' = Inr res" "lr_receipt_id res = Some rid"
    "lr_lifecycle res = Current" for env oid renv root now res
    by (rule current_row [OF ok' that(1,3)]) (use that(2) row row' in simp)
  with row'(1,2) show ?thesis by (auto simp: row_view_def)
qed

theorem invalidated_never_current_witness:
  "\<exists>(d :: paid_db) row. prior_status demo_id (pl_status d) = Some row \<and> sr_status row = ''revoked_evaluator_defect''
     \<and> \<not> (\<exists>env oid renv root now (res :: lifecycle_result).
          evaluate_order_receipt env demo_ed id (\<lambda>_. True) oid renv root now d = Inr res
          \<and> lr_receipt_id res = Some demo_id \<and> lr_lifecycle res = Current)"
proof -
  obtain body where ok: "paid_ok demo_config demo_ed (demo_paid body (JObj revoked_fields) revoked_row)" by (rule revoked_paid)
  have row: "prior_status demo_id (pl_status (demo_paid body (JObj revoked_fields) revoked_row)) = Some revoked_row"
    "sr_status revoked_row \<noteq> ''current''"
    by (simp_all add: demo_paid_def prior_status_def revoked_row_def)
  have "sr_status revoked_row = ''revoked_evaluator_defect''" by (simp add: revoked_row_def)
  with invalidated_never_current [OF ok row rtranclp.rtrancl_refl, of id "\<lambda>_. True"] row(1) show ?thesis by blast
qed

end
