(* ===== verification/Effects.thy ===== *)
theory Effects
  imports Prelude
begin

section \<open>Programs of several transactions\<close>

text \<open>
  A method that commits more than once is a function from the database to its outcome and the
  database it leaves: when it raises, what it committed before stays.  \<open>run_write\<close> of the
  prelude is the program of one transaction.  \<open>runs step m\<close> says that whatever the outcome of
  \<open>m\<close>, the database it leaves is reached by steps of the relation.
\<close>

type_synonym ('s, 'a) prog = "'s \<Rightarrow> 'a res \<times> 's"

definition give :: "'a res \<Rightarrow> ('s, 'a) prog" where
  "give r s = (r, s)"

definition look :: "('s \<Rightarrow> 'a res) \<Rightarrow> ('s, 'a) prog" where
  "look f s = (f s, s)"

definition prog_then :: "('s, 'a) prog \<Rightarrow> ('a \<Rightarrow> ('s, 'b) prog) \<Rightarrow> ('s, 'b) prog" where
  "prog_then m k s = (case m s of (Inl e, t) \<Rightarrow> (Inl e, t) | (Inr x, t) \<Rightarrow> k x t)"

definition check_prog :: "bool \<Rightarrow> exn \<Rightarrow> ('s, 'a) prog \<Rightarrow> ('s, 'a) prog" where
  "check_prog b e m = (if b then give (Inl e) else m)"

text \<open>\<open>try: m except E: handler; raise ...\<close>: the handler decides by the exception.\<close>

definition handle :: "('s, 'a) prog \<Rightarrow> (exn \<Rightarrow> ('s, 'a) prog) \<Rightarrow> ('s, 'a) prog" where
  "handle m h s = (case m s of (Inl e, t) \<Rightarrow> h e t | (Inr x, t) \<Rightarrow> (Inr x, t))"

named_theorems prog_simps \<open>what the programs do\<close>

lemma give_simps [prog_simps]: "give r s = (r, s)"
  by (simp add: give_def)

lemma look_simps [prog_simps]: "look f s = (f s, s)"
  by (simp add: look_def)

lemma prog_then_simps [prog_simps]:
  "m s = (Inl e, t) \<Longrightarrow> prog_then m k s = (Inl e, t)" "m s = (Inr x, t) \<Longrightarrow> prog_then m k s = k x t"
  by (simp_all add: prog_then_def)

lemma check_prog_simps [simp]: "check_prog True e m = give (Inl e)" "check_prog False e m = m"
  by (simp_all add: check_prog_def)

lemma prog_then_look: "prog_then (look f) k s = (case f s of Inl e \<Rightarrow> (Inl e, s) | Inr x \<Rightarrow> k x s)"
  by (simp add: prog_then_def look_def split: sum.splits)

lemma prog_then_give: "prog_then (give r) k s = (case r of Inl e \<Rightarrow> (Inl e, s) | Inr x \<Rightarrow> k x s)"
  by (simp add: prog_then_def give_def split: sum.splits)

lemma run_write_eq: "run_write t s = (case t s of Inl e \<Rightarrow> (Inl e, s) | Inr (x, s') \<Rightarrow> (Inr x, s'))"
  by (simp add: run_write_def)

lemma prog_then_Inr: "prog_then m k s = (Inr y, t) \<longleftrightarrow> (\<exists>x s1. m s = (Inr x, s1) \<and> k x s1 = (Inr y, t))"
  by (auto simp: prog_then_def split: sum.splits prod.splits)

lemma run_write_Inr: "run_write w s = (Inr x, t) \<longleftrightarrow> w s = Inr (x, t)"
  by (auto simp: run_write_def split: sum.splits prod.splits)

lemma give_Inr: "give r s = (Inr x, t) \<longleftrightarrow> r = Inr x \<and> t = s"
  by (auto simp: give_def)

subsection \<open>Everything a program does is steps\<close>

named_theorems runs_intros \<open>rules of the programs that only take steps\<close>

definition runs :: "('s \<Rightarrow> 's \<Rightarrow> bool) \<Rightarrow> ('s, 'a) prog \<Rightarrow> bool" where
  "runs step m \<longleftrightarrow> (\<forall>s. rtranclp step s (snd (m s)))"

lemma runsD: "runs step m \<Longrightarrow> m s = (r, t) \<Longrightarrow> rtranclp step s t"
  unfolding runs_def by (metis snd_conv)

lemma runs_give [runs_intros]: "runs step (give r)"
  by (simp add: runs_def give_def)

lemma runs_look [runs_intros]: "runs step (look f)"
  by (simp add: runs_def look_def)

lemma runs_then [runs_intros]: "runs step m \<Longrightarrow> (\<And>x. runs step (k x)) \<Longrightarrow> runs step (prog_then m k)"
  unfolding runs_def prog_then_def by (auto split: prod.splits sum.splits intro: rtranclp_trans)

lemma runs_check [runs_intros]: "runs step m \<Longrightarrow> runs step (check_prog b e m)"
  by (simp add: check_prog_def runs_give)

lemma runs_if [runs_intros]: "runs step m \<Longrightarrow> runs step m' \<Longrightarrow> runs step (if b then m else m')"
  by simp

lemma runs_handle [runs_intros]: "runs step m \<Longrightarrow> (\<And>e. runs step (h e)) \<Longrightarrow> runs step (handle m h)"
  unfolding runs_def handle_def by (auto split: prod.splits sum.splits intro: rtranclp_trans)

lemma runs_write [runs_intros]: "(\<And>s x t. w s = Inr (x, t) \<Longrightarrow> step s t) \<Longrightarrow> runs step (run_write w)"
  unfolding runs_def run_write_def by (auto split: sum.splits)

lemma runs_mono: "runs step m \<Longrightarrow> (\<And>s t. step s t \<Longrightarrow> step' s t) \<Longrightarrow> runs step' m"
  unfolding runs_def using mono_rtranclp [of step step'] by blast

text \<open>
  A Hoare-style reading of the same: from a state that satisfies the invariant, the outcome and
  the state it is left in are related to the start.
\<close>

definition leads :: "('s \<Rightarrow> bool) \<Rightarrow> ('s, 'a) prog \<Rightarrow> ('a \<Rightarrow> 's \<Rightarrow> bool) \<Rightarrow> ('s \<Rightarrow> bool) \<Rightarrow> bool" where
  "leads P m Q E \<longleftrightarrow> (\<forall>s r t. P s \<longrightarrow> m s = (r, t) \<longrightarrow> (case r of Inl _ \<Rightarrow> E t | Inr x \<Rightarrow> Q x t))"

lemma leadsD: "leads P m Q E \<Longrightarrow> P s \<Longrightarrow> m s = (Inr x, t) \<Longrightarrow> Q x t" "leads P m Q E \<Longrightarrow> P s \<Longrightarrow> m s = (Inl e, t) \<Longrightarrow> E t"
  by (auto simp: leads_def dest!: spec)

lemma leads_then:
  assumes m: "leads P m Q E" and k: "\<And>x. leads (Q x) (k x) R E"
  shows "leads P (prog_then m k) R E"
  unfolding leads_def
proof (intro allI impI)
  fix s r t assume p: "P s" and run: "prog_then m k s = (r, t)"
  show "case r of Inl _ \<Rightarrow> E t | Inr x \<Rightarrow> R x t"
  proof (cases "m s")
    case (Pair r1 t1)
    show ?thesis
    proof (cases r1)
      case (Inl e)
      with Pair run have "r = Inl e" "t = t1" by (simp_all add: prog_then_def)
      with leadsD(2) [OF m p] Pair Inl show ?thesis by simp
    next
      case (Inr x)
      with Pair run have "k x t1 = (r, t)" by (simp add: prog_then_def)
      moreover have "Q x t1" using leadsD(1) [OF m p] Pair Inr by simp
      ultimately show ?thesis using k [of x] by (simp add: leads_def)
    qed
  qed
qed

lemma leads_give: "(\<And>s. P s \<Longrightarrow> case r of Inl _ \<Rightarrow> E s | Inr x \<Rightarrow> Q x s) \<Longrightarrow> leads P (give r) Q E"
  by (auto simp: leads_def give_def)

lemma leads_look: "(\<And>s. P s \<Longrightarrow> case f s of Inl _ \<Rightarrow> E s | Inr x \<Rightarrow> Q x s) \<Longrightarrow> leads P (look f) Q E"
  by (auto simp: leads_def look_def)

lemma leads_check: "(\<And>s. b \<Longrightarrow> P s \<Longrightarrow> E s) \<Longrightarrow> (\<not> b \<Longrightarrow> leads P m Q E) \<Longrightarrow> leads P (check_prog b e m) Q E"
  by (auto simp: check_prog_def leads_def give_def)

lemma leads_if: "(b \<Longrightarrow> leads P m Q E) \<Longrightarrow> (\<not> b \<Longrightarrow> leads P m' Q E) \<Longrightarrow> leads P (if b then m else m') Q E"
  by simp

lemma leads_write:
  "(\<And>s. P s \<Longrightarrow> E s) \<Longrightarrow> (\<And>s x t. P s \<Longrightarrow> w s = Inr (x, t) \<Longrightarrow> Q x t) \<Longrightarrow> leads P (run_write w) Q E"
  by (auto simp: leads_def run_write_def split: sum.splits)

lemma leads_weaken: "leads P m Q E \<Longrightarrow> (\<And>s. P' s \<Longrightarrow> P s) \<Longrightarrow> (\<And>x s. Q x s \<Longrightarrow> Q' x s) \<Longrightarrow> leads P' m Q' E"
  by (fastforce simp: leads_def split: sum.splits)

subsection \<open>Rules for programs in sequence\<close>

text \<open>What a pure step computed is a fact about the rest.\<close>

lemma leads_give_then:
  "(\<And>x. r = Inr x \<Longrightarrow> leads P (k x) Q E) \<Longrightarrow> (\<And>s. P s \<Longrightarrow> E s) \<Longrightarrow> leads P (prog_then (give r) k) Q E"
  by (cases r) (auto simp: leads_def prog_then_give split: sum.splits)

lemma leads_look_then:
  "(\<And>s x. P s \<Longrightarrow> f s = Inr x \<Longrightarrow> leads P (k x) Q E) \<Longrightarrow> (\<And>s. P s \<Longrightarrow> E s) \<Longrightarrow> leads P (prog_then (look f) k) Q E"
  unfolding leads_def prog_then_look by (fastforce split: sum.splits)

lemma leads_write_then:
  assumes w: "\<And>s x t. P s \<Longrightarrow> w s = Inr (x, t) \<Longrightarrow> P' x t" and k: "\<And>x. leads (P' x) (k x) Q E" and e: "\<And>s. P s \<Longrightarrow> E s"
  shows "leads P (prog_then (run_write w) k) Q E"
  by (rule leads_then [OF leads_write k]) (use w e in auto)

lemma leads_return: "(\<And>s. P s \<Longrightarrow> Q x s) \<Longrightarrow> leads P (give (Inr x)) Q E"
  by (rule leads_give) simp

lemma leads_pure: "(\<phi> \<Longrightarrow> leads P m Q E) \<Longrightarrow> leads (\<lambda>s. P s \<and> \<phi>) m Q E"
  by (auto simp: leads_def)

end
