(* ===== verification/Url.thy ===== *)
theory Url
  imports PyText
begin

section \<open>Splitting URLs\<close>

text \<open>
  What the code uses of \<open>urllib.parse.urlsplit\<close>.  The library also refuses a network location
  whose brackets hold no IP address or whose normal form holds a delimiter; that check, and the
  lower case of non-ASCII host names, are the parameters \<open>netloc_fine\<close> and \<open>lower\<close>.
\<close>

record unicode_tables =
  netloc_fine :: "string \<Rightarrow> bool"
  lower :: "string \<Rightarrow> string"

record url_parts =
  up_scheme :: string
  up_netloc :: string
  up_path :: string
  up_query :: string
  up_fragment :: string

definition ascii_lower :: "char \<Rightarrow> char" where
  "ascii_lower c = (if is_upper c then chr_of (byte_of c + 32) else c)"

definition scheme_char :: "char \<Rightarrow> bool" where
  "scheme_char c \<longleftrightarrow> is_alnum c \<or> c \<in> set ''+-.''"

text \<open>Leading control characters and spaces go, tabs and line breaks go everywhere.\<close>

definition clean_url :: "string \<Rightarrow> string" where
  "clean_url url = filter (\<lambda>c. byte_of c \<notin> {9, 10, 13}) (dropWhile (\<lambda>c. byte_of c \<le> 32) url)"

definition split_scheme :: "string \<Rightarrow> string \<times> string" where
  "split_scheme url =
     (case partition_at CHR '':'' url of (s, found, rest) \<Rightarrow>
        if found \<and> s \<noteq> [] \<and> (is_lower (hd s) \<or> is_upper (hd s)) \<and> list_all scheme_char s
        then (map ascii_lower s, rest) else ([], url))"

definition split_netloc :: "string \<Rightarrow> string \<times> string" where
  "split_netloc url =
     (if starts_with ''//'' url
      then (takeWhile (\<lambda>c. c \<notin> set ''/?#'') (drop 2 url), dropWhile (\<lambda>c. c \<notin> set ''/?#'') (drop 2 url))
      else ([], url))"

definition urlsplit :: "unicode_tables \<Rightarrow> string \<Rightarrow> url_parts res" where
  "urlsplit u url =
     (case split_scheme (clean_url url) of (scheme, rest) \<Rightarrow>
      case split_netloc rest of (netloc, tail) \<Rightarrow>
        reject_if ((CHR ''['' \<in> set netloc) \<noteq> (CHR '']'' \<in> set netloc)) ValueError
       (case partition_at CHR ''#'' tail of (before, _, fragment) \<Rightarrow>
        case partition_at CHR ''?'' before of (path, _, query) \<Rightarrow>
          reject_if (\<not> netloc_fine u netloc) ValueError
            (Inr \<lparr>up_scheme = scheme, up_netloc = netloc, up_path = path, up_query = query, up_fragment = fragment\<rparr>)))"

text \<open>\<open>rpartition('@')\<close>: the host part follows the last at sign.\<close>

definition has_userinfo :: "url_parts \<Rightarrow> bool" where
  "has_userinfo p \<longleftrightarrow> CHR ''@'' \<in> set (up_netloc p)"

definition host_part :: "url_parts \<Rightarrow> string" where
  "host_part p = rev (takeWhile (\<lambda>c. c \<noteq> CHR ''@'') (rev (up_netloc p)))"

definition hostname :: "unicode_tables \<Rightarrow> url_parts \<Rightarrow> string option" where
  "hostname u p =
     (case partition_at CHR ''['' (host_part p) of (_, bracket, inside) \<Rightarrow>
        let host = (if bracket then fst (partition_at CHR '']'' inside) else fst (partition_at CHR '':'' (host_part p)))
        in if host = [] then None
           else case partition_at CHR ''%'' host of (name, percent, zone) \<Rightarrow>
             Some (lower u name @ (if percent then ''%'' else []) @ zone))"

lemma split_scheme_https:
  "split_scheme (clean_url (''https://'' @ s)) = (''https'', ''//'' @ filter (\<lambda>c. byte_of c \<notin> {9, 10, 13}) s)"
  by (simp add: clean_url_def split_scheme_def byte_of_def is_lower_def between_def scheme_char_def is_alnum_def
      ascii_lower_def is_upper_def)

end
