(* ===== verification/StripePayments.thy ===== *)
theory StripePayments
  imports PaidLifecycle Effects Url "HOL-Library.Sublist"
begin

section \<open>Stripe checkout and settlement\<close>

text \<open>
  \<^verbatim>\<open>stripe_payments.py\<close>: the adapter that creates checkout sessions and reconciles what the
  provider says.  The provider is a parameter, \<open>stripe_api\<close>: what each retrieval answers, or the
  exception it raises (\<open>ProviderError\<close> is \<open>stripe.StripeError\<close>); \<open>construct_event\<close> is the SDK's check
  of a webhook signature.  \<open>clock i\<close> is the instant of the i-th reading of the clock within a call.
  A method that commits more than once is a program of \<open>Effects\<close>.
\<close>

subsection \<open>Tables and configuration\<close>

record webhook_row =
  we_event_id :: string
  we_payload_digest :: string
  we_event_type :: string
  we_object_id :: string
  we_api_version :: string
  we_livemode :: bool
  we_status :: string
  we_order_id :: "string option"
  we_received_at :: string
  we_updated_at :: string

record reconciliation_row =
  rc_order_id :: string
  rc_source_event_id :: "string option"
  rc_checkout_id :: string
  rc_payment_id :: string
  rc_charge_id :: string
  rc_balance_id :: string
  rc_snapshot_digest :: string
  rc_payment_state :: string
  rc_observed_at :: string

record stripe_db = paid_db +
  sp_metadata :: "(string \<times> string) list"
  sp_events :: "webhook_row list"
  sp_reconciliations :: "reconciliation_row list"

record stripe_config =
  sc_environment :: environment
  sc_account_id :: string
  sc_webhook_secret :: string
  sc_success_url :: string
  sc_cancel_url :: string
  sc_live_checkout_enabled :: bool

record stripe_api =
  sa_checkout :: "string \<Rightarrow> json res"
  sa_payment :: "string \<Rightarrow> json res"
  sa_charge :: "string \<Rightarrow> json res"
  sa_balance :: "string \<Rightarrow> json res"
  sa_dispute :: "string \<Rightarrow> json res"
  sa_create_checkout :: "json \<Rightarrow> string \<Rightarrow> json res"

definition STRIPE_SDK_VERSION :: string where "STRIPE_SDK_VERSION = ''15.3.0''"
definition STRIPE_API_VERSION :: string where "STRIPE_API_VERSION = ''2026-06-24.dahlia''"
definition STRIPE_STATE_SCHEMA_VERSION :: string where "STRIPE_STATE_SCHEMA_VERSION = ''1''"
definition MAX_STRIPE_WEBHOOK_BYTES :: nat where "MAX_STRIPE_WEBHOOK_BYTES = 64000"
definition WEBHOOK_PROCESSING_LEASE :: int where "WEBHOOK_PROCESSING_LEASE = 10 * minute_us"

definition WEBHOOK_TYPES :: "string list" where
  "WEBHOOK_TYPES = [''checkout.session.completed'', ''checkout.session.async_payment_succeeded'',
     ''checkout.session.async_payment_failed'', ''payment_intent.succeeded'', ''payment_intent.payment_failed'',
     ''charge.succeeded'', ''charge.refunded'', ''charge.dispute.created'', ''charge.dispute.closed'']"

abbreviation bad_object :: exn where
  "bad_object \<equiv> Rejected ''invalid_stripe_object''"

abbreviation sc_livemode :: "stripe_config \<Rightarrow> bool" where
  "sc_livemode cfg \<equiv> sc_environment cfg = Live"

subsection \<open>Identifiers\<close>

definition re_account_id :: "string \<Rightarrow> bool" where
  "re_account_id s = re_prefix ''acct_'' (re_class is_alnum 8 64) s"

definition re_stripe_event_id :: "string \<Rightarrow> bool" where
  "re_stripe_event_id s = re_prefix ''evt_'' (re_class is_alnum 8 64) s"

text \<open>A lower-case kind of two to thirty-two letters or underscores, an underscore, the name.\<close>

definition re_object_id :: "string \<Rightarrow> bool" where
  "re_object_id s \<longleftrightarrow> (\<exists>n \<in> {2..32}. n < length s \<and> s ! n = CHR ''_'' \<and> is_lower (hd s)
     \<and> list_all (\<lambda>c. is_lower c \<or> c = CHR ''_'') (take n s) \<and> re_class is_alnum 8 128 (drop (Suc n) s))"

definition re_charge_id :: "string \<Rightarrow> bool" where
  "re_charge_id s = re_prefix ''ch_'' (re_class is_alnum 8 64) s"

definition re_balance_id :: "string \<Rightarrow> bool" where
  "re_balance_id s = re_prefix ''txn_'' (re_class is_alnum 8 64) s"

definition re_dispute_id :: "string \<Rightarrow> bool" where
  "re_dispute_id s = re_prefix ''dp_'' (re_class is_alnum 8 64) s"

subsection \<open>Reading provider values\<close>

definition stripe_parse_time :: "string \<Rightarrow> int res" where
  "stripe_parse_time s =
     reject_if (py_len s > 64) bad_object
    (case fromisoformat (normalize_z s) of
       Inl _ \<Rightarrow> Inl bad_object
     | Inr dt \<Rightarrow> reject_if (is_naive dt) bad_object (astimezone_utc dt))"

definition stripe_aware_datetime :: "pydatetime \<Rightarrow> int res" where
  "stripe_aware_datetime dt = reject_if (is_naive dt) bad_request (astimezone_utc dt)"

definition EPOCH_US :: int where
  "EPOCH_US = (ymd2ord 1970 1 1 - 1) * day_us"

text \<open>\<open>int(dt.timestamp())\<close> rounds towards zero.\<close>

definition int_timestamp :: "int \<Rightarrow> int" where
  "int_timestamp u = (if EPOCH_US \<le> u then (u - EPOCH_US) div second_us else - ((EPOCH_US - u) div second_us))"

definition MAX_EPOCH :: int where "MAX_EPOCH = 4102444800"

definition epoch_time :: "json \<Rightarrow> string res" where
  "epoch_time v = reject_if (\<not> bounded_int 0 MAX_EPOCH v) bad_object (Inr (iso_z (EPOCH_US + the_int v * second_us)))"

definition as_dict :: "json \<Rightarrow> (string \<times> json) list res" where
  "as_dict v = (case v of JObj kvs \<Rightarrow> Inr kvs | _ \<Rightarrow> Inl bad_object)"

definition reference_id :: "(string \<Rightarrow> bool) \<Rightarrow> json \<Rightarrow> string res" where
  "reference_id pattern v =
     (case (case v of JObj kvs \<Rightarrow> jget_null kvs ''id'' | _ \<Rightarrow> v) of
        JStr s \<Rightarrow> reject_if (\<not> pattern s) bad_object (Inr s)
      | _ \<Rightarrow> Inl bad_object)"

definition stripe_bounded_int :: "json \<Rightarrow> int res" where
  "stripe_bounded_int v = reject_if (\<not> bounded_int 0 10000000 v) bad_object (Inr (the_int v))"

definition metadata_of :: "json \<Rightarrow> (string \<times> json) list res" where
  "metadata_of v = and_then (as_dict v) (\<lambda>kvs. reject_if (\<not> list_all (\<lambda>(k, x). is_jstr x) kvs) bad_object (Inr kvs))"

definition retrieve :: "(string \<Rightarrow> json res) \<Rightarrow> string \<Rightarrow> (string \<times> json) list res" where
  "retrieve f i = and_then (f i) as_dict"

subsection \<open>Configuration\<close>

definition configured_url :: "unicode_tables \<Rightarrow> string \<Rightarrow> bool \<Rightarrow> string res" where
  "configured_url u url success =
     reject_if (\<not> (1 \<le> py_len url \<and> py_len url \<le> 2048)) ValueError
    (and_then (urlsplit u url) (\<lambda>p.
     reject_if (up_scheme p \<noteq> ''https'' \<or> hostname u p = None \<or> has_userinfo p \<or> up_fragment p \<noteq> []) ValueError
    (reject_if (success \<and> \<not> sublist ''{CHECKOUT_SESSION_ID}'' url) ValueError (Inr url))))"

definition secret_text :: "string \<Rightarrow> string \<Rightarrow> bool" where
  "secret_text start s \<longleftrightarrow> 16 \<le> py_len s \<and> py_len s \<le> 256 \<and> starts_with start s
     \<and> list_all (\<lambda>c. 33 \<le> byte_of c \<and> byte_of c \<le> 126) s"

definition account_matches :: "bool \<Rightarrow> string \<Rightarrow> (string \<times> json) list \<Rightarrow> bool" where
  "account_matches live account_id a \<longleftrightarrow> jget_null a ''object'' = JStr ''account'' \<and> jget_null a ''id'' = JStr account_id
     \<and> jget_null a ''charges_enabled'' = JBool True \<and> jget_null a ''details_submitted'' = JBool True
     \<and> (live \<longrightarrow> jget_null a ''payouts_enabled'' = JBool True)"

text \<open>\<open>account\<close> is the injected account object or what retrieving it answers.\<close>

definition configure_adapter ::
  "unicode_tables \<Rightarrow> environment \<Rightarrow> string \<Rightarrow> string \<Rightarrow> string \<Rightarrow> string \<Rightarrow> string \<Rightarrow> string \<Rightarrow> bool
    \<Rightarrow> string \<times> string \<Rightarrow> json res \<Rightarrow> stripe_config res" where
  "configure_adapter u env mode api_key webhook_secret account_id success_url cancel_url live_enabled installed account =
     reject_if (mode \<notin> {''test'', ''live''}) ValueError
    (reject_if (env \<noteq> (if mode = ''test'' then Sandbox else Live)) ValueError
    (reject_if (\<not> secret_text (if mode = ''test'' then ''sk_test_'' else ''sk_live_'') api_key) ValueError
    (reject_if (\<not> secret_text ''whsec_'' webhook_secret) ValueError
    (reject_if (mode = ''live'' \<and> \<not> live_enabled) ValueError
    (reject_if (\<not> re_account_id account_id) ValueError
    (reject_if (installed \<noteq> (STRIPE_SDK_VERSION, STRIPE_API_VERSION)) RuntimeError
    (and_then (configured_url u success_url True) (\<lambda>success.
     and_then (configured_url u cancel_url False) (\<lambda>cancel.
     and_then (case account of Inl ProviderError \<Rightarrow> Inl (Rejected ''stripe_api_error'') | r \<Rightarrow> r) (\<lambda>v.
     and_then (as_dict v) (\<lambda>a.
     reject_if (\<not> account_matches (mode = ''live'') account_id a) (Rejected ''stripe_account_mismatch'')
       (Inr \<lparr>sc_environment = env, sc_account_id = account_id, sc_webhook_secret = webhook_secret,
         sc_success_url = success, sc_cancel_url = cancel, sc_live_checkout_enabled = live_enabled\<rparr>))))))))))))"

definition stripe_initialize :: "stripe_config \<Rightarrow> 'z stripe_db_scheme \<Rightarrow> 'z stripe_db_scheme res" where
  "stripe_initialize cfg d =
     reject_if (map_of (metadata d) ''environment'' \<noteq> Some (environment_value (sc_environment cfg))) (Rejected ''commerce_environment_mismatch'')
    (let expected = [(''schema_version'', STRIPE_STATE_SCHEMA_VERSION), (''environment'', environment_value (sc_environment cfg)),
         (''mode'', if sc_livemode cfg then ''live'' else ''test''), (''stripe_sdk_version'', STRIPE_SDK_VERSION),
         (''stripe_api_version'', STRIPE_API_VERSION), (''stripe_account_id'', sc_account_id cfg)]
     in if sp_metadata d = [] then Inr (d\<lparr>sp_metadata := expected\<rparr>)
        else reject_if (set (sp_metadata d) \<noteq> set expected) (Rejected ''commerce_environment_mismatch'') (Inr d))"

subsection \<open>Checkout sessions\<close>

text \<open>The guard of a session; \<open>status not in {...}\<close> raises for a value that cannot be hashed.\<close>

definition validate_checkout ::
  "stripe_config \<Rightarrow> unicode_tables \<Rightarrow> (string \<times> json) list \<Rightarrow> order_row \<Rightarrow> quote_doc \<Rightarrow> bool \<Rightarrow> unit res" where
  "validate_checkout cfg u session order quote allow_completed =
     and_then (reference_id re_stripe_checkout_id (jget_null session ''id'')) (\<lambda>checkout_id.
     and_then (metadata_of (jget_null session ''metadata'')) (\<lambda>md.
     reject_if (\<not> starts_with (if sc_livemode cfg then ''cs_live_'' else ''cs_test_'') checkout_id
         \<or> jget_null session ''object'' \<noteq> JStr ''checkout.session''
         \<or> jget_null session ''livemode'' \<noteq> JBool (sc_livemode cfg)
         \<or> jget_null session ''mode'' \<noteq> JStr ''payment''
         \<or> jget_null session ''currency'' \<noteq> JStr (o_currency order)
         \<or> stripe_bounded_int (jget_null session ''amount_total'') \<noteq> Inr (o_quoted_amount_minor order)
         \<or> jget_null session ''client_reference_id'' \<noteq> JStr (o_order_id order)
         \<or> jget_null md ''vouchspec_order_id'' \<noteq> JStr (o_order_id order)
         \<or> jget_null md ''vouchspec_quote_id'' \<noteq> JStr (o_quote_id order)
         \<or> jget_null md ''vouchspec_account_id'' \<noteq> JStr (sc_account_id cfg)) bad_object
    (and_then (in_strings (jget_null session ''status'') (''open'' # (if allow_completed then [''complete'', ''expired''] else []))) (\<lambda>known.
     reject_if (\<not> known \<or> \<not> bounded_int 0 MAX_EPOCH (jget_null session ''expires_at'')) bad_object
    (and_then (stripe_parse_time (qd_expires_at quote)) (\<lambda>expires.
     reject_if (the_int (jget_null session ''expires_at'') \<noteq> int_timestamp expires) bad_object
    (if allow_completed then Inr ()
     else case jget_null session ''url'' of
       JStr url \<Rightarrow>
         reject_if (\<not> (1 \<le> py_len url \<and> py_len url \<le> 4096)) bad_object
        (and_then (urlsplit u url) (\<lambda>p.
         reject_if (up_scheme p \<noteq> ''https'' \<or> hostname u p \<noteq> Some ''checkout.stripe.com'') bad_object (Inr ())))
     | _ \<Rightarrow> Inl bad_object)))))))"

record checkout_view =
  cv_order :: public_order
  cv_checkout_id :: json
  cv_url :: json
  cv_expires_at :: string
  cv_livemode :: bool

definition checkout_view_of :: "public_order \<Rightarrow> (string \<times> json) list \<Rightarrow> checkout_view res" where
  "checkout_view_of order session =
     and_then (epoch_time (jget_null session ''expires_at'')) (\<lambda>expires.
     Inr \<lparr>cv_order = order, cv_checkout_id = jget_null session ''id'', cv_url = jget_null session ''url'',
       cv_expires_at = expires, cv_livemode = (jget_null session ''livemode'' = JBool True)\<rparr>)"

definition checkout_key :: "stripe_config \<Rightarrow> order_row \<Rightarrow> string" where
  "checkout_key cfg order = ''vouchspec_'' @ sha256_hex (environment_value (sc_environment cfg) @ [chr_of 0]
     @ sc_account_id cfg @ [chr_of 0] @ o_order_id order @ [chr_of 0] @ o_quote_id order)"

definition binding_metadata :: "stripe_config \<Rightarrow> order_row \<Rightarrow> json" where
  "binding_metadata cfg order = jstr_obj [(''vouchspec_order_id'', o_order_id order),
     (''vouchspec_quote_id'', o_quote_id order), (''vouchspec_account_id'', sc_account_id cfg)]"

definition checkout_params :: "stripe_config \<Rightarrow> order_row \<Rightarrow> int \<Rightarrow> json" where
  "checkout_params cfg order expires_at =
     JObj [(''mode'', JStr ''payment''), (''client_reference_id'', JStr (o_order_id order)),
       (''success_url'', JStr (sc_success_url cfg)), (''cancel_url'', JStr (sc_cancel_url cfg)),
       (''expires_at'', JInt expires_at), (''payment_method_types'', JArr [JStr ''card'']),
       (''metadata'', binding_metadata cfg order),
       (''payment_intent_data'', JObj [(''metadata'', binding_metadata cfg order)]),
       (''line_items'', JArr [JObj
         [(''price_data'', JObj [(''currency'', JStr (o_currency order)), (''unit_amount'', JInt (o_quoted_amount_minor order)),
             (''product_data'', jstr_obj [(''name'', ''VouchSpec fresh exact-version static validation''),
                (''description'', ''Signed static evidence for one immutable public Agent Skill'')])]),
          (''quantity'', JInt 1)]])]"

definition optional_payment_id :: "json \<Rightarrow> string option res" where
  "optional_payment_id v =
     (if v = JNull then Inr None else and_then (reference_id re_stripe_payment_id v) (\<lambda>p. Inr (Some p)))"

definition prepare_order_checkout ::
  "stripe_config \<Rightarrow> unicode_tables \<Rightarrow> stripe_api \<Rightarrow> string \<Rightarrow> pydatetime \<Rightarrow> ('z stripe_db_scheme, checkout_view) prog" where
  "prepare_order_checkout cfg u api order_id now =
     prog_then (give (stripe_aware_datetime now)) (\<lambda>observed.
     prog_then (look (get_order (sc_environment cfg) order_id)) (\<lambda>view.
     let order = ov_order view in
     prog_then (look (get_quote (sc_environment cfg) (o_quote_id order))) (\<lambda>quote.
     check_prog (o_provider order \<noteq> ''stripe'') bad_request
    (case o_provider_checkout_id order of
       Some cid \<Rightarrow>
         prog_then (give (retrieve (sa_checkout api) cid)) (\<lambda>session.
         prog_then (give (validate_checkout cfg u session order quote False)) (\<lambda>_.
         give (checkout_view_of view session)))
     | None \<Rightarrow>
         prog_then (give (stripe_parse_time (qd_expires_at quote))) (\<lambda>expires.
         prog_then (give (case and_then (sa_create_checkout api (checkout_params cfg order (int_timestamp expires)) (checkout_key cfg order)) as_dict
             of Inl ProviderError \<Rightarrow> Inl (Rejected ''stripe_api_error'') | r \<Rightarrow> r)) (\<lambda>session.
         prog_then (give (validate_checkout cfg u session order quote False)) (\<lambda>_.
         prog_then (give (reference_id re_stripe_checkout_id (jget_null session ''id''))) (\<lambda>checkout_id.
         prog_then (give (optional_payment_id (jget_null session ''payment_intent''))) (\<lambda>payment_id.
         prog_then (run_write (attach_checkout (sc_environment cfg) (o_order_id order) checkout_id payment_id (iso_z observed))) (\<lambda>view1.
         give (checkout_view_of view1 session)))))))))))"

definition prepare_checkout ::
  "stripe_config \<Rightarrow> unicode_tables \<Rightarrow> stripe_api \<Rightarrow> json \<Rightarrow> string \<Rightarrow> string \<Rightarrow> string \<Rightarrow> pydatetime
    \<Rightarrow> ('z stripe_db_scheme, checkout_view) prog" where
  "prepare_checkout cfg u api request quote_id idempotency_key buyer now =
     check_prog (\<not> re_idempotency idempotency_key) bad_request
    (prog_then (run_write (create_quote (sc_environment cfg) request quote_id now ''stripe'' (sc_live_checkout_enabled cfg))) (\<lambda>quote.
     prog_then (run_write (create_order (sc_environment cfg) (qd_quote_id quote) idempotency_key buyer now)) (\<lambda>view.
     prepare_order_checkout cfg u api (o_order_id (ov_order view)) now)))"

subsection \<open>Provider-neutral events\<close>

definition emit_event_id :: "stripe_config \<Rightarrow> string \<Rightarrow> string \<Rightarrow> string \<Rightarrow> int \<Rightarrow> string" where
  "emit_event_id cfg order_id event_type provider_reference fee =
     (if sc_environment cfg = Sandbox then ''evt_test_'' else ''evt_'')
     @ take 24 (sha256_hex (''stripe'' @ [chr_of 0] @ order_id @ [chr_of 0] @ event_type @ [chr_of 0]
         @ provider_reference @ [chr_of 0] @ show_int fee))"

definition emitted_json :: "stripe_config \<Rightarrow> order_row \<Rightarrow> string \<Rightarrow> string \<Rightarrow> int \<Rightarrow> string \<Rightarrow> json" where
  "emitted_json cfg order event_type provider_reference fee occurred_at =
     JObj [(''schema_version'', JStr ''1.0.0''), (''provider'', JStr ''stripe''),
       (''environment'', JStr (environment_value (sc_environment cfg))),
       (''event_id'', JStr (emit_event_id cfg (o_order_id order) event_type provider_reference fee)),
       (''type'', JStr event_type),
       (''payment_id'', case o_provider_payment_id order of None \<Rightarrow> JNull | Some p \<Rightarrow> JStr p),
       (''amount_minor'', JInt (o_quoted_amount_minor order)),
       (''fee_minor'', JInt (if event_type = ''payment.captured'' then fee else 0)),
       (''currency'', JStr (o_currency order)), (''occurred_at'', JStr occurred_at)]"

definition emit ::
  "stripe_config \<Rightarrow> order_row \<Rightarrow> string \<Rightarrow> string \<Rightarrow> int \<Rightarrow> string \<Rightarrow> string \<Rightarrow> ('z db_scheme, public_order) prog" where
  "emit cfg order event_type provider_reference fee occurred_at received_at =
     prog_then (give (stripe_parse_time occurred_at)) (\<lambda>_.
     prog_then (run_write (ingest_provider_event (sc_environment cfg)
         (emitted_json cfg order event_type provider_reference fee occurred_at) received_at)) (\<lambda>result.
     give (Inr (ir_order result))))"

subsection \<open>Reconciliation\<close>

definition record_reconciliation :: "reconciliation_row \<Rightarrow> json \<Rightarrow> ('z stripe_db_scheme, unit) txn" where
  "record_reconciliation row checkout_id d =
     (case checkout_id of
        JStr cid \<Rightarrow>
          (if (rc_order_id row, rc_snapshot_digest row) \<in> (\<lambda>r. (rc_order_id r, rc_snapshot_digest r)) ` set (sp_reconciliations d)
           then Inr ((), d)
           else reject_if (rc_order_id row \<notin> o_order_id ` set (orders d)) IntegrityError
             (Inr ((), d\<lparr>sp_reconciliations := sp_reconciliations d @ [row\<lparr>rc_checkout_id := cid\<rparr>]\<rparr>)))
      | _ \<Rightarrow> Inl InterfaceError)"

text \<open>The guards on the three objects behind a payment.\<close>

definition payment_bound :: "stripe_config \<Rightarrow> (string \<times> json) list \<Rightarrow> string \<Rightarrow> order_row \<Rightarrow> unit res" where
  "payment_bound cfg payment payment_id order =
     and_then (metadata_of (jget_null payment ''metadata'')) (\<lambda>md.
     reject_if (jget_null payment ''object'' \<noteq> JStr ''payment_intent''
         \<or> jget_null payment ''id'' \<noteq> JStr payment_id
         \<or> jget_null payment ''livemode'' \<noteq> JBool (sc_livemode cfg)
         \<or> jget_null payment ''currency'' \<noteq> JStr (o_currency order)
         \<or> stripe_bounded_int (jget_null payment ''amount'') \<noteq> Inr (o_quoted_amount_minor order)
         \<or> jget_null md ''vouchspec_order_id'' \<noteq> JStr (o_order_id order)
         \<or> jget_null md ''vouchspec_quote_id'' \<noteq> JStr (o_quote_id order)
         \<or> jget_null md ''vouchspec_account_id'' \<noteq> JStr (sc_account_id cfg)) bad_object (Inr ()))"

definition charge_bound :: "stripe_config \<Rightarrow> (string \<times> json) list \<Rightarrow> string \<Rightarrow> string \<Rightarrow> order_row \<Rightarrow> int res" where
  "charge_bound cfg charge charge_id payment_id order =
     and_then (reference_id re_stripe_payment_id (jget_null charge ''payment_intent'')) (\<lambda>charge_payment.
     and_then (stripe_bounded_int (jget_null charge ''amount_refunded'')) (\<lambda>refunded.
     reject_if (jget_null charge ''object'' \<noteq> JStr ''charge''
         \<or> jget_null charge ''id'' \<noteq> JStr charge_id
         \<or> charge_payment \<noteq> payment_id
         \<or> jget_null charge ''livemode'' \<noteq> JBool (sc_livemode cfg)
         \<or> jget_null charge ''currency'' \<noteq> JStr (o_currency order)
         \<or> stripe_bounded_int (jget_null charge ''amount'') \<noteq> Inr (o_quoted_amount_minor order)
         \<or> stripe_bounded_int (jget_null charge ''amount_captured'') \<noteq> Inr (o_quoted_amount_minor order)
         \<or> jget_null charge ''paid'' \<noteq> JBool True \<or> jget_null charge ''captured'' \<noteq> JBool True
         \<or> refunded > o_quoted_amount_minor order) bad_object
    (reject_if (0 < refunded \<and> refunded < o_quoted_amount_minor order) (Rejected ''stripe_partial_refund'') (Inr refunded))))"

text \<open>The amount, fee, net and whether the funds are available.\<close>

definition balance_bound :: "(string \<times> json) list \<Rightarrow> string \<Rightarrow> string \<Rightarrow> order_row \<Rightarrow> (int \<times> int \<times> bool) res" where
  "balance_bound balance balance_id charge_id order =
     and_then (stripe_bounded_int (jget_null balance ''amount'')) (\<lambda>amount.
     and_then (stripe_bounded_int (jget_null balance ''fee'')) (\<lambda>fee.
     reject_if (jget_null balance ''object'' \<noteq> JStr ''balance_transaction''
         \<or> jget_null balance ''id'' \<noteq> JStr balance_id
         \<or> reference_id re_charge_id (jget_null balance ''source'') \<noteq> Inr charge_id
         \<or> jget_null balance ''currency'' \<noteq> JStr (o_currency order)
         \<or> amount \<noteq> o_quoted_amount_minor order
         \<or> jget_null balance ''net'' \<noteq> JInt (amount - fee)) bad_object
    (and_then (in_strings (jget_null balance ''status'') [''pending'', ''available'']) (\<lambda>known.
     reject_if (\<not> known) bad_object (Inr (amount, fee, jget_null balance ''status'' = JStr ''available''))))))"

record reconciled =
  rd_state :: string
  rd_order :: public_order

definition snapshot_digest ::
  "(string \<times> json) list \<Rightarrow> string \<Rightarrow> (string \<times> json) list \<Rightarrow> string \<Rightarrow> int \<Rightarrow> (string \<times> json) list \<Rightarrow> string \<Rightarrow> int \<Rightarrow> int \<Rightarrow> string res" where
  "snapshot_digest session payment_id charge charge_id refunded balance balance_id amount fee =
     (let text_value = dumps (JObj
        [(''checkout_id'', jget_null session ''id''), (''payment_id'', JStr payment_id), (''payment_status'', JStr ''succeeded''),
         (''charge_id'', JStr charge_id), (''amount_refunded'', JInt refunded), (''disputed'', jget_null charge ''disputed''),
         (''balance_transaction_id'', JStr balance_id), (''balance_amount'', JInt amount), (''balance_fee'', JInt fee),
         (''balance_net'', JInt (amount - fee)), (''balance_status'', jget_null balance ''status''),
         (''available_on'', jget_null balance ''available_on'')])
      in reject_if (\<not> utf8_ok text_value) ValueError (Inr (sha256_hex text_value)))"

text \<open>
  What follows a bound capture: the availability of the funds, then the dispute or the refund.
  The clock is read for each.
\<close>

definition emit_available ::
  "stripe_config \<Rightarrow> (nat \<Rightarrow> int) \<Rightarrow> int \<Rightarrow> bool \<Rightarrow> string \<Rightarrow> string \<Rightarrow> public_order \<Rightarrow> ('z db_scheme, public_order) prog" where
  "emit_available cfg clock current available balance_id available_at view =
     (if \<not> available then give (Inr view)
      else prog_then (give (stripe_parse_time available_at)) (\<lambda>t.
        check_prog (t > current) bad_object
          (emit cfg (ov_order view) ''payment.available'' balance_id 0 available_at (iso_z (clock 3)))))"

definition emit_outcome ::
  "stripe_config \<Rightarrow> (nat \<Rightarrow> int) \<Rightarrow> bool \<Rightarrow> int \<Rightarrow> bool \<Rightarrow> string \<Rightarrow> public_order \<Rightarrow> ('z db_scheme, reconciled) prog" where
  "emit_outcome cfg clock disputed refunded available charge_id view =
     (if disputed then
        prog_then (emit cfg (ov_order view) ''payment.disputed'' charge_id 0 (iso_z (clock 4)) (iso_z (clock 5))) (\<lambda>v.
        give (Inr \<lparr>rd_state = ''disputed'', rd_order = v\<rparr>))
      else if refunded = o_quoted_amount_minor (ov_order view) then
        prog_then (emit cfg (ov_order view) ''payment.refund_pending'' charge_id 0 (iso_z (clock 4)) (iso_z (clock 5))) (\<lambda>v.
        prog_then (emit cfg (ov_order v) ''payment.refunded'' charge_id 0 (iso_z (clock 6)) (iso_z (clock 7))) (\<lambda>v1.
        give (Inr \<lparr>rd_state = ''refunded'', rd_order = v1\<rparr>)))
      else give (Inr \<lparr>rd_state = (if available then ''available'' else ''pending''), rd_order = view\<rparr>))"

text \<open>The part of \<open>reconcile_order\<close> behind a succeeded payment.\<close>

definition reconcile_captured ::
  "stripe_config \<Rightarrow> stripe_api \<Rightarrow> (nat \<Rightarrow> int) \<Rightarrow> int \<Rightarrow> string option \<Rightarrow> (string \<times> json) list \<Rightarrow> string
    \<Rightarrow> (string \<times> json) list \<Rightarrow> public_order \<Rightarrow> ('z stripe_db_scheme, reconciled) prog" where
  "reconcile_captured cfg api clock current source session payment_id payment view =
     (let order = ov_order view in
      prog_then (give (reference_id re_charge_id (jget_null payment ''latest_charge''))) (\<lambda>charge_id.
      prog_then (give (retrieve (sa_charge api) charge_id)) (\<lambda>charge.
      prog_then (give (charge_bound cfg charge charge_id payment_id order)) (\<lambda>refunded.
      prog_then (give (reference_id re_balance_id (jget_null charge ''balance_transaction''))) (\<lambda>balance_id.
      prog_then (give (retrieve (sa_balance api) balance_id)) (\<lambda>balance.
      prog_then (give (balance_bound balance balance_id charge_id order)) (\<lambda>(amount, fee, available).
      prog_then (give (epoch_time (jget_null charge ''created''))) (\<lambda>captured_at.
      prog_then (emit cfg order ''payment.captured'' balance_id fee captured_at (iso_z (clock 2))) (\<lambda>view1.
      prog_then (give (epoch_time (jget_null balance ''available_on''))) (\<lambda>available_at.
      prog_then (emit_available cfg clock current available balance_id available_at view1) (\<lambda>view2.
      prog_then (emit_outcome cfg clock (jget_null charge ''disputed'' = JBool True) refunded available charge_id view2) (\<lambda>result.
      prog_then (give (snapshot_digest session payment_id charge charge_id refunded balance balance_id amount fee)) (\<lambda>digest.
      prog_then (run_write (record_reconciliation
          \<lparr>rc_order_id = o_order_id order, rc_source_event_id = source, rc_checkout_id = [], rc_payment_id = payment_id,
            rc_charge_id = charge_id, rc_balance_id = balance_id, rc_snapshot_digest = digest, rc_payment_state = rd_state result,
            rc_observed_at = iso_z current\<rparr> (jget_null session ''id''))) (\<lambda>_.
      give (Inr result)))))))))))))))"

text \<open>The part behind a bound payment intent.\<close>

definition reconcile_intent ::
  "stripe_config \<Rightarrow> stripe_api \<Rightarrow> (nat \<Rightarrow> int) \<Rightarrow> int \<Rightarrow> string option \<Rightarrow> (string \<times> json) list \<Rightarrow> string
    \<Rightarrow> public_order \<Rightarrow> ('z stripe_db_scheme, reconciled) prog" where
  "reconcile_intent cfg api clock current source session payment_id view =
     prog_then (give (retrieve (sa_payment api) payment_id)) (\<lambda>payment.
     prog_then (give (payment_bound cfg payment payment_id (ov_order view))) (\<lambda>_.
     prog_then (give (in_strings (jget_null payment ''status'') [''canceled'', ''requires_payment_method''])) (\<lambda>failed.
     if failed then
       prog_then (give (epoch_time (jget_null payment ''created''))) (\<lambda>created.
       prog_then (emit cfg (ov_order view) ''payment.failed'' payment_id 0 created (iso_z (clock 2))) (\<lambda>v.
       give (Inr \<lparr>rd_state = ''failed'', rd_order = v\<rparr>)))
     else if jget_null payment ''status'' \<noteq> JStr ''succeeded'' then
       give (Inr \<lparr>rd_state = ''pending_payment'', rd_order = view\<rparr>)
     else
       prog_then (give (stripe_bounded_int (jget_null payment ''amount_received''))) (\<lambda>received.
       check_prog (received \<noteq> o_quoted_amount_minor (ov_order view)) (Rejected ''stripe_amount_mismatch'')
         (reconcile_captured cfg api clock current source session payment_id payment view)))))"

text \<open>The part behind a validated session.\<close>

definition reconcile_session ::
  "stripe_config \<Rightarrow> stripe_api \<Rightarrow> (nat \<Rightarrow> int) \<Rightarrow> int \<Rightarrow> string \<Rightarrow> string option \<Rightarrow> (string \<times> json) list
    \<Rightarrow> public_order \<Rightarrow> ('z stripe_db_scheme, reconciled) prog" where
  "reconcile_session cfg api clock current order_id source session view =
     (if jget_null session ''payment_intent'' = JNull then
       give (Inr \<lparr>rd_state = (if jget_null session ''status'' = JStr ''expired'' then ''expired_without_payment_intent''
         else ''pending_payment_intent''), rd_order = view\<rparr>)
     else
       prog_then (give (reference_id re_stripe_payment_id (jget_null session ''payment_intent''))) (\<lambda>payment_id.
       prog_then (run_write (bind_provider_payment (sc_environment cfg) order_id payment_id
           (the (o_provider_checkout_id (ov_order view))) (iso_z (clock 1)))) (\<lambda>view1.
       reconcile_intent cfg api clock current source session payment_id view1)))"

definition reconcile_order ::
  "stripe_config \<Rightarrow> unicode_tables \<Rightarrow> stripe_api \<Rightarrow> (nat \<Rightarrow> int) \<Rightarrow> string \<Rightarrow> string option \<Rightarrow> pydatetime
    \<Rightarrow> ('z stripe_db_scheme, reconciled) prog" where
  "reconcile_order cfg u api clock order_id source observed_at =
     check_prog (\<not> re_order_id order_id) (Rejected ''unknown_order'')
    (prog_then (give (stripe_aware_datetime observed_at)) (\<lambda>current.
     prog_then (look (get_order (sc_environment cfg) order_id)) (\<lambda>view.
     check_prog (o_provider (ov_order view) \<noteq> ''stripe'' \<or> o_provider_checkout_id (ov_order view) = None)
       (Rejected ''unknown_provider_payment'')
    (prog_then (look (get_quote (sc_environment cfg) (o_quote_id (ov_order view)))) (\<lambda>quote.
     prog_then (give (retrieve (sa_checkout api) (the (o_provider_checkout_id (ov_order view))))) (\<lambda>session.
     prog_then (give (validate_checkout cfg u session (ov_order view) quote True)) (\<lambda>_.
     reconcile_session cfg api clock current order_id source session view)))))))"

subsection \<open>Webhooks\<close>

definition find_webhook :: "string \<Rightarrow> 'z stripe_db_scheme \<Rightarrow> webhook_row option" where
  "find_webhook eid d = fetchone (\<lambda>r. we_event_id r = eid) (sp_events d)"

record reservation =
  rs_duplicate :: bool
  rs_status :: string
  rs_order_id :: "string option"

definition stale_processing :: "string \<Rightarrow> webhook_row \<Rightarrow> bool res" where
  "stale_processing received row =
     (if we_status row \<noteq> ''processing'' then Inr False
      else and_then (stripe_parse_time received) (\<lambda>r.
        and_then (stripe_parse_time (we_updated_at row)) (\<lambda>t. Inr (r - t \<ge> WEBHOOK_PROCESSING_LEASE))))"

definition reserve_webhook ::
  "stripe_config \<Rightarrow> string \<Rightarrow> string \<Rightarrow> string \<Rightarrow> string \<Rightarrow> string \<Rightarrow> string \<Rightarrow> ('z stripe_db_scheme, reservation) txn" where
  "reserve_webhook cfg event_id digest event_type object_id api_version received d =
     (case find_webhook event_id d of
        Some row \<Rightarrow>
          reject_if (we_payload_digest row \<noteq> digest) (Rejected ''stripe_event_conflict'')
         (and_then (stale_processing received row) (\<lambda>stale.
          if we_status row = ''retryable'' \<or> stale then
            Inr (\<lparr>rs_duplicate = False, rs_status = ''processing'', rs_order_id = we_order_id row\<rparr>,
              d\<lparr>sp_events := update_where (\<lambda>r. we_event_id r = event_id)
                (\<lambda>r. r\<lparr>we_status := ''processing'', we_updated_at := received\<rparr>) (sp_events d)\<rparr>)
          else reject_if (we_status row = ''processing'') (Rejected ''stripe_event_processing'')
            (Inr (\<lparr>rs_duplicate = True, rs_status = we_status row, rs_order_id = we_order_id row\<rparr>, d))))
      | None \<Rightarrow>
          Inr (\<lparr>rs_duplicate = False, rs_status = ''processing'', rs_order_id = None\<rparr>,
            d\<lparr>sp_events := sp_events d @ [\<lparr>we_event_id = event_id, we_payload_digest = digest, we_event_type = event_type,
              we_object_id = object_id, we_api_version = api_version, we_livemode = sc_livemode cfg, we_status = ''processing'',
              we_order_id = None, we_received_at = received, we_updated_at = received\<rparr>]\<rparr>))"

definition finish_webhook :: "string \<Rightarrow> string \<Rightarrow> string \<Rightarrow> string option \<Rightarrow> ('z stripe_db_scheme, unit) txn" where
  "finish_webhook event_id status updated order_id d =
     (case find_webhook event_id d of
        None \<Rightarrow> Inl (Rejected ''stripe_event_conflict'')
      | Some row \<Rightarrow>
          reject_if (case order_id of None \<Rightarrow> False | Some o_id \<Rightarrow> o_id \<notin> o_order_id ` set (orders d)) IntegrityError
           (Inr ((), d\<lparr>sp_events := update_where (\<lambda>r. we_event_id r = event_id)
             (\<lambda>r. r\<lparr>we_status := status, we_order_id := (case order_id of None \<Rightarrow> we_order_id r | Some _ \<Rightarrow> order_id),
               we_updated_at := updated\<rparr>) (sp_events d)\<rparr>)))"

definition payment_metadata :: "stripe_api \<Rightarrow> string \<Rightarrow> (string \<times> json) list res" where
  "payment_metadata api payment_id =
     and_then (retrieve (sa_payment api) payment_id) (\<lambda>payment. metadata_of (jget_null payment ''metadata''))"

definition charge_metadata :: "stripe_api \<Rightarrow> string \<Rightarrow> (string \<times> json) list res" where
  "charge_metadata api charge_id =
     and_then (retrieve (sa_charge api) charge_id) (\<lambda>charge.
     and_then (reference_id re_stripe_payment_id (jget_null charge ''payment_intent'')) (payment_metadata api))"

definition order_id_for_event :: "stripe_api \<Rightarrow> string \<Rightarrow> string \<Rightarrow> string res" where
  "order_id_for_event api event_type object_id =
     and_then
      (if starts_with ''checkout.session.'' event_type then
         and_then (reference_id re_stripe_checkout_id (JStr object_id)) (\<lambda>sid.
         and_then (retrieve (sa_checkout api) sid) (\<lambda>session. metadata_of (jget_null session ''metadata'')))
       else if starts_with ''payment_intent.'' event_type then
         and_then (reference_id re_stripe_payment_id (JStr object_id)) (payment_metadata api)
       else if starts_with ''charge.dispute.'' event_type then
         and_then (reference_id re_dispute_id (JStr object_id)) (\<lambda>did.
         and_then (retrieve (sa_dispute api) did) (\<lambda>dispute.
         and_then (reference_id re_charge_id (jget_null dispute ''charge'')) (charge_metadata api)))
       else if starts_with ''charge.'' event_type then
         and_then (reference_id re_charge_id (JStr object_id)) (charge_metadata api)
       else Inl (Rejected ''invalid_stripe_event'')) (\<lambda>md.
     case jget_null md ''vouchspec_order_id'' of
       JStr oid \<Rightarrow> reject_if (\<not> re_order_id oid) bad_object (Inr oid)
     | _ \<Rightarrow> Inl bad_object)"

record webhook_result =
  wr_event_id :: string
  wr_duplicate :: bool
  wr_status :: string
  wr_order_id :: "string option"
  wr_payment_status :: "payment_status option"

text \<open>The authenticated event: its id, type and object.\<close>

definition webhook_event ::
  "stripe_config \<Rightarrow> (string \<Rightarrow> string \<Rightarrow> string \<Rightarrow> json res) \<Rightarrow> string \<Rightarrow> string \<Rightarrow> (string \<times> string \<times> string) res" where
  "webhook_event cfg construct_event raw_body signature =
     reject_if (\<not> (1 \<le> length raw_body \<and> length raw_body \<le> MAX_STRIPE_WEBHOOK_BYTES)) (Rejected ''invalid_webhook_signature'')
    (reject_if (\<not> (1 \<le> py_len signature \<and> py_len signature \<le> 1024)) (Rejected ''invalid_webhook_signature'')
    (and_then (case and_then (construct_event raw_body signature (sc_webhook_secret cfg)) as_dict of
         Inl e \<Rightarrow> Inl (if e \<in> {ValueError, JSONDecodeError, InvalidSignature} then Rejected ''invalid_webhook_signature'' else e)
       | Inr kvs \<Rightarrow> Inr kvs) (\<lambda>event.
     and_then (reference_id re_stripe_event_id (jget_null event ''id'')) (\<lambda>event_id.
     reject_if (\<not> str_matches (\<lambda>t. 1 \<le> py_len t \<and> py_len t \<le> 128) (jget_null event ''type'')
         \<or> jget_null event ''api_version'' \<noteq> JStr STRIPE_API_VERSION
         \<or> jget_null event ''livemode'' \<noteq> JBool (sc_livemode cfg)
         \<or> jget_null event ''account'' \<noteq> JNull \<or> jget_null event ''context'' \<noteq> JNull) (Rejected ''invalid_stripe_event'')
    (and_then (as_dict (jget_null event ''data'')) (\<lambda>data.
     and_then (as_dict (jget_null data ''object'')) (\<lambda>object.
     and_then (reference_id re_object_id (jget_null object ''id'')) (\<lambda>object_id.
     Inr (event_id, the_str (jget_null event ''type''), object_id)))))))))"

text \<open>
  \<open>api\<close> answers the retrievals that find the order, \<open>api1\<close> those of the reconciliation: the
  provider may have moved on in between.
\<close>

definition process_webhook ::
  "stripe_config \<Rightarrow> unicode_tables \<Rightarrow> (string \<Rightarrow> string \<Rightarrow> string \<Rightarrow> json res) \<Rightarrow> stripe_api \<Rightarrow> stripe_api \<Rightarrow> (nat \<Rightarrow> int)
    \<Rightarrow> string \<Rightarrow> string \<Rightarrow> ('z stripe_db_scheme, webhook_result) prog" where
  "process_webhook cfg u construct_event api api1 clock raw_body signature =
     prog_then (give (webhook_event cfg construct_event raw_body signature)) (\<lambda>(event_id, event_type, object_id).
     let received = iso_z (clock 0) in
     prog_then (run_write (reserve_webhook cfg event_id (sha256_hex raw_body) event_type object_id STRIPE_API_VERSION received)) (\<lambda>res.
     if rs_duplicate res then
       give (Inr \<lparr>wr_event_id = event_id, wr_duplicate = True, wr_status = rs_status res, wr_order_id = rs_order_id res,
         wr_payment_status = None\<rparr>)
     else if event_type \<notin> set WEBHOOK_TYPES then
       prog_then (run_write (finish_webhook event_id ''ignored'' received None)) (\<lambda>_.
       give (Inr \<lparr>wr_event_id = event_id, wr_duplicate = False, wr_status = ''ignored'', wr_order_id = None, wr_payment_status = None\<rparr>))
     else
       prog_then (handle
         (prog_then (give (order_id_for_event api event_type object_id)) (\<lambda>order_id.
          prog_then (reconcile_order cfg u api1 clock order_id (Some event_id) (Aware (clock 8) 0)) (\<lambda>result.
          give (Inr (order_id, result)))))
         (\<lambda>e. if is_input_rejected e then
                prog_then (run_write (finish_webhook event_id ''rejected'' received None)) (\<lambda>_. give (Inl e))
              else if e = ProviderError then
                prog_then (run_write (finish_webhook event_id ''retryable'' received None)) (\<lambda>_. give (Inl (Rejected ''stripe_api_error'')))
              else give (Inl e))) (\<lambda>(order_id, result).
       prog_then (run_write (finish_webhook event_id ''processed'' received (Some order_id))) (\<lambda>_.
       give (Inr \<lparr>wr_event_id = event_id, wr_duplicate = False, wr_status = ''processed'', wr_order_id = Some order_id,
         wr_payment_status = Some (o_payment_status (ov_order (rd_order result)))\<rparr>)))))"

definition stripe_audit_events :: "'z stripe_db_scheme \<Rightarrow> webhook_row list" where
  "stripe_audit_events d = sort_key (\<lambda>r. (we_received_at r, we_event_id r)) (sp_events d)"

end
