(* ===== verification/StripeInvariant.thy ===== *)
theory StripeInvariant
  imports StripePayments PaidInvariant
begin

section \<open>Stripe: what the adapter can do to the database\<close>

text \<open>
  The steps of the whole database, with the three writes of the adapter's own tables; every
  call of the adapter is a run of them.  Then what an emitted event is, and when a capture is
  emitted at all.
\<close>

subsection \<open>Steps of the whole database\<close>

definition OUTCOMES :: "string list" where
  "OUTCOMES = [''processed'', ''ignored'', ''retryable'', ''rejected'']"

inductive system_step :: "access_config \<Rightarrow> ed25519 \<Rightarrow> 'z stripe_db_scheme \<Rightarrow> 'z stripe_db_scheme \<Rightarrow> bool" for acfg ed where
  paid: "paid_step acfg ed d d' \<Longrightarrow> system_step acfg ed d d'"
| reserve: "reserve_webhook cfg eid digest ty oid ver received d = Inr (r, d') \<Longrightarrow> system_step acfg ed d d'"
| finish: "finish_webhook eid status updated oid d = Inr ((), d') \<Longrightarrow> status \<in> set OUTCOMES \<Longrightarrow> system_step acfg ed d d'"
| recorded: "record_reconciliation row cid d = Inr ((), d') \<Longrightarrow> system_step acfg ed d d'"

text \<open>The writes the adapter makes itself: those of the store and of its own tables.\<close>

inductive adapter_step :: "environment \<Rightarrow> 'z stripe_db_scheme \<Rightarrow> 'z stripe_db_scheme \<Rightarrow> bool" for env where
  selling: "store_step env d d' \<Longrightarrow> adapter_step env d d'"
| reserving: "reserve_webhook cfg eid digest ty oid ver received d = Inr (r, d') \<Longrightarrow> adapter_step env d d'"
| finishing: "finish_webhook eid status updated oid d = Inr ((), d') \<Longrightarrow> status \<in> set OUTCOMES \<Longrightarrow> adapter_step env d d'"
| recording: "record_reconciliation row cid d = Inr ((), d') \<Longrightarrow> adapter_step env d d'"

lemma adapter_system: "adapter_step (ac_environment acfg) d d' \<Longrightarrow> system_step acfg ed d d'"
  by (erule adapter_step.cases) (auto intro: system_step.intros paid_step.market access_step.sell)

lemma adapter_bind: "runs (adapter_step env) (run_write (bind_provider_payment env oid pid cid at))"
  by (rule runs_write) (auto intro!: adapter_step.selling store_step.bind_payment)

lemma adapter_attach: "runs (adapter_step env) (run_write (attach_checkout env oid cid pid at))"
  by (rule runs_write) (auto intro!: adapter_step.selling store_step.attach)

lemma adapter_quote: "runs (adapter_step env) (run_write (create_quote env req qid at prov live))"
  by (rule runs_write) (auto intro!: adapter_step.selling store_step.quote)

lemma adapter_order: "runs (adapter_step env) (run_write (create_order env qid key buyer now))"
  by (rule runs_write) (auto intro!: adapter_step.selling store_step.order)

lemma adapter_ingest: "runs (adapter_step env) (run_write (ingest_provider_event env ev received))"
  by (rule runs_write) (auto intro!: adapter_step.selling store_step.ingest)

lemma adapter_tables:
  "runs (adapter_step env) (run_write (reserve_webhook cfg eid digest ty obj ver received))"
  "runs (adapter_step env) (run_write (record_reconciliation row cid))"
  "runs (adapter_step env) (run_write (finish_webhook eid ''processed'' updated order))"
  "runs (adapter_step env) (run_write (finish_webhook eid ''ignored'' updated order))"
  "runs (adapter_step env) (run_write (finish_webhook eid ''retryable'' updated order))"
  "runs (adapter_step env) (run_write (finish_webhook eid ''rejected'' updated order))"
  by (rule runs_write; auto intro: adapter_step.intros simp: OUTCOMES_def)+

lemma runs_option: "(x = None \<Longrightarrow> runs step m) \<Longrightarrow> (\<And>y. x = Some y \<Longrightarrow> runs step (k y)) \<Longrightarrow> runs step (case x of None \<Rightarrow> m | Some y \<Rightarrow> k y)"
  by (cases x) auto

lemma adapter_emit: "runs (adapter_step (sc_environment cfg)) (emit cfg order ty ref fee at received)"
  unfolding emit_def by (intro runs_intros adapter_ingest)

lemma adapter_reconcile: "runs (adapter_step (sc_environment cfg)) (reconcile_order cfg u api clock oid source at)"
proof -
  let ?step = "adapter_step (sc_environment cfg)"
  have "runs ?step (emit_available cfg clock current available bid at view)" for current available bid at view
    unfolding emit_available_def by (intro runs_intros adapter_emit)
  moreover have "runs ?step (emit_outcome cfg clock disputed refunded available chid view)" for disputed refunded available chid view
    unfolding emit_outcome_def by (intro runs_intros adapter_emit)
  ultimately have "runs ?step (reconcile_captured cfg api clock current source session pid payment view)"
    for current session pid payment view
    unfolding reconcile_captured_def Let_def case_prod_beta
    by (intro runs_intros adapter_emit adapter_tables)
  then show ?thesis
    unfolding reconcile_order_def reconcile_session_def reconcile_intent_def by (intro runs_intros adapter_emit adapter_bind)
qed

lemma adapter_webhook: "runs (adapter_step (sc_environment cfg)) (process_webhook cfg u construct api api1 clock body sig)"
  unfolding process_webhook_def Let_def case_prod_beta
  by (intro runs_intros adapter_tables adapter_reconcile)

lemma adapter_prepare_order: "runs (adapter_step (sc_environment cfg)) (prepare_order_checkout cfg u api oid now)"
  unfolding prepare_order_checkout_def Let_def by (intro runs_intros runs_option adapter_attach)

lemma adapter_prepare: "runs (adapter_step (sc_environment cfg)) (prepare_checkout cfg u api req qid key buyer now)"
  unfolding prepare_checkout_def by (intro runs_intros adapter_quote adapter_order adapter_prepare_order)

text \<open>So they are runs of the whole system.\<close>

lemma runs_adapter:
  "runs (adapter_step (sc_environment cfg)) m \<Longrightarrow> sc_environment cfg = ac_environment acfg \<Longrightarrow> runs (system_step acfg ed) m"
  by (erule runs_mono) (simp add: adapter_system)

lemmas runs_emit = runs_adapter [OF adapter_emit]
lemmas runs_reconcile = runs_adapter [OF adapter_reconcile]
lemmas runs_webhook = runs_adapter [OF adapter_webhook]
lemmas runs_prepare_order = runs_adapter [OF adapter_prepare_order]
lemmas runs_prepare = runs_adapter [OF adapter_prepare]

subsection \<open>The invariant\<close>

definition WEBHOOK_STATUSES :: "string list" where
  "WEBHOOK_STATUSES = [''processing'', ''processed'', ''ignored'', ''retryable'', ''rejected'']"

definition webhooks_ok :: "webhook_row list \<Rightarrow> bool" where
  "webhooks_ok es \<longleftrightarrow> unique_on we_event_id es \<and> (\<forall>r \<in> set es. we_status r \<in> set WEBHOOK_STATUSES)"

definition reconciliations_ok :: "reconciliation_row list \<Rightarrow> bool" where
  "reconciliations_ok rs \<longleftrightarrow> unique_on (\<lambda>r. (rc_order_id r, rc_snapshot_digest r)) rs"

definition system_ok :: "access_config \<Rightarrow> ed25519 \<Rightarrow> 'z stripe_db_scheme \<Rightarrow> bool" where
  "system_ok acfg ed d \<longleftrightarrow> paid_ok acfg ed d \<and> webhooks_ok (sp_events d) \<and> reconciliations_ok (sp_reconciliations d)"

lemma paid_ok_stripe_tables [simp]:
  "paid_ok acfg ed (d\<lparr>sp_events := es\<rparr>) = paid_ok acfg ed d"
  "paid_ok acfg ed (d\<lparr>sp_reconciliations := rs\<rparr>) = paid_ok acfg ed d"
proof -
  have "store_ok env (d\<lparr>sp_events := es\<rparr>) = store_ok env d" "store_ok env (d\<lparr>sp_reconciliations := rs\<rparr>) = store_ok env d" for env
    by (rule store_ok_cong; simp)+
  then show "paid_ok acfg ed (d\<lparr>sp_events := es\<rparr>) = paid_ok acfg ed d"
    "paid_ok acfg ed (d\<lparr>sp_reconciliations := rs\<rparr>) = paid_ok acfg ed d"
    by (simp_all add: paid_ok_def market_ok_def access_ok_def)
qed

lemma paid_step_more:
  assumes ok: "paid_ok acfg ed d" and step: "paid_step acfg ed d d'"
  shows "paid_db.more d' = paid_db.more d"
  using step
proof cases
  case market
  have "market_ok acfg d" using ok by (simp add: paid_ok_def)
  from access_step_more [OF this market] show ?thesis by (cases d; cases d'; simp)
next
  case import_feed
  from import_feed(2) show ?thesis by (cases rule: publish_commit_cases) simp_all
qed

lemma stripe_tables_more:
  assumes "paid_db.more d' = paid_db.more d"
  shows "sp_events d' = sp_events d" "sp_reconciliations d' = sp_reconciliations d"
  using assms by (cases d; cases d'; simp)+

text \<open>What the three writes do.\<close>

lemma reserve_cases:
  assumes "reserve_webhook cfg eid digest ty oid ver received d = Inr (r, d')"
  obtains (new) row where "find_webhook eid d = None" "we_event_id row = eid" "we_status row = ''processing''" "we_payload_digest row = digest"
      "d' = d\<lparr>sp_events := sp_events d @ [row]\<rparr>" "\<not> rs_duplicate r"
    | (again) row where "find_webhook eid d = Some row" "we_status row \<in> {''retryable'', ''processing''}" "\<not> rs_duplicate r"
      "we_payload_digest row = digest"
      "d' = d\<lparr>sp_events := update_where (\<lambda>r. we_event_id r = eid)
                (\<lambda>r. r\<lparr>we_status := ''processing'', we_updated_at := received\<rparr>) (sp_events d)\<rparr>"
    | (seen) row where "find_webhook eid d = Some row" "we_status row \<notin> {''retryable'', ''processing''}" "rs_duplicate r"
      "we_payload_digest row = digest" "rs_status r = we_status row" "rs_order_id r = we_order_id row" "d' = d"
proof (cases "find_webhook eid d")
  case None
  have run: "rs_duplicate r = False" "d' = d\<lparr>sp_events := sp_events d @ [\<lparr>we_event_id = eid, we_payload_digest = digest, we_event_type = ty,
      we_object_id = oid, we_api_version = ver, we_livemode = sc_livemode cfg, we_status = ''processing'',
      we_order_id = None, we_received_at = received, we_updated_at = received\<rparr>]\<rparr>"
    using assms by (auto simp: reserve_webhook_def None)
  show thesis by (rule new [OF None _ _ _ run(2)]) (simp_all add: run(1))
next
  case (Some row)
  note run = assms [unfolded reserve_webhook_def Some option.case reject_if_Inr and_then_Inr not_not]
  obtain stale where s: "stale_processing received row = Inr stale" using run by blast
  have same: "we_payload_digest row = digest" using run by blast
  show thesis
  proof (cases "we_status row = ''retryable'' \<or> stale")
    case True
    with s have "we_status row \<in> {''retryable'', ''processing''}" by (auto simp: stale_processing_def split: if_splits)
    with again [OF Some this _ same] run s True show thesis by auto
  next
    case False
    with run s have "we_status row \<notin> {''retryable'', ''processing''}" "rs_duplicate r" "rs_status r = we_status row"
      "rs_order_id r = we_order_id row" "d' = d" by (auto simp: reject_if_Inr)
    with seen [OF Some this(1,2) same] show thesis by simp
  qed
qed

lemma finish_cases:
  assumes "finish_webhook eid status updated oid d = Inr ((), d')"
  obtains row where "find_webhook eid d = Some row"
    "d' = d\<lparr>sp_events := update_where (\<lambda>r. we_event_id r = eid)
             (\<lambda>r. r\<lparr>we_status := status, we_order_id := (case oid of None \<Rightarrow> we_order_id r | Some _ \<Rightarrow> oid), we_updated_at := updated\<rparr>) (sp_events d)\<rparr>"
  using assms by (auto simp: finish_webhook_def txn_simps split: option.splits)

lemma record_cases:
  assumes "record_reconciliation row cid d = Inr ((), d')"
  obtains (same) "d' = d"
    | (new) c where "d' = d\<lparr>sp_reconciliations := sp_reconciliations d @ [row\<lparr>rc_checkout_id := c\<rparr>]\<rparr>"
      "(rc_order_id row, rc_snapshot_digest row) \<notin> (\<lambda>r. (rc_order_id r, rc_snapshot_digest r)) ` set (sp_reconciliations d)"
proof (cases "(rc_order_id row, rc_snapshot_digest row) \<in> (\<lambda>r. (rc_order_id r, rc_snapshot_digest r)) ` set (sp_reconciliations d)")
  case True
  with assms same show thesis by (cases cid) (simp_all add: record_reconciliation_def)
next
  case False
  obtain c where cid: "cid = JStr c" using assms by (cases cid) (simp_all add: record_reconciliation_def)
  have "d' = d\<lparr>sp_reconciliations := sp_reconciliations d @ [row\<lparr>rc_checkout_id := c\<rparr>]\<rparr>"
    using assms [unfolded record_reconciliation_def cid json.case if_not_P [OF False] reject_if_Inr] by simp
  then show thesis using False by (rule new)
qed

lemma system_step_ok:
  assumes ok: "system_ok acfg ed d" and step: "system_step acfg ed d d'"
  shows "system_ok acfg ed d'"
  using step
proof cases
  case paid
  have p: "paid_ok acfg ed d" using ok by (simp add: system_ok_def)
  show ?thesis using ok paid_step_ok [OF p paid] stripe_tables_more [OF paid_step_more [OF p paid]] by (simp add: system_ok_def)
next
  case (reserve cfg eid digest ty oid ver received r)
  from reserve show ?thesis
  proof (cases rule: reserve_cases)
    case (new row)
    then have "eid \<notin> we_event_id ` set (sp_events d)" by (auto simp: find_webhook_def find_None_iff)
    with new ok show ?thesis by (simp add: system_ok_def webhooks_ok_def WEBHOOK_STATUSES_def)
  next
    case (again row)
    with ok show ?thesis
      by (auto simp: system_ok_def webhooks_ok_def WEBHOOK_STATUSES_def set_update_where unique_on_update_where)
  qed (use ok in simp)
next
  case (finish eid status updated oid)
  from finish(1) show ?thesis
    by (cases rule: finish_cases) (use ok finish(2) in \<open>auto simp: system_ok_def webhooks_ok_def WEBHOOK_STATUSES_def OUTCOMES_def
        set_update_where unique_on_update_where\<close>)
next
  case (recorded row cid)
  then show ?thesis
    by (cases rule: record_cases) (use ok in \<open>auto simp: system_ok_def reconciliations_ok_def\<close>)
qed

interpretation system: invariant_system "\<lambda>d. market_initial acfg d \<and> map_of (pl_metadata d) ''root_keyid'' = None \<and> pl_publications d = []
    \<and> pl_status d = [] \<and> sp_events d = [] \<and> sp_reconciliations d = []"
  "system_step acfg ed" "system_ok acfg ed" for acfg ed
proof
  fix d :: "'z stripe_db_scheme"
  assume "market_initial acfg d \<and> map_of (pl_metadata d) ''root_keyid'' = None \<and> pl_publications d = []
    \<and> pl_status d = [] \<and> sp_events d = [] \<and> sp_reconciliations d = []"
  then show "system_ok acfg ed d"
    using paid.start [of acfg d] by (simp add: system_ok_def webhooks_ok_def reconciliations_ok_def)
qed (rule system_step_ok)

subsection \<open>Recorded events stay\<close>

lemma access_step_events:
  assumes ok: "market_ok acfg d" and step: "access_step acfg d d'"
  shows "prefix (event_keys d) (event_keys d')"
  using step
proof cases
  case sell
  have "store_ok (ac_environment acfg) d" using ok by (simp add: market_ok_def)
  from store_step_append_only [OF this sell] show ?thesis by (simp add: append_only_def)
next
  case provision
  then show ?thesis by (rule provision_tenant_cases) (simp add: event_keys_def audit_def)
next
  case rotate_key
  then show ?thesis by (auto simp: rotate_api_key_def txn_simps Let_def event_keys_def audit_def)
next
  case revoke
  then show ?thesis by (auto simp: revoke_tenant_def txn_simps Let_def event_keys_def audit_def)
next
  case own_quote
  then show ?thesis by (rule bind_quote_cases) (simp_all add: event_keys_def audit_def)
next
  case own_order
  then show ?thesis by (rule bind_order_cases) (simp_all add: event_keys_def audit_def)
next
  case rotate_token
  then show ?thesis by (rule rotate_delivery_token_cases) (simp add: event_keys_def audit_def)
next
  case revoke_token
  then show ?thesis by (rule revoke_delivery_token_cases) (simp add: event_keys_def audit_def)
next
  case publish
  then show ?thesis by (rule publish_result_cases) (auto simp: event_keys_def audit_def)
qed

lemma system_step_events:
  assumes ok: "system_ok acfg ed d" and step: "system_step acfg ed d d'"
  shows "prefix (event_keys d) (event_keys d')"
  using step
proof cases
  case paid
  have m: "market_ok acfg d" using ok by (simp add: system_ok_def paid_ok_def)
  from paid show ?thesis
  proof cases
    case market
    show ?thesis by (rule access_step_events [OF m market])
  next
    case import_feed
    from import_feed(2) show ?thesis by (cases rule: publish_commit_cases) (simp_all add: event_keys_def)
  qed
next
  case (reserve cfg eid digest ty oid ver received r)
  from reserve show ?thesis by (cases rule: reserve_cases) (simp_all add: event_keys_def)
next
  case (finish eid status updated oid)
  from finish(1) show ?thesis by (cases rule: finish_cases) (simp add: event_keys_def)
next
  case (recorded row cid)
  from recorded show ?thesis by (cases rule: record_cases) (simp_all add: event_keys_def)
qed

lemma system_run_events:
  assumes "system_ok acfg ed d" "rtranclp (system_step acfg ed) d d'"
  shows "prefix (event_keys d) (event_keys d')"
  by (rule system.run_related [OF assms(2,1)]) (auto intro: system_step_events prefix_order.order_trans)

end
