(* ===== verification/StripeDemo.thy ===== *)
theory StripeDemo
  imports StripeInvariant
begin

section \<open>Stripe: events that are recorded, and a database for the witnesses\<close>

text \<open>
  When the adapter emits an event that the store does not know, it is recorded; then a paid
  sandbox order with the provider objects behind it, on which the properties are instantiated.
\<close>

subsection \<open>Emitting a new event\<close>

definition emitted_event :: "stripe_config \<Rightarrow> order_row \<Rightarrow> string \<Rightarrow> string \<Rightarrow> int \<Rightarrow> string \<Rightarrow> provider_event" where
  "emitted_event cfg order ty ref fee at =
     \<lparr>pe_provider = ''stripe'', pe_environment = sc_environment cfg, pe_event_id = emit_event_id cfg (o_order_id order) ty ref fee,
      pe_type = ty, pe_payment_id = the (o_provider_payment_id order), pe_amount_minor = o_quoted_amount_minor order,
      pe_fee_minor = (if ty = ''payment.captured'' then fee else 0), pe_occurred_at = at\<rparr>"

lemma emit_event_id_ok: "re_event_id (emit_event_id cfg oid ty ref fee)"
proof -
  have "re_class is_hex 24 24 (take 24 (sha256_hex m))" for m
    by (auto simp: re_class_def list_all_iff dest: in_set_takeD intro: sha256_hex_chars [unfolded list_all_iff, rule_format])
  then have "re_event_id ((if b then ''evt_test_'' else ''evt_'') @ take 24 (sha256_hex m))" for b m
    by (cases b) (simp_all only: re_event_id_def re_prefix_append if_True if_False simp_thms)
  then show ?thesis unfolding emit_event_id_def .
qed

lemma validate_emitted_event:
  assumes order: "o_provider_payment_id order = Some pid" "re_stripe_payment_id pid" "o_currency order = FRESH_VALIDATION_CURRENCY"
    and amounts: "0 \<le> fee" "fee \<le> o_quoted_amount_minor order" "o_quoted_amount_minor order \<le> 10000000"
    and ty: "event_target ty \<noteq> None" and at: "parse_timestamp at = Inr u"
  shows "validate_event (sc_environment cfg) (emitted_json cfg order ty ref fee at) = Inr (emitted_event cfg order ty ref fee at)"
  using assms emit_event_id_ok [of cfg "o_order_id order" ty ref fee]
  unfolding validate_event_def emitted_json_def json.case Let_def
  by (simp add: has_keys_def EVENT_KEYS_def jget_null_def jget_def emitted_event_def insert_commute)

lemma emit_new:
  assumes ok: "store_ok (sc_environment cfg) d" and pays: "find_order_by_payment pid d = Some order" "o_provider order = ''stripe''"
    and valid: "re_stripe_payment_id pid" "0 \<le> fee" "fee \<le> o_quoted_amount_minor order" "o_quoted_amount_minor order \<le> 10000000"
      "event_target ty \<noteq> None" "parse_timestamp at = Inr u" "stripe_parse_time at = Inr w" "parse_timestamp received = Inr x"
    and new: "find_event (emit_event_id cfg (o_order_id order) ty ref fee) d = None"
  obtains v d' where "emit cfg order ty ref fee at received d = (Inr v, d')" "store_ok (sc_environment cfg) d'"
    "payloads d' = payloads d @ [emitted_event cfg order ty ref fee at]"
    "o_quoted_amount_minor (ov_order v) = o_quoted_amount_minor order" "orders d' \<noteq> []"
proof -
  let ?e = "emitted_event cfg order ty ref fee at"
  from find_order_by_paymentD [OF pays(1)] have row: "order \<in> set (orders d)" "o_provider_payment_id order = Some pid" by auto
  have "row_ok (sc_environment cfg) order" using store_ok_parts(4) [OF ok] row(1) by (simp add: order_ok_def)
  then have "o_currency order = FRESH_VALIDATION_CURRENCY" by (simp add: row_ok_def)
  from validate_emitted_event [OF row(2) valid(1) this valid(2-6)]
  have v: "validate_event (sc_environment cfg) (emitted_json cfg order ty ref fee at) = Inr ?e" .
  have "find_event (pe_event_id ?e) d = None" "find_order_by_payment (pe_payment_id ?e) d = Some order" "o_provider order = pe_provider ?e"
    using new pays row(2) by (simp_all add: emitted_event_def)
  from ingest_new [OF ok v valid(8) this] obtain d' r' and er :: event_row where
    d': "ingest_provider_event (sc_environment cfg) (emitted_json cfg order ty ref fee at) received d =
      Inr (\<lparr>ir_duplicate = False, ir_event_id = pe_event_id ?e, ir_event_status = ev_status er,
            ir_order = order_view_of (sc_environment cfg) r' d'\<rparr>, d')" "store_ok (sc_environment cfg) d'"
      "find_order (o_order_id order) d' = Some r'"
      "same_keys (d\<lparr>provider_events := provider_events d @ [pending_event_row (sc_environment cfg) received ?e]\<rparr>) d'" by blast
  note keys = same_keysD(2,10) [OF d'(4)]
  have orders: "order_keys d' = order_keys d" using keys(1) by (simp add: order_keys_def)
  have r': "r' \<in> set (orders d')" "o_order_id r' = o_order_id order" using find_orderD [OF d'(3)] by auto
  then have "(o_order_id order, o_provider_payment_id r', o_quote_id r', o_quoted_amount_minor r') \<in> set (order_keys d')"
    by (simp add: order_keys_def image_iff) metis
  then obtain r0 where r0: "r0 \<in> set (orders d)" "o_order_id r0 = o_order_id order" "o_quoted_amount_minor r0 = o_quoted_amount_minor r'"
    unfolding orders by (auto simp: order_keys_def)
  have "r0 = order" using store_ok_parts(1) [OF ok] r0(1,2) row(1) by (auto simp: orders_unique_def unique_on_def distinct_map dest: inj_onD)
  then have amount: "o_quoted_amount_minor r' = o_quoted_amount_minor order" using r0(3) by simp
  have "orders d' \<noteq> []" using d'(3) by (auto simp: find_order_def)
  then show thesis
    by (intro that [of "order_view_of (sc_environment cfg) r' d'" d'])
      (use d'(1,2) keys(2) valid(7) amount in \<open>simp_all add: emit_def prog_then_give prog_then_def run_write_def give_def payloads_def
        pending_event_row_def order_view_of_def\<close>)
qed

subsection \<open>A paid order and the objects behind it\<close>

definition card_order :: order_row where
  "card_order = demo_order\<lparr>o_provider := ''stripe'', o_provider_checkout_id := Some ''cs_test_00000000'',
     o_provider_payment_id := Some ''pi_00000000''\<rparr>"

definition card_store :: stripe_db where
  "card_store =
     \<lparr>metadata = [], quotes = [demo_quote], orders = [card_order], provider_events = [], financial_entries = [], cost_records = [],
      order_history = order_history waiting_store,
      access_metadata = [], tenants = [], quote_bindings = [], order_bindings = [], audit_events_table = [],
      pl_metadata = [], pl_publications = [], pl_status = [],
      sp_metadata = [], sp_events = [], sp_reconciliations = []\<rparr>"

definition card_access :: access_config where
  "card_access = \<lparr>ac_environment = Sandbox, ac_auth_pepper = replicate 32 CHR ''p'', ac_delivery_secret = replicate 32 CHR ''s''\<rparr>"

definition card_config :: stripe_config where
  "card_config = \<lparr>sc_environment = Sandbox, sc_account_id = ''acct_00000000'', sc_webhook_secret = ''whsec_0000000000'',
     sc_success_url = ''https://shop/{CHECKOUT_SESSION_ID}'', sc_cancel_url = ''https://shop/'', sc_live_checkout_enabled = False\<rparr>"

definition card_ed :: ed25519 where
  "card_ed = \<lparr>ed_public = id, ed_sign = (\<lambda>_ _. []), ed_verify = (\<lambda>_ _ _. False)\<rparr>"

definition card_metadata :: json where
  "card_metadata = binding_metadata card_config card_order"

definition card_session :: "(string \<times> json) list" where
  "card_session = [(''id'', JStr ''cs_test_00000000''), (''object'', JStr ''checkout.session''), (''livemode'', JBool False),
     (''mode'', JStr ''payment''), (''currency'', JStr FRESH_VALIDATION_CURRENCY), (''amount_total'', JInt 4900),
     (''client_reference_id'', JStr ''ord_test_000000000000000000000001''), (''metadata'', card_metadata), (''status'', JStr ''complete''),
     (''expires_at'', JInt 1782864900), (''payment_intent'', JStr ''pi_00000000'')]"

definition card_payment :: "(string \<times> json) list" where
  "card_payment = [(''id'', JStr ''pi_00000000''), (''object'', JStr ''payment_intent''), (''livemode'', JBool False),
     (''currency'', JStr FRESH_VALIDATION_CURRENCY), (''amount'', JInt 4900), (''amount_received'', JInt 4900), (''metadata'', card_metadata),
     (''status'', JStr ''succeeded''), (''latest_charge'', JStr ''ch_00000000''), (''created'', JInt 1782864000)]"

definition card_charge :: "(string \<times> json) list" where
  "card_charge = [(''id'', JStr ''ch_00000000''), (''object'', JStr ''charge''), (''payment_intent'', JStr ''pi_00000000''),
     (''livemode'', JBool False), (''currency'', JStr FRESH_VALIDATION_CURRENCY), (''amount'', JInt 4900), (''amount_captured'', JInt 4900),
     (''amount_refunded'', JInt 0), (''paid'', JBool True), (''captured'', JBool True), (''disputed'', JBool False),
     (''balance_transaction'', JStr ''txn_00000000''), (''created'', JInt 1782864000)]"

definition card_balance :: "(string \<times> json) list" where
  "card_balance = [(''id'', JStr ''txn_00000000''), (''object'', JStr ''balance_transaction''), (''source'', JStr ''ch_00000000''),
     (''currency'', JStr FRESH_VALIDATION_CURRENCY), (''amount'', JInt 4900), (''fee'', JInt 172), (''net'', JInt 4728),
     (''status'', JStr ''pending''), (''available_on'', JInt 1783468800)]"

definition card_api :: stripe_api where
  "card_api = \<lparr>sa_checkout = (\<lambda>_. Inr (JObj card_session)), sa_payment = (\<lambda>_. Inr (JObj card_payment)),
     sa_charge = (\<lambda>_. Inr (JObj card_charge)), sa_balance = (\<lambda>_. Inr (JObj card_balance)),
     sa_dispute = (\<lambda>_. Inl ProviderError), sa_create_checkout = (\<lambda>_ _. Inl ProviderError)\<rparr>"

definition card_clock :: "nat \<Rightarrow> int" where
  "card_clock i = 63918460800000000 + int i * second_us"

definition plain_tables :: unicode_tables where
  "plain_tables = \<lparr>netloc_fine = (\<lambda>_. True), lower = id\<rparr>"

lemma card_store_ok: "system_ok card_access card_ed card_store"
proof -
  have row: "row_ok Sandbox card_order"
    by (simp add: row_simps card_order_def demo_order_def new_order_def demo_quote_def was_captured_def)
  have ledger: "ledger_ok [] card_order"
    by (simp add: ledger_ok_def card_order_def demo_order_def new_order_def was_captured_def)
  have q: "quote_ok Sandbox demo_quote" by (simp add: quote_ok_def demo_quote_def)
  have "trail_ok (order_history waiting_store) demo_order"
    using store_ok_parts(4) [OF waiting_store_ok, of demo_order] by (simp add: waiting_store_def order_ok_def)
  then have trail: "trail_ok (order_history waiting_store) card_order"
    by (simp add: trail_ok_def trail_def card_order_def)
  have "store_ok Sandbox card_store"
    using row ledger q trail
    by (simp add: store_ok_def orders_unique_def order_ok_def events_ok_def card_store_def waiting_store_def
        priced_ok_def unique_on_def unique_nullable_def card_order_def demo_order_def new_order_def demo_quote_def)
  then show ?thesis
    by (simp add: system_ok_def paid_ok_def market_ok_def access_ok_def access_defs card_access_def card_store_def chain_ok_def
        status_ok_def webhooks_ok_def reconciliations_ok_def unique_on_def prior_status_def)
qed

subsection \<open>Reconciling it\<close>

abbreviation card_view :: public_order where
  "card_view \<equiv> order_view_of Sandbox card_order card_store"

lemma card_view_order [simp]: "ov_order card_view = card_order"
  by (simp add: order_view_of_def)

lemma card_rows:
  "find_order ''ord_test_000000000000000000000001'' card_store = Some card_order"
  "find_order_by_payment ''pi_00000000'' card_store = Some card_order"
  "get_order Sandbox ''ord_test_000000000000000000000001'' card_store = Inr card_view"
  "get_quote Sandbox ''q_000000000000000000000000'' card_store = Inr (q_document demo_quote)"
  by (simp_all add: find_order_def find_order_by_payment_def card_store_def card_order_def demo_order_def new_order_def get_order_def
      order_view_def require_order_def get_quote_def demo_quote_def)

lemma card_order_fields:
  "o_provider card_order = ''stripe''" "o_provider_checkout_id card_order = Some ''cs_test_00000000''"
  "o_quote_id card_order = ''q_000000000000000000000000''" "o_quoted_amount_minor card_order = 4900"
  "o_provider_payment_id card_order = Some ''pi_00000000''" "o_order_id card_order = ''ord_test_000000000000000000000001''"
  by (simp_all add: card_order_def demo_order_def new_order_def demo_quote_def)

lemma card_config_env: "sc_environment card_config = Sandbox" "sc_environment card_config = ac_environment card_access"
  by (simp_all add: card_config_def card_access_def)

lemma card_guards:
  "re_order_id ''ord_test_000000000000000000000001''" "re_stripe_payment_id ''pi_00000000''"
  "\<exists>now. stripe_aware_datetime (Aware (card_clock 9) 0) = Inr now"
  "validate_checkout card_config plain_tables card_session card_order (q_document demo_quote) True = Inr ()"
  "payment_bound card_config card_payment ''pi_00000000'' card_order = Inr ()"
  "charge_bound card_config card_charge ''ch_00000000'' ''pi_00000000'' card_order = Inr 0"
  "balance_bound card_balance ''txn_00000000'' ''ch_00000000'' card_order = Inr (4900, 172, False)"
  "reference_id re_charge_id (JStr ''ch_00000000'') = Inr ''ch_00000000''"
  "reference_id re_balance_id (JStr ''txn_00000000'') = Inr ''txn_00000000''"
  "reference_id re_stripe_payment_id (JStr ''pi_00000000'') = Inr ''pi_00000000''"
proof -
  show "\<exists>now. stripe_aware_datetime (Aware (card_clock 9) 0) = Inr now"
    by (rule exI [of _ "card_clock 9"]) code_simp
qed code_simp+

lemma card_times:
  "epoch_time (JInt 1782864000) = Inr ''2026-07-01T00:00:00Z''" "epoch_time (JInt 1783468800) = Inr ''2026-07-08T00:00:00Z''"
  "parse_timestamp ''2026-07-01T00:00:00Z'' = Inr 63918460800000000" "stripe_parse_time ''2026-07-01T00:00:00Z'' = Inr 63918460800000000"
  "parse_timestamp (iso_z (card_clock 1)) = Inr (card_clock 1)" "parse_timestamp (iso_z (card_clock 2)) = Inr (card_clock 2)"
  by code_simp+

lemma card_bind: "bind_provider_payment Sandbox ''ord_test_000000000000000000000001'' ''pi_00000000'' ''cs_test_00000000''
    (iso_z (card_clock 1)) card_store = Inr (card_view, card_store)"
  using card_rows(1,3) card_guards(2) card_times(5)
  by (simp add: bind_provider_payment_def require_order_def card_order_fields view_after_def get_order_def)

definition card_captured :: provider_event where
  "card_captured = emitted_event card_config card_order ''payment.captured'' ''txn_00000000'' 172 ''2026-07-01T00:00:00Z''"

lemma card_store_store_ok: "store_ok Sandbox card_store"
  using card_store_ok by (simp add: system_ok_def paid_ok_def market_ok_def card_access_def)

lemma card_emit:
  obtains v d1 where "emit card_config card_order ''payment.captured'' ''txn_00000000'' 172 ''2026-07-01T00:00:00Z'' (iso_z (card_clock 2)) card_store = (Inr v, d1)"
    "payloads d1 = [card_captured]" "o_quoted_amount_minor (ov_order v) = 4900"
proof -
  have "find_event (emit_event_id card_config (o_order_id card_order) ''payment.captured'' ''txn_00000000'' 172) card_store = None"
    by (simp add: find_event_def card_store_def)
  note new = emit_new [OF card_store_store_ok [folded card_config_env(1)] card_rows(2) card_order_fields(1) card_guards(2) _ _ _ _
      card_times(3,4,6) this, unfolded card_order_fields]
  show thesis
    by (rule new) (use that in \<open>simp_all add: event_target_def card_captured_def payloads_def card_store_def card_order_fields\<close>)
qed

lemma card_intent:
  obtains res d' where "reconcile_intent card_config card_api card_clock current source card_session ''pi_00000000'' card_view card_store = (res, d')"
    "payloads d' = [card_captured]"
proof -
  obtain v d1 where emit: "emit card_config card_order ''payment.captured'' ''txn_00000000'' 172 ''2026-07-01T00:00:00Z'' (iso_z (card_clock 2)) card_store = (Inr v, d1)"
    "payloads d1 = [card_captured]" "o_quoted_amount_minor (ov_order v) = 4900" by (rule card_emit)
  have look: "retrieve (sa_payment card_api) ''pi_00000000'' = Inr card_payment" "retrieve (sa_charge card_api) ''ch_00000000'' = Inr card_charge"
    "retrieve (sa_balance card_api) ''txn_00000000'' = Inr card_balance" by (simp_all add: retrieve_def card_api_def as_dict_def)
  have fields: "jget_null card_payment ''status'' = JStr ''succeeded''" "jget_null card_payment ''amount_received'' = JInt 4900"
    "jget_null card_payment ''latest_charge'' = JStr ''ch_00000000''" "jget_null card_charge ''balance_transaction'' = JStr ''txn_00000000''"
    "jget_null card_charge ''created'' = JInt 1782864000" "jget_null card_balance ''available_on'' = JInt 1783468800"
    "jget_null card_charge ''disputed'' = JBool False" "jget_null card_session ''id'' = JStr ''cs_test_00000000''"
    by (simp_all add: jget_null_def jget_def card_payment_def card_charge_def card_balance_def card_session_def)
  let ?digest = "snapshot_digest card_session ''pi_00000000'' card_charge ''ch_00000000'' 0 card_balance ''txn_00000000'' 4900 172"
  let ?row = "\<lambda>dg. \<lparr>rc_order_id = o_order_id card_order, rc_source_event_id = source, rc_checkout_id = [], rc_payment_id = ''pi_00000000'',
            rc_charge_id = ''ch_00000000'', rc_balance_id = ''txn_00000000'', rc_snapshot_digest = dg, rc_payment_state = ''pending'',
            rc_observed_at = iso_z current\<rparr>"
  have "reconcile_intent card_config card_api card_clock current source card_session ''pi_00000000'' card_view card_store =
      prog_then (give ?digest) (\<lambda>dg. prog_then (run_write (record_reconciliation (?row dg) (JStr ''cs_test_00000000'')))
        (\<lambda>_. give (Inr \<lparr>rd_state = ''pending'', rd_order = v\<rparr>))) d1"
    using emit(1,3) look fields card_guards card_times(1,2)
    by (simp add: reconcile_intent_def reconcile_captured_def Let_def prog_then_give card_order_fields(4) in_strings_def
        stripe_bounded_int_def prog_then_simps emit_available_def emit_outcome_def give_def [of "Inr x" for x])
  moreover have "payloads (snd (prog_then (give ?digest) (\<lambda>dg. prog_then (run_write (record_reconciliation (?row dg) (JStr ''cs_test_00000000'')))
        (\<lambda>_. give (Inr \<lparr>rd_state = ''pending'', rd_order = v\<rparr>))) d1)) = payloads d1"
    by (auto simp: prog_then_def give_def run_write_def record_reconciliation_def reject_if_def payloads_def split: sum.splits prod.splits if_splits)
  ultimately show thesis using emit(2) that by (metis prod.collapse)
qed

lemma card_reconcile:
  obtains res d' where "reconcile_order card_config plain_tables card_api card_clock ''ord_test_000000000000000000000001'' None
      (Aware (card_clock 9) 0) card_store = (res, d')" "payloads d' = [card_captured]"
proof -
  obtain now where now: "stripe_aware_datetime (Aware (card_clock 9) 0) = Inr now" using card_guards(3) by blast
  obtain res d' where run: "reconcile_intent card_config card_api card_clock now None card_session ''pi_00000000'' card_view card_store = (res, d')"
    "payloads d' = [card_captured]" by (rule card_intent)
  have fields: "retrieve (sa_checkout card_api) i = Inr card_session" "jget_null card_session ''payment_intent'' = JStr ''pi_00000000''" for i
    by (simp_all add: retrieve_def card_api_def as_dict_def jget_null_def jget_def card_session_def)
  have "reconcile_order card_config plain_tables card_api card_clock ''ord_test_000000000000000000000001'' None
      (Aware (card_clock 9) 0) card_store = (res, d')"
    using now run(1) fields card_guards card_rows(3,4) card_bind
    by (simp add: reconcile_order_def reconcile_session_def prog_then_give prog_then_look card_config_env(1) card_order_fields
        prog_then_def [where m = "run_write w" for w] run_write_def)
  from this run(2) show thesis by (rule that)
qed

text \<open>A dispute of the same charge, observed at the instants of a clock.\<close>

lemma card_dispute:
  assumes "parse_timestamp (iso_z (clock 4)) = Inr t" "stripe_parse_time (iso_z (clock 4)) = Inr t" "parse_timestamp (iso_z (clock 5)) = Inr t'"
  obtains r d1 where "emit_outcome card_config clock True 0 False ''ch_00000000'' card_view card_store = (Inr r, d1)"
proof -
  have "find_event (emit_event_id card_config (o_order_id card_order) ''payment.disputed'' ''ch_00000000'' 0) card_store = None"
    by (simp add: find_event_def card_store_def)
  note new = emit_new [OF card_store_store_ok [folded card_config_env(1)] card_rows(2) card_order_fields(1) card_guards(2) _ _ _ _
      assms this, unfolded card_order_fields]
  obtain v d1 where "emit card_config card_order ''payment.disputed'' ''ch_00000000'' 0 (iso_z (clock 4)) (iso_z (clock 5)) card_store = (Inr v, d1)"
    by (rule new) (simp_all add: event_target_def)
  then show thesis using that by (simp add: emit_outcome_def prog_then_def give_def)
qed

lemma card_dispute_times:
  "parse_timestamp (iso_z (card_clock 4)) = Inr (card_clock 4)" "stripe_parse_time (iso_z (card_clock 4)) = Inr (card_clock 4)"
  "parse_timestamp (iso_z (card_clock 5)) = Inr (card_clock 5)" "iso_z (card_clock 5) \<noteq> iso_z (card_clock 4)"
  by code_simp+

text \<open>A webhook that was processed.\<close>

definition card_event :: json where
  "card_event = JObj [(''id'', JStr ''evt_00000000''), (''type'', JStr ''charge.succeeded''), (''api_version'', JStr STRIPE_API_VERSION),
     (''livemode'', JBool False), (''data'', JObj [(''object'', JObj [(''id'', JStr ''ch_00000000'')])])]"

definition card_webhook :: webhook_row where
  "card_webhook = \<lparr>we_event_id = ''evt_00000000'', we_payload_digest = sha256_hex ''body'', we_event_type = ''charge.succeeded'',
     we_object_id = ''ch_00000000'', we_api_version = STRIPE_API_VERSION, we_livemode = False, we_status = ''processed'',
     we_order_id = Some ''ord_test_000000000000000000000001'', we_received_at = ''2026-07-01T00:00:00Z'', we_updated_at = ''2026-07-01T00:00:00Z''\<rparr>"

lemma card_webhook_event: "webhook_event card_config (\<lambda>_ _ _. Inr card_event) ''body'' ''signature'' = Inr (''evt_00000000'', ''charge.succeeded'', ''ch_00000000'')"
  by code_simp

end
