(* ===== verification/StripeClaims.thy ===== *)
theory StripeClaims
  imports StripeDemo
begin

section \<open>Stripe: its guarantees\<close>

text \<open>
  What the adapter promises: whatever the provider answers, its calls keep the invariant of the
  whole database; a capture is recorded only behind a complete, mutually consistent chain of
  provider objects; a webhook is processed once.
\<close>

subsection \<open>What is emitted\<close>

definition emitted :: "stripe_config \<Rightarrow> order_row \<Rightarrow> string \<Rightarrow> string \<Rightarrow> int \<Rightarrow> string \<Rightarrow> provider_event \<Rightarrow> bool" where
  "emitted cfg order ty ref fee at e \<longleftrightarrow> pe_event_id e = emit_event_id cfg (o_order_id order) ty ref fee
     \<and> pe_type e = ty \<and> pe_provider e = ''stripe'' \<and> Some (pe_payment_id e) = o_provider_payment_id order
     \<and> pe_amount_minor e = o_quoted_amount_minor order \<and> pe_fee_minor e = (if ty = ''payment.captured'' then fee else 0)
     \<and> pe_fee_minor e \<le> pe_amount_minor e \<and> pe_occurred_at e = at"

lemma validate_emitted:
  assumes "validate_event env (emitted_json cfg order ty ref fee at) = Inr e"
  shows "emitted cfg order ty ref fee at e"
proof -
  let ?kvs = "[(''schema_version'', JStr ''1.0.0''), (''provider'', JStr ''stripe''),
       (''environment'', JStr (environment_value (sc_environment cfg))),
       (''event_id'', JStr (emit_event_id cfg (o_order_id order) ty ref fee)), (''type'', JStr ty),
       (''payment_id'', case o_provider_payment_id order of None \<Rightarrow> JNull | Some p \<Rightarrow> JStr p),
       (''amount_minor'', JInt (o_quoted_amount_minor order)),
       (''fee_minor'', JInt (if ty = ''payment.captured'' then fee else 0)),
       (''currency'', JStr (o_currency order)), (''occurred_at'', JStr at)]"
  have get: "jget_null ?kvs ''event_id'' = JStr (emit_event_id cfg (o_order_id order) ty ref fee)" "jget_null ?kvs ''type'' = JStr ty"
    "jget_null ?kvs ''provider'' = JStr ''stripe''" "jget_null ?kvs ''amount_minor'' = JInt (o_quoted_amount_minor order)"
    "jget_null ?kvs ''payment_id'' = (case o_provider_payment_id order of None \<Rightarrow> JNull | Some p \<Rightarrow> JStr p)"
    "jget_null ?kvs ''fee_minor'' = JInt (if ty = ''payment.captured'' then fee else 0)" "jget_null ?kvs ''occurred_at'' = JStr at"
    by (simp_all add: jget_null_def)
  note parts = assms [unfolded emitted_json_def validate_event_def Let_def json.case reject_if_Inr and_then_Inr not_not sum.inject get the_str.simps the_int.simps]
  obtain p where p: "o_provider_payment_id order = Some p" using parts by (cases "o_provider_payment_id order") auto
  have e: "e = \<lparr>pe_provider = ''stripe'', pe_environment = env, pe_event_id = emit_event_id cfg (o_order_id order) ty ref fee, pe_type = ty,
      pe_payment_id = the_str (case o_provider_payment_id order of None \<Rightarrow> JNull | Some p \<Rightarrow> JStr p),
      pe_amount_minor = o_quoted_amount_minor order, pe_fee_minor = (if ty = ''payment.captured'' then fee else 0), pe_occurred_at = at\<rparr>"
    using parts by blast
  moreover have "\<not> (if ty = ''payment.captured'' then fee else 0) > o_quoted_amount_minor order" using parts by blast
  ultimately show ?thesis using p by (simp add: emitted_def)
qed

lemma ingest_payloads:
  assumes ok: "store_ok env d" and run: "ingest_provider_event env v received d = Inr (res, d')"
  obtains (same) "d' = d" | (new) e where "validate_event env v = Inr e" "payloads d' = payloads d @ [e]"
  using ok run
proof (cases rule: ingest_cases)
  case (new e u er r r')
  have "payloads d' = payloads d @ [e]"
    using same_keysD(10) [OF new(12)] by (simp add: payloads_def pending_event_row_def)
  with new(1) show thesis by (rule that(2))
qed (rule that(1))

subsection \<open>The chain behind a capture\<close>

text \<open>
  What the provider must have answered for a capture \<open>e\<close> of an order: its checkout session names
  the payment, the payment is of this order, quote and account and received the quoted amount,
  the charge captured it, and the balance transaction of that charge carries amount and fee.
\<close>

definition settlement_proved :: "stripe_config \<Rightarrow> stripe_api \<Rightarrow> order_row \<Rightarrow> provider_event \<Rightarrow> bool" where
  "settlement_proved cfg api order e \<longleftrightarrow> (\<exists>session payment md charge balance checkout_id charge_id balance_id.
     o_provider_checkout_id order = Some checkout_id \<and> sa_checkout api checkout_id = Inr (JObj session)
     \<and> jget_null session ''client_reference_id'' = JStr (o_order_id order)
     \<and> jget_null session ''amount_total'' = JInt (o_quoted_amount_minor order)
     \<and> reference_id re_stripe_payment_id (jget_null session ''payment_intent'') = Inr (pe_payment_id e)
     \<and> sa_payment api (pe_payment_id e) = Inr (JObj payment)
     \<and> jget_null payment ''id'' = JStr (pe_payment_id e) \<and> jget_null payment ''status'' = JStr ''succeeded''
     \<and> jget_null payment ''livemode'' = JBool (sc_livemode cfg)
     \<and> jget_null payment ''amount_received'' = JInt (o_quoted_amount_minor order)
     \<and> jget_null payment ''metadata'' = JObj md \<and> jget_null md ''vouchspec_order_id'' = JStr (o_order_id order)
     \<and> jget_null md ''vouchspec_quote_id'' = JStr (o_quote_id order) \<and> jget_null md ''vouchspec_account_id'' = JStr (sc_account_id cfg)
     \<and> reference_id re_charge_id (jget_null payment ''latest_charge'') = Inr charge_id
     \<and> sa_charge api charge_id = Inr (JObj charge) \<and> jget_null charge ''id'' = JStr charge_id
     \<and> reference_id re_stripe_payment_id (jget_null charge ''payment_intent'') = Inr (pe_payment_id e)
     \<and> jget_null charge ''amount_captured'' = JInt (o_quoted_amount_minor order)
     \<and> jget_null charge ''paid'' = JBool True \<and> jget_null charge ''captured'' = JBool True
     \<and> reference_id re_balance_id (jget_null charge ''balance_transaction'') = Inr balance_id
     \<and> sa_balance api balance_id = Inr (JObj balance)
     \<and> reference_id re_charge_id (jget_null balance ''source'') = Inr charge_id
     \<and> jget_null balance ''amount'' = JInt (pe_amount_minor e) \<and> jget_null balance ''fee'' = JInt (pe_fee_minor e)
     \<and> pe_amount_minor e = o_quoted_amount_minor order)"

lemma stripe_bounded_int_Inr: "stripe_bounded_int v = Inr n \<longleftrightarrow> v = JInt n \<and> 0 \<le> n \<and> n \<le> 10000000"
  by (cases v) (auto simp: stripe_bounded_int_def reject_if_Inr)

lemma as_dict_Inr: "as_dict v = Inr kvs \<longleftrightarrow> v = JObj kvs"
  by (cases v) (auto simp: as_dict_def)

lemma retrieve_Inr: "retrieve f i = Inr kvs \<longleftrightarrow> f i = Inr (JObj kvs)"
  by (auto simp: retrieve_def and_then_Inr as_dict_Inr)

lemma metadata_of_Inr: "metadata_of v = Inr md \<Longrightarrow> v = JObj md"
  by (auto simp: metadata_of_def and_then_Inr as_dict_Inr reject_if_Inr)

lemma payment_bound_Inr:
  assumes "payment_bound cfg payment pid order = Inr ()"
  obtains md where "jget_null payment ''metadata'' = JObj md" "jget_null payment ''id'' = JStr pid" "jget_null payment ''livemode'' = JBool (sc_livemode cfg)"
    "jget_null md ''vouchspec_order_id'' = JStr (o_order_id order)" "jget_null md ''vouchspec_quote_id'' = JStr (o_quote_id order)"
    "jget_null md ''vouchspec_account_id'' = JStr (sc_account_id cfg)"
  using assms [unfolded payment_bound_def and_then_Inr reject_if_Inr de_Morgan_disj not_not] by (auto dest: metadata_of_Inr)

lemma charge_bound_Inr:
  assumes "charge_bound cfg charge cid pid order = Inr refunded"
  shows "jget_null charge ''id'' = JStr cid" "reference_id re_stripe_payment_id (jget_null charge ''payment_intent'') = Inr pid"
    "jget_null charge ''amount_captured'' = JInt (o_quoted_amount_minor order)" "jget_null charge ''paid'' = JBool True"
    "jget_null charge ''captured'' = JBool True"
  using assms [unfolded charge_bound_def and_then_Inr reject_if_Inr de_Morgan_disj not_not]
  by (auto simp: stripe_bounded_int_Inr)

lemma balance_bound_Inr:
  assumes "balance_bound balance bid cid order = Inr (amount, fee, available)"
  shows "reference_id re_charge_id (jget_null balance ''source'') = Inr cid" "jget_null balance ''amount'' = JInt amount"
    "jget_null balance ''fee'' = JInt fee" "amount = o_quoted_amount_minor order"
proof -
  have "\<exists>a f. jget_null balance ''amount'' = JInt a \<and> jget_null balance ''fee'' = JInt f \<and> a = amount \<and> f = fee
      \<and> reference_id re_charge_id (jget_null balance ''source'') = Inr cid \<and> a = o_quoted_amount_minor order"
    using assms [unfolded balance_bound_def and_then_Inr reject_if_Inr de_Morgan_disj not_not stripe_bounded_int_Inr] by blast
  then show "reference_id re_charge_id (jget_null balance ''source'') = Inr cid" "jget_null balance ''amount'' = JInt amount"
    "jget_null balance ''fee'' = JInt fee" "amount = o_quoted_amount_minor order" by simp_all
qed

lemma validate_checkout_Inr:
  assumes "validate_checkout cfg u session order quote all_done = Inr ()"
  shows "jget_null session ''client_reference_id'' = JStr (o_order_id order)"
    "jget_null session ''amount_total'' = JInt (o_quoted_amount_minor order)"
proof -
  note run = assms [unfolded validate_checkout_def and_then_Inr reject_if_Inr de_Morgan_disj not_not stripe_bounded_int_Inr]
  show "jget_null session ''client_reference_id'' = JStr (o_order_id order)" using run by blast
  show "jget_null session ''amount_total'' = JInt (o_quoted_amount_minor order)" using run by blast
qed

subsection \<open>Reconciliation\<close>

text \<open>The captures of \<open>t\<close> that are not in \<open>d\<close> satisfy \<open>B\<close>.\<close>

definition captures :: "environment \<Rightarrow> (provider_event \<Rightarrow> bool) \<Rightarrow> 'z db_scheme \<Rightarrow> 'z db_scheme \<Rightarrow> bool" where
  "captures env B d t \<longleftrightarrow> store_ok env t
     \<and> (\<forall>e \<in> set (payloads t). pe_type e = ''payment.captured'' \<longrightarrow> e \<in> set (payloads d) \<or> B e)"

lemma captures_start: "store_ok env d \<Longrightarrow> captures env B d d"
  by (simp add: captures_def)

lemma captures_same: "captures env B d s \<Longrightarrow> store_ok env t \<Longrightarrow> payloads t = payloads s \<Longrightarrow> captures env B d t"
  by (simp add: captures_def)

lemma leads_emit:
  assumes env: "sc_environment cfg = env"
    and new: "ty = ''payment.captured'' \<Longrightarrow> (\<And>e. emitted cfg order ty ref fee at e \<Longrightarrow> B e)"
  shows "leads (captures env B d) (emit cfg order ty ref fee at received) (\<lambda>_. captures env B d) (captures env B d)"
  unfolding emit_def
proof (intro leads_give_then leads_write_then leads_return)
  fix s res t
  assume s: "captures env B d s" and run: "ingest_provider_event (sc_environment cfg) (emitted_json cfg order ty ref fee at) received s = Inr (res, t)"
  have ok: "store_ok env s" using s by (simp add: captures_def)
  note run = run [unfolded env]
  have ok': "store_ok env t" by (rule ingest_provider_event_ok [OF ok run])
  from ok run show "captures env B d t"
  proof (cases rule: ingest_payloads)
    case (new e)
    with validate_emitted [OF new(1)] have "pe_type e = ty" "emitted cfg order ty ref fee at e" by (simp_all add: emitted_def)
    with s ok' new(2) assms(2) show ?thesis by (auto simp: captures_def)
  qed (use s in simp)
qed auto

lemma leads_emit_other:
  "sc_environment cfg = env \<Longrightarrow> ty \<noteq> ''payment.captured'' \<Longrightarrow>
    leads (captures env B d) (emit cfg order ty ref fee at received) (\<lambda>_. captures env B d) (captures env B d)"
  by (rule leads_emit) simp_all

lemma leads_available:
  assumes env: "sc_environment cfg = env"
  shows "leads (captures env B d) (emit_available cfg clock current available bid at view) (\<lambda>_. captures env B d) (captures env B d)"
  unfolding emit_available_def
  by (intro leads_if leads_return leads_give_then leads_check leads_emit_other [OF env]) simp_all

lemma leads_outcome:
  assumes env: "sc_environment cfg = env"
  shows "leads (captures env B d) (emit_outcome cfg clock disputed refunded available cid view) (\<lambda>_. captures env B d) (captures env B d)"
proof -
  note emits = leads_emit_other [OF env, of _ B d]
  show ?thesis unfolding emit_outcome_def
    by (intro leads_if leads_return leads_then [OF emits] leads_then [OF emits] leads_return) simp_all
qed

lemma record_reconciliation_captures:
  assumes "captures env B d s" "record_reconciliation row cid s = Inr (x, t)"
  shows "captures env B d t"
proof -
  have "record_reconciliation row cid s = Inr ((), t)" using assms(2) by simp
  then show ?thesis
  proof (cases rule: record_cases)
    case (new c)
    have "store_ok env t = store_ok env s" by (rule store_ok_cong) (simp_all add: new(1))
    with assms(1) new(1) show ?thesis by (simp add: captures_def payloads_def)
  qed (use assms(1) in simp)
qed

lemma leads_captured:
  assumes env: "sc_environment cfg = env"
    and B: "\<And>cid charge refunded bid balance amount fee available e.
        reference_id re_charge_id (jget_null payment ''latest_charge'') = Inr cid \<Longrightarrow> sa_charge api cid = Inr (JObj charge) \<Longrightarrow>
        charge_bound cfg charge cid pid (ov_order view) = Inr refunded \<Longrightarrow>
        reference_id re_balance_id (jget_null charge ''balance_transaction'') = Inr bid \<Longrightarrow> sa_balance api bid = Inr (JObj balance) \<Longrightarrow>
        balance_bound balance bid cid (ov_order view) = Inr (amount, fee, available) \<Longrightarrow>
        (\<exists>at. emitted cfg (ov_order view) ''payment.captured'' bid fee at e) \<Longrightarrow> B e"
  shows "leads (captures env B d) (reconcile_captured cfg api clock current source session pid payment view)
    (\<lambda>_. captures env B d) (captures env B d)"
  unfolding reconcile_captured_def Let_def
proof (rule leads_give_then)
  fix cid assume cid: "reference_id re_charge_id (jget_null payment ''latest_charge'') = Inr cid"
  let ?rest = "\<lambda>charge refunded bid balance. \<lambda>(amount, fee, available).
      prog_then (give (epoch_time (jget_null charge ''created''))) (\<lambda>captured_at.
      prog_then (emit cfg (ov_order view) ''payment.captured'' bid fee captured_at (iso_z (clock 2))) (\<lambda>view1.
      prog_then (give (epoch_time (jget_null balance ''available_on''))) (\<lambda>available_at.
      prog_then (emit_available cfg clock current available bid available_at view1) (\<lambda>view2.
      prog_then (emit_outcome cfg clock (jget_null charge ''disputed'' = JBool True) refunded available cid view2) (\<lambda>result.
      prog_then (give (snapshot_digest session pid charge cid refunded balance bid amount fee)) (\<lambda>digest.
      prog_then (run_write (record_reconciliation
          \<lparr>rc_order_id = o_order_id (ov_order view), rc_source_event_id = source, rc_checkout_id = [], rc_payment_id = pid,
            rc_charge_id = cid, rc_balance_id = bid, rc_snapshot_digest = digest, rc_payment_state = rd_state result,
            rc_observed_at = iso_z current\<rparr> (jget_null session ''id''))) (\<lambda>_.
      give (Inr result))))))))"
  have rest: "leads (captures env B d) (?rest charge refunded bid balance x) (\<lambda>_. captures env B d) (captures env B d)"
    if charge: "sa_charge api cid = Inr (JObj charge)" "charge_bound cfg charge cid pid (ov_order view) = Inr refunded"
      and balance: "reference_id re_balance_id (jget_null charge ''balance_transaction'') = Inr bid" "sa_balance api bid = Inr (JObj balance)"
        "balance_bound balance bid cid (ov_order view) = Inr x"
    for charge refunded bid balance x
  proof (cases x)
    case (fields amount fee available)
    have "B e" if "emitted cfg (ov_order view) ''payment.captured'' bid fee at e" for at e
      by (rule B [OF cid charge balance(1,2) balance(3) [unfolded fields]]) (use that in blast)
    note first = leads_emit [OF env, of "''payment.captured''" "ov_order view" bid fee _ B d, OF this]
    show ?thesis unfolding fields prod.case
      by (rule leads_give_then, rule leads_then [OF first], assumption, rule leads_give_then, rule leads_then [OF leads_available [OF env]],
        rule leads_then [OF leads_outcome [OF env]], rule leads_give_then, rule leads_write_then [where P' = "\<lambda>_. captures env B d"])
        (auto intro: record_reconciliation_captures leads_return)
  qed
  show "leads (captures env B d) (prog_then (give (retrieve (sa_charge api) cid)) (\<lambda>charge.
      prog_then (give (charge_bound cfg charge cid pid (ov_order view))) (\<lambda>refunded.
      prog_then (give (reference_id re_balance_id (jget_null charge ''balance_transaction''))) (\<lambda>bid.
      prog_then (give (retrieve (sa_balance api) bid)) (\<lambda>balance.
      prog_then (give (balance_bound balance bid cid (ov_order view))) (?rest charge refunded bid balance))))))
    (\<lambda>_. captures env B d) (captures env B d)"
    by (intro leads_give_then rest) (simp_all add: retrieve_Inr)
qed

text \<open>The order that binding the payment returns: the same order with the payment.\<close>

definition bound_view :: "order_row \<Rightarrow> string \<Rightarrow> public_order \<Rightarrow> bool" where
  "bound_view r pid v \<longleftrightarrow> o_order_id (ov_order v) = o_order_id r \<and> o_quote_id (ov_order v) = o_quote_id r
     \<and> o_quoted_amount_minor (ov_order v) = o_quoted_amount_minor r \<and> o_provider_payment_id (ov_order v) = Some pid"

lemma find_order_updated:
  assumes "update_order oid f d = Inr d'" "find_order oid d = Some r" "\<And>x. o_order_id (f x) = o_order_id x"
  shows "find_order oid d' = Some (f r)"
proof -
  have "find (\<lambda>r. o_order_id r = oid) (update_where (\<lambda>r. o_order_id r = oid) f (orders d))
      = map_option (\<lambda>r. if o_order_id r = oid then f r else r) (find (\<lambda>r. o_order_id r = oid) (orders d))"
    by (rule find_update_where) (simp add: assms(3))
  with assms show ?thesis using find_orderD [OF assms(2)]
    by (auto simp: update_order_def write_orders_def find_order_def split: if_splits)
qed

lemma bind_view:
  assumes run: "bind_provider_payment env oid pid cid at d = Inr (v, d')" and r: "find_order oid d = Some r"
  shows "bound_view r pid v" "payloads d' = payloads d"
proof -
  have view: "find_order oid d' = Some (ov_order v)"
    using run [unfolded bind_provider_payment_def reject_if_Inr and_then_Inr]
    by (auto simp: view_after_Inr and_then_Inr reject_if_Inr order_view_of_def split: if_splits)
  from run show "bound_view r pid v"
  proof (cases rule: bind_provider_payment_cases)
    case (same x)
    with view r show ?thesis by (simp add: bound_view_def)
  next
    case (new x)
    from find_order_updated [OF new(5) r] view show ?thesis by (auto simp: bound_view_def)
  qed
  from run show "payloads d' = payloads d"
    by (cases rule: bind_provider_payment_cases) (auto simp: payloads_def update_order_Inr)
qed

lemma get_order_view: "get_order env oid d = Inr v \<Longrightarrow> find_order oid d = Some (ov_order v)"
  by (auto simp: get_order_def order_view_def require_order_def and_then_Inr order_view_of_def split: option.splits)

text \<open>What holds of the session when the payment behind it is reconciled.\<close>

definition session_for :: "stripe_api \<Rightarrow> order_row \<Rightarrow> (string \<times> json) list \<Rightarrow> string \<Rightarrow> bool" where
  "session_for api r session pid \<longleftrightarrow> (\<exists>ck. o_provider_checkout_id r = Some ck \<and> sa_checkout api ck = Inr (JObj session))
     \<and> jget_null session ''client_reference_id'' = JStr (o_order_id r)
     \<and> jget_null session ''amount_total'' = JInt (o_quoted_amount_minor r)
     \<and> reference_id re_stripe_payment_id (jget_null session ''payment_intent'') = Inr pid"

lemma captured_settled:
  assumes session: "session_for api r session pid" and bound: "bound_view r pid v" and p: "sa_payment api pid = Inr (JObj payment)"
    and pb: "payment_bound cfg payment pid (ov_order v) = Inr ()" and st: "jget_null payment ''status'' = JStr ''succeeded''"
    and recd: "jget_null payment ''amount_received'' = JInt (o_quoted_amount_minor (ov_order v))"
    and c: "reference_id re_charge_id (jget_null payment ''latest_charge'') = Inr cid" "sa_charge api cid = Inr (JObj charge)"
      "charge_bound cfg charge cid pid (ov_order v) = Inr refunded"
    and b: "reference_id re_balance_id (jget_null charge ''balance_transaction'') = Inr bid" "sa_balance api bid = Inr (JObj balance)"
      "balance_bound balance bid cid (ov_order v) = Inr (amount, fee, available)"
    and e: "emitted cfg (ov_order v) ''payment.captured'' bid fee at e"
  shows "settlement_proved cfg api r e"
proof -
  have ev: "pe_payment_id e = pid" "pe_amount_minor e = o_quoted_amount_minor r" "pe_fee_minor e = fee" "amount = o_quoted_amount_minor r"
    using e bound balance_bound_Inr(4) [OF b(3)] by (simp_all add: emitted_def bound_view_def)
  obtain md where md: "jget_null payment ''metadata'' = JObj md" "jget_null payment ''id'' = JStr pid"
    "jget_null payment ''livemode'' = JBool (sc_livemode cfg)"
    "jget_null md ''vouchspec_order_id'' = JStr (o_order_id r)" "jget_null md ''vouchspec_quote_id'' = JStr (o_quote_id r)"
    "jget_null md ''vouchspec_account_id'' = JStr (sc_account_id cfg)"
    using payment_bound_Inr [OF pb] bound unfolding bound_view_def by metis
  note ch = charge_bound_Inr [OF c(3)]
  note bal = balance_bound_Inr [OF b(3)]
  have quoted: "o_quoted_amount_minor (ov_order v) = o_quoted_amount_minor r" using bound by (simp add: bound_view_def)
  show ?thesis
    unfolding settlement_proved_def ev(1-3)
    using session [unfolded session_for_def] p md st recd c(1,2) ch b(1,2) bal ev(4) unfolding quoted by blast
qed

lemma leads_intent:
  assumes env: "sc_environment cfg = env" and session: "session_for api r session pid" and bound: "bound_view r pid v"
    and B: "\<And>e. settlement_proved cfg api r e \<Longrightarrow> B e"
  shows "leads (captures env B d) (reconcile_intent cfg api clock current source session pid v) (\<lambda>_. captures env B d) (captures env B d)"
proof -
  have failed: "leads (captures env B d) (prog_then (give (epoch_time (jget_null payment ''created''))) (\<lambda>created.
       prog_then (emit cfg (ov_order v) ''payment.failed'' pid 0 created (iso_z (clock 2))) (\<lambda>w.
       give (Inr \<lparr>rd_state = ''failed'', rd_order = w\<rparr>)))) (\<lambda>_. captures env B d) (captures env B d)" for payment
    by (rule leads_give_then, rule leads_then [OF leads_emit_other [OF env]]) (auto intro: leads_return)
  show ?thesis
    unfolding reconcile_intent_def
    by (intro leads_give_then leads_if leads_check leads_return failed leads_captured [OF env] B)
      (auto simp: stripe_bounded_int_Inr retrieve_Inr intro: captured_settled [OF session bound])
qed

lemma leads_session:
  assumes env: "sc_environment cfg = env" and ok: "store_ok env d" and r: "find_order oid d = Some r"
    and session: "\<And>pid. reference_id re_stripe_payment_id (jget_null session ''payment_intent'') = Inr pid \<Longrightarrow> session_for api r session pid"
    and B: "\<And>e. settlement_proved cfg api r e \<Longrightarrow> B e"
  shows "leads (\<lambda>s. s = d) (reconcile_session cfg api clock current oid source session view) (\<lambda>_. captures env B d) (captures env B d)"
proof -
  have start: "s = d \<Longrightarrow> captures env B d s" for s using captures_start [OF ok] by simp
  have bind: "captures env B d t \<and> bound_view r pid v"
    if "s = d" "bind_provider_payment (sc_environment cfg) oid pid ck at s = Inr (v, t)" for s pid ck at v t
  proof -
    have run: "bind_provider_payment env oid pid ck at d = Inr (v, t)" using that by (simp add: env)
    have "store_ok env t" by (rule bind_provider_payment_ok [OF ok run])
    with bind_view [OF run r] captures_same [OF captures_start [OF ok]] show ?thesis by blast
  qed
  have "leads (\<lambda>s. s = d) (prog_then (run_write (bind_provider_payment (sc_environment cfg) oid pid ck at))
      (\<lambda>v. reconcile_intent cfg api clock current source session pid v)) (\<lambda>_. captures env B d) (captures env B d)"
    if "reference_id re_stripe_payment_id (jget_null session ''payment_intent'') = Inr pid" for pid ck at
  proof (rule leads_write_then [where P' = "\<lambda>v t. captures env B d t \<and> bound_view r pid v"])
    show "leads (\<lambda>t. captures env B d t \<and> bound_view r pid v) (reconcile_intent cfg api clock current source session pid v)
      (\<lambda>_. captures env B d) (captures env B d)" for v
      by (rule leads_pure) (rule leads_intent [OF env session [OF that] _ B])
  qed (use bind start in blast)+
  then show ?thesis
    unfolding reconcile_session_def by (intro leads_if leads_return leads_give_then) (auto intro: start)
qed

lemma leads_reconcile:
  assumes env: "sc_environment cfg = env" and ok: "store_ok env d" and r: "find_order oid d = Some r"
    and B: "\<And>e. settlement_proved cfg api r e \<Longrightarrow> B e"
  shows "leads (\<lambda>s. s = d) (reconcile_order cfg u api clock oid source at) (\<lambda>_. captures env B d) (captures env B d)"
proof -
  have start: "s = d \<Longrightarrow> captures env B d s" for s using captures_start [OF ok] by simp
  have "session_for api r session pid"
    if "get_order (sc_environment cfg) oid d = Inr view" "o_provider_checkout_id (ov_order view) \<noteq> None"
      "retrieve (sa_checkout api) (the (o_provider_checkout_id (ov_order view))) = Inr session"
      "validate_checkout cfg u session (ov_order view) quote True = Inr x"
      "reference_id re_stripe_payment_id (jget_null session ''payment_intent'') = Inr pid" for view session quote x pid
    using that get_order_view [OF that(1)] r validate_checkout_Inr [of cfg u session r quote True]
    by (auto simp: session_for_def retrieve_Inr)
  then show ?thesis
    unfolding reconcile_order_def
    by (intro leads_check leads_give_then leads_look_then leads_session [OF env ok r _ B]) (auto intro: start)
qed

subsection \<open>Emitting the same event at another time\<close>

lemma key_of: "er \<in> set (provider_events d) \<Longrightarrow> (ev_event_id er, ev_payment_id er, ev_payload_digest er) \<in> set (event_keys d)"
  by (force simp: event_keys_def)

lemma runs_end: "runs step m \<Longrightarrow> rtranclp step s (snd (m s))"
  by (simp add: runs_def)

lemma emit_recorded:
  assumes ok: "store_ok (sc_environment cfg) d" and run: "emit cfg order ty ref fee at received d = (Inr v, d')"
  obtains e pid where "emitted cfg order ty ref fee at e" "(pe_event_id e, pid, payload_digest e) \<in> set (event_keys d')"
    "(pe_event_id e, pid, payload_digest e) \<in> set (event_keys d) \<or> find_event (pe_event_id e) d = None"
proof -
  obtain res where ing: "ingest_provider_event (sc_environment cfg) (emitted_json cfg order ty ref fee at) received d = Inr (res, d')"
    using run by (auto simp: emit_def prog_then_Inr run_write_Inr give_Inr)
  from ok ing show thesis
  proof (cases rule: ingest_cases)
    case (dup e er r)
    then have "er \<in> set (provider_events d)" "ev_event_id er = pe_event_id e" by (auto simp: find_event_def dest: find_SomeD)
    with key_of [of er d] dup(3,6) show thesis by (intro that [OF validate_emitted [OF dup(1)], of "ev_payment_id er"]) simp_all
  next
    case (new e u er r r')
    have "er \<in> set (provider_events d')" "ev_event_id er = pe_event_id e" using new(9) by (auto simp: find_event_def dest: find_SomeD)
    with key_of [of er d'] new(3,10) show thesis by (intro that [OF validate_emitted [OF new(1)], of "ev_payment_id er"]) simp_all
  qed
qed

lemma key_unique:
  assumes "store_ok env d" "(i, p, x) \<in> set (event_keys d)" "(i, q, y) \<in> set (event_keys d)" shows "x = y"
  using find_event_unique [OF assms(1,2)] find_event_unique [OF assms(1,3)] by auto

lemma emitted_twice:
  assumes ok: "system_ok acfg ed d" and env: "sc_environment cfg = ac_environment acfg"
    and first: "emit cfg order ty ref fee at1 rec1 d = (Inr v, d1)" and between: "rtranclp (system_step acfg ed) d1 d2"
    and second: "emit cfg order' ty ref fee at2 rec2 d2 = (Inr w, d3)" and same: "o_order_id order' = o_order_id order"
  shows "\<exists>e1 e2. emitted cfg order ty ref fee at1 e1 \<and> emitted cfg order' ty ref fee at2 e2 \<and> payload_digest e1 = payload_digest e2"
proof -
  have s: "system_ok acfg ed d1" by (rule system.run_inv [OF runsD [OF runs_emit [OF env] first] ok])
  then have s2: "system_ok acfg ed d2" by (rule system.run_inv [OF between])
  have st: "store_ok (sc_environment cfg) d" "store_ok (sc_environment cfg) d2"
    using ok s2 by (simp_all add: system_ok_def paid_ok_def market_ok_def env)
  obtain e1 p1 where e1: "emitted cfg order ty ref fee at1 e1" "(pe_event_id e1, p1, payload_digest e1) \<in> set (event_keys d1)"
    using emit_recorded [OF st(1) first] by metis
  have "(pe_event_id e1, p1, payload_digest e1) \<in> set (event_keys d2)"
    using system_run_events [OF s between] e1(2) by (auto simp: prefix_def)
  note k1 = this
  obtain e2 p2 where e2: "emitted cfg order' ty ref fee at2 e2"
    "(pe_event_id e2, p2, payload_digest e2) \<in> set (event_keys d2) \<or> find_event (pe_event_id e2) d2 = None"
    using emit_recorded [OF st(2) second] by metis
  have id: "pe_event_id e2 = pe_event_id e1" using e1(1) e2(1) same by (simp add: emitted_def)
  with event_keys_find [OF k1] e2(2) have "(pe_event_id e1, p2, payload_digest e2) \<in> set (event_keys d2)" by auto
  from key_unique [OF st(2) k1 this] e1(1) e2(1) show ?thesis by blast
qed

subsection \<open>The properties\<close>

text \<open>
  C31. A capture is recorded only behind the complete chain: if reconciling an order leaves a
  captured event that was not there before, then the provider had answered with the checkout
  session, payment, charge and balance transaction of exactly this order, quote, account and
  amount, each naming the next, and the event carries that amount, fee and payment.
\<close>

theorem no_capture_without_settlement:
  assumes ok: "system_ok acfg ed d" and env: "sc_environment cfg = ac_environment acfg"
    and run: "reconcile_order cfg u api clock oid source at d = (res, d')"
    and new: "e \<in> set (payloads d')" "e \<notin> set (payloads d)" "pe_type e = ''payment.captured''"
  shows "\<exists>order. find_order oid d = Some order \<and> settlement_proved cfg api order e"
proof -
  have st: "store_ok (sc_environment cfg) d" using ok by (simp add: system_ok_def paid_ok_def market_ok_def env)
  show ?thesis
  proof (cases "find_order oid d")
    case None
    have "d' = d" using run
      by (auto simp: reconcile_order_def get_order_def order_view_def require_order_def None check_prog_def
          prog_then_def give_def look_def split: sum.splits if_splits)
    with new show ?thesis by simp
  next
    case (Some r)
    have "leads (\<lambda>s. s = d) (reconcile_order cfg u api clock oid source at)
        (\<lambda>_. captures (sc_environment cfg) (settlement_proved cfg api r) d) (captures (sc_environment cfg) (settlement_proved cfg api r) d)"
      by (rule leads_reconcile [OF refl st Some])
    then have "captures (sc_environment cfg) (settlement_proved cfg api r) d d'"
      using run by (auto simp: leads_def split: sum.splits)
    with new Some show ?thesis by (auto simp: captures_def)
  qed
qed

theorem no_capture_without_settlement_witness:
  "\<exists>res d'. reconcile_order card_config plain_tables card_api card_clock ''ord_test_000000000000000000000001'' None
       (Aware (card_clock 9) 0) card_store = (res, d')
     \<and> card_captured \<in> set (payloads d') \<and> settlement_proved card_config card_api card_order card_captured"
proof -
  obtain res d' where run: "reconcile_order card_config plain_tables card_api card_clock ''ord_test_000000000000000000000001'' None
      (Aware (card_clock 9) 0) card_store = (res, d')" "payloads d' = [card_captured]" by (rule card_reconcile)
  have "card_captured \<in> set (payloads d')" "card_captured \<notin> set (payloads card_store)" "pe_type card_captured = ''payment.captured''"
    using run(2) by (simp_all add: payloads_def card_store_def card_captured_def emitted_event_def)
  from no_capture_without_settlement [OF card_store_ok card_config_env(2) run(1) this] card_rows(1) run
  show ?thesis by auto
qed

text \<open>
  Whatever the provider answers, and wherever a call fails between its transactions, a call
  of the adapter is a run of steps of the whole database: it keeps the invariant of store,
  access, publication and webhook tables, and removes or replaces no recorded event.
\<close>

theorem adapter_keeps_system:
  assumes ok: "system_ok acfg ed d" and env: "sc_environment cfg = ac_environment acfg"
    and call: "d' \<in> {snd (process_webhook cfg u construct api api1 clock body sig d), snd (reconcile_order cfg u api clock oid source at d),
      snd (prepare_order_checkout cfg u api oid now d), snd (prepare_checkout cfg u api req qid key buyer now d)}"
  shows "rtranclp (system_step acfg ed) d d' \<and> system_ok acfg ed d' \<and> prefix (event_keys d) (event_keys d')"
proof -
  have "rtranclp (system_step acfg ed) d d'"
    using call runs_end [OF runs_webhook [OF env], where s = d] runs_end [OF runs_reconcile [OF env], where s = d]
      runs_end [OF runs_prepare_order [OF env], where s = d] runs_end [OF runs_prepare [OF env], where s = d] by auto
  with system.run_inv [OF this ok] system_run_events [OF ok this] show ?thesis by blast
qed

theorem adapter_keeps_system_witness:
  "\<exists>d'. payloads d' = [card_captured] \<and> rtranclp (system_step card_access card_ed) card_store d' \<and> system_ok card_access card_ed d'"
proof -
  obtain res d' where run: "reconcile_order card_config plain_tables card_api card_clock ''ord_test_000000000000000000000001'' None
      (Aware (card_clock 9) 0) card_store = (res, d')" "payloads d' = [card_captured]" by (rule card_reconcile)
  have "d' \<in> {snd (process_webhook card_config plain_tables (\<lambda>_ _ _. Inl ValueError) card_api card_api card_clock [] [] card_store),
      snd (reconcile_order card_config plain_tables card_api card_clock ''ord_test_000000000000000000000001'' None (Aware (card_clock 9) 0) card_store),
      snd (prepare_order_checkout card_config plain_tables card_api ''ord_test_000000000000000000000001'' (Aware 0 0) card_store),
      snd (prepare_checkout card_config plain_tables card_api JNull [] [] [] (Aware 0 0) card_store)}"
    using run(1) by simp
  from adapter_keeps_system [OF card_store_ok card_config_env(2) this] run(2) show ?thesis by blast
qed

text \<open>
  C32. A webhook is processed once: when an event was processed, ignored or rejected, the same
  body is answered with the recorded outcome and another body under the same event identifier
  is refused as a conflict; neither touches the database.
\<close>

theorem webhook_processed_once:
  assumes event: "webhook_event cfg construct body sig = Inr (eid, ty, obj)"
    and row: "find_webhook eid d = Some row" "we_status row \<in> {''processed'', ''ignored'', ''rejected''}"
  shows "process_webhook cfg u construct api api1 clock body sig d =
    (if we_payload_digest row = sha256_hex body
     then Inr \<lparr>wr_event_id = eid, wr_duplicate = True, wr_status = we_status row, wr_order_id = we_order_id row, wr_payment_status = None\<rparr>
     else Inl (Rejected ''stripe_event_conflict''), d)"
proof -
  have "stale_processing received row = Inr False" for received using row(2) by (auto simp: stale_processing_def)
  then have "reserve_webhook cfg eid (sha256_hex body) ty obj STRIPE_API_VERSION received d =
      (if we_payload_digest row = sha256_hex body
       then Inr (\<lparr>rs_duplicate = True, rs_status = we_status row, rs_order_id = we_order_id row\<rparr>, d)
       else Inl (Rejected ''stripe_event_conflict''))" for received
    using row by (auto simp: reserve_webhook_def)
  then show ?thesis
    by (simp add: process_webhook_def Let_def event prog_then_give prog_then_def [where m = "run_write (reserve_webhook a b c dd ee f g)" for a b c dd ee f g]
      run_write_eq give_def)
qed

theorem webhook_processed_once_witness:
  "process_webhook card_config plain_tables (\<lambda>_ _ _. Inr card_event) card_api card_api card_clock ''body'' ''signature''
       (card_store\<lparr>sp_events := [card_webhook]\<rparr>) =
     (Inr \<lparr>wr_event_id = ''evt_00000000'', wr_duplicate = True, wr_status = ''processed'',
        wr_order_id = Some ''ord_test_000000000000000000000001'', wr_payment_status = None\<rparr>, card_store\<lparr>sp_events := [card_webhook]\<rparr>)"
proof -
  have "find_webhook ''evt_00000000'' (card_store\<lparr>sp_events := [card_webhook]\<rparr>) = Some card_webhook"
    "we_status card_webhook \<in> {''processed'', ''ignored'', ''rejected''}"
    by (simp_all add: find_webhook_def card_webhook_def)
  from webhook_processed_once [OF card_webhook_event this] show ?thesis by (simp add: card_webhook_def)
qed

text \<open>
  C33. A disputed order can be reconciled only once: the event that records the dispute is named
  by order and charge alone but carries the second it was observed.  Once it is recorded, and
  whatever happens in between, observing the dispute again in another second is rejected and
  changes nothing, unless the two different events have the same SHA-256 digest.
\<close>

theorem dispute_reconciled_once:
  assumes ok: "system_ok acfg ed d" and env: "sc_environment cfg = ac_environment acfg"
    and first: "emit_outcome cfg clock True refunded available cid view d = (Inr r, d1)"
    and between: "rtranclp (system_step acfg ed) d1 d2"
    and same: "o_order_id (ov_order view') = o_order_id (ov_order view)" and later: "iso_z (clock' 4) \<noteq> iso_z (clock 4)"
  shows "(\<exists>x. emit_outcome cfg clock' True refunded' available' cid view' d2 = (Inl x, d2))
    \<or> (\<exists>e e'. emitted cfg (ov_order view) ''payment.disputed'' cid 0 (iso_z (clock 4)) e
          \<and> emitted cfg (ov_order view') ''payment.disputed'' cid 0 (iso_z (clock' 4)) e' \<and> e \<noteq> e' \<and> payload_digest e = payload_digest e')"
proof (cases "emit cfg (ov_order view') ''payment.disputed'' cid 0 (iso_z (clock' 4)) (iso_z (clock' 5)) d2")
  case (Pair res d3)
  show ?thesis
  proof (cases res)
    case (Inl x)
    have "d3 = d2" using Pair Inl
      by (auto simp: emit_def prog_then_def give_def run_write_def split: sum.splits prod.splits)
    with Pair Inl show ?thesis by (simp add: emit_outcome_def prog_then_def)
  next
    case (Inr w)
    obtain v where v: "emit cfg (ov_order view) ''payment.disputed'' cid 0 (iso_z (clock 4)) (iso_z (clock 5)) d = (Inr v, d1)"
      using first by (auto simp: emit_outcome_def prog_then_Inr give_Inr)
    from emitted_twice [OF ok env v between Pair [unfolded Inr] same] obtain e e' where
      e: "emitted cfg (ov_order view) ''payment.disputed'' cid 0 (iso_z (clock 4)) e"
      "emitted cfg (ov_order view') ''payment.disputed'' cid 0 (iso_z (clock' 4)) e'" "payload_digest e = payload_digest e'" by blast
    with later have "e \<noteq> e'" by (auto simp: emitted_def)
    with e show ?thesis by blast
  qed
qed

theorem dispute_reconciled_once_witness:
  "\<exists>r d1. emit_outcome card_config card_clock True 0 False ''ch_00000000'' card_view card_store = (Inr r, d1)
     \<and> ((\<exists>x. emit_outcome card_config (\<lambda>i. card_clock (Suc i)) True 0 False ''ch_00000000'' card_view d1 = (Inl x, d1))
       \<or> (\<exists>e e'. emitted card_config card_order ''payment.disputed'' ''ch_00000000'' 0 (iso_z (card_clock 4)) e
          \<and> emitted card_config card_order ''payment.disputed'' ''ch_00000000'' 0 (iso_z (card_clock 5)) e' \<and> e \<noteq> e'
          \<and> payload_digest e = payload_digest e'))"
proof -
  obtain r d1 where run: "emit_outcome card_config card_clock True 0 False ''ch_00000000'' card_view card_store = (Inr r, d1)"
    by (rule card_dispute [OF card_dispute_times(1-3)])
  have later: "iso_z (card_clock (Suc 4)) \<noteq> iso_z (card_clock 4)" using card_dispute_times(4) by (simp add: numeral_eq_Suc)
  from dispute_reconciled_once [OF card_store_ok card_config_env(2) run rtranclp.rtrancl_refl refl, where clock' = "\<lambda>i. card_clock (Suc i)"
      and refunded' = 0 and available' = False, OF later] run
  show ?thesis by (simp add: numeral_eq_Suc)
qed

end
