(* ===== verification/Catalog.thy ===== *)
theory Catalog
  imports JsonText "HOL-Library.Sublist"
begin

section \<open>The read-only catalog\<close>

text \<open>
  \<^verbatim>\<open>catalog.py\<close>: the index of published receipts, its validation, search and lookup.  Files are
  a parameter \<open>fs\<close>: what opening the regular file of a relative path under the catalog root
  returns (its content, or the exception of a missing, linked or changed file).  The case
  folding of Unicode text is a parameter \<open>casefold\<close>; \<open>fl\<close> is the canonical text of a float.
\<close>

subsection \<open>Reading files\<close>

abbreviation bad_catalog :: exn where
  "bad_catalog \<equiv> Rejected ''invalid_catalog''"

definition CATALOG_SCHEMA_VERSION :: string where "CATALOG_SCHEMA_VERSION = ''1.0.0''"

definition check_relative :: "string \<Rightarrow> unit res" where
  "check_relative relative =
     reject_if (chr_of 92 \<in> set relative \<or> starts_with ''/'' relative \<or> ''..'' \<in> set (split_on CHR ''/'' relative))
       path_rejected (Inr ())"

definition check_size :: "nat \<Rightarrow> string \<Rightarrow> string res" where
  "check_size maximum content =
     reject_if (length content < 1 \<or> length content > maximum) bad_catalog (Inr content)"

definition catalog_read :: "(string \<Rightarrow> string res) \<Rightarrow> string \<Rightarrow> nat \<Rightarrow> string res" where
  "catalog_read fs relative maximum =
     and_then (check_relative relative) (\<lambda>_. and_then (fs relative) (check_size maximum))"

definition index_bytes :: "(string \<Rightarrow> string res) \<Rightarrow> string res" where
  "index_bytes fs = catalog_read fs ''index.json'' 5000000"

definition index_envelope_bytes :: "(string \<Rightarrow> string res) \<Rightarrow> string res" where
  "index_envelope_bytes fs = catalog_read fs ''index.dsse.json'' 7000000"

definition lifecycle_envelope_bytes :: "(string \<Rightarrow> string res) \<Rightarrow> string res" where
  "lifecycle_envelope_bytes fs = catalog_read fs ''lifecycle.dsse.json'' 2000000"

definition root_jwk_bytes :: "(string \<Rightarrow> string res) \<Rightarrow> string res" where
  "root_jwk_bytes fs = catalog_read fs ''keys/root.jwk.json'' 16384"

definition issuer_jwk_bytes :: "(string \<Rightarrow> string res) \<Rightarrow> string res" where
  "issuer_jwk_bytes fs = catalog_read fs ''keys/issuer.jwk.json'' 16384"

subsection \<open>Validation\<close>

definition re_catalog_receipt_id :: "string \<Rightarrow> bool" where
  "re_catalog_receipt_id s = re_prefix ''cpr_'' (re_class is_hex 24 24) s"

definition re_commit_id :: "string \<Rightarrow> bool" where
  "re_commit_id s \<longleftrightarrow> re_class is_hex 40 40 s \<or> re_class is_hex 64 64 s"

definition re_artifact_sha256 :: "string \<Rightarrow> bool" where
  "re_artifact_sha256 s = re_class is_hex 64 64 s"

definition ALLOWED_LABELS :: "string list" where
  "ALLOWED_LABELS = [''DIGEST_PINNED'', ''STRUCTURE_VALIDATED'', ''STATIC_INSPECTION_COMPLETED'',
     ''PUBLISHER_CI_ATTESTED'', ''INDEPENDENT_STATIC_SCAN'', ''SANDBOX_BEHAVIOR_OBSERVED'', ''TASK_EVALUATED'']"

definition validate_receipt_id :: "json \<Rightarrow> string res" where
  "validate_receipt_id v =
     (case v of JStr s \<Rightarrow> reject_if (\<not> re_catalog_receipt_id s) (Rejected ''invalid_receipt_id'') (Inr s)
      | _ \<Rightarrow> Inl (Rejected ''invalid_receipt_id''))"

text \<open>\<open>pattern.fullmatch(v)\<close> raises for what is no string.\<close>

definition full_match :: "(string \<Rightarrow> bool) \<Rightarrow> json \<Rightarrow> bool res" where
  "full_match p v = (case v of JStr s \<Rightarrow> Inr (p s) | _ \<Rightarrow> Inl TypeError)"

definition binding_matches :: "(string \<times> json) list \<Rightarrow> bool res" where
  "binding_matches e =
     and_then (full_match re_commit_id (jget_null e ''source_commit'')) (\<lambda>c.
     if \<not> c then Inr False else full_match re_artifact_sha256 (jget_null e ''artifact_sha256''))"

definition text_ok :: "nat \<Rightarrow> json \<Rightarrow> bool" where
  "text_ok maximum v = str_matches (\<lambda>s. 1 \<le> py_len s \<and> py_len s \<le> maximum) v"

definition check_labels :: "json \<Rightarrow> unit res" where
  "check_labels v =
     (case v of
        JArr labels \<Rightarrow>
          reject_if (labels = []) bad_catalog
         (reject_if (\<not> list_all hashable labels) TypeError
         (reject_if (\<not> distinct labels \<or> \<not> set labels \<subseteq> JStr ` set ALLOWED_LABELS) bad_catalog (Inr ())))
      | _ \<Rightarrow> Inl bad_catalog)"

definition ENTRY_FIELDS :: "string list" where
  "ENTRY_FIELDS = [''receipt_id'', ''repository_owner'', ''skill_name'', ''source_repository'', ''source_commit'',
     ''artifact_path'', ''artifact_sha256'', ''evidence_labels'', ''issued_at'', ''expires_at'']"

definition INDEX_FIELDS :: "string list" where
  "INDEX_FIELDS = [''schema_version'', ''service'', ''stage'', ''generated_at'', ''entry_count'',
     ''repository_owner_count'', ''entries'']"

text \<open>One entry; \<open>seen\<close> are the receipts before it.\<close>

definition check_entry :: "json \<Rightarrow> string list \<Rightarrow> string list res" where
  "check_entry item seen =
     (case item of
        JObj e \<Rightarrow>
          reject_if (\<not> has_keys ENTRY_FIELDS e) bad_catalog
         (and_then (validate_receipt_id (jget_null e ''receipt_id'')) (\<lambda>rid.
          reject_if (rid \<in> set seen) bad_catalog
         (reject_if (\<not> (text_ok 100 (jget_null e ''repository_owner'') \<and> text_ok 200 (jget_null e ''skill_name'')
              \<and> text_ok 2048 (jget_null e ''source_repository'') \<and> text_ok 1024 (jget_null e ''artifact_path''))) bad_catalog
         (and_then (binding_matches e) (\<lambda>bound.
          reject_if (\<not> bound) bad_catalog
         (and_then (check_labels (jget_null e ''evidence_labels'')) (\<lambda>_. Inr (seen @ [rid]))))))))
      | _ \<Rightarrow> Inl bad_catalog)"

text \<open>\<open>v == n\<close> for a count \<open>n\<close>: a boolean is 0 or 1, a float may equal an integer.\<close>

fun equals_count :: "(string \<Rightarrow> string) \<Rightarrow> json \<Rightarrow> nat \<Rightarrow> bool" where
  "equals_count fl (JInt m) n \<longleftrightarrow> m = int n"
| "equals_count fl (JBool b) n \<longleftrightarrow> (if b then 1 else 0) = n"
| "equals_count fl (JFloat t) n \<longleftrightarrow> fl t = show_nat n @ ''.0'' \<or> n = 0 \<and> fl t = ''-0.0''"
| "equals_count fl _ n \<longleftrightarrow> False"

definition entry_owner :: "json \<Rightarrow> json" where
  "entry_owner item = jget_null (obj_of item) ''repository_owner''"

definition validate_catalog_index :: "(string \<Rightarrow> string) \<Rightarrow> json \<Rightarrow> (string \<times> json) list res" where
  "validate_catalog_index fl v =
     (case v of
        JObj kvs \<Rightarrow>
          reject_if (\<not> has_keys INDEX_FIELDS kvs) bad_catalog
         (reject_if (jget_null kvs ''schema_version'' \<noteq> JStr CATALOG_SCHEMA_VERSION
              \<or> jget_null kvs ''service'' \<noteq> JStr ''VouchSpec'') bad_catalog
         (reject_if (jget_null kvs ''stage'' \<noteq> JStr ''A_PUBLIC_ARTIFACT_INDEX'') bad_catalog
         (case jget_null kvs ''entries'' of
            JArr entries \<Rightarrow>
              reject_if (length entries > 100000) bad_catalog
             (and_then (fold_res check_entry entries []) (\<lambda>_.
              reject_if (\<not> equals_count fl (jget_null kvs ''entry_count'') (length entries)
                \<or> \<not> equals_count fl (jget_null kvs ''repository_owner_count'') (length (remdups (map entry_owner entries))))
                bad_catalog (Inr kvs)))
          | _ \<Rightarrow> Inl bad_catalog)))
      | _ \<Rightarrow> Inl bad_catalog)"

definition catalog_index :: "(string \<Rightarrow> string) \<Rightarrow> (string \<Rightarrow> string res) \<Rightarrow> (string \<times> json) list res" where
  "catalog_index fl fs =
     and_then (index_bytes fs) (\<lambda>raw. and_then (strict_json ''invalid_catalog'' raw) (validate_catalog_index fl))"

subsection \<open>Search\<close>

definition check_search :: "json \<Rightarrow> json \<Rightarrow> json \<Rightarrow> unit res" where
  "check_search query repository_owner limit =
     reject_if (\<not> bounded_int 1 100 limit) (Rejected ''invalid_query'')
    (reject_if (query \<noteq> JNull \<and> \<not> str_matches (\<lambda>s. py_len s \<le> 200) query) (Rejected ''invalid_query'')
    (reject_if (repository_owner \<noteq> JNull \<and> \<not> str_matches (\<lambda>s. py_len s \<le> 100) repository_owner) (Rejected ''invalid_query'')
      (Inr ())))"

text \<open>\<open>x.casefold().strip() if x else None\<close>; an empty text filters nothing, as \<open>None\<close> does.\<close>

definition folded :: "(string \<Rightarrow> string) \<Rightarrow> json \<Rightarrow> string" where
  "folded casefold v = (case v of JStr [] \<Rightarrow> [] | JStr s \<Rightarrow> py_strip (casefold s) | _ \<Rightarrow> [])"

definition haystack :: "(string \<Rightarrow> string) \<Rightarrow> (string \<times> json) list \<Rightarrow> string" where
  "haystack casefold e = casefold (join_with CHR '' '' (map (\<lambda>f. the_str (jget_null e f))
     [''repository_owner'', ''skill_name'', ''source_repository'', ''artifact_path'', ''receipt_id'']))"

definition entry_matches :: "(string \<Rightarrow> string) \<Rightarrow> string \<Rightarrow> string \<Rightarrow> (string \<times> json) list \<Rightarrow> bool" where
  "entry_matches casefold query owner e \<longleftrightarrow>
     (owner = [] \<or> casefold (the_str (jget_null e ''repository_owner'')) = owner)
     \<and> (query = [] \<or> sublist query (haystack casefold e))"

fun collect_entries :: "('e \<Rightarrow> bool) \<Rightarrow> nat \<Rightarrow> 'e list \<Rightarrow> 'e list \<Rightarrow> 'e list" where
  "collect_entries p limit results [] = results"
| "collect_entries p limit results (e # es) =
     (if \<not> p e then collect_entries p limit results es
      else if length (results @ [e]) = limit then results @ [e]
      else collect_entries p limit (results @ [e]) es)"

definition entry_objects :: "(string \<times> json) list \<Rightarrow> (string \<times> json) list list" where
  "entry_objects index =
     (case jget_null index ''entries'' of JArr es \<Rightarrow> map obj_of es | _ \<Rightarrow> [])"

definition list_entries ::
  "(string \<Rightarrow> string) \<Rightarrow> (string \<Rightarrow> string) \<Rightarrow> (string \<Rightarrow> string res) \<Rightarrow> json \<Rightarrow> json \<Rightarrow> json \<Rightarrow> (string \<times> json) list list res" where
  "list_entries fl casefold fs query repository_owner limit =
     and_then (check_search query repository_owner limit) (\<lambda>_.
     and_then (catalog_index fl fs) (\<lambda>index.
     Inr (collect_entries (entry_matches casefold (folded casefold query) (folded casefold repository_owner)) (nat (the_int limit)) []
       (entry_objects index))))"

definition filter_catalog_entries ::
  "(string \<Rightarrow> string) \<Rightarrow> (string \<Rightarrow> string) \<Rightarrow> json \<Rightarrow> json \<Rightarrow> json \<Rightarrow> json \<Rightarrow> (string \<times> json) list list res" where
  "filter_catalog_entries fl casefold index query repository_owner limit =
     and_then (validate_catalog_index fl index) (\<lambda>kvs.
     and_then (check_search query repository_owner limit) (\<lambda>_.
     Inr (collect_entries (entry_matches casefold (folded casefold query) (folded casefold repository_owner)) (nat (the_int limit)) []
       (entry_objects kvs))))"

definition catalog_entry ::
  "(string \<Rightarrow> string) \<Rightarrow> (string \<Rightarrow> string res) \<Rightarrow> json \<Rightarrow> (string \<times> json) list res" where
  "catalog_entry fl fs receipt_id =
     and_then (validate_receipt_id receipt_id) (\<lambda>_.
     and_then (catalog_index fl fs) (\<lambda>index.
     case find (\<lambda>e. jget_null e ''receipt_id'' = receipt_id) (entry_objects index) of
       None \<Rightarrow> Inl (Rejected ''not_found'') | Some e \<Rightarrow> Inr e))"

definition receipt_envelope_bytes ::
  "(string \<Rightarrow> string) \<Rightarrow> (string \<Rightarrow> string res) \<Rightarrow> json \<Rightarrow> string res" where
  "receipt_envelope_bytes fl fs receipt_id =
     and_then (catalog_entry fl fs receipt_id) (\<lambda>_.
     catalog_read fs (''receipts/'' @ the_str receipt_id @ ''.dsse.json'') 2000000)"

subsection \<open>What an accepted index says\<close>

text \<open>The loop with its early exit takes the first matches.\<close>

lemma collect_entries_take:
  "length results < limit \<Longrightarrow> collect_entries p limit results es = results @ take (limit - length results) (filter p es)"
proof (induction es arbitrary: results)
  case (Cons e es)
  show ?case
  proof (cases "p e \<and> length (results @ [e]) \<noteq> limit")
    case True
    with Cons.prems have "length (results @ [e]) < limit" by simp
    from Cons.IH [OF this] True Cons.prems show ?thesis by (simp add: Suc_diff_Suc [symmetric])
  next
    case False
    with Cons show ?thesis by auto
  qed
qed simp

definition catalog_entry_ok :: "json \<Rightarrow> string \<Rightarrow> bool" where
  "catalog_entry_ok item rid \<longleftrightarrow> (\<exists>e. item = JObj e \<and> has_keys ENTRY_FIELDS e
     \<and> jget_null e ''receipt_id'' = JStr rid \<and> re_catalog_receipt_id rid
     \<and> text_ok 100 (jget_null e ''repository_owner'') \<and> text_ok 200 (jget_null e ''skill_name'')
     \<and> text_ok 2048 (jget_null e ''source_repository'') \<and> text_ok 1024 (jget_null e ''artifact_path'')
     \<and> str_matches re_commit_id (jget_null e ''source_commit'') \<and> str_matches re_artifact_sha256 (jget_null e ''artifact_sha256'')
     \<and> (\<exists>labels. jget_null e ''evidence_labels'' = JArr (map JStr labels) \<and> labels \<noteq> [] \<and> distinct labels
          \<and> set labels \<subseteq> set ALLOWED_LABELS))"

lemma validate_receipt_id_Inr: "validate_receipt_id v = Inr s \<longleftrightarrow> v = JStr s \<and> re_catalog_receipt_id s"
  by (cases v) (auto simp: validate_receipt_id_def reject_if_Inr)

lemma full_match_Inr: "full_match p v = Inr b \<longleftrightarrow> (\<exists>s. v = JStr s \<and> b = p s)"
  by (cases v) (auto simp: full_match_def)

lemma binding_matches_True:
  "binding_matches e = Inr True \<longleftrightarrow> str_matches re_commit_id (jget_null e ''source_commit'')
     \<and> str_matches re_artifact_sha256 (jget_null e ''artifact_sha256'')"
  by (cases "jget_null e ''source_commit''"; cases "jget_null e ''artifact_sha256''")
    (auto simp: binding_matches_def full_match_def and_then_Inr)

lemma strings_of: "set vs \<subseteq> JStr ` S \<Longrightarrow> \<exists>ss. vs = map JStr ss \<and> set ss \<subseteq> S"
proof (induction vs)
  case (Cons v vs)
  then obtain ss s where "vs = map JStr ss" "set ss \<subseteq> S" "v = JStr s" "s \<in> S" by auto
  then show ?case by (intro exI [of _ "s # ss"]) simp
qed simp

lemma check_labels_Inr:
  "check_labels v = Inr () \<longleftrightarrow> (\<exists>labels. v = JArr (map JStr labels) \<and> labels \<noteq> [] \<and> distinct labels \<and> set labels \<subseteq> set ALLOWED_LABELS)"
  (is "?l \<longleftrightarrow> ?r")
proof
  assume ?l
  then obtain vs where v: "v = JArr vs" "vs \<noteq> []" "distinct vs" "set vs \<subseteq> JStr ` set ALLOWED_LABELS"
    by (cases v) (auto simp: check_labels_def reject_if_Inr)
  from strings_of [OF v(4)] obtain ss where "vs = map JStr ss" "set ss \<subseteq> set ALLOWED_LABELS" by blast
  with v show ?r by (auto simp: distinct_map)
next
  assume ?r
  then obtain labels where "v = JArr (map JStr labels)" "labels \<noteq> []" "distinct labels" "JStr ` set labels \<subseteq> JStr ` set ALLOWED_LABELS"
    by blast
  then show ?l by (simp add: check_labels_def list_all_iff distinct_map inj_on_def)
qed

lemma check_entry_Inr:
  "check_entry item seen = Inr seen' \<longleftrightarrow> (\<exists>rid. catalog_entry_ok item rid \<and> rid \<notin> set seen \<and> seen' = seen @ [rid])"
proof (cases item)
  case (JObj e)
  have bound: "(\<exists>b. binding_matches e = Inr b \<and> b \<and> Q) \<longleftrightarrow> binding_matches e = Inr True \<and> Q" for Q by auto
  show ?thesis
    unfolding JObj check_entry_def json.case reject_if_Inr and_then_Inr catalog_entry_ok_def bound [simplified] validate_receipt_id_Inr
    using check_labels_Inr [of "jget_null e ''evidence_labels''"] binding_matches_True [of e] by auto
qed (simp_all add: check_entry_def catalog_entry_ok_def)

text \<open>An accepted index: the entries are fine, of pairwise different receipts, and counted.\<close>

lemma validate_catalog_Inr:
  assumes "validate_catalog_index fl v = Inr kvs"
  obtains items rids where "v = JObj kvs" "jget_null kvs ''entries'' = JArr items" "list_all2 catalog_entry_ok items rids" "distinct rids"
    "length items \<le> 100000" "equals_count fl (jget_null kvs ''entry_count'') (length items)"
proof -
  obtain items seen where i: "v = JObj kvs" "jget_null kvs ''entries'' = JArr items" "fold_res check_entry items [] = Inr seen"
    "length items \<le> 100000" "equals_count fl (jget_null kvs ''entry_count'') (length items)"
    using assms by (auto simp: validate_catalog_index_def txn_simps)
  from fold_unique [of check_entry catalog_entry_ok, OF check_entry_Inr, THEN iffD1, OF i(3)]
  show thesis using i that by auto
qed

lemma entry_objects_ok:
  assumes "jget_null kvs ''entries'' = JArr items" "list_all2 catalog_entry_ok items rids"
  shows "map (\<lambda>e. jget_null e ''receipt_id'') (entry_objects kvs) = map JStr rids" "length (entry_objects kvs) = length items"
    "items = map JObj (entry_objects kvs)"
proof -
  have "map (\<lambda>e. jget_null e ''receipt_id'') (map obj_of items) = map JStr rids" "items = map JObj (map obj_of items)"
    using assms(2) by (induction rule: list_all2_induct) (auto simp: catalog_entry_ok_def obj_of_def)
  moreover have "entry_objects kvs = map obj_of items" by (simp add: entry_objects_def assms(1) obj_of_def)
  ultimately show "map (\<lambda>e. jget_null e ''receipt_id'') (entry_objects kvs) = map JStr rids" "items = map JObj (entry_objects kvs)"
    "length (entry_objects kvs) = length items" by simp_all
qed

end
