(* ===== verification/Pricing.thy ===== *)
theory Pricing
  imports Json
begin

section \<open>The public price card\<close>

text \<open>
  \<^verbatim>\<open>pricing.py\<close>: the price hypotheses of the retrieval service.  A price is a decimal text; the
  quote also carries it in minor units, obtained by removing the decimal point.
\<close>

definition PRICE_HYPOTHESES :: "(string \<times> string \<times> string) list" where
  "PRICE_HYPOTHESES =
     [(''catalog_search'', ''0.00'', ''stage_a_available_free''),
      (''receipt_retrieval'', ''0.00'', ''stage_a_available_free''),
      (''receipt_comparison'', ''0.01'', ''planned_not_orderable''),
      (''fresh_public_static_validation'', ''0.25'', ''stage_b_not_orderable''),
      (''signed_receipt_issuance'', ''0.25'', ''planned_not_orderable''),
      (''public_artifact_monitoring_monthly'', ''5.00'', ''planned_not_orderable'')]"

definition amount_minor :: "string \<Rightarrow> int res" where
  "amount_minor amount =
     (case py_int (filter (\<lambda>c. c \<noteq> CHR ''.'') amount) of None \<Rightarrow> Inl ValueError | Some n \<Rightarrow> Inr n)"

definition price_quote :: "json \<Rightarrow> (string \<times> json) list res" where
  "price_quote operation =
     (case operation of
        JStr op \<Rightarrow>
          reject_if (\<not> (1 \<le> py_len op \<and> py_len op \<le> 100)) (Rejected ''invalid_query'')
         (case map_of PRICE_HYPOTHESES op of
            None \<Rightarrow> Inl (Rejected ''unknown_operation'')
          | Some (amount, availability) \<Rightarrow>
              and_then (amount_minor amount) (\<lambda>minor.
              Inr ([(''schema_version'', JStr ''1.0.0''), (''service'', JStr ''VouchSpec''), (''operation'', JStr op),
                (''currency'', JStr ''USD''), (''amount'', JStr amount), (''amount_minor'', JInt minor),
                (''availability'', JStr availability), (''orders_accepted'', JBool False), (''settlement_available'', JBool False),
                (''quote_status'', JStr (if availability = ''stage_a_available_free'' then ''free_service'' else ''non_binding_price_hypothesis'')),
                (''warning'', JStr ''No paid order or payment is accepted by the Stage A retrieval service.'')]
                @ (if op = ''fresh_public_static_validation'' then
                     [(''profile'', JStr ''vouchspec-public-static-v1''), (''deliverable'', JStr ''signed exact-version static receipt''),
                      (''request_schema'', JStr ''urn:vouchspec:schema:fresh-validation-request:1.0.0''),
                      (''payment_provider_preference'', JStr ''x402_exact_usdc''),
                      (''refund_policy'', JStr (''automatic for duplicate charge or VouchSpec failure before a signed receipt; ''
                        @ ''an accurately reported finding is not refundable''))]
                   else []))))
      | _ \<Rightarrow> Inl (Rejected ''invalid_query''))"

text \<open>Every price on the card has its two decimals, so a quote never fails on the amount.\<close>

lemma py_int_digits: "list_all is_digit s \<Longrightarrow> s \<noteq> [] \<Longrightarrow> length s \<le> 4300 \<Longrightarrow> py_int s = Some (int (digits_val s))"
proof -
  assume s: "list_all is_digit s" "s \<noteq> []" "length s \<le> 4300"
  have nd: "\<not> is_digit CHR ''_''" "\<not> is_digit CHR ''-''" "\<not> is_digit CHR ''+''" by code_simp+
  with s have "\<not> starts_with ''-'' s" "\<not> starts_with ''+'' s" by (cases s; auto simp: starts_with_def)+
  moreover have "filter (\<lambda>c. c \<noteq> CHR ''_'') s = s" using s nd(1) by (auto simp: filter_id_conv list_all_iff)
  ultimately show ?thesis using s by (simp add: py_int_def Let_def py_strip_digits digit_groups_digits)
qed

lemma card_amounts:
  "amount_minor ''0.00'' = Inr 0" "amount_minor ''0.01'' = Inr 1" "amount_minor ''0.25'' = Inr 25" "amount_minor ''5.00'' = Inr 500"
proof -
  have "list_all is_digit ''000''" "list_all is_digit ''001''" "list_all is_digit ''025''" "list_all is_digit ''500''"
    "digits_val ''000'' = 0" "digits_val ''001'' = 1" "digits_val ''025'' = 25" "digits_val ''500'' = 500" by code_simp+
  then show "amount_minor ''0.00'' = Inr 0" "amount_minor ''0.01'' = Inr 1" "amount_minor ''0.25'' = Inr 25" "amount_minor ''5.00'' = Inr 500"
    by (simp_all add: amount_minor_def py_int_digits)
qed

end
