(* ===== verification/CatalogClaims.thy ===== *)
theory CatalogClaims
  imports Catalog Pricing
begin

section \<open>The catalog: its guarantees\<close>

text \<open>
  Search returns exactly the first matching entries of an accepted index, from the file and
  from a snapshot alike, and a lookup finds the one entry of a receipt.
\<close>

subsection \<open>Lookup\<close>

lemma entry_receipts:
  assumes "validate_catalog_index fl v = Inr kvs"
  obtains rids where "map (\<lambda>e. jget_null e ''receipt_id'') (entry_objects kvs) = map JStr rids" "distinct rids"
    "list_all re_catalog_receipt_id rids" "jget_null kvs ''entries'' = JArr (map JObj (entry_objects kvs))" "length (entry_objects kvs) \<le> 100000"
proof -
  obtain items rids where i: "v = JObj kvs" "jget_null kvs ''entries'' = JArr items" "list_all2 catalog_entry_ok items rids" "distinct rids"
    "length items \<le> 100000" by (rule validate_catalog_Inr [OF assms])
  have "list_all re_catalog_receipt_id rids"
    using i(3) by (induction rule: list_all2_induct) (auto simp: catalog_entry_ok_def)
  with entry_objects_ok [OF i(2,3)] i show thesis by (intro that) simp_all
qed

lemma receipts_distinct:
  assumes "validate_catalog_index fl v = Inr kvs"
  shows "distinct (map (\<lambda>e. jget_null e ''receipt_id'') (entry_objects kvs))"
  using entry_receipts [OF assms] by (metis distinct_map inj_onI json.inject(4))

lemma find_unique_key:
  assumes "distinct (map f xs)"
  shows "find (\<lambda>x. f x = k) xs = Some x \<longleftrightarrow> x \<in> set xs \<and> f x = k"
  using assms by (induction xs) auto

lemma index_validated: "catalog_index fl fs = Inr kvs \<Longrightarrow> \<exists>v. validate_catalog_index fl v = Inr kvs"
  by (auto simp: catalog_index_def and_then_Inr)

lemma find_receipt_id_ok:
  assumes "validate_catalog_index fl v = Inr kvs" "e \<in> set (entry_objects kvs)" "jget_null e ''receipt_id'' = rid"
  shows "\<exists>s. rid = JStr s \<and> validate_receipt_id rid = Inr s"
proof -
  obtain rids where r: "map (\<lambda>e. jget_null e ''receipt_id'') (entry_objects kvs) = map JStr rids" "list_all re_catalog_receipt_id rids"
    by (rule entry_receipts [OF assms(1)])
  from assms(2,3) have "rid \<in> set (map JStr rids)" unfolding r(1) [symmetric] by auto
  with r(2) show ?thesis by (auto simp: list_all_iff validate_receipt_id_Inr)
qed

lemma catalog_lookup:
  assumes index: "catalog_index fl fs = Inr kvs"
  shows "catalog_entry fl fs rid = Inr e \<longleftrightarrow> e \<in> set (entry_objects kvs) \<and> jget_null e ''receipt_id'' = rid"
proof -
  obtain v where v: "validate_catalog_index fl v = Inr kvs" using index_validated [OF index] by blast
  have look: "catalog_entry fl fs rid = and_then (validate_receipt_id rid) (\<lambda>_.
      case find (\<lambda>e. jget_null e ''receipt_id'' = rid) (entry_objects kvs) of None \<Rightarrow> Inl (Rejected ''not_found'') | Some e \<Rightarrow> Inr e)"
    by (simp add: catalog_entry_def index)
  have "catalog_entry fl fs rid = Inr e \<longleftrightarrow> (\<exists>s. validate_receipt_id rid = Inr s) \<and> find (\<lambda>e. jget_null e ''receipt_id'' = rid) (entry_objects kvs) = Some e"
    unfolding look and_then_Inr by (auto split: option.splits)
  then show ?thesis
    using find_unique_key [OF receipts_distinct [OF v], of rid e] find_receipt_id_ok [OF v] by blast
qed

lemma search_limit: "check_search query owner limit = Inr () \<Longrightarrow> 0 < nat (the_int limit)"
  by (cases limit) (simp_all add: check_search_def reject_if_Inr)

lemma distinct_take_filter: "distinct (map f xs) \<Longrightarrow> distinct (map f (take n (filter p xs)))"
  unfolding take_map [symmetric] by (rule distinct_take) (rule distinct_map_filter)

subsection \<open>An index for the witnesses\<close>

definition demo_entry :: "string \<Rightarrow> string \<Rightarrow> json" where
  "demo_entry rid owner = JObj [(''receipt_id'', JStr rid), (''repository_owner'', JStr owner), (''skill_name'', JStr ''skill''),
     (''source_repository'', JStr ''https://host/repo''), (''source_commit'', JStr (replicate 40 CHR ''a'')),
     (''artifact_path'', JStr ''skills/x''), (''artifact_sha256'', JStr (replicate 64 CHR ''b'')),
     (''evidence_labels'', JArr [JStr ''DIGEST_PINNED'', JStr ''STRUCTURE_VALIDATED'']), (''issued_at'', JStr ''2026-06-01T00:00:00Z''),
     (''expires_at'', JStr ''2026-09-01T00:00:00Z'')]"

definition demo_index :: json where
  "demo_index = JObj [(''schema_version'', JStr ''1.0.0''), (''service'', JStr ''VouchSpec''), (''stage'', JStr ''A_PUBLIC_ARTIFACT_INDEX''),
     (''generated_at'', JStr ''2026-06-01T00:00:00Z''), (''entry_count'', JInt 2), (''repository_owner_count'', JInt 2),
     (''entries'', JArr [demo_entry ''cpr_000000000000000000000001'' ''octo'', demo_entry ''cpr_000000000000000000000002'' ''acme''])]"

definition demo_found :: "(string \<times> json) list" where
  "demo_found = obj_of (demo_entry ''cpr_000000000000000000000002'' ''acme'')"

lemma demo_folded: "folded id (JStr ''skill'') = ''skill''" "folded id (JStr ''acme'') = ''acme''"
proof -
  have "py_strip ''skill'' = ''skill''" "py_strip ''acme'' = ''acme''" by (rule py_strip_alnum; code_simp)+
  then show "folded id (JStr ''skill'') = ''skill''" "folded id (JStr ''acme'') = ''acme''" by (simp_all add: folded_def)
qed

lemma demo_entry_ok:
  assumes "re_catalog_receipt_id rid" "owner \<in> {''octo'', ''acme''}"
  shows "check_entry (demo_entry rid owner) seen = (if rid \<in> set seen then Inl bad_catalog else Inr (seen @ [rid]))"
proof -
  have lengths: "py_len owner = 4" "py_len ''skill'' = 5" "py_len ''https://host/repo'' = 17" "py_len ''skills/x'' = 8"
    using assms(2) by (auto; code_simp)+
  have binding: "re_commit_id (replicate 40 CHR ''a'')" "re_artifact_sha256 (replicate 64 CHR ''b'')" by code_simp+
  have labels: "check_labels (JArr [JStr ''DIGEST_PINNED'', JStr ''STRUCTURE_VALIDATED'']) = Inr ()" by code_simp
  show ?thesis
    using assms(1) lengths binding labels
    by (simp add: check_entry_def demo_entry_def has_keys_def ENTRY_FIELDS_def insert_commute jget_null_def jget_def validate_receipt_id_def text_ok_def
        binding_matches_def full_match_def)
qed

lemma demo_validated: "\<exists>kvs. validate_catalog_index id demo_index = Inr kvs
    \<and> filter (entry_matches id ''skill'' ''acme'') (entry_objects kvs) = [demo_found]"
proof (intro exI conjI)
  have ids: "re_catalog_receipt_id ''cpr_000000000000000000000001''" "re_catalog_receipt_id ''cpr_000000000000000000000002''" by code_simp+
  have counts: "length (remdups (map entry_owner [demo_entry ''cpr_000000000000000000000001'' ''octo'', demo_entry ''cpr_000000000000000000000002'' ''acme''])) = 2"
    by code_simp
  show "validate_catalog_index id demo_index = Inr (obj_of demo_index)"
    using ids counts
    by (simp add: validate_catalog_index_def demo_index_def has_keys_def INDEX_FIELDS_def insert_commute jget_null_def jget_def
        CATALOG_SCHEMA_VERSION_def demo_entry_ok obj_of_def del: remdups.simps)
  show "filter (entry_matches id ''skill'' ''acme'') (entry_objects (obj_of demo_index)) = [demo_found]" by code_simp
qed

lemma demo_search: "filter_catalog_entries id id demo_index (JStr ''skill'') (JStr ''acme'') (JInt 5) = Inr [demo_found]"
proof -
  obtain kvs where "validate_catalog_index id demo_index = Inr kvs"
    "filter (entry_matches id ''skill'' ''acme'') (entry_objects kvs) = [demo_found]" using demo_validated by blast
  moreover have "check_search (JStr ''skill'') (JStr ''acme'') (JInt 5) = Inr ()" by code_simp
  ultimately show ?thesis
    by (simp add: filter_catalog_entries_def demo_folded collect_entries_take)
qed

subsection \<open>The properties\<close>

text \<open>
  C34. Search is exact: an answer holds the first entries of the accepted index, in its order and
  as many as the limit allows, that match query and owner, each of another receipt; reading the
  same index from its file gives the same answer, and there a receipt is found if and only if
  it is listed.
\<close>

theorem catalog_search_exact:
  assumes run: "filter_catalog_entries fl casefold index query owner limit = Inr results"
  shows "\<exists>kvs. validate_catalog_index fl index = Inr kvs
    \<and> results = take (nat (the_int limit)) (filter (entry_matches casefold (folded casefold query) (folded casefold owner)) (entry_objects kvs))
    \<and> distinct (map (\<lambda>e. jget_null e ''receipt_id'') results)
    \<and> (catalog_index fl fs = Inr kvs \<longrightarrow> list_entries fl casefold fs query owner limit = Inr results
        \<and> (\<forall>rid e. catalog_entry fl fs rid = Inr e \<longleftrightarrow> e \<in> set (entry_objects kvs) \<and> jget_null e ''receipt_id'' = rid))"
proof -
  obtain kvs where v: "validate_catalog_index fl index = Inr kvs" and s: "check_search query owner limit = Inr ()"
    and r: "results = collect_entries (entry_matches casefold (folded casefold query) (folded casefold owner)) (nat (the_int limit)) [] (entry_objects kvs)"
    using run [unfolded filter_catalog_entries_def and_then_Inr sum.inject] by (elim exE conjE) (simp add: old.unit.exhaust)
  have "0 < nat (the_int limit)" by (rule search_limit [OF s])
  with r have exact: "results = take (nat (the_int limit))
      (filter (entry_matches casefold (folded casefold query) (folded casefold owner)) (entry_objects kvs))"
    by (simp add: collect_entries_take)
  have "distinct (map (\<lambda>e. jget_null e ''receipt_id'') results)"
    unfolding exact by (rule distinct_take_filter [OF receipts_distinct [OF v]])
  moreover have "catalog_index fl fs = Inr kvs \<longrightarrow> list_entries fl casefold fs query owner limit = Inr results"
    by (simp add: list_entries_def s r)
  moreover note catalog_lookup [of fl fs kvs]
  ultimately show ?thesis using v exact by blast
qed

theorem catalog_search_exact_witness:
  "\<exists>kvs. validate_catalog_index id demo_index = Inr kvs \<and> take 5 (filter (entry_matches id ''skill'' ''acme'') (entry_objects kvs))
     = [demo_found]"
proof -
  from catalog_search_exact [OF demo_search, where fs = "\<lambda>_. Inl FileNotFoundError"] obtain kvs where
    "validate_catalog_index id demo_index = Inr kvs"
    "[demo_found] = take (nat (the_int (JInt 5))) (filter (entry_matches id ''skill'' ''acme'') (entry_objects kvs))"
    unfolding demo_folded by blast
  then show ?thesis by (intro exI [of _ kvs]) simp
qed

end
