(* ===== verification/RateLimiter.thy ===== *)
theory RateLimiter
  imports Prelude "HOL-Library.Sublist"
begin

section \<open>The sliding-window rate limiter\<close>

text \<open>
  \<^verbatim>\<open>SlidingWindowRateLimiter\<close> of \<^verbatim>\<open>commerce_api.py\<close>.  The dictionary of deques is an association
  list in insertion order, which decides what the clean-up removes first; the readings of the
  monotonic clock and the window are integers of one unit.  The lock makes a call atomic, so a
  run is a sequence of calls; it is shown to decide as a limiter that remembers everything.
\<close>

type_synonym limiter = "(string \<times> int list) list"

subsection \<open>The code\<close>

text \<open>\<open>dict.setdefault\<close> and assignment: a known key keeps its place, a new one comes last.\<close>

fun put :: "string \<Rightarrow> int list \<Rightarrow> limiter \<Rightarrow> limiter" where
  "put k v [] = [(k, v)]"
| "put k v ((k', v') # m) = (if k' = k then (k, v) # m else (k', v') # put k v m)"

definition events_of :: "string \<Rightarrow> limiter \<Rightarrow> int list" where
  "events_of k m = (case map_of m k of None \<Rightarrow> [] | Some v \<Rightarrow> v)"

definition stale :: "int \<Rightarrow> int list \<Rightarrow> bool" where
  "stale cutoff values \<longleftrightarrow> values = [] \<or> last values \<le> cutoff"

definition stale_keys :: "int \<Rightarrow> limiter \<Rightarrow> string list" where
  "stale_keys cutoff m = map fst (filter (\<lambda>(_, values). stale cutoff values) m)"

definition allow :: "int \<Rightarrow> string \<Rightarrow> int \<Rightarrow> int \<Rightarrow> limiter \<Rightarrow> bool \<times> limiter" where
  "allow window key limit moment m =
     (let cutoff = moment - window;
          events = dropWhile (\<lambda>t. t \<le> cutoff) (events_of key m)
      in if int (length events) \<ge> limit then (False, put key events m)
         else let m1 = put key (events @ [moment]) m
              in (True, if length m1 > 10000
                        then filter (\<lambda>(k, _). k \<notin> set (take 1000 (stale_keys cutoff m1))) m1
                        else m1))"

record attempt =
  at_key :: string
  at_limit :: int
  at_moment :: int

fun limiter_run :: "int \<Rightarrow> limiter \<Rightarrow> attempt list \<Rightarrow> bool list" where
  "limiter_run window m [] = []"
| "limiter_run window m (a # as) =
     (case allow window (at_key a) (at_limit a) (at_moment a) m of
        (ok, m') \<Rightarrow> ok # limiter_run window m' as)"

subsection \<open>The reference\<close>

text \<open>What a limiter that forgets nothing would answer: the accepted calls are all kept.\<close>

definition recent :: "int \<Rightarrow> (string \<times> int) list \<Rightarrow> string \<Rightarrow> int \<Rightarrow> int list" where
  "recent window acc k moment = map snd (filter (\<lambda>(k', t). k' = k \<and> moment - window < t) acc)"

fun reference_run :: "int \<Rightarrow> (string \<times> int) list \<Rightarrow> attempt list \<Rightarrow> bool list" where
  "reference_run window acc [] = []"
| "reference_run window acc (a # as) =
     (let ok = int (length (recent window acc (at_key a) (at_moment a))) < at_limit a
      in ok # reference_run window (if ok then acc @ [(at_key a, at_moment a)] else acc) as)"

subsection \<open>The dictionary\<close>

lemma map_of_put: "map_of (put k v m) = (map_of m)(k \<mapsto> v)"
  by (induction k v m rule: put.induct) auto

lemma events_of_put [simp]: "events_of k (put k' v m) = (if k = k' then v else events_of k m)"
  by (simp add: events_of_def map_of_put)

lemma keys_put: "set (map fst (put k v m)) = insert k (set (map fst m))"
  by (induction k v m rule: put.induct) auto

lemma distinct_put: "distinct (map fst m) \<Longrightarrow> distinct (map fst (put k v m))"
proof (induction k v m rule: put.induct)
  case (2 k v k' v' m)
  with keys_put [of k v m] show ?case by auto
qed simp

lemma map_of_filter_keys: "map_of (filter (\<lambda>(k, _). P k) m) k = (if P k then map_of m k else None)"
  by (induction m) auto

subsection \<open>The invariant\<close>

text \<open>
  The deques hold the accepted calls of the window, possibly after older ones that no later
  call will count; a key that was removed has none left.
\<close>

definition of_key :: "string \<Rightarrow> (string \<times> int) list \<Rightarrow> int list" where
  "of_key k acc = map snd (filter (\<lambda>(k', _). k' = k) acc)"

definition covers :: "int \<Rightarrow> limiter \<Rightarrow> (string \<times> int) list \<Rightarrow> string \<Rightarrow> bool" where
  "covers cutoff m acc k \<longleftrightarrow> (\<exists>old. of_key k acc = old @ events_of k m \<and> (\<forall>t \<in> set old. t \<le> cutoff))"

definition agrees :: "int \<Rightarrow> int \<Rightarrow> limiter \<Rightarrow> (string \<times> int) list \<Rightarrow> bool" where
  "agrees window now m acc \<longleftrightarrow> distinct (map fst m) \<and> sorted (map snd acc) \<and> (\<forall>t \<in> snd ` set acc. t \<le> now)
     \<and> (\<forall>k. covers (now - window) m acc k)"

lemma coversE:
  assumes "covers cutoff m acc k"
  obtains old where "of_key k acc = old @ events_of k m" "\<forall>t \<in> set old. t \<le> cutoff"
  using assms by (auto simp: covers_def)

lemma covers_later: "covers cutoff m acc k \<Longrightarrow> cutoff \<le> cutoff' \<Longrightarrow> covers cutoff' m acc k"
  unfolding covers_def by (meson order_trans)

lemma dropWhile_filter: "sorted ts \<Longrightarrow> dropWhile (\<lambda>t. t \<le> (c::int)) ts = filter (\<lambda>t. c < t) ts"
proof (induction ts)
  case (Cons t ts)
  show ?case
  proof (cases "t \<le> c")
    case False
    then have "filter (\<lambda>t. c < t) ts = ts" using Cons.prems by (intro filter_True) auto
    with False show ?thesis by simp
  qed (use Cons in simp)
qed simp

lemma of_key_sorted: "sorted (map snd acc) \<Longrightarrow> sorted (of_key k acc)"
  by (simp add: of_key_def sorted_filter)

lemma events_sorted: "agrees window now m acc \<Longrightarrow> sorted (events_of k m)"
  unfolding agrees_def by (metis coversE of_key_sorted sorted_append)

lemma recent_events:
  assumes "agrees window now m acc" "now \<le> moment"
  shows "dropWhile (\<lambda>t. t \<le> moment - window) (events_of k m) = recent window acc k moment"
proof -
  have "covers (now - window) m acc k" using assms(1) by (simp add: agrees_def)
  then obtain old where old: "of_key k acc = old @ events_of k m" "\<forall>t \<in> set old. t \<le> now - window" by (rule coversE)
  have "filter (\<lambda>t. moment - window < t) old = []" using old(2) assms(2) by (auto simp: filter_empty_conv)
  then have "filter (\<lambda>t. moment - window < t) (events_of k m) = filter (\<lambda>t. moment - window < t) (of_key k acc)"
    by (simp add: old(1))
  also have "\<dots> = recent window acc k moment"
    by (simp add: recent_def of_key_def filter_map comp_def case_prod_unfold conj_commute)
  finally show ?thesis by (simp add: dropWhile_filter [OF events_sorted [OF assms(1)]])
qed

text \<open>Removing stale keys loses nothing that a later call counts.\<close>

lemma stale_keyD:
  assumes "distinct (map fst m)" "k \<in> set (stale_keys cutoff m)" "sorted (events_of k m)"
  shows "\<forall>t \<in> set (events_of k m). t \<le> cutoff"
proof -
  obtain v where "(k, v) \<in> set m" "stale cutoff v" using assms(2) by (auto simp: stale_keys_def)
  then have "events_of k m = v" "v = [] \<or> last v \<le> cutoff" using assms(1) by (simp_all add: events_of_def stale_def)
  moreover have "t \<le> last v" if "sorted v" "t \<in> set v" for t :: int and v
    using that by (induction v) auto
  ultimately show ?thesis using assms(3) by fastforce
qed

lemma covers_evict:
  assumes "covers cutoff m acc k" "distinct (map fst m)" "sorted (events_of k m)" "set ks \<subseteq> set (stale_keys cutoff m)"
  shows "covers cutoff (filter (\<lambda>(k, _). k \<notin> set ks) m) acc k"
proof (cases "k \<in> set ks")
  case True
  then have "events_of k (filter (\<lambda>(k, _). k \<notin> set ks) m) = []" by (simp add: events_of_def map_of_filter_keys)
  moreover have "\<forall>t \<in> set (events_of k m). t \<le> cutoff" using stale_keyD [OF assms(2) _ assms(3)] True assms(4) by blast
  ultimately show ?thesis using coversE [OF assms(1)] unfolding covers_def by (metis Un_iff append_Nil2 set_append)
next
  case False
  then have "events_of k (filter (\<lambda>(k, _). k \<notin> set ks) m) = events_of k m" by (simp add: events_of_def map_of_filter_keys)
  with assms(1) show ?thesis by (simp add: covers_def)
qed

lemma covers_put:
  assumes ag: "agrees window now m acc" and later: "now \<le> moment"
    and put: "put_acc = acc @ map (Pair key) new" "events = dropWhile (\<lambda>t. t \<le> moment - window) (events_of key m) @ new"
  shows "covers (moment - window) (put key events m) put_acc k"
proof -
  have "covers (now - window) m acc k" using ag by (simp add: agrees_def)
  then have "covers (moment - window) m acc k" by (rule covers_later) (use later in simp)
  then obtain old where old: "of_key k acc = old @ events_of k m" "\<forall>t \<in> set old. t \<le> moment - window" by (rule coversE)
  show ?thesis
  proof (cases "k = key")
    case True
    let ?gone = "takeWhile (\<lambda>t. t \<le> moment - window) (events_of key m)"
    have "of_key k put_acc = (old @ ?gone) @ events"
      using old(1) True by (simp add: of_key_def put filter_map comp_def)
    moreover have "\<forall>t \<in> set (old @ ?gone). t \<le> moment - window" using old(2) by (auto dest: set_takeWhileD)
    ultimately show ?thesis using True unfolding covers_def by auto
  next
    case False
    then have "of_key k put_acc = old @ events_of k m" using old(1) by (simp add: of_key_def put filter_map comp_def)
    with old(2) False show ?thesis by (auto simp: covers_def)
  qed
qed

lemma allow_agrees:
  assumes ag: "agrees window now m acc" and later: "now \<le> moment" and run: "allow window key limit moment m = (ok, m')"
  shows "ok \<longleftrightarrow> int (length (recent window acc key moment)) < limit"
    "agrees window moment m' (if ok then acc @ [(key, moment)] else acc)"
proof -
  let ?c = "moment - window"
  let ?events = "dropWhile (\<lambda>t. t \<le> ?c) (events_of key m)"
  have recent: "?events = recent window acc key moment" by (rule recent_events [OF ag later])
  show ok: "ok \<longleftrightarrow> int (length (recent window acc key moment)) < limit"
    using run recent by (auto simp: allow_def Let_def split: if_splits)
  have acc: "distinct (map fst m)" "sorted (map snd acc)" "\<forall>t \<in> snd ` set acc. t \<le> now" using ag by (auto simp: agrees_def)
  show "agrees window moment m' (if ok then acc @ [(key, moment)] else acc)"
  proof (cases ok)
    case False
    then have m': "m' = put key ?events m" using run by (auto simp: allow_def Let_def split: if_splits)
    have "covers ?c m' acc k" for k using covers_put [OF ag later, of acc key "[]" ?events] by (simp add: m')
    with acc False m' later show ?thesis by (force simp: agrees_def distinct_put)
  next
    case True
    let ?m1 = "put key (?events @ [moment]) m"
    have dist: "distinct (map fst ?m1)" using acc(1) by (rule distinct_put)
    have cov: "covers ?c ?m1 (acc @ [(key, moment)]) k" for k
      using covers_put [OF ag later, of "acc @ [(key, moment)]" key "[moment]" "?events @ [moment]"] by simp
    have sorted: "sorted (map snd (acc @ [(key, moment)]))" "\<forall>t \<in> snd ` set (acc @ [(key, moment)]). t \<le> moment"
      using acc(2,3) later by (force simp: sorted_append)+
    with dist cov have ag1: "agrees window moment ?m1 (acc @ [(key, moment)])" by (simp add: agrees_def)
    have m': "m' = ?m1 \<or> m' = filter (\<lambda>(k, _). k \<notin> set (take 1000 (stale_keys ?c ?m1))) ?m1"
      using run True by (auto simp: allow_def Let_def split: if_splits)
    then show ?thesis
    proof
      assume evicted: "m' = filter (\<lambda>(k, _). k \<notin> set (take 1000 (stale_keys ?c ?m1))) ?m1"
      have "covers ?c m' (acc @ [(key, moment)]) k" for k
        unfolding evicted by (rule covers_evict [OF cov dist events_sorted [OF ag1] set_take_subset])
      moreover have "distinct (map fst m')" unfolding evicted by (rule distinct_map_filter [OF dist])
      ultimately show ?thesis using True sorted by (simp add: agrees_def)
    qed (use ag1 True in simp)
  qed
qed

lemma limiter_reference:
  "agrees window now m acc \<Longrightarrow> sorted (now # map at_moment as) \<Longrightarrow> limiter_run window m as = reference_run window acc as"
proof (induction as arbitrary: now m acc)
  case (Cons a as)
  obtain ok m' where run: "allow window (at_key a) (at_limit a) (at_moment a) m = (ok, m')" by (cases "allow window (at_key a) (at_limit a) (at_moment a) m")
  have later: "now \<le> at_moment a" using Cons.prems(2) by simp
  note step = allow_agrees [OF Cons.prems(1) later run]
  have "sorted (at_moment a # map at_moment as)" using Cons.prems(2) by simp
  from Cons.IH [OF step(2) this] step(1) show ?case by (simp add: run Let_def)
qed simp

lemma agrees_empty: "agrees window now [] []"
  by (simp add: agrees_def covers_def of_key_def events_of_def)

end
