(* ===== verification/CommerceApi.thy ===== *)
theory CommerceApi
  imports StripePayments RateLimiter JsonText
begin

section \<open>The commerce HTTP boundary\<close>

text \<open>
  \<^verbatim>\<open>commerce_api.py\<close>: the handler of one request over store, access layer and adapter.  The
  state is the rate limiter and the database; a handler is a program of \<open>Effects\<close> that ends in a
  reply, or in an exception that escapes the handler.  What the HTTP library has read is the
  parameter \<open>http_request\<close> (header names in lower case, \<open>rq_body\<close> the bytes that arrive before
  the connection ends), what the handler observes of the world is \<open>api_world\<close>: the readings of
  both clocks, the answers of the provider, and \<open>wd_message\<close>, the first 200 characters of an
  exception's text.
\<close>

subsection \<open>Settings\<close>

record api_limits =
  al_max_body_bytes :: int
  al_max_webhook_body_bytes :: int
  al_max_active_connections :: int
  al_window_seconds :: int
  al_global_requests_per_window :: int
  al_ip_requests_per_window :: int
  al_tenant_requests_per_window :: int
  al_max_quotes_per_tenant :: int
  al_max_orders_per_tenant :: int

definition default_limits :: api_limits where
  "default_limits = \<lparr>al_max_body_bytes = 16384, al_max_webhook_body_bytes = int MAX_STRIPE_WEBHOOK_BYTES,
     al_max_active_connections = 32, al_window_seconds = 60, al_global_requests_per_window = 240, al_ip_requests_per_window = 60,
     al_tenant_requests_per_window = 30, al_max_quotes_per_tenant = 100, al_max_orders_per_tenant = 50\<rparr>"

definition check_limits :: "api_limits \<Rightarrow> api_limits res" where
  "check_limits al =
     reject_if (\<not> list_all (\<lambda>(v, lo, hi). lo \<le> v \<and> v \<le> hi)
        [(al_max_body_bytes al, 256, 65536), (al_max_webhook_body_bytes al, 1024, int MAX_STRIPE_WEBHOOK_BYTES),
         (al_max_active_connections al, 1, 256), (al_window_seconds al, 1, 3600),
         (al_global_requests_per_window al, 1, 100000), (al_ip_requests_per_window al, 1, 100000),
         (al_tenant_requests_per_window al, 1, 100000), (al_max_quotes_per_tenant al, 1, 10000),
         (al_max_orders_per_tenant al, 1, 10000)]) ValueError (Inr al)"

record api_config =
  ap_limits :: api_limits
  ap_access :: access_config
  ap_stripe :: "stripe_config option"

record http_request =
  rq_ip :: string
  rq_target :: string
  rq_headers :: "(string \<times> string) list"
  rq_body :: string

record api_world =
  wd_ticks :: "nat \<Rightarrow> int"
  wd_ticks_per_second :: int
  wd_now :: pydatetime
  wd_tables :: unicode_tables
  wd_construct :: "string \<Rightarrow> string \<Rightarrow> string \<Rightarrow> json res"
  wd_lookup :: stripe_api
  wd_api :: stripe_api
  wd_clock :: "nat \<Rightarrow> int"
  wd_message :: "exn \<Rightarrow> string"

type_synonym 'z api_state = "limiter \<times> 'z stripe_db_scheme"

definition on_db :: "('d, 'a) prog \<Rightarrow> ('l \<times> 'd, 'a) prog" where
  "on_db m s = (case m (snd s) of (r, d) \<Rightarrow> (r, (fst s, d)))"

subsection \<open>Connections\<close>

text \<open>The semaphore of \<open>BoundedCommerceServer\<close>: the number of connections being served.\<close>

definition accept_connection :: "int \<Rightarrow> int \<Rightarrow> bool \<times> int" where
  "accept_connection max_active active = (if active < max_active then (True, active + 1) else (False, active))"

definition finish_connection :: "int \<Rightarrow> int" where
  "finish_connection active = active - 1"

subsection \<open>Replies\<close>

record reply =
  rp_status :: int
  rp_headers :: "(string \<times> string) list"
  rp_body :: string

definition JSON_TYPE :: string where "JSON_TYPE = ''application/json; charset=utf-8''"

definition quoted :: "char \<Rightarrow> string \<Rightarrow> string" where
  "quoted q s = [q] @ s @ [q]"

definition send_bytes :: "int \<Rightarrow> string \<Rightarrow> string \<Rightarrow> (string \<times> string) list \<Rightarrow> reply" where
  "send_bytes status body content_type extra =
     \<lparr>rp_status = status,
      rp_headers = [(''Content-Type'', content_type), (''Content-Length'', show_nat (length body)),
        (''Cache-Control'', ''private, no-store''), (''Pragma'', ''no-cache''), (''X-Content-Type-Options'', ''nosniff''),
        (''X-Frame-Options'', ''DENY''), (''Referrer-Policy'', ''no-referrer''),
        (''Content-Security-Policy'', ''default-src '' @ quoted (chr_of 39) ''none'' @ ''; frame-ancestors '' @ quoted (chr_of 39) ''none''), (''Connection'', ''close'')] @ extra,
      rp_body = body\<rparr>"

definition send :: "int \<Rightarrow> json \<Rightarrow> (string \<times> string) list \<Rightarrow> reply res" where
  "send status payload extra =
     (let body = dumps payload @ [chr_of 10]
      in reject_if (\<not> utf8_ok body) ValueError (Inr (send_bytes status body JSON_TYPE extra)))"

definition error_json :: "string \<Rightarrow> string \<Rightarrow> json" where
  "error_json code message = JObj [(''error'', jstr_obj [(''code'', code), (''message'', message)])]"

definition not_found_route :: "reply res" where
  "not_found_route = send 404 (error_json ''not_found'' ''route not found'') []"

definition handle_error :: "api_limits \<Rightarrow> (exn \<Rightarrow> string) \<Rightarrow> string \<Rightarrow> reply res" where
  "handle_error al message code =
     (if code = ''authentication_failed'' then
        send 401 (error_json ''authentication_failed'' ''authentication failed'') [(''WWW-Authenticate'', ''Bearer realm='' @ quoted (chr_of 34) ''vouchspec-commerce'')]
      else if code \<in> {''authorization_failed'', ''object_not_found'', ''unknown_order''} then
        send 404 (error_json ''not_found'' ''resource not found'') []
      else if code = ''rate_limited'' then
        send 429 (error_json ''rate_limited'' ''request rate exceeded'') [(''Retry-After'', show_int (al_window_seconds al))]
      else if code \<in> {''stripe_api_error'', ''stripe_event_processing''} then
        send 503 (error_json ''stripe_temporarily_unavailable'' ''payment processing is temporarily unavailable'') [(''Retry-After'', ''10'')]
      else if code \<in> {''invalid_webhook_signature'', ''invalid_stripe_event'', ''invalid_stripe_object''} then
        send 400 (error_json ''invalid_stripe_webhook'' ''webhook was rejected'') []
      else if code = ''stripe_event_conflict'' then
        send 409 (error_json code ''webhook event conflicts with recorded state'') []
      else if code \<in> {''idempotency_conflict'', ''quote_already_used'', ''result_not_ready'', ''resource_limit''} then
        send 409 (error_json code (message (Rejected code))) []
      else if code = ''commerce_live_not_enabled'' then
        send 503 (error_json code ''live commerce is not enabled'') []
      else send 422 (error_json code (message (Rejected code))) [])"

text \<open>\<open>except CapabilityProofError\<close>, then \<open>except Exception\<close>.\<close>

definition answer :: "api_config \<Rightarrow> api_world \<Rightarrow> ('s, reply) prog \<Rightarrow> ('s, reply) prog" where
  "answer cfg w m = handle m (\<lambda>e. give (case e of
      Rejected code \<Rightarrow> handle_error (ap_limits cfg) (wd_message w) code
    | _ \<Rightarrow> send 500 (error_json ''internal_error'' ''commerce request failed'') []))"

definition public_order_json :: "public_order \<Rightarrow> json" where
  "public_order_json v =
     (let r = ov_order v; opt = (\<lambda>x. case x of None \<Rightarrow> JNull | Some s \<Rightarrow> JStr s) in
      JObj [(''order_id'', JStr (o_order_id r)), (''environment'', JStr (environment_value (o_environment r))),
        (''quote_id'', JStr (o_quote_id r)), (''order_status'', JStr (order_status_value (o_order_status r))),
        (''payment_status'', JStr (payment_status_value (o_payment_status r))),
        (''quoted_amount_minor'', JInt (o_quoted_amount_minor r)), (''collected_amount_minor'', JInt (o_collected_amount_minor r)),
        (''refunded_amount_minor'', JInt (o_refunded_amount_minor r)), (''currency'', JStr (o_currency r)),
        (''receipt_id'', opt (o_receipt_id r)), (''receipt_sha256'', opt (o_receipt_sha256 r)),
        (''envelope_sha256'', opt (o_envelope_sha256 r)), (''signing_keyid'', opt (o_signing_keyid r)),
        (''delivery_status'', JStr (o_delivery_status r)), (''refund_status'', JStr (ov_refund_status v)),
        (''settlement_status'', JStr (ov_settlement_status v)), (''counts_for_goal'', JBool (o_counts_for_goal r)),
        (''created_at'', JStr (o_created_at r)), (''updated_at'', JStr (o_updated_at r))])"

subsection \<open>Reading a request\<close>

definition header_values :: "string \<Rightarrow> http_request \<Rightarrow> string list" where
  "header_values name rq = map snd (filter (\<lambda>(k, _). k = name) (rq_headers rq))"

definition limit_check ::
  "api_config \<Rightarrow> api_world \<Rightarrow> string \<Rightarrow> int \<Rightarrow> nat \<Rightarrow> ('z api_state, unit) prog" where
  "limit_check cfg w key limit i s =
     (case allow (al_window_seconds (ap_limits cfg) * wd_ticks_per_second w) key limit (wd_ticks w i) (fst s) of
        (ok, m) \<Rightarrow> (if ok then Inr () else Inl (Rejected ''rate_limited''), (m, snd s)))"

definition apply_public_limits ::
  "api_config \<Rightarrow> api_world \<Rightarrow> string \<Rightarrow> http_request \<Rightarrow> ('z api_state, unit) prog" where
  "apply_public_limits cfg w scope rq =
     prog_then (limit_check cfg w (scope @ '':global'') (al_global_requests_per_window (ap_limits cfg)) 0) (\<lambda>_.
     limit_check cfg w (scope @ '':ip:'' @ rq_ip rq) (al_ip_requests_per_window (ap_limits cfg)) 1)"

definition bearer :: "http_request \<Rightarrow> string res" where
  "bearer rq =
     (case header_values ''authorization'' rq of
        [h] \<Rightarrow> reject_if (\<not> starts_with ''Bearer '' h \<or> length (filter (\<lambda>c. c = CHR '' '') h) \<noteq> 1) authentication_failed (Inr (drop 7 h))
      | _ \<Rightarrow> Inl authentication_failed)"

definition authenticate :: "api_config \<Rightarrow> api_world \<Rightarrow> http_request \<Rightarrow> ('z api_state, string) prog" where
  "authenticate cfg w rq =
     prog_then (give (bearer rq)) (\<lambda>key.
     prog_then (on_db (look (authenticate_api_key (ap_access cfg) key))) (\<lambda>tenant.
     prog_then (limit_check cfg w (''tenant:'' @ tenant) (al_tenant_requests_per_window (ap_limits cfg)) 2) (\<lambda>_.
     give (Inr tenant))))"

definition single_header :: "string \<Rightarrow> exn \<Rightarrow> http_request \<Rightarrow> string res" where
  "single_header name e rq = (case header_values name rq of [h] \<Rightarrow> Inr h | _ \<Rightarrow> Inl e)"

definition delivery_header :: "http_request \<Rightarrow> string res" where
  "delivery_header = single_header ''x-vouchspec-delivery-token'' authorization_failed"

definition idempotency_header :: "http_request \<Rightarrow> string res" where
  "idempotency_header = single_header ''idempotency-key'' bad_request"

definition route_of :: "api_world \<Rightarrow> http_request \<Rightarrow> string res" where
  "route_of w rq =
     reject_if (py_len (rq_target rq) > 256 \<or> list_ex (\<lambda>c. byte_of c < 32) (rq_target rq)) bad_request
    (and_then (urlsplit (wd_tables w) (rq_target rq)) (\<lambda>p.
     reject_if (up_query p \<noteq> [] \<or> up_fragment p \<noteq> [] \<or> CHR ''%'' \<in> set (up_path p)) bad_request
       (Inr (up_path p))))"

text \<open>\<open>[1-9][0-9]{0,5}\<close>\<close>

definition re_content_length :: "string \<Rightarrow> bool" where
  "re_content_length s \<longleftrightarrow> re_class is_digit 1 6 s \<and> hd s \<noteq> CHR ''0''"

definition read_body :: "int \<Rightarrow> http_request \<Rightarrow> string res" where
  "read_body maximum_bytes rq =
     reject_if (header_values ''transfer-encoding'' rq \<noteq> []) bad_request
    (reject_if (header_values ''content-type'' rq \<noteq> [''application/json'']) bad_request
    (case header_values ''content-length'' rq of
       [l] \<Rightarrow>
         reject_if (\<not> re_content_length l) bad_request
        (let n = digits_val l
         in reject_if (\<not> (1 \<le> n \<and> int n \<le> maximum_bytes)) bad_request
           (reject_if (length (take n (rq_body rq)) \<noteq> n) bad_request (Inr (take n (rq_body rq)))))
     | _ \<Rightarrow> Inl bad_request))"

definition read_json :: "api_config \<Rightarrow> http_request \<Rightarrow> json res" where
  "read_json cfg rq =
     and_then (read_body (al_max_body_bytes (ap_limits cfg)) rq) (\<lambda>body.
     reject_if (\<not> utf8_ok body) bad_request (load_strict_commerce_json body))"

definition exact_body :: "json \<Rightarrow> string list \<Rightarrow> (string \<times> json) list res" where
  "exact_body v keys = (case v of JObj kvs \<Rightarrow> reject_if (\<not> has_keys keys kvs) bad_request (Inr kvs) | _ \<Rightarrow> Inl bad_request)"

definition route_parts :: "string \<Rightarrow> string list" where
  "route_parts route = filter (\<lambda>p. p \<noteq> []) (split_on CHR ''/'' route)"

subsection \<open>Reading orders\<close>

definition health_json :: "api_config \<Rightarrow> json" where
  "health_json cfg = JObj [(''service'', JStr ''vouchspec-commerce''), (''environment'', JStr ''sandbox''),
     (''payment_provider'', JStr (if ap_stripe cfg \<noteq> None then ''stripe_test'' else ''fake'')), (''live_settlement'', JBool False),
     (''status'', JStr ''ok''), (''version'', JStr ''0.2.0'')]"

definition get_order_route ::
  "api_config \<Rightarrow> api_world \<Rightarrow> http_request \<Rightarrow> string \<Rightarrow> string list \<Rightarrow> ('z api_state, reply) prog" where
  "get_order_route cfg w rq tenant parts =
     (if length parts \<notin> {4, 5} \<or> take 3 parts \<noteq> [''v1'', ''commerce'', ''orders''] then give not_found_route
      else let oid = parts ! 3 in
        prog_then (give (delivery_header rq)) (\<lambda>token.
        prog_then (on_db (look (authorize_order (ap_access cfg) tenant oid token (wd_now w)))) (\<lambda>_.
        if length parts = 4 then
          prog_then (on_db (look (get_order Sandbox oid))) (\<lambda>v. give (send 200 (JObj [(''order'', public_order_json v)]) []))
        else if parts ! 4 = ''result'' then
          prog_then (on_db (look (get_result (ap_access cfg) tenant oid token (wd_now w)))) (\<lambda>result.
          give (Inr (send_bytes 200 result ''application/vnd.dsse.envelope.v1+json''
            [(''ETag'', quoted (chr_of 34) (''sha256:'' @ sha256_hex result))])))
        else give not_found_route)))"

definition do_GET :: "api_config \<Rightarrow> api_world \<Rightarrow> http_request \<Rightarrow> ('z api_state, reply) prog" where
  "do_GET cfg w rq = answer cfg w
     (prog_then (apply_public_limits cfg w ''api'' rq) (\<lambda>_.
      prog_then (give (route_of w rq)) (\<lambda>route.
      if route = ''/health'' then give (send 200 (health_json cfg) [])
      else prog_then (authenticate cfg w rq) (\<lambda>tenant. get_order_route cfg w rq tenant (route_parts route)))))"

subsection \<open>Quotes, orders and delivery tokens\<close>

definition post_webhook :: "api_config \<Rightarrow> api_world \<Rightarrow> http_request \<Rightarrow> ('z api_state, reply) prog" where
  "post_webhook cfg w rq =
     prog_then (apply_public_limits cfg w ''stripe-webhook'' rq) (\<lambda>_.
     case ap_stripe cfg of
       None \<Rightarrow> give not_found_route
     | Some sc \<Rightarrow>
         prog_then (give (single_header ''stripe-signature'' (Rejected ''invalid_webhook_signature'') rq)) (\<lambda>signature.
         prog_then (give (read_body (al_max_webhook_body_bytes (ap_limits cfg)) rq)) (\<lambda>body.
         prog_then (on_db (process_webhook sc (wd_tables w) (wd_construct w) (wd_lookup w) (wd_api w) (wd_clock w) body signature)) (\<lambda>r.
         if wr_status r \<in> {''processed'', ''ignored''} then
           give (send 200 (JObj [(''received'', JBool True), (''duplicate'', JBool (wr_duplicate r)), (''status'', JStr (wr_status r))]) [])
         else give (Inl (Rejected ''invalid_stripe_event''))))))"

definition sealed_quote_json :: "quote_doc \<Rightarrow> json" where
  "sealed_quote_json q = JObj (obj_of (quote_json q) @ [(''quote_digest'', JStr (qd_quote_digest q))])"

text \<open>The creation lock makes the count and the writes behind it one step among the requests.\<close>

definition create_tenant_quote ::
  "api_config \<Rightarrow> api_world \<Rightarrow> string \<Rightarrow> string \<Rightarrow> string \<Rightarrow> string \<Rightarrow> json \<Rightarrow> ('z stripe_db_scheme, quote_doc) prog" where
  "create_tenant_quote cfg w tenant qid key timestamp request =
     prog_then (look (\<lambda>d. if quote_owned tenant qid d then Inr ()
       else and_then (tenant_resource_counts tenant d) (\<lambda>(quotes, _).
         reject_if (int quotes \<ge> al_max_quotes_per_tenant (ap_limits cfg)) (Rejected ''resource_limit'') (Inr ())))) (\<lambda>_.
     prog_then (run_write (create_quote Sandbox request qid (wd_now w) (if ap_stripe cfg \<noteq> None then ''stripe'' else ''fake'')
         (case ap_stripe cfg of None \<Rightarrow> False | Some sc \<Rightarrow> sc_live_checkout_enabled sc))) (\<lambda>quote.
     if qd_orderable quote then
       prog_then (run_write (bind_quote (ap_access cfg) tenant qid key timestamp)) (\<lambda>_. give (Inr quote))
     else give (Inr quote)))"

definition post_quote :: "api_config \<Rightarrow> api_world \<Rightarrow> http_request \<Rightarrow> string \<Rightarrow> string \<Rightarrow> ('z api_state, reply) prog" where
  "post_quote cfg w rq tenant timestamp =
     prog_then (give (read_json cfg rq)) (\<lambda>request.
     prog_then (give (idempotency_header rq)) (\<lambda>key.
     prog_then (give (derive_quote_id (ap_access cfg) tenant key)) (\<lambda>qid.
     prog_then (on_db (create_tenant_quote cfg w tenant qid key timestamp request)) (\<lambda>quote.
     give (send 201 (JObj [(''quote'', sealed_quote_json quote)]) [])))))"

definition create_tenant_order ::
  "api_config \<Rightarrow> api_world \<Rightarrow> string \<Rightarrow> string \<Rightarrow> string \<Rightarrow> string \<Rightarrow> ('z stripe_db_scheme, public_order \<times> string) prog" where
  "create_tenant_order cfg w tenant qid key timestamp =
     prog_then (look (\<lambda>d. if order_for_quote tenant qid d \<noteq> None then Inr ()
       else and_then (tenant_resource_counts tenant d) (\<lambda>(_, orders).
         reject_if (int orders \<ge> al_max_orders_per_tenant (ap_limits cfg)) (Rejected ''resource_limit'') (Inr ())))) (\<lambda>_.
     prog_then (run_write (create_order Sandbox qid key tenant (wd_now w))) (\<lambda>order.
     prog_then (run_write (bind_order (ap_access cfg) tenant (o_order_id (ov_order order)) qid timestamp)) (\<lambda>token.
     give (Inr (order, token)))))"

text \<open>The checkout behind a new order: the order to show and the payment it asks for.\<close>

definition start_checkout ::
  "api_config \<Rightarrow> api_world \<Rightarrow> string \<Rightarrow> string \<Rightarrow> ('z stripe_db_scheme, public_order \<times> json) prog" where
  "start_checkout cfg w oid timestamp =
     (case ap_stripe cfg of
        None \<Rightarrow>
          prog_then (run_write (fake_create_checkout oid timestamp)) (\<lambda>v.
          give (Inr (v, JObj [(''provider'', JStr ''fake''), (''environment'', JStr ''sandbox''), (''settles'', JBool False)])))
      | Some sc \<Rightarrow>
          prog_then (prepare_order_checkout sc (wd_tables w) (wd_api w) oid (wd_now w)) (\<lambda>c.
          give (Inr (cv_order c, JObj [(''provider'', JStr ''stripe_checkout''), (''checkout_id'', cv_checkout_id c), (''url'', cv_url c),
            (''expires_at'', JStr (cv_expires_at c)), (''livemode'', JBool (cv_livemode c)),
            (''environment'', JStr (if sc_livemode sc then ''live'' else ''test'')), (''settles'', JBool (sc_livemode sc))]))))"

definition post_order :: "api_config \<Rightarrow> api_world \<Rightarrow> http_request \<Rightarrow> string \<Rightarrow> string \<Rightarrow> ('z api_state, reply) prog" where
  "post_order cfg w rq tenant timestamp =
     prog_then (give (and_then (read_json cfg rq) (\<lambda>v. exact_body v [''quote_id'']))) (\<lambda>body.
     check_prog (\<not> is_jstr (jget_null body ''quote_id'')) bad_request
    (let qid = the_str (jget_null body ''quote_id'') in
     prog_then (give (idempotency_header rq)) (\<lambda>key.
     prog_then (give (derive_order_idempotency_key (ap_access cfg) tenant key)) (\<lambda>internal.
     prog_then (on_db (look (authorize_quote tenant qid))) (\<lambda>_.
     prog_then (on_db (create_tenant_order cfg w tenant qid internal timestamp)) (\<lambda>(order, token).
     let oid = o_order_id (ov_order order) in
     prog_then (on_db (look (authorize_order (ap_access cfg) tenant oid token (wd_now w)))) (\<lambda>state.
     prog_then (on_db (start_checkout cfg w oid timestamp)) (\<lambda>(view, payment).
     give (send 201 (JObj [(''order'', public_order_json view), (''delivery_token'', JStr token),
       (''delivery_token_expires_at'', JStr (az_token_expires_at state)),
       (''delivery_token_notice'', JStr ''store securely; required with the tenant API key''), (''payment'', payment)]) [])))))))))"

definition post_token ::
  "api_config \<Rightarrow> api_world \<Rightarrow> http_request \<Rightarrow> string \<Rightarrow> string \<Rightarrow> string list \<Rightarrow> ('z api_state, reply) prog" where
  "post_token cfg w rq tenant timestamp parts =
     prog_then (give (and_then (read_json cfg rq) (\<lambda>v. exact_body v []))) (\<lambda>_.
     prog_then (give (delivery_header rq)) (\<lambda>current.
     let oid = parts ! 3 in
     if parts ! 5 = ''rotate'' then
       prog_then (on_db (run_write (rotate_delivery_token (ap_access cfg) tenant oid current timestamp))) (\<lambda>token.
       prog_then (on_db (look (authorize_order (ap_access cfg) tenant oid token (wd_now w)))) (\<lambda>state.
       give (send 200 (jstr_obj [(''order_id'', oid), (''delivery_token'', token),
         (''delivery_token_expires_at'', az_token_expires_at state), (''prior_token_status'', ''revoked_by_rotation'')]) [])))
     else
       prog_then (on_db (run_write (revoke_delivery_token (ap_access cfg) tenant oid current timestamp))) (\<lambda>_.
       give (send 200 (jstr_obj [(''order_id'', oid), (''delivery_token_status'', ''revoked'')]) []))))"

definition is_token_route :: "string list \<Rightarrow> bool" where
  "is_token_route parts \<longleftrightarrow> length parts = 6 \<and> take 3 parts = [''v1'', ''commerce'', ''orders''] \<and> parts ! 4 = ''delivery-token''
     \<and> parts ! 5 \<in> {''rotate'', ''revoke''}"

definition do_POST :: "api_config \<Rightarrow> api_world \<Rightarrow> http_request \<Rightarrow> ('z api_state, reply) prog" where
  "do_POST cfg w rq = answer cfg w
     (prog_then (give (route_of w rq)) (\<lambda>route.
      if route = ''/v1/commerce/webhooks/stripe'' then post_webhook cfg w rq
      else
        prog_then (apply_public_limits cfg w ''api'' rq) (\<lambda>_.
        prog_then (authenticate cfg w rq) (\<lambda>tenant.
        prog_then (give (timestamp_text (wd_now w))) (\<lambda>timestamp.
        if route = ''/v1/commerce/quotes'' then post_quote cfg w rq tenant timestamp
        else if route = ''/v1/commerce/orders'' then post_order cfg w rq tenant timestamp
        else if is_token_route (route_parts route) then post_token cfg w rq tenant timestamp (route_parts route)
        else give not_found_route)))))"

subsection \<open>Other methods, and the server\<close>

definition do_PUT :: "api_config \<Rightarrow> api_world \<Rightarrow> http_request \<Rightarrow> ('z api_state, reply) prog" where
  "do_PUT cfg w rq = handle
     (prog_then (apply_public_limits cfg w ''api'' rq) (\<lambda>_.
      give (send 405 (error_json ''method_not_allowed'' ''method not allowed'') [])))
     (\<lambda>e. give (case e of Rejected code \<Rightarrow> handle_error (ap_limits cfg) (wd_message w) code | _ \<Rightarrow> Inl e))"

definition do_HEAD :: "api_config \<Rightarrow> api_world \<Rightarrow> http_request \<Rightarrow> ('z api_state, reply) prog" where
  "do_HEAD cfg w rq = handle
     (prog_then (apply_public_limits cfg w ''api'' rq) (\<lambda>_. give (Inr (send_bytes 405 [] JSON_TYPE []))))
     (\<lambda>e. give (case e of Rejected code \<Rightarrow> handle_error (ap_limits cfg) (wd_message w) code | _ \<Rightarrow> Inl e))"

definition serve :: "api_config \<Rightarrow> api_world \<Rightarrow> string \<Rightarrow> http_request \<Rightarrow> ('z api_state, reply) prog" where
  "serve cfg w verb rq =
     (if verb = ''GET'' then do_GET cfg w rq else if verb = ''POST'' then do_POST cfg w rq
      else if verb = ''HEAD'' then do_HEAD cfg w rq else do_PUT cfg w rq)"

text \<open>The guard of the server: environments, the common file and the port.\<close>

definition create_commerce_server ::
  "environment \<Rightarrow> string \<Rightarrow> access_config \<Rightarrow> string \<Rightarrow> (stripe_config \<times> string) option \<Rightarrow> json \<Rightarrow> api_limits option \<Rightarrow> api_config res" where
  "create_commerce_server store_env store_path access access_path stripe port limits =
     reject_if (store_env \<noteq> Sandbox \<or> ac_environment access \<noteq> Sandbox) (Rejected ''commerce_live_not_enabled'')
    (reject_if (store_path \<noteq> access_path) ValueError
    (reject_if (case stripe of None \<Rightarrow> False | Some (_, path) \<Rightarrow> path \<noteq> store_path) ValueError
    (reject_if (\<not> bounded_int 0 65535 port) ValueError
      (Inr \<lparr>ap_limits = (case limits of None \<Rightarrow> default_limits | Some l \<Rightarrow> l), ap_access = access, ap_stripe = map_option fst stripe\<rparr>))))"

end
