(* ===== verification/CommerceApiLemmas.thy ===== *)
theory CommerceApiLemmas
  imports CommerceApi StripeInvariant
begin

section \<open>The commerce HTTP boundary: what a request can do\<close>

text \<open>
  Every request is a run of steps of the whole database, and what a tenant owns grows only
  within the limits.  Both are read off one relation between the database before and after a
  write; the rules of \<open>Effects\<close> carry it through the handlers.
\<close>

subsection \<open>Growth within the limits\<close>

definition quotes_of :: "string \<Rightarrow> 'z access_db_scheme \<Rightarrow> nat" where
  "quotes_of tid d = length (filter (\<lambda>b. qb_tenant_id b = tid) (quote_bindings d))"

definition orders_of :: "string \<Rightarrow> 'z access_db_scheme \<Rightarrow> nat" where
  "orders_of tid d = length (filter (\<lambda>b. ob_tenant_id b = tid) (order_bindings d))"

definition growth :: "api_limits \<Rightarrow> 'z access_db_scheme \<Rightarrow> 'z access_db_scheme \<Rightarrow> bool" where
  "growth al d d' \<longleftrightarrow> (\<forall>tid. int (quotes_of tid d') \<le> max (int (quotes_of tid d)) (al_max_quotes_per_tenant al)
     \<and> int (orders_of tid d') \<le> max (int (orders_of tid d)) (al_max_orders_per_tenant al))"

lemma growth_refl [simp]: "growth al d d"
  by (simp add: growth_def)

lemma growth_trans: "growth al d1 d2 \<Longrightarrow> growth al d2 d3 \<Longrightarrow> growth al d1 d3"
  unfolding growth_def by (smt (verit))

lemma filter_map_length: "map f xs = map f ys \<Longrightarrow> length (filter (\<lambda>x. f x = k) xs) = length (filter (\<lambda>x. f x = k) ys)"
proof -
  assume "map f xs = map f ys"
  then have "length (filter (\<lambda>y. y = k) (map f xs)) = length (filter (\<lambda>y. y = k) (map f ys))" by simp
  then show ?thesis by (simp add: filter_map comp_def)
qed

lemma growth_same:
  assumes "map qb_tenant_id (quote_bindings d') = map qb_tenant_id (quote_bindings d)"
    "map ob_tenant_id (order_bindings d') = map ob_tenant_id (order_bindings d)"
  shows "growth al d d'"
  using filter_map_length [OF assms(1)] filter_map_length [OF assms(2)] by (simp add: growth_def quotes_of_def orders_of_def)

subsection \<open>One relation for every write of a request\<close>

definition request_step :: "access_config \<Rightarrow> ed25519 \<Rightarrow> api_limits \<Rightarrow> 'z stripe_db_scheme \<Rightarrow> 'z stripe_db_scheme \<Rightarrow> bool" where
  "request_step acfg ed al d d' \<longleftrightarrow>
     (system_ok acfg ed d \<longrightarrow> rtranclp (system_step acfg ed) d d' \<and> system_ok acfg ed d' \<and> growth al d d')"

lemma request_step_refl [simp]: "request_step acfg ed al d d"
  by (simp add: request_step_def)

lemma request_step_trans: "request_step acfg ed al d1 d2 \<Longrightarrow> request_step acfg ed al d2 d3 \<Longrightarrow> request_step acfg ed al d1 d3"
  unfolding request_step_def by (meson growth_trans rtranclp_trans)

lemma request_step_run: "rtranclp (request_step acfg ed al) d d' \<Longrightarrow> request_step acfg ed al d d'"
  by (induction rule: rtranclp_induct) (auto intro: request_step_trans)

lemma request_step_system:
  assumes "system_ok acfg ed d \<Longrightarrow> system_step acfg ed d d' \<and> growth al d d'"
  shows "request_step acfg ed al d d'"
  unfolding request_step_def
proof
  assume ok: "system_ok acfg ed d"
  from assms [OF ok] have "system_step acfg ed d d'" "growth al d d'" by simp_all
  moreover have "system_ok acfg ed d'" by (rule system_step_ok [OF ok \<open>system_step acfg ed d d'\<close>])
  ultimately show "rtranclp (system_step acfg ed) d d' \<and> system_ok acfg ed d' \<and> growth al d d'" by (intro conjI r_into_rtranclp)
qed

lemma adapter_step_bindings:
  assumes ok: "system_ok acfg ed d" and step: "adapter_step (ac_environment acfg) d d'"
  shows "quote_bindings d' = quote_bindings d" "order_bindings d' = order_bindings d" "tenants d' = tenants d"
proof -
  have "quote_bindings d' = quote_bindings d \<and> order_bindings d' = order_bindings d \<and> tenants d' = tenants d"
    using step
  proof cases
    case selling
    have "store_ok (ac_environment acfg) d" using ok by (simp add: system_ok_def paid_ok_def market_ok_def)
    from step_frame [OF this selling] have "db.more d' = db.more d" by (simp add: store_frame_def)
    from access_tables_more [OF this] show ?thesis by simp
  next
    case reserving
    then show ?thesis by (cases rule: reserve_cases) simp_all
  next
    case finishing
    from finishing(1) show ?thesis by (cases rule: finish_cases) simp
  next
    case recording
    then show ?thesis by (cases rule: record_cases) simp_all
  qed
  then show "quote_bindings d' = quote_bindings d" "order_bindings d' = order_bindings d" "tenants d' = tenants d" by simp_all
qed

lemma adapter_request: "adapter_step (ac_environment acfg) d d' \<Longrightarrow> request_step acfg ed al d d'"
  by (rule request_step_system) (simp add: adapter_system growth_same adapter_step_bindings)

lemma runs_request:
  "runs (adapter_step env) m \<Longrightarrow> ac_environment acfg = env \<Longrightarrow> runs (request_step acfg ed al) m"
  by (erule runs_mono) (use adapter_request in blast)

subsection \<open>The writes of the access layer\<close>

lemma market_request:
  assumes "access_step acfg d d'" "growth al d d'" shows "request_step acfg ed al d d'"
  by (rule request_step_system) (use assms in \<open>auto intro: system_step.paid paid_step.market\<close>)

lemma rotate_request: "rotate_delivery_token acfg tid oid cur at d = Inr (tok, d') \<Longrightarrow> request_step acfg ed al d d'"
  by (rule market_request [OF access_step.rotate_token]) (auto elim!: rotate_delivery_token_cases simp: map_update_where intro!: growth_same)

lemma revoke_request: "revoke_delivery_token acfg tid oid cur at d = Inr (u, d') \<Longrightarrow> request_step acfg ed al d d'"
  by (rule market_request [OF access_step.revoke_token]) (auto elim!: revoke_delivery_token_cases simp: map_update_where intro!: growth_same)

lemma bind_quote_growth:
  assumes "bind_quote acfg tid qid key at d = Inr (u, d')" "quote_owned tid qid d \<or> int (quotes_of tid d) < al_max_quotes_per_tenant al"
  shows "growth al d d'"
  using assms(1)
proof (cases rule: bind_quote_cases)
  case (new row)
  have "\<not> quote_owned tid qid d" using new(4) by (auto simp: quote_owned_def list_ex_iff find_quote_binding_def find_None_iff)
  with assms(2) new show ?thesis by (auto simp: growth_def quotes_of_def orders_of_def)
qed simp

lemma bind_order_growth:
  assumes "bind_order acfg tid oid qid at d = Inr (tok, d')" "order_for_quote tid qid d \<noteq> None \<or> int (orders_of tid d) < al_max_orders_per_tenant al"
  shows "growth al d d'"
  using assms(1)
proof (cases rule: bind_order_cases)
  case (new created expires q r)
  have "order_for_quote tid qid d = None" using new(9) by (auto simp: order_for_quote_def find_None_iff)
  with assms(2) new show ?thesis by (auto simp: growth_def quotes_of_def orders_of_def new_order_binding_def)
qed simp

text \<open>A check before two writes, of which the first leaves the bindings alone.\<close>

lemma runs_checked_pair:
  assumes first: "\<And>s x t. w s = Inr (x, t) \<Longrightarrow> adapter_step (ac_environment acfg) s t"
    and second: "\<And>s x t y u. check s = Inr () \<Longrightarrow> w s = Inr (x, t) \<Longrightarrow> quote_bindings t = quote_bindings s \<Longrightarrow> order_bindings t = order_bindings s
        \<Longrightarrow> tenants t = tenants s \<Longrightarrow> v x t = Inr (y, u) \<Longrightarrow> request_step acfg ed al t u"
  shows "runs (request_step acfg ed al) (prog_then (look check) (\<lambda>_. prog_then (run_write w) (\<lambda>x.
    if c x then prog_then (run_write (v x)) (\<lambda>y. give (Inr (f x y))) else give (Inr (g x)))))"
    (is "runs _ ?m")
  unfolding runs_def
proof
  fix s
  have "request_step acfg ed al s (snd (?m s))"
  proof (cases "check s")
    case ok: (Inr u0)
    show ?thesis
    proof (cases "w s")
      case w: (Inr xt)
      obtain x t where xt: "xt = (x, t)" by (cases xt)
      have step: "adapter_step (ac_environment acfg) s t" using first w xt by blast
      then have st: "request_step acfg ed al s t" by (rule adapter_request)
      show ?thesis
      proof (cases "\<exists>y u. c x \<and> v x t = Inr (y, u)")
        case True
        then obtain y u where v: "c x" "v x t = Inr (y, u)" by blast
        have "request_step acfg ed al s u"
        proof (cases "system_ok acfg ed s")
          case True
          have "request_step acfg ed al t u" using second ok w xt v(2) adapter_step_bindings [OF True step] by simp
          with st show ?thesis by (rule request_step_trans)
        qed (simp add: request_step_def)
        then show ?thesis using ok w xt v by (simp add: prog_then_def look_def run_write_def give_def)
      next
        case False
        then show ?thesis using ok w xt st
          by (cases "v x t") (auto simp: prog_then_def look_def run_write_def give_def)
      qed
    qed (use ok in \<open>simp add: prog_then_def look_def run_write_def\<close>)
  qed (simp add: prog_then_def look_def)
  then show "rtranclp (request_step acfg ed al) s (snd (?m s))" by (rule r_into_rtranclp)
qed

lemma counts_Inr: "tenant_resource_counts tid d = Inr (q, r) \<Longrightarrow> q = quotes_of tid d \<and> r = orders_of tid d"
  by (auto simp: tenant_resource_counts_def and_then_Inr quotes_of_def orders_of_def)

lemma create_tenant_quote_runs:
  assumes env: "ac_environment (ap_access cfg) = Sandbox"
  shows "runs (request_step (ap_access cfg) ed (ap_limits cfg)) (create_tenant_quote cfg w tid qid key timestamp request :: ('z stripe_db_scheme, quote_doc) prog)"
  unfolding create_tenant_quote_def
proof (rule runs_checked_pair)
  show "adapter_step (ac_environment (ap_access cfg)) s t"
    if "create_quote Sandbox request qid (wd_now w) prov live s = Inr (x, t)" for prov live s x t
    using that by (auto simp: env intro: adapter_step.selling store_step.quote)
next
  fix s t u :: "'z stripe_db_scheme" and x and y :: unit
  assume check: "(if quote_owned tid qid s then Inr () else and_then (tenant_resource_counts tid s) (\<lambda>(quotes, _).
         reject_if (int quotes \<ge> al_max_quotes_per_tenant (ap_limits cfg)) (Rejected ''resource_limit'') (Inr ()))) = Inr ()"
    and same: "quote_bindings t = quote_bindings s" "tenants t = tenants s"
    and bind: "bind_quote (ap_access cfg) tid qid key timestamp t = Inr (y, u)"
  have "quote_owned tid qid s \<or> int (quotes_of tid s) < al_max_quotes_per_tenant (ap_limits cfg)"
    using check by (auto simp: and_then_Inr reject_if_Inr dest!: counts_Inr split: if_splits prod.splits)
  then have "quote_owned tid qid t \<or> int (quotes_of tid t) < al_max_quotes_per_tenant (ap_limits cfg)"
    using same by (simp add: quote_owned_def active_tenant_def quotes_of_def)
  from market_request [OF access_step.own_quote [OF bind] bind_quote_growth [OF bind this]]
  show "request_step (ap_access cfg) ed (ap_limits cfg) t u" .
qed

lemma create_tenant_order_runs:
  assumes env: "ac_environment (ap_access cfg) = Sandbox"
  shows "runs (request_step (ap_access cfg) ed (ap_limits cfg)) (create_tenant_order cfg w tid qid key timestamp :: ('z stripe_db_scheme, public_order \<times> string) prog)"
proof -
  have "runs (request_step (ap_access cfg) ed (ap_limits cfg) :: 'z stripe_db_scheme \<Rightarrow> _) (prog_then (look (\<lambda>d. if order_for_quote tid qid d \<noteq> None then Inr ()
       else and_then (tenant_resource_counts tid d) (\<lambda>(_, orders).
         reject_if (int orders \<ge> al_max_orders_per_tenant (ap_limits cfg)) (Rejected ''resource_limit'') (Inr ())))) (\<lambda>_.
     prog_then (run_write (create_order Sandbox qid key tid (wd_now w))) (\<lambda>order.
     if True then prog_then (run_write (bind_order (ap_access cfg) tid (o_order_id (ov_order order)) qid timestamp)) (\<lambda>token.
       give (Inr (order, token))) else give (Inr (order, [])))))"
  proof (rule runs_checked_pair)
    show "adapter_step (ac_environment (ap_access cfg)) s t"
      if "create_order Sandbox qid key tid (wd_now w) s = Inr (x, t)" for s x t
      using that by (auto simp: env intro: adapter_step.selling store_step.order)
  next
    fix s t u :: "'z stripe_db_scheme" and x y
    assume check: "(if order_for_quote tid qid s \<noteq> None then Inr () else and_then (tenant_resource_counts tid s) (\<lambda>(_, orders).
           reject_if (int orders \<ge> al_max_orders_per_tenant (ap_limits cfg)) (Rejected ''resource_limit'') (Inr ()))) = Inr ()"
      and same: "order_bindings t = order_bindings s" "tenants t = tenants s"
      and bind: "bind_order (ap_access cfg) tid (o_order_id (ov_order x)) qid timestamp t = Inr (y, u)"
    have "order_for_quote tid qid s \<noteq> None \<or> int (orders_of tid s) < al_max_orders_per_tenant (ap_limits cfg)"
      using check by (auto simp: and_then_Inr reject_if_Inr dest!: counts_Inr split: if_splits prod.splits)
    then have "order_for_quote tid qid t \<noteq> None \<or> int (orders_of tid t) < al_max_orders_per_tenant (ap_limits cfg)"
      using same by (simp add: order_for_quote_def active_tenant_def orders_of_def)
    from market_request [OF access_step.own_order [OF bind] bind_order_growth [OF bind this]]
    show "request_step (ap_access cfg) ed (ap_limits cfg) t u" .
  qed
  then show ?thesis by (simp add: create_tenant_order_def)
qed


subsection \<open>The handlers\<close>

definition api_step :: "api_config \<Rightarrow> ed25519 \<Rightarrow> 'z api_state \<Rightarrow> 'z api_state \<Rightarrow> bool" where
  "api_step cfg ed p q \<longleftrightarrow> request_step (ap_access cfg) ed (ap_limits cfg) (snd p) (snd q)"

lemma runs_on_db: "runs (request_step (ap_access cfg) ed (ap_limits cfg)) m \<Longrightarrow> runs (api_step cfg ed) (on_db m)"
  unfolding runs_def on_db_def api_step_def
  by (auto split: prod.splits intro!: r_into_rtranclp dest: request_step_run) (metis request_step_run snd_conv)

lemma runs_limit_check: "runs (api_step cfg ed) (limit_check cfg w key limit i)"
  unfolding runs_def limit_check_def by (auto simp: api_step_def split: prod.splits intro!: r_into_rtranclp)

lemma runs_public_limits: "runs (api_step cfg ed) (apply_public_limits cfg w scope rq)"
  unfolding apply_public_limits_def by (intro runs_intros runs_limit_check)

lemma runs_authenticate: "runs (api_step cfg ed) (authenticate cfg w rq)"
  unfolding authenticate_def by (intro runs_intros runs_on_db runs_limit_check)

lemma runs_answer: "runs step m \<Longrightarrow> runs step (answer cfg w m)"
  unfolding answer_def by (intro runs_intros)

lemma runs_do_GET: "runs (api_step cfg ed) (do_GET cfg w rq)"
  unfolding do_GET_def get_order_route_def Let_def
  by (intro runs_answer runs_intros runs_on_db runs_public_limits runs_authenticate)

lemma runs_do_PUT: "runs (api_step cfg ed) (do_PUT cfg w rq)"
  unfolding do_PUT_def by (intro runs_intros runs_public_limits)

lemma runs_do_HEAD: "runs (api_step cfg ed) (do_HEAD cfg w rq)"
  unfolding do_HEAD_def by (intro runs_intros runs_public_limits)

text \<open>The configuration the server is created with: everything in the sandbox.\<close>

definition sandbox_config :: "api_config \<Rightarrow> bool" where
  "sandbox_config cfg \<longleftrightarrow> ac_environment (ap_access cfg) = Sandbox \<and> (\<forall>sc. ap_stripe cfg = Some sc \<longrightarrow> sc_environment sc = Sandbox)"

lemma runs_webhook_route: "sandbox_config cfg \<Longrightarrow> runs (api_step cfg ed) (post_webhook cfg w rq)"
  unfolding post_webhook_def
  by (intro runs_intros runs_option runs_on_db runs_public_limits runs_request [OF adapter_webhook]) (simp add: sandbox_config_def)

lemma runs_checkout:
  assumes "sandbox_config cfg"
  shows "runs (request_step (ap_access cfg) ed (ap_limits cfg)) (start_checkout cfg w oid timestamp)"
  unfolding start_checkout_def
proof (intro runs_option)
  show "runs (request_step (ap_access cfg) ed (ap_limits cfg)) (prog_then (run_write (fake_create_checkout oid timestamp))
      (\<lambda>v. give (Inr (v, JObj [(''provider'', JStr ''fake''), (''environment'', JStr ''sandbox''), (''settles'', JBool False)]))))"
    by (intro runs_intros adapter_request)
      (use assms in \<open>auto simp: fake_create_checkout_def and_then_Inr sandbox_config_def intro: adapter_step.selling store_step.attach\<close>)
qed (intro runs_intros runs_request [OF adapter_prepare_order]; use assms in \<open>simp add: sandbox_config_def\<close>)

lemma runs_post_order:
  assumes "sandbox_config cfg" shows "runs (api_step cfg ed) (post_order cfg w rq tenant timestamp)"
  unfolding post_order_def Let_def case_prod_beta
  by (intro runs_intros runs_on_db runs_checkout [OF assms] create_tenant_order_runs) (use assms in \<open>simp add: sandbox_config_def\<close>)

lemma runs_post_quote:
  assumes "sandbox_config cfg" shows "runs (api_step cfg ed) (post_quote cfg w rq tenant timestamp)"
  unfolding post_quote_def
  by (intro runs_intros runs_on_db create_tenant_quote_runs) (use assms in \<open>simp add: sandbox_config_def\<close>)

lemma runs_post_token: "runs (api_step cfg ed) (post_token cfg w rq tenant timestamp parts)"
  unfolding post_token_def Let_def
  by (intro runs_intros runs_on_db rotate_request revoke_request) assumption+

lemma runs_serve:
  assumes "sandbox_config cfg" shows "runs (api_step cfg ed) (serve cfg w verb rq)"
  unfolding serve_def do_POST_def
  by (intro runs_answer runs_intros runs_do_GET runs_do_PUT runs_do_HEAD runs_webhook_route [OF assms] runs_public_limits
      runs_authenticate runs_post_order [OF assms] runs_post_quote [OF assms] runs_post_token)

lemma serve_request_step:
  assumes "sandbox_config cfg" "serve cfg w verb rq s = (r, t)"
  shows "request_step (ap_access cfg) ed (ap_limits cfg) (snd s) (snd t)"
proof -
  have "rtranclp (api_step cfg ed) s t" by (rule runsD [OF runs_serve [OF assms(1)] assms(2)])
  then show ?thesis
    by (induction rule: rtranclp_induct) (auto simp: api_step_def intro: request_step_trans)
qed

text \<open>What the guard of the server lets through.\<close>

lemma create_commerce_server_sandbox:
  assumes "create_commerce_server senv spath access apath stripe port limits = Inr cfg"
  shows "ap_access cfg = access" "ac_environment access = Sandbox" "ap_stripe cfg = map_option fst stripe" "senv = Sandbox"
    "ap_limits cfg = (case limits of None \<Rightarrow> default_limits | Some l \<Rightarrow> l)"
  using assms by (auto simp: create_commerce_server_def reject_if_Inr)

end
