(* ===== verification/CommerceApiClaims.thy ===== *)
theory CommerceApiClaims
  imports CommerceApiLemmas StripeClaims AccessClaims
begin

section \<open>The commerce HTTP boundary: its guarantees\<close>

text \<open>
  The rate limiter decides as one that remembers every call; a request, whatever it is, keeps the
  invariant of the whole database and stays within the limits of its tenant; and an order is
  shown to nobody but its authorised owner.
\<close>

subsection \<open>The rate limiter\<close>




subsection \<open>A database for the witnesses\<close>

definition shop_key :: string where
  "shop_key = ''vsk_test_'' @ urlsafe (replicate 32 CHR ''r'')"

definition shop_token :: string where
  "shop_token = delivery_token card_access demo_tenant demo_oid 1"

definition shop_db :: stripe_db where
  "shop_db = card_store\<lparr>
     tenants := [\<lparr>t_tenant_id = demo_tenant, t_api_key_digest = api_digest card_access shop_key, t_state = Active,
       t_created_at = demo_at, t_updated_at = demo_at\<rparr>],
     quote_bindings := [\<lparr>qb_quote_id = demo_qid, qb_tenant_id = demo_tenant, qb_idempotency_digest = ''i'', qb_created_at = demo_at\<rparr>],
     order_bindings := [new_order_binding card_access demo_tenant demo_oid demo_qid ''2026-07-31T00:06:00Z'' demo_at]\<rparr>"

definition shop_config :: api_config where
  "shop_config = \<lparr>ap_limits = default_limits, ap_access = card_access, ap_stripe = Some card_config\<rparr>"

definition shop_world :: api_world where
  "shop_world = \<lparr>wd_ticks = int, wd_ticks_per_second = 10, wd_now = Aware 63918461160000000 0, wd_tables = plain_tables,
     wd_construct = (\<lambda>_ _ _. Inl ValueError), wd_lookup = card_api, wd_api = card_api, wd_clock = card_clock, wd_message = (\<lambda>_. [])\<rparr>"

definition shop_request :: http_request where
  "shop_request = \<lparr>rq_ip = ''127.0.0.1'', rq_target = ''/v1/commerce/orders/'' @ demo_oid @ ''/result'',
     rq_headers = [(''authorization'', ''Bearer '' @ shop_key), (''x-vouchspec-delivery-token'', shop_token)], rq_body = []\<rparr>"

lemma shop_tenant_ok: "require_active_tenant demo_tenant shop_db = Inr ()" "active_tenant demo_tenant shop_db"
  by (simp_all add: require_active_tenant_def demo_tenant_format find_tenant_def active_tenant_def shop_db_def)

lemma shop_ok: "system_ok card_access card_ed shop_db"
proof -
  have "store_ok Sandbox shop_db"
    by (subst store_ok_cong [of _ card_store]) (simp_all add: shop_db_def card_store_store_ok)
  moreover have "orders shop_db = [card_order]" "quotes shop_db = [demo_quote]" "order_history shop_db = order_history card_store"
    "tenants shop_db = [\<lparr>t_tenant_id = demo_tenant, t_api_key_digest = api_digest card_access shop_key, t_state = Active,
       t_created_at = demo_at, t_updated_at = demo_at\<rparr>]"
    "quote_bindings shop_db = [\<lparr>qb_quote_id = demo_qid, qb_tenant_id = demo_tenant, qb_idempotency_digest = ''i'', qb_created_at = demo_at\<rparr>]"
    "order_bindings shop_db = [new_order_binding card_access demo_tenant demo_oid demo_qid ''2026-07-31T00:06:00Z'' demo_at]"
    "pl_metadata shop_db = []" "pl_publications shop_db = []" "pl_status shop_db = []" "sp_events shop_db = []" "sp_reconciliations shop_db = []"
    by (simp_all add: shop_db_def card_store_def)
  moreover have "ac_environment card_access = Sandbox" "o_order_id card_order = demo_oid" "o_quote_id card_order = demo_qid" "q_quote_id demo_quote = demo_qid"
    by (simp_all add: card_access_def card_order_fields demo_quote_def)
  ultimately show ?thesis
    using demo_tenant_format
    by (simp add: system_ok_def paid_ok_def market_ok_def access_ok_def access_defs unique_on_def chain_ok_def status_ok_def
        prior_status_def webhooks_ok_def reconciliations_ok_def new_order_binding_def
        binding_ok_def token_ok_def owner_ok_def result_ok_def demo_deadline)
qed

lemma shop_key_text:
  "starts_with (key_prefix card_access) shop_key" "CHR '' '' \<notin> set shop_key"
proof -
  have "list_all is_token (urlsafe (replicate 32 CHR ''r''))" using urlsafe_32 [of "replicate 32 CHR ''r''"] by (simp add: re_class_def)
  moreover have "\<not> is_token CHR '' ''" by code_simp
  ultimately show "CHR '' '' \<notin> set shop_key" by (auto simp: shop_key_def list_all_iff)
qed (simp add: starts_with_def key_prefix_def card_access_def shop_key_def)

lemma shop_target:
  "urlsplit plain_tables (''/v1/commerce/orders/'' @ demo_oid @ ''/result'') =
     Inr \<lparr>up_scheme = [], up_netloc = [], up_path = ''/v1/commerce/orders/'' @ demo_oid @ ''/result'', up_query = [], up_fragment = []\<rparr>"
  by (simp add: urlsplit_def clean_url_def split_scheme_def split_netloc_def starts_with_def byte_of_def plain_tables_def)

lemma shop_target_parts:
  "py_len (''/v1/commerce/orders/'' @ demo_oid @ ''/result'') = 60"
  "list_ex (\<lambda>c. byte_of c < 32) (''/v1/commerce/orders/'' @ demo_oid @ ''/result'') = False"
  "route_parts (''/v1/commerce/orders/'' @ demo_oid @ ''/result'') = [''v1'', ''commerce'', ''orders'', demo_oid, ''result'']"
  by code_simp+

lemma shop_route: "route_of shop_world shop_request = Inr (''/v1/commerce/orders/'' @ demo_oid @ ''/result'')"
proof -
  have "rq_target shop_request = ''/v1/commerce/orders/'' @ demo_oid @ ''/result''" "wd_tables shop_world = plain_tables"
    by (simp_all add: shop_request_def shop_world_def)
  then show ?thesis unfolding route_of_def by (simp only: shop_target shop_target_parts) simp
qed

lemma shop_bearer: "bearer shop_request = Inr shop_key" "delivery_header shop_request = Inr shop_token"
proof -
  have "header_values ''authorization'' shop_request = [''Bearer '' @ shop_key]" "header_values ''x-vouchspec-delivery-token'' shop_request = [shop_token]"
    by (simp_all add: header_values_def shop_request_def)
  moreover have "starts_with ''Bearer '' (''Bearer '' @ shop_key)" by (simp add: starts_with_def)
  moreover have "length (filter (\<lambda>c. c = CHR '' '') (''Bearer '' @ shop_key)) = 1"
    using shop_key_text(2) by (simp add: filter_empty_conv) metis
  ultimately show "bearer shop_request = Inr shop_key" "delivery_header shop_request = Inr shop_token"
    by (simp_all add: bearer_def delivery_header_def single_header_def)
qed

text \<open>The same shop with a published result.\<close>

definition served_db :: stripe_db where
  "served_db = shop_db\<lparr>order_bindings :=
     [(new_order_binding card_access demo_tenant demo_oid demo_qid ''2026-07-31T00:06:00Z'' demo_at)\<lparr>ob_result := Some (''d'', ''envelope'')\<rparr>]\<rparr>"

lemma shop_authenticates: "authenticate_api_key card_access shop_key served_db = Inr demo_tenant"
proof -
  have "re_api_key shop_key" "py_len shop_key \<le> 96"
    using api_key_format [of "replicate 32 CHR ''r''" card_access] by (simp_all add: shop_key_def key_prefix_def card_access_def)
  with shop_key_text(1) show ?thesis by (simp add: authenticate_api_key_def Let_def served_db_def shop_db_def)
qed

lemma served_authorizes:
  "\<exists>z. authorize_order card_access demo_tenant demo_oid shop_token (wd_now shop_world) served_db = Inr z"
  "get_result card_access demo_tenant demo_oid shop_token (wd_now shop_world) served_db = Inr ''envelope''"
proof -
  have "active_tenant demo_tenant served_db" by (simp add: active_tenant_def served_db_def shop_db_def)
  then show auth: "\<exists>z. authorize_order card_access demo_tenant demo_oid shop_token (wd_now shop_world) served_db = Inr z"
    by (simp add: authorize_order_def Let_def served_db_def shop_world_def new_order_binding_def demo_deadline shop_token_def
        max_us_def max_ordinal_def day_us_def)
  have "order_bindings served_db = [(new_order_binding card_access demo_tenant demo_oid demo_qid ''2026-07-31T00:06:00Z'' demo_at)\<lparr>ob_result := Some (''d'', ''envelope'')\<rparr>]"
    by (simp add: served_db_def)
  with auth show "get_result card_access demo_tenant demo_oid shop_token (wd_now shop_world) served_db = Inr ''envelope''"
    by (auto simp: get_result_def new_order_binding_def)
qed

subsection \<open>Every request\<close>

text \<open>
  C36. Whatever request arrives, whatever the provider answers and whether the handler replies or
  fails: the database it leaves is reached by steps of the marketplace, the paid
  lifecycle and the webhook tables, keeps the invariant of all of them, and has lost no
  recorded provider event.
\<close>

theorem request_keeps_system:
  assumes "sandbox_config cfg" "system_ok (ap_access cfg) ed (snd s)" "serve cfg w verb rq s = (r, t)"
  shows "rtranclp (system_step (ap_access cfg) ed) (snd s) (snd t) \<and> system_ok (ap_access cfg) ed (snd t)
    \<and> prefix (event_keys (snd s)) (event_keys (snd t))"
proof -
  from serve_request_step [OF assms(1,3)] assms(2)
  have "rtranclp (system_step (ap_access cfg) ed) (snd s) (snd t)" "system_ok (ap_access cfg) ed (snd t)"
    by (simp_all add: request_step_def)
  with system_run_events [OF assms(2)] show ?thesis by blast
qed

definition health_request :: http_request where
  "health_request = \<lparr>rq_ip = ''127.0.0.1'', rq_target = ''/health'', rq_headers = [], rq_body = []\<rparr>"

lemma shop_sandbox: "sandbox_config shop_config" "ap_access shop_config = card_access"
  by (simp_all add: sandbox_config_def shop_config_def card_access_def card_config_def)

theorem request_keeps_system_witness:
  "\<exists>r t. serve shop_config shop_world ''POST'' shop_request ([], shop_db) = (r, t) \<and> system_ok card_access card_ed (snd t)"
proof -
  obtain r t where run: "serve shop_config shop_world ''POST'' shop_request ([], shop_db) = (r, t)" by (rule prod.exhaust)
  have "system_ok (ap_access shop_config) card_ed (snd ([] :: limiter, shop_db))" using shop_ok shop_sandbox(2) by simp
  from request_keeps_system [OF shop_sandbox(1) this run] run show ?thesis using shop_sandbox(2) by auto
qed

text \<open>
  C37. However many requests are served, one after the other, no tenant ever owns more quotes
  or more orders than the limits allow, if none did at the start.
\<close>

theorem tenant_resources_bounded:
  assumes "sandbox_config cfg" "system_ok (ap_access cfg) ed (snd s)"
    and "rtranclp (\<lambda>p q. \<exists>w verb rq r. serve cfg w verb rq p = (r, q)) s t"
    and "\<forall>tid. int (quotes_of tid (snd s)) \<le> al_max_quotes_per_tenant (ap_limits cfg)
      \<and> int (orders_of tid (snd s)) \<le> al_max_orders_per_tenant (ap_limits cfg)"
  shows "int (quotes_of tid (snd t)) \<le> al_max_quotes_per_tenant (ap_limits cfg)
      \<and> int (orders_of tid (snd t)) \<le> al_max_orders_per_tenant (ap_limits cfg)"
proof -
  have "request_step (ap_access cfg) ed (ap_limits cfg) (snd s) (snd t)"
    using assms(3)
  proof induction
    case (step t u)
    from step(2) obtain w verb rq r where "serve cfg w verb rq t = (r, u)" by blast
    from request_step_trans [OF step(3) serve_request_step [OF assms(1) this]] show ?case .
  qed simp
  with assms(2) have "growth (ap_limits cfg) (snd s) (snd t)" by (simp add: request_step_def)
  then show ?thesis using assms(4) unfolding growth_def by (smt (verit))
qed

theorem tenant_resources_bounded_witness:
  "\<exists>r t. serve shop_config shop_world ''POST'' shop_request ([], shop_db) = (r, t) \<and> orders_of demo_tenant (snd t) \<le> 50"
proof -
  obtain r t where run: "serve shop_config shop_world ''POST'' shop_request ([], shop_db) = (r, t)" by (rule prod.exhaust)
  have few: "\<forall>tid. int (quotes_of tid (snd ([] :: limiter, shop_db))) \<le> al_max_quotes_per_tenant (ap_limits shop_config)
      \<and> int (orders_of tid (snd ([] :: limiter, shop_db))) \<le> al_max_orders_per_tenant (ap_limits shop_config)"
    by (simp add: quotes_of_def orders_of_def shop_db_def shop_config_def default_limits_def)
  have ok: "system_ok (ap_access shop_config) card_ed (snd ([] :: limiter, shop_db))" using shop_ok shop_sandbox(2) by simp
  have "rtranclp (\<lambda>p q. \<exists>w verb rq r. serve shop_config w verb rq p = (r, q)) ([], shop_db) t" using run by blast
  from tenant_resources_bounded [OF shop_sandbox(1) ok this few, of demo_tenant] run
  show ?thesis by (auto simp: shop_config_def default_limits_def)
qed

subsection \<open>Reading an order\<close>

lemma send_status: "send status payload extra = Inr reply \<Longrightarrow> rp_status reply = status"
  by (auto simp: send_def send_bytes_def Let_def reject_if_Inr)

lemma error_status: "handle_error al message code = Inr reply \<Longrightarrow> rp_status reply \<noteq> 200"
  by (simp only: handle_error_def split: if_split_asm; drule send_status; simp)

lemma answer_200:
  assumes "answer cfg w m s = (Inr reply, t)" "rp_status reply = 200"
  shows "m s = (Inr reply, t)"
proof (cases "m s")
  case (Pair r u)
  show ?thesis
  proof (cases r)
    case (Inl e)
    with Pair assms show ?thesis
      by (cases e) (auto simp: answer_def handle_def give_def dest!: error_status send_status)
  qed (use Pair assms in \<open>simp add: answer_def handle_def\<close>)
qed

lemma limit_check_Inr: "limit_check cfg w key limit i s = (Inr x, t) \<Longrightarrow> snd t = snd s"
  by (auto simp: limit_check_def split: prod.splits if_splits)

lemma on_db_look_Inr: "on_db (look f) s = (Inr x, t) \<longleftrightarrow> f (snd s) = Inr x \<and> t = s"
  by (auto simp: on_db_def look_def)

lemma authenticate_Inr:
  assumes "authenticate cfg w rq s = (Inr tenant, t)"
  obtains key where "bearer rq = Inr key" "authenticate_api_key (ap_access cfg) key (snd s) = Inr tenant" "snd t = snd s"
  using assms by (auto simp: authenticate_def prog_then_Inr give_Inr on_db_look_Inr dest!: limit_check_Inr)

lemma bearer_Inr:
  assumes "bearer rq = Inr key" shows "header_values ''authorization'' rq = [''Bearer '' @ key]"
proof -
  from assms obtain h where h: "header_values ''authorization'' rq = [h]" "starts_with ''Bearer '' h" "key = drop 7 h"
    by (auto simp: bearer_def reject_if_Inr split: list.splits)
  have "take 7 h = ''Bearer ''" using h(2) by (simp add: starts_with_def eval_nat_numeral)
  then have "h = ''Bearer '' @ key" using append_take_drop_id [of 7 h] h(3) by (simp only:)
  with h(1) show ?thesis by simp
qed

lemma single_header_Inr: "single_header name e rq = Inr h \<Longrightarrow> header_values name rq = [h]"
  by (auto simp: single_header_def split: list.splits)

lemma take_snoc: "length parts = Suc n \<Longrightarrow> take n parts @ [parts ! n] = parts"
  by (subst take_Suc_conv_app_nth [symmetric]) simp_all

lemma order_parts:
  assumes "take 3 parts = xs"
  shows "length parts = 4 \<Longrightarrow> parts = xs @ [parts ! 3]" "length parts = 5 \<Longrightarrow> parts = xs @ [parts ! 3, parts ! 4]"
proof -
  show "parts = xs @ [parts ! 3]" if "length parts = 4"
    using take_snoc [of parts 3] that assms by simp
  show "parts = xs @ [parts ! 3, parts ! 4]" if "length parts = 5"
  proof -
    have "take 4 parts = take 3 (take 4 parts) @ [take 4 parts ! 3]" by (rule take_snoc [symmetric]) (use that in simp)
    then have "take 4 parts = xs @ [parts ! 3]" using assms by simp
    moreover have "parts = take 4 parts @ [parts ! 4]" by (rule take_snoc [symmetric]) (use that in simp)
    ultimately show ?thesis by (metis append.assoc append_Cons append_Nil)
  qed
qed

lemma get_order_route_200:
  assumes "get_order_route cfg w rq tenant parts s = (Inr reply, t)" "rp_status reply = 200"
  obtains token z v where "delivery_header rq = Inr token" "t = s" "parts = [''v1'', ''commerce'', ''orders'', parts ! 3]"
      "authorize_order (ap_access cfg) tenant (parts ! 3) token (wd_now w) (snd s) = Inr z"
      "get_order Sandbox (parts ! 3) (snd s) = Inr v" "send 200 (JObj [(''order'', public_order_json v)]) [] = Inr reply"
    | token z where "delivery_header rq = Inr token" "t = s" "parts = [''v1'', ''commerce'', ''orders'', parts ! 3, ''result'']"
      "authorize_order (ap_access cfg) tenant (parts ! 3) token (wd_now w) (snd s) = Inr z"
      "get_result (ap_access cfg) tenant (parts ! 3) token (wd_now w) (snd s) = Inr (rp_body reply)"
proof -
  have lost: "not_found_route \<noteq> Inr reply" using assms(2) by (auto simp: not_found_route_def dest: send_status)
  note run = assms(1) [unfolded get_order_route_def Let_def]
  have parts: "length parts \<in> {4, 5}" "take 3 parts = [''v1'', ''commerce'', ''orders'']"
    using run lost by (auto simp: give_Inr split: if_splits)
  obtain token z where auth: "delivery_header rq = Inr token" "authorize_order (ap_access cfg) tenant (parts ! 3) token (wd_now w) (snd s) = Inr z"
    and rest: "(if length parts = 4 then
          prog_then (on_db (look (get_order Sandbox (parts ! 3)))) (\<lambda>v. give (send 200 (JObj [(''order'', public_order_json v)]) []))
        else if parts ! 4 = ''result'' then
          prog_then (on_db (look (get_result (ap_access cfg) tenant (parts ! 3) token (wd_now w)))) (\<lambda>result.
          give (Inr (send_bytes 200 result ''application/vnd.dsse.envelope.v1+json''
            [(''ETag'', quoted (chr_of 34) (''sha256:'' @ sha256_hex result))])))
        else give not_found_route) s = (Inr reply, t)"
    using run parts by (auto simp: prog_then_Inr give_Inr on_db_look_Inr)
  show thesis
  proof (cases "length parts = 4")
    case True
    from order_parts(1) [OF parts(2) this] have "parts = [''v1'', ''commerce'', ''orders'', parts ! 3]" by simp
    with True rest auth that(1) show thesis by (auto simp: prog_then_Inr give_Inr on_db_look_Inr)
  next
    case False
    have result: "parts ! 4 = ''result''" using False rest lost by (auto simp: give_Inr split: if_splits)
    have "length parts = 5" using parts(1) False by simp
    from order_parts(2) [OF parts(2) this] result have "parts = [''v1'', ''commerce'', ''orders'', parts ! 3, ''result'']" by simp
    moreover have "t = s" "get_result (ap_access cfg) tenant (parts ! 3) token (wd_now w) (snd s) = Inr (rp_body reply)"
      using rest False result by (auto simp: prog_then_Inr give_Inr on_db_look_Inr send_bytes_def)
    ultimately show thesis using auth that(2) by blast
  qed
qed

text \<open>
  C38. A successful reply to a GET beside the health check was given to the tenant named by the
  one API key of the request, authorised for the order of the path by the one delivery
  token; it is that order's public view or exactly its published result, and the
  database is left alone.
\<close>

theorem order_reply_authorized:
  assumes "do_GET cfg w rq s = (Inr reply, t)" "rp_status reply = 200" "route_of w rq = Inr route" "route \<noteq> ''/health''"
  shows "snd t = snd s \<and> (\<exists>key tenant oid token z.
     header_values ''authorization'' rq = [''Bearer '' @ key] \<and> authenticate_api_key (ap_access cfg) key (snd s) = Inr tenant
   \<and> header_values ''x-vouchspec-delivery-token'' rq = [token]
   \<and> authorize_order (ap_access cfg) tenant oid token (wd_now w) (snd s) = Inr z
   \<and> (route_parts route = [''v1'', ''commerce'', ''orders'', oid]
        \<and> (\<exists>v. get_order Sandbox oid (snd s) = Inr v \<and> rp_body reply = dumps (JObj [(''order'', public_order_json v)]) @ [chr_of 10])
      \<or> route_parts route = [''v1'', ''commerce'', ''orders'', oid, ''result'']
        \<and> get_result (ap_access cfg) tenant oid token (wd_now w) (snd s) = Inr (rp_body reply)))"
proof -
  from answer_200 [OF assms(1) [unfolded do_GET_def] assms(2)] assms(3,4)
  obtain s1 s2 tenant where lim: "apply_public_limits cfg w ''api'' rq s = (Inr (), s1)"
    and auth: "authenticate cfg w rq s1 = (Inr tenant, s2)" and order: "get_order_route cfg w rq tenant (route_parts route) s2 = (Inr reply, t)"
    by (auto simp: prog_then_Inr give_Inr)
  have "snd s1 = snd s" using lim by (auto simp: apply_public_limits_def prog_then_Inr dest!: limit_check_Inr)
  moreover obtain key where key: "bearer rq = Inr key" "authenticate_api_key (ap_access cfg) key (snd s1) = Inr tenant" "snd s2 = snd s1"
    using auth by (rule authenticate_Inr)
  ultimately have db: "snd s2 = snd s" "authenticate_api_key (ap_access cfg) key (snd s) = Inr tenant" by simp_all
  have token: "header_values ''x-vouchspec-delivery-token'' rq = [token]" if "delivery_header rq = Inr token" for token
    using that by (simp add: delivery_header_def single_header_Inr)
  have body: "rp_body reply = dumps p @ [chr_of 10]" if "send 200 p [] = Inr reply" for p
    using that by (auto simp: send_def send_bytes_def Let_def reject_if_Inr)
  from order assms(2) show ?thesis
  proof (cases rule: get_order_route_200)
    case (1 token z v)
    have "\<exists>v. get_order Sandbox (route_parts route ! 3) (snd s) = Inr v
        \<and> rp_body reply = dumps (JObj [(''order'', public_order_json v)]) @ [chr_of 10]"
      using 1(5) body [OF 1(6)] db(1) by auto
    with 1(2-4) db show ?thesis using bearer_Inr [OF key(1)] token [OF 1(1)] by auto
  next
    case (2 token z)
    with db show ?thesis using bearer_Inr [OF key(1)] token [OF 2(1)] by auto
  qed
qed

theorem order_reply_authorized_witness:
  "\<exists>reply t. do_GET shop_config shop_world shop_request ([], served_db) = (Inr reply, t) \<and> rp_status reply = 200
    \<and> rp_body reply = ''envelope'' \<and> snd t = served_db"
proof -
  define reply where "reply = send_bytes 200 ''envelope'' ''application/vnd.dsse.envelope.v1+json''
    [(''ETag'', quoted (chr_of 34) (''sha256:'' @ sha256_hex ''envelope''))]"
  obtain z where z: "authorize_order card_access demo_tenant demo_oid shop_token (wd_now shop_world) served_db = Inr z"
    using served_authorizes(1) by blast
  have cfg: "ap_access shop_config = card_access" "al_window_seconds (ap_limits shop_config) * wd_ticks_per_second shop_world = 600"
    "al_global_requests_per_window (ap_limits shop_config) = 240" "al_ip_requests_per_window (ap_limits shop_config) = 60"
    "al_tenant_requests_per_window (ap_limits shop_config) = 30" "wd_ticks shop_world = int"
    by (simp_all add: shop_config_def default_limits_def shop_world_def)
  let ?m = "[(''api:global'', [0]), (''api:ip:127.0.0.1'', [1])]"
  let ?m' = "[(''api:global'', [0]), (''api:ip:127.0.0.1'', [1]), (''tenant:'' @ demo_tenant, [2])]"
  have "rq_ip shop_request = ''127.0.0.1''" by (simp add: shop_request_def)
  then have lim: "apply_public_limits shop_config shop_world ''api'' shop_request ([], served_db) = (Inr (), (?m, served_db))"
    by (simp add: apply_public_limits_def limit_check_def cfg allow_def events_of_def prog_then_def)
  have auth: "authenticate shop_config shop_world shop_request (?m, served_db) = (Inr demo_tenant, (?m', served_db))"
    by (simp add: authenticate_def limit_check_def cfg allow_def events_of_def prog_then_def shop_bearer give_def on_db_def look_def shop_authenticates)
  have "get_order_route shop_config shop_world shop_request demo_tenant [''v1'', ''commerce'', ''orders'', demo_oid, ''result''] (?m', served_db)
      = (Inr reply, (?m', served_db))"
    using z served_authorizes(2)
    by (simp add: get_order_route_def prog_then_def give_def shop_bearer on_db_def look_def cfg reply_def Let_def)
  then have run: "do_GET shop_config shop_world shop_request ([], served_db) = (Inr reply, (?m', served_db))"
    using lim auth by (simp add: do_GET_def answer_def handle_def prog_then_def give_def shop_route shop_target_parts(3) [simplified])
  have ok: "rp_status reply = 200" "rp_body reply = ''envelope''" by (simp_all add: reply_def send_bytes_def)
  from order_reply_authorized [OF run ok(1) shop_route] have "snd (?m', served_db) = snd ([] :: limiter, served_db)" by simp
  with run ok show ?thesis by auto
qed

end
