(* ===== verification/Host.thy ===== *)
theory Host
  imports Url Signing Commerce
begin

section \<open>The host of the Stage B tools\<close>

text \<open>
  What \<^verbatim>\<open>stage_b.py\<close>, \<^verbatim>\<open>hosted_worker.py\<close> and \<^verbatim>\<open>signing.py\<close> ask the operating
  system: facts about paths (the record \<open>file_facts\<close>, a parameter), and the outcome of a bounded
  subprocess.  A path is its text.  Then the two text formats they share, image references and
  the ports of URLs.
\<close>

subsection \<open>Files\<close>

text \<open>\<open>ff_size\<close> is what \<open>lstat\<close> reports, \<open>None\<close> when it raises an \<open>OSError\<close>.\<close>

record file_facts =
  ff_size :: "string \<Rightarrow> int option"
  ff_symlink :: "string \<Rightarrow> bool"
  ff_reparse :: "string \<Rightarrow> bool"
  ff_regular :: "string \<Rightarrow> bool"
  ff_exists :: "string \<Rightarrow> bool"
  ff_resolve :: "string \<Rightarrow> string res"
  ff_read :: "string \<Rightarrow> string res"

definition require_safe_regular_file :: "file_facts \<Rightarrow> string \<Rightarrow> unit res" where
  "require_safe_regular_file ff p =
     (case ff_size ff p of
        None \<Rightarrow> Inl bad_key
      | Some _ \<Rightarrow> reject_if (ff_symlink ff p \<or> ff_reparse ff p \<or> \<not> ff_regular ff p) bad_key (Inr ()))"

definition load_public_jwk :: "file_facts \<Rightarrow> string \<Rightarrow> json res" where
  "load_public_jwk ff p =
     and_then (require_safe_regular_file ff p) (\<lambda>_.
     and_then (ff_read ff p) (\<lambda>raw.
     reject_if (length raw > 16384) bad_key
    (and_then (strict_json ''invalid_key'' raw) (\<lambda>v.
     and_then (jwk_thumbprint v) (\<lambda>_. Inr v)))))"

text \<open>\<open>Path.name\<close>, \<open>Path.parent\<close> and \<open>p / name\<close>.\<close>

definition path_name :: "string \<Rightarrow> string" where
  "path_name p = (if posix_tail p = [] then [] else last (posix_tail p))"

definition path_parent :: "string \<Rightarrow> string" where
  "path_parent p = as_posix (posix_root p @ join_with CHR ''/'' (butlast (posix_tail p)))"

definition path_join :: "string \<Rightarrow> string \<Rightarrow> string" where
  "path_join p name = (if p = ''.'' then name else if p \<noteq> [] \<and> last p = CHR ''/'' then p @ name else p @ ''/'' @ name)"

subsection \<open>Bounded subprocesses\<close>

text \<open>
  How \<open>_run_bounded\<close> sees the process end: not started, killed at the deadline, killed because a
  stream passed its limit, or with an exit status and what it wrote.
\<close>

datatype process_outcome =
    NotStarted
  | TimedOut
  | Overflowed
  | Exited int string string

definition run_bounded :: "process_outcome \<Rightarrow> string \<Rightarrow> (string \<Rightarrow> string option) \<Rightarrow> string res" where
  "run_bounded outcome code parser =
     (case outcome of
        Exited status out err \<Rightarrow>
          if status \<noteq> 0 then Inl (Rejected (case parser err of Some c \<Rightarrow> if c = [] then code else c | None \<Rightarrow> code)) else Inr out
      | _ \<Rightarrow> Inl (Rejected code))"

subsection \<open>Text formats\<close>

text \<open>\<open>sha256:[0-9a-f]{64}\<close>, alone or after a name and an at sign.\<close>

definition re_sha256 :: "string \<Rightarrow> bool" where
  "re_sha256 = re_prefix ''sha256:'' (re_class is_hex 64 64)"

definition re_image_reference :: "string \<Rightarrow> bool" where
  "re_image_reference s \<longleftrightarrow> re_sha256 s
     \<or> (let n = length s - 72 in 72 < length s \<and> is_alnum (hd s)
          \<and> re_class (\<lambda>c. is_alnum c \<or> c \<in> set ''._/:+-'') 1 255 (take n s)
          \<and> re_prefix ''@'' re_sha256 (drop n s))"

text \<open>\<open>SplitResult.port\<close>\<close>

definition port_text :: "url_parts \<Rightarrow> string" where
  "port_text p =
     (case partition_at CHR ''['' (host_part p) of (_, bracket, inside) \<Rightarrow>
        snd (snd (partition_at CHR '':'' (if bracket then snd (snd (partition_at CHR '']'' inside)) else host_part p))))"

definition url_port :: "url_parts \<Rightarrow> nat option res" where
  "url_port p =
     (let t = port_text p in
      if t = [] then Inr None
      else reject_if (\<not> list_all is_digit t) ValueError
          (reject_if (digits_val t > 65535) ValueError (Inr (Some (digits_val t)))))"

text \<open>The lower-case text of a version 4 UUID.\<close>

definition re_uuid4 :: "string \<Rightarrow> bool" where
  "re_uuid4 s \<longleftrightarrow> length s = 36 \<and> s ! 8 = CHR ''-'' \<and> s ! 13 = CHR ''-'' \<and> s ! 18 = CHR ''-'' \<and> s ! 23 = CHR ''-''
     \<and> s ! 14 = CHR ''4'' \<and> s ! 19 \<in> set ''89ab''
     \<and> list_all is_hex (filter (\<lambda>c. c \<noteq> CHR ''-'') s) \<and> length (filter (\<lambda>c. c \<noteq> CHR ''-'') s) = 32"

end
