(* ===== verification/HostedWorker.thy ===== *)
theory HostedWorker
  imports Host Effects Catalog
begin

section \<open>The hosted fulfilment worker\<close>

text \<open>
  \<^verbatim>\<open>hosted_worker.py\<close>: one claimed job, its frozen source, the two containers, and the report
  to the API.  The state of a program is the list of requests it has sent, each with its URL and
  body, in order; \<open>api\<close> gives the API's answer to the last of them and may depend on all.  The host
  (file system, Docker, Git) is the parameter \<open>worker_host\<close>: the outcome of each thing the worker
  asks of it.
\<close>

definition WORKER_VERSION :: string where "WORKER_VERSION = ''vouchspec-stage-b-worker-v1''"
definition MAX_API_RESPONSE_BYTES :: nat where "MAX_API_RESPONSE_BYTES = 1000000"
definition MAX_WORKER_ENVELOPE_BYTES :: nat where "MAX_WORKER_ENVELOPE_BYTES = 1500000"

definition re_worker_token :: "string \<Rightarrow> bool" where
  "re_worker_token = re_prefix ''vsw_test_'' (re_class is_token 43 43)"

definition re_worker_id :: "string \<Rightarrow> bool" where
  "re_worker_id s \<longleftrightarrow> re_class (\<lambda>c. is_lower c \<or> is_digit c \<or> c \<in> set ''._-'') 8 64 s \<and> (is_lower (hd s) \<or> is_digit (hd s))"

definition re_hosted_order_id :: "string \<Rightarrow> bool" where
  "re_hosted_order_id = re_prefix ''ord_'' (re_class is_hex 24 24)"

definition re_error_code :: "string \<Rightarrow> bool" where
  "re_error_code s \<longleftrightarrow> re_class (\<lambda>c. is_lower c \<or> is_digit c \<or> c = CHR ''_'') 3 100 s \<and> is_lower (hd s)"

abbreviation bad_configuration :: exn where "bad_configuration \<equiv> Rejected ''worker_configuration_invalid''"
abbreviation bad_claim :: exn where "bad_claim \<equiv> Rejected ''worker_claim_invalid''"
abbreviation bad_answer :: exn where "bad_answer \<equiv> Rejected ''worker_api_invalid''"
abbreviation bad_completion :: exn where "bad_completion \<equiv> Rejected ''worker_completion_invalid''"
abbreviation bad_signer :: exn where "bad_signer \<equiv> Rejected ''isolated_signer_failed''"

subsection \<open>Configuration\<close>

record hosted_config =
  hc_api_base_url :: string
  hc_worker_token :: string
  hc_worker_id :: string
  hc_image_reference :: string
  hc_fetcher_image_reference :: string
  hc_private_key :: string
  hc_passphrase :: string
  hc_public_key :: string
  hc_work_root :: string
  hc_preclaimed_job :: "string option"

definition normalize_api_base_url :: "unicode_tables \<Rightarrow> string \<Rightarrow> string res" where
  "normalize_api_base_url u v =
     and_then (urlsplit u v) (\<lambda>p.
     case hostname u p of
       None \<Rightarrow> Inl bad_configuration
     | Some host \<Rightarrow>
         reject_if (up_scheme p \<noteq> ''https'' \<or> host = [] \<or> has_userinfo p \<or> up_query p \<noteq> [] \<or> up_fragment p \<noteq> []
           \<or> up_path p \<notin> {[], ''/''}) bad_configuration
        (and_then (url_port p) (\<lambda>port.
         reject_if (port \<notin> {None, Some 443}) bad_configuration (Inr (''https://'' @ lower u host)))))"

definition check_secret_file :: "file_facts \<Rightarrow> string \<Rightarrow> unit res" where
  "check_secret_file ff p =
     (case ff_size ff p of
        None \<Rightarrow> Inl bad_configuration
      | Some n \<Rightarrow> reject_if (ff_symlink ff p \<or> \<not> ff_regular ff p \<or> n \<le> 0) bad_configuration (Inr ()))"

definition validate_config :: "file_facts \<Rightarrow> hosted_config \<Rightarrow> unit res" where
  "validate_config ff cfg =
     reject_if (\<not> re_worker_token (hc_worker_token cfg)) bad_configuration
    (reject_if (\<not> re_worker_id (hc_worker_id cfg)) bad_configuration
    (reject_if (\<not> re_image_reference (hc_image_reference cfg)) bad_configuration
    (reject_if (\<not> re_image_reference (hc_fetcher_image_reference cfg)) bad_configuration
    (reject_if (hc_fetcher_image_reference cfg = hc_image_reference cfg) bad_configuration
    (and_then (fold_res (\<lambda>p _. check_secret_file ff p) [hc_private_key cfg, hc_passphrase cfg, hc_public_key cfg] ()) (\<lambda>_.
     and_then (ff_resolve ff (path_parent (hc_private_key cfg))) (\<lambda>a.
     and_then (ff_resolve ff (path_parent (hc_passphrase cfg))) (\<lambda>b.
     reject_if (a \<noteq> b) bad_configuration
    (reject_if (ff_exists ff (hc_work_root cfg) \<or> ff_symlink ff (hc_work_root cfg)) bad_configuration
    (case hc_preclaimed_job cfg of
       None \<Rightarrow> Inr ()
     | Some p \<Rightarrow>
         (case ff_size ff p of
            None \<Rightarrow> Inl bad_configuration
          | Some n \<Rightarrow> reject_if (ff_symlink ff p \<or> \<not> ff_regular ff p \<or> \<not> (1 \<le> n \<and> n \<le> int MAX_API_RESPONSE_BYTES))
              bad_configuration (Inr ()))))))))))))"

definition env_text :: "(string \<Rightarrow> string option) \<Rightarrow> string \<Rightarrow> string" where
  "env_text env name = (case env name of None \<Rightarrow> [] | Some v \<Rightarrow> py_strip v)"

definition from_environment :: "unicode_tables \<Rightarrow> file_facts \<Rightarrow> (string \<Rightarrow> string option) \<Rightarrow> hosted_config res" where
  "from_environment u ff env =
     (let required = map (env_text env) [''VOUCHSPEC_API_BASE_URL'', ''VOUCHSPEC_WORKER_TOKEN'', ''VOUCHSPEC_WORKER_IMAGE'',
        ''VOUCHSPEC_FETCHER_IMAGE'', ''VOUCHSPEC_ISSUER_PRIVATE_KEY'', ''VOUCHSPEC_ISSUER_PASSPHRASE'',
        ''VOUCHSPEC_ISSUER_PUBLIC_KEY'', ''VOUCHSPEC_WORK_ROOT'']
      in reject_if ([] \<in> set required) bad_configuration
        (and_then (normalize_api_base_url u (required ! 0)) (\<lambda>base.
         let cfg = \<lparr>hc_api_base_url = base, hc_worker_token = required ! 1,
           hc_worker_id = py_strip (case env ''VOUCHSPEC_WORKER_ID'' of None \<Rightarrow> ''github-actions-stage-b'' | Some v \<Rightarrow> v),
           hc_image_reference = required ! 2, hc_fetcher_image_reference = required ! 3, hc_private_key = required ! 4,
           hc_passphrase = required ! 5, hc_public_key = required ! 6, hc_work_root = required ! 7,
           hc_preclaimed_job = (if env_text env ''VOUCHSPEC_PRECLAIMED_JOB'' = [] then None else env ''VOUCHSPEC_PRECLAIMED_JOB'')\<rparr>
         in and_then (validate_config ff cfg) (\<lambda>_. Inr cfg))))"

subsection \<open>Talking to the API\<close>

datatype http_answer =
    Answered int string
  | Refused int
  | Unreachable
  | Crashed exn

type_synonym sent = "(string \<times> string) list"

definition api_rejected :: "int \<Rightarrow> exn" where
  "api_rejected status = (if status = 429 \<or> status \<ge> 500 then Retryable ''worker_api_rejected'' else Rejected ''worker_api_rejected'')"

definition read_answer :: "int list \<Rightarrow> http_answer \<Rightarrow> json option res" where
  "read_answer accepted answer =
     (case answer of
        Refused status \<Rightarrow> Inl (api_rejected status)
      | Unreachable \<Rightarrow> Inl (Retryable ''worker_api_unreachable'')
      | Crashed e \<Rightarrow> Inl e
      | Answered status body \<Rightarrow>
          reject_if (status \<notin> set accepted) (api_rejected status)
         (let raw = take (MAX_API_RESPONSE_BYTES + 1) body
          in reject_if (length raw > MAX_API_RESPONSE_BYTES) bad_answer
            (if status = 204 then reject_if (raw \<noteq> []) bad_answer (Inr None)
             else reject_if (\<not> utf8_ok raw) bad_answer
                 (case load_strict_commerce_json raw of
                    Inr v \<Rightarrow> Inr (Some v)
                  | Inl (Rejected _) \<Rightarrow> Inl bad_answer
                  | Inl e \<Rightarrow> Inl e))))"

definition post_json ::
  "(string \<Rightarrow> string) \<Rightarrow> (sent \<Rightarrow> http_answer) \<Rightarrow> hosted_config \<Rightarrow> string \<Rightarrow> json \<Rightarrow> int list \<Rightarrow> (sent, json option) prog" where
  "post_json fl api cfg path v accepted s =
     (case deterministic_json fl v of
        Inl e \<Rightarrow> (Inl e, s)
      | Inr body \<Rightarrow> (let t = s @ [(hc_api_base_url cfg @ path, body)] in (read_answer accepted (api t), t)))"

definition worker_object :: "exn \<Rightarrow> string list \<Rightarrow> json \<Rightarrow> (string \<times> json) list res" where
  "worker_object e keys v = (case v of JObj kvs \<Rightarrow> reject_if (\<not> has_keys keys kvs) e (Inr kvs) | _ \<Rightarrow> Inl e)"

subsection \<open>Claiming a job\<close>

record hosted_job =
  hj_order_id :: string
  hj_lease_token :: string
  hj_attempt :: int
  hj_request_digest :: string
  hj_request :: fresh_request
  hj_paid_at :: string
  hj_claimed_at :: string

text \<open>\<open>value.replace("Z", "+00:00")\<close>\<close>

definition replace_z :: "string \<Rightarrow> string" where
  "replace_z s = concat (map (\<lambda>c. if c = CHR ''Z'' then ''+00:00'' else [c]) s)"

definition claim_time :: "json \<Rightarrow> pydatetime res" where
  "claim_time v = (case v of JStr s \<Rightarrow> fromisoformat (replace_z s) | _ \<Rightarrow> Inl TypeError)"

definition lease_ok :: "json \<Rightarrow> bool" where
  "lease_ok v = str_matches (\<lambda>s. re_uuid4 (map ascii_lower s)) v"

definition parse_claim :: "(string \<Rightarrow> string) \<Rightarrow> json \<Rightarrow> hosted_job res" where
  "parse_claim fl v =
     and_then (worker_object bad_claim [''worker_version'', ''lease_seconds'', ''job''] v) (\<lambda>response.
     and_then (worker_object bad_claim [''order_id'', ''lease_token'', ''attempt'', ''request_digest'', ''request'', ''paid_at'', ''claimed_at'']
       (jget_null response ''job'')) (\<lambda>job.
     case (claim_time (jget_null job ''paid_at''), claim_time (jget_null job ''claimed_at''),
           parse_fresh_validation_request (jget_null job ''request'')) of
       (Inr paid, Inr claimed, Inr request) \<Rightarrow>
         reject_if (jget_null response ''worker_version'' \<noteq> JStr WORKER_VERSION
           \<or> \<not> equals_count fl (jget_null response ''lease_seconds'') 1200
           \<or> \<not> str_matches re_hosted_order_id (jget_null job ''order_id'')
           \<or> \<not> lease_ok (jget_null job ''lease_token'')
           \<or> \<not> bounded_int 1 3 (jget_null job ''attempt'')
           \<or> \<not> str_matches re_sha256 (jget_null job ''request_digest'')
           \<or> canon (jget_null job ''request'') \<noteq> canon (request_json request)
           \<or> is_naive paid \<or> is_naive claimed) bad_claim
          (Inr \<lparr>hj_order_id = the_str (jget_null job ''order_id''), hj_lease_token = the_str (jget_null job ''lease_token''),
            hj_attempt = the_int (jget_null job ''attempt''), hj_request_digest = the_str (jget_null job ''request_digest''),
            hj_request = request, hj_paid_at = the_str (jget_null job ''paid_at''), hj_claimed_at = the_str (jget_null job ''claimed_at'')\<rparr>)
     | _ \<Rightarrow> Inl bad_claim))"

definition claim :: "(string \<Rightarrow> string) \<Rightarrow> (sent \<Rightarrow> http_answer) \<Rightarrow> hosted_config \<Rightarrow> (sent, hosted_job option) prog" where
  "claim fl api cfg =
     prog_then (post_json fl api cfg ''/api/vouchspec/v1/internal/fulfillment/claim'' (jstr_obj [(''worker_version'', WORKER_VERSION)]) [200, 204])
       (\<lambda>v. case v of None \<Rightarrow> give (Inr None) | Some j \<Rightarrow> give (and_then (parse_claim fl j) (\<lambda>job. Inr (Some job))))"

definition load_preclaimed_job :: "(string \<Rightarrow> string) \<Rightarrow> file_facts \<Rightarrow> string \<Rightarrow> hosted_job res" where
  "load_preclaimed_job fl ff p =
     (case ff_read ff p of
        Inl e \<Rightarrow> Inl (if e = OSError then bad_claim else e)
      | Inr raw \<Rightarrow>
          reject_if (\<not> utf8_ok raw) bad_claim
         (case load_strict_commerce_json raw of
            Inr v \<Rightarrow> parse_claim fl v
          | Inl e \<Rightarrow> Inl (if is_input_rejected e then bad_claim else e)))"

subsection \<open>The signing container\<close>

record worker_host =
  wh_files :: file_facts
  wh_make_root :: "unit res"
  wh_write :: "string \<Rightarrow> string \<Rightarrow> unit res"
  wh_freeze :: "fresh_request \<Rightarrow> (string \<times> (string \<times> json) list) res"
  wh_inspect :: "string \<Rightarrow> string \<Rightarrow> unit res"
  wh_posix :: bool
  wh_uid_gid :: string
  wh_make_signed :: "string \<Rightarrow> unit res"
  wh_run :: "string list \<Rightarrow> process_outcome"
  wh_signer_code :: "string \<Rightarrow> string option"

definition mount :: "file_facts \<Rightarrow> string \<Rightarrow> string \<Rightarrow> bool \<Rightarrow> string res" where
  "mount ff src target readonly =
     and_then (ff_resolve ff src) (\<lambda>p.
     Inr (''type=bind,src='' @ p @ '',dst='' @ target @ (if readonly then '',readonly'' else [])))"

definition build_no_egress_signer_command ::
  "file_facts \<Rightarrow> hosted_config \<Rightarrow> string \<Rightarrow> string \<Rightarrow> string \<Rightarrow> string \<Rightarrow> string list res" where
  "build_no_egress_signer_command ff cfg frozen worker_output signed_output uid_gid =
     and_then (mount ff frozen ''/frozen'' True) (\<lambda>m1.
     and_then (mount ff worker_output ''/worker-output'' True) (\<lambda>m2.
     and_then (mount ff (path_parent (hc_private_key cfg)) ''/secrets'' True) (\<lambda>m3.
     and_then (mount ff signed_output ''/signed'' False) (\<lambda>m4.
     Inr ([''docker'', ''run'', ''--rm'', ''--pull=never'', ''--network'', ''none'', ''--read-only'', ''--cap-drop'', ''ALL'',
       ''--security-opt'', ''no-new-privileges'', ''--pids-limit'', ''32'', ''--memory'', ''256m'', ''--cpus'', ''1.0'', ''--ipc'', ''none'',
       ''--ulimit'', ''nofile=64:64'', ''--ulimit'', ''fsize=1048576:1048576'', ''--stop-timeout'', ''1'', ''--user'', uid_gid,
       ''--tmpfs'', ''/tmp:rw,noexec,nosuid,nodev,size=8388608'',
       ''--mount'', m1, ''--mount'', m2, ''--mount'', m3, ''--mount'', m4, ''--entrypoint'', ''python'', hc_image_reference cfg,
       ''-I'', ''-c'', ''import sys;sys.path.insert(0,'' @ [chr_of 39] @ ''/app'' @ [chr_of 39]
         @ '');from capabilityproof.stage_b_signer_cli import main;raise SystemExit(main())'',
       ''/frozen'', ''--worker-output'', ''/worker-output'', ''--allowed-worker-image'', hc_image_reference cfg,
       ''--private-key'', ''/secrets/'' @ path_name (hc_private_key cfg),
       ''--passphrase-file'', ''/secrets/'' @ path_name (hc_passphrase cfg), ''--output'', ''/signed/receipt.dsse.json''])))))"

definition sign_no_egress :: "worker_host \<Rightarrow> hosted_config \<Rightarrow> string \<Rightarrow> string \<Rightarrow> string \<Rightarrow> string res" where
  "sign_no_egress h cfg frozen worker_output signed_output =
     reject_if (\<not> wh_posix h) bad_configuration
    (and_then (wh_make_signed h signed_output) (\<lambda>_.
     and_then (build_no_egress_signer_command (wh_files h) cfg frozen worker_output signed_output (wh_uid_gid h)) (\<lambda>command.
     and_then (run_bounded (wh_run h command) ''isolated_signer_failed'' (wh_signer_code h)) (\<lambda>_.
     let envelope = path_join signed_output ''receipt.dsse.json''
     in reject_if (\<not> ff_regular (wh_files h) envelope \<or> ff_symlink (wh_files h) envelope) bad_signer (Inr envelope)))))"

subsection \<open>Reporting\<close>

definition failure_code :: "exn \<Rightarrow> string \<times> bool" where
  "failure_code e =
     (let raw = (case e of Rejected c \<Rightarrow> c | Retryable c \<Rightarrow> c | _ \<Rightarrow> ''worker_internal_error'');
          code = (if re_error_code raw then raw else ''worker_internal_error'')
      in (code, (case e of Retryable _ \<Rightarrow> True | _ \<Rightarrow> False)
          \<or> code \<in> {''source_checkout_failed'', ''isolated_worker_failed'', ''worker_api_unreachable'', ''worker_internal_error''}))"

definition job_path :: "hosted_job \<Rightarrow> string \<Rightarrow> string" where
  "job_path job action = ''/api/vouchspec/v1/internal/fulfillment/'' @ hj_order_id job @ ''/'' @ action"

definition failure_json :: "hosted_job \<Rightarrow> exn \<Rightarrow> json" where
  "failure_json job e = JObj [(''lease_token'', JStr (hj_lease_token job)), (''error_code'', JStr (fst (failure_code e))),
     (''retryable'', JBool (snd (failure_code e)))]"

definition fail_job ::
  "(string \<Rightarrow> string) \<Rightarrow> (sent \<Rightarrow> http_answer) \<Rightarrow> hosted_config \<Rightarrow> hosted_job \<Rightarrow> exn \<Rightarrow> (sent, unit) prog" where
  "fail_job fl api cfg job e =
     prog_then (post_json fl api cfg (job_path job ''fail'') (failure_json job e) [200]) (\<lambda>_. give (Inr ()))"

definition completion_json :: "hosted_job \<Rightarrow> string \<Rightarrow> json" where
  "completion_json job envelope = jstr_obj [(''lease_token'', hj_lease_token job), (''envelope_base64'', b64_encode False envelope)]"

definition check_completion ::
  "hosted_job \<Rightarrow> string \<Rightarrow> (string \<times> json) list \<Rightarrow> string \<Rightarrow> json \<Rightarrow> (string \<times> json) list res" where
  "check_completion job digest_hex receipt key_id v =
     and_then (worker_object bad_completion [''fulfillment'', ''public_receipt_path'', ''public_status_path''] v) (\<lambda>response.
     and_then (worker_object bad_completion [''order_id'', ''order_status'', ''payment_status'', ''delivery_status'', ''result_digest'',
       ''receipt_id'', ''signing_key_id'', ''counts_for_goal''] (jget_null response ''fulfillment'')) (\<lambda>ff.
     reject_if (jget_null ff ''order_id'' \<noteq> JStr (hj_order_id job)) bad_completion
    (reject_if (jget_null ff ''order_status'' \<noteq> JStr ''delivered'') bad_completion
    (and_then (in_strings (jget_null ff ''payment_status'') [''captured'', ''available'']) (\<lambda>paid.
     reject_if (\<not> paid \<or> jget_null ff ''delivery_status'' \<noteq> JStr ''ready''
       \<or> jget_null ff ''result_digest'' \<noteq> JStr (''sha256:'' @ digest_hex)
       \<or> jget_null ff ''receipt_id'' \<noteq> jget_null receipt ''receipt_id''
       \<or> jget_null ff ''signing_key_id'' \<noteq> JStr key_id
       \<or> jget_null ff ''counts_for_goal'' \<notin> {JBool True, JBool False}
       \<or> jget_null response ''public_receipt_path'' \<noteq> JStr (''/api/vouchspec/v1/receipts/'' @ digest_hex)
       \<or> jget_null response ''public_status_path'' \<noteq> JStr (''/api/vouchspec/v1/receipts/'' @ digest_hex @ ''/status'')) bad_completion
      (Inr response))))))"

definition complete_job ::
  "(string \<Rightarrow> string) \<Rightarrow> (sent \<Rightarrow> http_answer) \<Rightarrow> hosted_config \<Rightarrow> hosted_job \<Rightarrow> string \<Rightarrow> (string \<times> json) list \<Rightarrow> string
     \<Rightarrow> (sent, (string \<times> json) list) prog" where
  "complete_job fl api cfg job envelope receipt key_id =
     check_prog (envelope = [] \<or> length envelope > MAX_WORKER_ENVELOPE_BYTES) bad_signer
    (prog_then (post_json fl api cfg (job_path job ''complete'') (completion_json job envelope) [200]) (\<lambda>v.
     give (check_completion job (sha256_hex envelope) receipt key_id (case v of None \<Rightarrow> JNull | Some j \<Rightarrow> j))))"

subsection \<open>One run\<close>

datatype worker_result =
    Idle
  | Delivered_At json json

definition obtain_job ::
  "(string \<Rightarrow> string) \<Rightarrow> worker_host \<Rightarrow> (sent \<Rightarrow> http_answer) \<Rightarrow> hosted_config \<Rightarrow> (sent, hosted_job option) prog" where
  "obtain_job fl h api cfg =
     (case hc_preclaimed_job cfg of
        Some p \<Rightarrow> give (and_then (load_preclaimed_job fl (wh_files h) p) (\<lambda>job. Inr (Some job)))
      | None \<Rightarrow> claim fl api cfg)"

text \<open>Everything before the completion: the envelope, the receipt it carries and the key it was verified with.\<close>

definition prepare_job ::
  "(string \<Rightarrow> string) \<Rightarrow> ed25519 \<Rightarrow> (json \<Rightarrow> bool) \<Rightarrow> worker_host \<Rightarrow> hosted_config \<Rightarrow> hosted_job
     \<Rightarrow> (string \<times> (string \<times> json) list \<times> json) res" where
  "prepare_job fl ed schema_ok h cfg job =
     and_then (deterministic_json fl (request_json (hj_request job))) (\<lambda>text.
     and_then (wh_write h (path_join (hc_work_root cfg) ''request.json'') (text @ [chr_of 10])) (\<lambda>_.
     and_then (wh_freeze h (hj_request job)) (\<lambda>(frozen, manifest).
     reject_if (jget_null manifest ''network_phase'' \<noteq> JStr ''kernel_quota_fetch_completed_before_worker'') (Rejected ''source_checkout_failed'')
    (reject_if (jget_null manifest ''request_digest'' \<noteq> JStr (hj_request_digest job)) bad_claim
    (let worker_output = path_join (hc_work_root cfg) ''worker-output'' in
     and_then (wh_inspect h frozen worker_output) (\<lambda>_.
     and_then (sign_no_egress h cfg frozen worker_output (path_join (hc_work_root cfg) ''signed'')) (\<lambda>path.
     and_then (ff_read (wh_files h) path) (\<lambda>envelope.
     and_then (load_public_jwk (wh_files h) (hc_public_key cfg)) (\<lambda>jwk.
     and_then (verify_receipt_envelope ed fl schema_ok envelope jwk) (\<lambda>(receipt, _).
     Inr (envelope, receipt, jwk)))))))))))"

text \<open>\<open>try: m except Exception: pass\<close>\<close>

definition quietly :: "('s, 'a) prog \<Rightarrow> ('s, unit) prog" where
  "quietly m s = (Inr (), snd (m s))"

definition work_on ::
  "(string \<Rightarrow> string) \<Rightarrow> ed25519 \<Rightarrow> (json \<Rightarrow> bool) \<Rightarrow> worker_host \<Rightarrow> (sent \<Rightarrow> http_answer) \<Rightarrow> hosted_config \<Rightarrow> hosted_job
     \<Rightarrow> (sent, worker_result) prog" where
  "work_on fl ed schema_ok h api cfg job =
     (case prepare_job fl ed schema_ok h cfg job of
        Inl e \<Rightarrow> prog_then (quietly (fail_job fl api cfg job e)) (\<lambda>_. give (Inl e))
      | Inr (envelope, receipt, jwk) \<Rightarrow>
          prog_then (give (jwk_thumbprint jwk)) (\<lambda>key_id.
          prog_then (complete_job fl api cfg job envelope receipt key_id) (\<lambda>completed.
          give (Inr (Delivered_At (jget_null completed ''public_receipt_path'') (jget_null completed ''public_status_path''))))))"

definition run_once ::
  "(string \<Rightarrow> string) \<Rightarrow> ed25519 \<Rightarrow> (json \<Rightarrow> bool) \<Rightarrow> worker_host \<Rightarrow> (sent \<Rightarrow> http_answer) \<Rightarrow> hosted_config
     \<Rightarrow> (sent, worker_result) prog" where
  "run_once fl ed schema_ok h api cfg =
     prog_then (give (validate_config (wh_files h) cfg)) (\<lambda>_.
     prog_then (give (wh_make_root h)) (\<lambda>_.
     prog_then (obtain_job fl h api cfg) (\<lambda>job.
     case job of None \<Rightarrow> give (Inr Idle) | Some j \<Rightarrow> work_on fl ed schema_ok h api cfg j)))"

text \<open>The command line: the exit status, and on failure the code that is printed.\<close>

definition hosted_main ::
  "(string \<Rightarrow> string) \<Rightarrow> ed25519 \<Rightarrow> (json \<Rightarrow> bool) \<Rightarrow> unicode_tables \<Rightarrow> (string \<Rightarrow> string option) \<Rightarrow> worker_host
     \<Rightarrow> (sent \<Rightarrow> http_answer) \<Rightarrow> sent \<Rightarrow> (int \<times> (string + worker_result)) \<times> sent" where
  "hosted_main fl ed schema_ok u env h api s =
     (case prog_then (give (from_environment u (wh_files h) env)) (run_once fl ed schema_ok h api) s of
        (Inl e, t) \<Rightarrow> ((1, Inl (fst (failure_code e))), t)
      | (Inr r, t) \<Rightarrow> ((0, Inr r), t))"

end
