(* ===== verification/HostedWorkerClaims.thy ===== *)
theory HostedWorkerClaims
  imports HostedWorker LifecycleClaims
begin

section \<open>The hosted worker: its guarantees\<close>

text \<open>
  A job that was claimed is reported to the API exactly once, as completed or as failed; what is
  reported as delivered is an envelope that verifies under the issuer's key.
\<close>

subsection \<open>What is sent\<close>













subsection \<open>A claim and a host for the witnesses\<close>
















subsection \<open>Reporting\<close>













end
