(* ===== verification/Os.thy ===== *)
theory Os
  imports Host Effects
begin

section \<open>The operating system\<close>

text \<open>
  What the snapshot and Stage B code ask the operating system for, as actions on an external world
  \<open>'w\<close>: each may change the world, and the next answer may depend on everything before, so a file
  may be replaced between two calls.  An action raises what the system call raises.  The record is a
  parameter of the model.  Paths are POSIX paths.
\<close>

datatype file_type =
    Regular
  | Directory
  | Link
  | Special int

record file_stat =
  st_dev :: int
  st_ino :: int
  st_type :: file_type
  st_size :: int
  st_mtime_ns :: int
  st_nlink :: int
  st_reparse :: bool

text \<open>
  \<open>os_scandir\<close> answers the names in the order of the directory and whether the enumeration
  failed after them; \<open>os_read p n\<close> opens \<open>p\<close> without following a link and answers what
  \<open>fstat\<close> says before, the first \<open>n\<close> bytes, and what \<open>fstat\<close> says after; the clock counts
  microseconds of UTC.  \<open>os_create\<close> opens for exclusive creation and writes; \<open>os_replace\<close> answers
  whether it succeeded (\<open>False\<close>: \<open>FileExistsError\<close>); \<open>os_walk\<close> lists the files of a tree that
  \<open>os.walk\<close> visits without following links.  \<open>os_run command environment timeout limit\<close> is
  the bounded subprocess of \<open>_run_bounded\<close>, \<open>os_call\<close> a \<open>subprocess.run\<close> whose status is ignored.
\<close>

record 'w os =
  os_expanduser :: "string \<Rightarrow> ('w, string) prog"
  os_resolve :: "bool \<Rightarrow> string \<Rightarrow> ('w, string) prog"
  os_lstat :: "string \<Rightarrow> ('w, file_stat) prog"
  os_is_dir :: "string \<Rightarrow> ('w, bool) prog"
  os_is_symlink :: "string \<Rightarrow> ('w, bool) prog"
  os_is_file :: "string \<Rightarrow> ('w, bool) prog"
  os_exists :: "string \<Rightarrow> ('w, bool) prog"
  os_scandir :: "string \<Rightarrow> ('w, string list \<times> bool) prog"
  os_read :: "string \<Rightarrow> nat \<Rightarrow> ('w, file_stat \<times> string \<times> file_stat) prog"
  os_read_bytes :: "string \<Rightarrow> ('w, string) prog"
  os_mkdir :: "string \<Rightarrow> bool \<Rightarrow> bool \<Rightarrow> ('w, unit) prog"
  os_create :: "string \<Rightarrow> string \<Rightarrow> ('w, unit) prog"
  os_write_bytes :: "string \<Rightarrow> string \<Rightarrow> ('w, unit) prog"
  os_rmtree :: "string \<Rightarrow> ('w, unit) prog"
  os_replace :: "string \<Rightarrow> string \<Rightarrow> ('w, bool) prog"
  os_walk :: "string \<Rightarrow> ('w, string list) prog"
  os_environ :: "string \<Rightarrow> string option"
  os_run :: "string list \<Rightarrow> (string \<Rightarrow> string option) \<Rightarrow> int \<Rightarrow> int \<Rightarrow> ('w, process_outcome) prog"
  os_call :: "string list \<Rightarrow> (string \<Rightarrow> string option) \<Rightarrow> ('w, unit) prog"
  os_uuid_hex :: "('w, string) prog"
  os_clock :: "('w, int) prog"
  os_monotonic_us :: "('w, int) prog"

text \<open>\<open>except OSError as exc: raise e from exc\<close>\<close>

definition on_os_error :: "exn \<Rightarrow> ('w, 'a) prog \<Rightarrow> ('w, 'a) prog" where
  "on_os_error e m = handle m (\<lambda>x. give (Inl (if x = OSError then e else x)))"

definition is_link_or_reparse :: "file_stat \<Rightarrow> bool" where
  "is_link_or_reparse m \<longleftrightarrow> st_type m = Link \<or> st_reparse m"

lemma on_os_error_Inr: "on_os_error e m s = (Inr x, t) \<longleftrightarrow> m s = (Inr x, t)"
  by (auto simp: on_os_error_def handle_def give_def split: sum.splits prod.splits)

lemma check_prog_Inr: "check_prog b e m s = (Inr x, t) \<longleftrightarrow> \<not> b \<and> m s = (Inr x, t)"
  by (auto simp: check_prog_def give_def)

lemma handle_Inr: "handle m h s = (Inr x, t) \<longleftrightarrow> m s = (Inr x, t) \<or> (\<exists>e s1. m s = (Inl e, s1) \<and> h e s1 = (Inr x, t))"
  by (auto simp: handle_def split: sum.splits prod.splits)

lemmas prog_Inr = prog_then_Inr give_Inr check_prog_Inr on_os_error_Inr

end
