(* ===== verification/Snapshot.thy ===== *)
theory Snapshot
  imports Os Sha256 JsonText PyTime "HOL-Library.Sublist"
begin

section \<open>Bounded snapshots\<close>

text \<open>
  \<^verbatim>\<open>snapshot.py\<close>: the limits, the checks of paths, the walk over a directory tree and the
  capture of its files with their digests.  The walk is a generator whose consumer runs between two
  entries; it takes the consumer as an argument and calls it where the generator yields.
  Unicode's case folding and NFC normalisation are the parameters \<open>casefold\<close> and \<open>nfc\<close>.
\<close>

subsection \<open>Limits\<close>

record scan_limits =
  sl_max_files :: int
  sl_max_entries :: int
  sl_max_directories :: int
  sl_max_depth :: int
  sl_max_path_bytes :: int
  sl_max_references :: int
  sl_max_dependencies :: int
  sl_max_referenced_hosts :: int
  sl_max_requirement_evidence_per_kind :: int
  sl_max_total_bytes :: int
  sl_max_file_bytes :: int
  sl_max_skill_md_bytes :: int
  sl_max_text_bytes :: int
  sl_max_findings :: int
  sl_max_findings_per_rule :: int

definition default_scan_limits :: scan_limits where
  "default_scan_limits = \<lparr>sl_max_files = 1000, sl_max_entries = 2000, sl_max_directories = 256, sl_max_depth = 32,
     sl_max_path_bytes = 1024, sl_max_references = 1000, sl_max_dependencies = 1000, sl_max_referenced_hosts = 500,
     sl_max_requirement_evidence_per_kind = 20, sl_max_total_bytes = 25000000, sl_max_file_bytes = 2000000,
     sl_max_skill_md_bytes = 1000000, sl_max_text_bytes = 1000000, sl_max_findings = 500, sl_max_findings_per_rule = 30\<rparr>"

definition check_scan_limits :: "scan_limits \<Rightarrow> unit res" where
  "check_scan_limits l =
     and_then (fold_res (\<lambda>(v, ceiling) _. reject_if (\<not> (1 \<le> v \<and> v \<le> (ceiling :: int))) ValueError (Inr ()))
       [(sl_max_files l, 1000), (sl_max_entries l, 2000), (sl_max_directories l, 256), (sl_max_depth l, 32),
        (sl_max_path_bytes l, 1024), (sl_max_references l, 1000), (sl_max_dependencies l, 1000),
        (sl_max_referenced_hosts l, 500), (sl_max_requirement_evidence_per_kind l, 20), (sl_max_total_bytes l, 25000000),
        (sl_max_file_bytes l, 2000000), (sl_max_skill_md_bytes l, 1000000), (sl_max_text_bytes l, 1000000),
        (sl_max_findings l, 500), (sl_max_findings_per_rule l, 30)] ()) (\<lambda>_.
     reject_if (sl_max_files l > sl_max_entries l \<or> sl_max_directories l > sl_max_entries l) ValueError
    (reject_if (sl_max_findings_per_rule l > sl_max_findings l) ValueError (Inr ())))"

subsection \<open>Paths\<close>

definition validate_relative_path :: "(string \<Rightarrow> string) \<Rightarrow> scan_limits \<Rightarrow> string \<Rightarrow> unit res" where
  "validate_relative_path nfc l relative =
     reject_if (\<not> utf8_ok relative) path_rejected
    (reject_if (relative = [] \<or> int (length relative) > sl_max_path_bytes l) path_rejected
    (reject_if (nfc relative \<noteq> relative) path_rejected
    (reject_if (chr_of 92 \<in> set relative \<or> list_ex control_char relative) path_rejected (Inr ()))))"

definition resolve_operator_root :: "'w os \<Rightarrow> string \<Rightarrow> ('w, string) prog" where
  "resolve_operator_root os p =
     prog_then (os_expanduser os p) (\<lambda>supplied.
     prog_then (on_os_error path_rejected (os_lstat os supplied)) (\<lambda>metadata.
     check_prog (is_link_or_reparse metadata) path_rejected
    (prog_then (on_os_error path_rejected (os_resolve os True supplied)) (\<lambda>root.
     prog_then (os_is_dir os root) (\<lambda>d.
     check_prog (\<not> d) path_rejected (give (Inr root)))))))"

text \<open>\<open>path.relative_to(root)\<close> does not raise.\<close>

definition is_relative_to :: "string \<Rightarrow> string \<Rightarrow> bool" where
  "is_relative_to path root \<longleftrightarrow> prefix (posix_parts root) (posix_parts path)"

text \<open>The code point at index 1 of a text is the character \<open>c\<close> (an ASCII one).\<close>

definition second_is :: "char \<Rightarrow> string \<Rightarrow> bool" where
  "second_is c s = (case dropWhile continues (drop 1 s) of [] \<Rightarrow> False | d # _ \<Rightarrow> d = c)"

definition backslashes_to_slashes :: "string \<Rightarrow> string" where
  "backslashes_to_slashes s = map (\<lambda>c. if c = chr_of 92 then CHR ''/'' else c) s"

fun reject_links :: "'w os \<Rightarrow> string \<Rightarrow> string list \<Rightarrow> ('w, unit) prog" where
  "reject_links os current [] = give (Inr ())"
| "reject_links os current (p # ps) =
     prog_then (on_os_error path_rejected (os_lstat os (path_join current p))) (\<lambda>metadata.
     check_prog (is_link_or_reparse metadata) path_rejected (reject_links os (path_join current p) ps))"

definition path_segments :: "(string \<Rightarrow> string) \<Rightarrow> string \<Rightarrow> string list res" where
  "path_segments nfc submitted =
     reject_if (py_strip submitted = []) path_rejected
    (reject_if (chr_of 0 \<in> set submitted) path_rejected
    (reject_if (\<not> utf8_ok submitted) path_rejected
    (reject_if (length submitted > 4096) path_rejected
    (reject_if (nfc submitted \<noteq> submitted) path_rejected
    (reject_if (list_ex control_char submitted) path_rejected
    (let normalized = backslashes_to_slashes submitted; parts = split_on CHR ''/'' normalized
     in reject_if (starts_with ''/'' normalized \<or> second_is CHR '':'' normalized) path_rejected
       (reject_if (list_ex (\<lambda>p. p \<in> {[], ''.'', ''..''}) parts) path_rejected
       (reject_if (length parts > 32 \<or> CHR '':'' \<in> set (hd parts)) path_rejected (Inr parts)))))))))"

definition resolve_allowed_path :: "(string \<Rightarrow> string) \<Rightarrow> 'w os \<Rightarrow> string \<Rightarrow> string \<Rightarrow> ('w, string) prog" where
  "resolve_allowed_path nfc os allowed_root submitted =
     prog_then (give (path_segments nfc submitted)) (\<lambda>parts.
     prog_then (resolve_operator_root os allowed_root) (\<lambda>root.
     let lexical_candidate = foldl path_join root parts in
     prog_then (os_resolve os True lexical_candidate) (\<lambda>candidate.
     check_prog (\<not> is_relative_to candidate root) path_rejected
    (prog_then (reject_links os root parts) (\<lambda>_.
     give (Inr lexical_candidate))))))"

subsection \<open>The walk\<close>

text \<open>A place in the tree is the list of names from the root.\<close>

type_synonym place = "string list"

definition relative_path :: "place \<Rightarrow> string" where
  "relative_path p = join_with CHR ''/'' p"

definition absolute :: "string \<Rightarrow> place \<Rightarrow> string" where
  "absolute root p = foldl path_join root p"

definition EXCLUDED_DIRECTORY_NAMES :: "string list" where
  "EXCLUDED_DIRECTORY_NAMES = [''.git'', ''.hg'', ''.svn'']"

abbreviation read_failed :: exn where "read_failed \<equiv> Rejected ''read_failed''"
abbreviation input_changed :: exn where "input_changed \<equiv> Rejected ''input_changed''"

text \<open>The names of one directory, sorted by \<open>(name.casefold(), name)\<close>: two stable sorts.\<close>

definition list_directory ::
  "(string \<Rightarrow> string) \<Rightarrow> 'w os \<Rightarrow> scan_limits \<Rightarrow> string \<Rightarrow> int \<Rightarrow> ('w, string list) prog" where
  "list_directory casefold os l directory entry_count =
     prog_then (on_os_error read_failed (os_lstat os directory)) (\<lambda>metadata.
     check_prog (is_link_or_reparse metadata) path_rejected
    (check_prog (st_type metadata \<noteq> Directory) input_changed
    (prog_then (on_os_error read_failed (os_scandir os directory)) (\<lambda>(names, failed).
     check_prog (entry_count + int (length names) > sl_max_entries l) limit_exceeded
    (check_prog failed read_failed
    (give (Inr (sort_key casefold (sort names)))))))))"

type_synonym ('w, 'a) visitor = "place \<Rightarrow> file_stat \<Rightarrow> 'a \<Rightarrow> ('w, 'a) prog"

fun visit_entries ::
  "'w os \<Rightarrow> string \<Rightarrow> ('w, 'a) visitor \<Rightarrow> place \<Rightarrow> int \<Rightarrow> string list \<Rightarrow> (place \<times> int) list \<Rightarrow> 'a
     \<Rightarrow> ('w, (place \<times> int) list \<times> 'a) prog" where
  "visit_entries os root visit dir depth [] children a = give (Inr (children, a))"
| "visit_entries os root visit dir depth (n # ns) children a =
     prog_then (on_os_error read_failed (os_lstat os (absolute root (dir @ [n])))) (\<lambda>metadata.
     check_prog (is_link_or_reparse metadata) path_rejected
    (prog_then (visit (dir @ [n]) metadata a) (\<lambda>b.
     visit_entries os root visit dir depth ns
       (if n \<notin> set EXCLUDED_DIRECTORY_NAMES \<and> st_type metadata = Directory then children @ [(dir @ [n], depth + 1)] else children) b)))"

text \<open>The loop of \<open>_iter_entries\<close>; it ends because every round counts a directory.\<close>

function walk ::
  "(string \<Rightarrow> string) \<Rightarrow> 'w os \<Rightarrow> scan_limits \<Rightarrow> string \<Rightarrow> ('w, 'a) visitor \<Rightarrow> (place \<times> int) list \<Rightarrow> int \<Rightarrow> int \<Rightarrow> 'a
     \<Rightarrow> 'w \<Rightarrow> 'a res \<times> 'w" where
  "walk casefold os l root visit pending entry_count directory_count a s =
     (if pending = [] then (Inr a, s)
      else let (directory, depth) = last pending in
        if depth > sl_max_depth l then (Inl limit_exceeded, s)
        else if directory_count + 1 > sl_max_directories l then (Inl limit_exceeded, s)
        else case list_directory casefold os l (absolute root directory) entry_count s of
            (Inl e, t) \<Rightarrow> (Inl e, t)
          | (Inr names, t) \<Rightarrow>
              (case visit_entries os root visit directory depth names [] a t of
                 (Inl e, t') \<Rightarrow> (Inl e, t')
               | (Inr (children, b), t') \<Rightarrow>
                   walk casefold os l root visit (butlast pending @ rev children) (entry_count + int (length names))
                     (directory_count + 1) b t'))"
  by pat_completeness auto
termination
  by (relation "measure (\<lambda>(c, os, l, r, v, pending, n, d, a, s). nat (sl_max_directories l + 1 - d))") auto

declare walk.simps [simp del]

definition iter_entries ::
  "(string \<Rightarrow> string) \<Rightarrow> 'w os \<Rightarrow> scan_limits \<Rightarrow> string \<Rightarrow> ('w, 'a) visitor \<Rightarrow> 'a \<Rightarrow> ('w, 'a) prog" where
  "iter_entries casefold os l root visit a = walk casefold os l root visit [([], 0)] 0 0 a"

subsection \<open>Capturing\<close>

type_synonym identity = "int \<times> int \<times> file_type \<times> int \<times> int \<times> int"

definition entry_identity :: "file_stat \<Rightarrow> identity" where
  "entry_identity m = (st_dev m, st_ino m, st_type m, st_size m, st_mtime_ns m, st_nlink m)"

definition inventory_signature ::
  "(string \<Rightarrow> string) \<Rightarrow> (string \<Rightarrow> string) \<Rightarrow> 'w os \<Rightarrow> scan_limits \<Rightarrow> string \<Rightarrow> ('w, (string \<times> identity) list) prog" where
  "inventory_signature casefold nfc os l root =
     prog_then (iter_entries casefold os l root (\<lambda>p metadata inv.
       prog_then (give (validate_relative_path nfc l (relative_path p))) (\<lambda>_.
       give (Inr (inv @ [(relative_path p, entry_identity metadata)])))) []) (\<lambda>inv.
     give (Inr (sort_key fst inv)))"

record file_data =
  fd_path :: string
  fd_size :: int
  fd_sha256 :: string
  fd_content :: string

record capture =
  ca_files :: "file_data list"
  ca_excluded :: "string list"
  ca_total_bytes :: int
  ca_seen :: "string list"
  ca_inventory :: "(string \<times> identity) list"

definition read_file :: "'w os \<Rightarrow> scan_limits \<Rightarrow> string \<Rightarrow> string \<Rightarrow> capture \<Rightarrow> ('w, capture) prog" where
  "read_file os l path relative c =
     check_prog (int (length (ca_files c)) \<ge> sl_max_files l) limit_exceeded
    (prog_then (on_os_error read_failed (os_lstat os path)) (\<lambda>path_before.
     check_prog (is_link_or_reparse path_before \<or> st_type path_before \<noteq> Regular) input_changed
    (check_prog (st_size path_before > sl_max_file_bytes l) limit_exceeded
    (check_prog (relative = ''SKILL.md'' \<and> st_size path_before > sl_max_skill_md_bytes l) limit_exceeded
    (check_prog (ca_total_bytes c + st_size path_before > sl_max_total_bytes l) limit_exceeded
    (prog_then (on_os_error read_failed (os_read os path (nat (sl_max_file_bytes l + 1)))) (\<lambda>(opened_before, content, opened_after).
     prog_then (on_os_error read_failed (os_lstat os path)) (\<lambda>path_after.
     check_prog (is_link_or_reparse path_after \<or> st_type path_after \<noteq> Regular) input_changed
    (check_prog (entry_identity path_before \<noteq> entry_identity opened_before \<or> entry_identity opened_before \<noteq> entry_identity opened_after
       \<or> entry_identity opened_after \<noteq> entry_identity path_after \<or> int (length content) \<noteq> st_size opened_before) input_changed
    (give (Inr (c\<lparr>ca_total_bytes := ca_total_bytes c + int (length content),
       ca_files := ca_files c @ [\<lparr>fd_path = relative, fd_size = int (length content), fd_sha256 = sha256_hex content,
         fd_content = content\<rparr>]\<rparr>))))))))))))"

definition capture_entry ::
  "(string \<Rightarrow> string) \<Rightarrow> (string \<Rightarrow> string) \<Rightarrow> 'w os \<Rightarrow> scan_limits \<Rightarrow> string \<Rightarrow> ('w, capture) visitor" where
  "capture_entry casefold nfc os l root p metadata c =
     (let relative = relative_path p in
      prog_then (give (validate_relative_path nfc l relative)) (\<lambda>_.
      check_prog (casefold relative \<in> set (ca_seen c)) path_rejected
     (let c1 = c\<lparr>ca_inventory := ca_inventory c @ [(relative, entry_identity metadata)], ca_seen := ca_seen c @ [casefold relative]\<rparr>
      in if last p \<in> set EXCLUDED_DIRECTORY_NAMES \<and> st_type metadata = Directory
         then give (Inr (c1\<lparr>ca_excluded := ca_excluded c1 @ [relative @ ''/'']\<rparr>))
         else if st_type metadata = Directory then give (Inr c1)
         else check_prog (st_type metadata \<noteq> Regular) path_rejected
             (check_prog (st_nlink metadata \<noteq> 1) path_rejected
             (read_file os l (absolute root p) relative c1)))))"

text \<open>What the digest of a directory is computed over.\<close>

definition directory_preimage :: "file_data list \<Rightarrow> string" where
  "directory_preimage files = ''capabilityproof-directory-sha256-v1'' @ [chr_of 0]
     @ concat (map (\<lambda>f. be_bytes 8 (length (fd_path f)) @ fd_path f @ be_bytes 8 (nat (fd_size f)) @ fd_content f) files)"

record snapshot =
  sn_root :: string
  sn_files :: "file_data list"
  sn_total_bytes :: int
  sn_directory_sha256 :: string
  sn_excluded_paths :: "string list"
  sn_capture_started_at :: string
  sn_capture_completed_at :: string
  sn_capture_timestamp_source :: string

definition utc_iso :: "int \<Rightarrow> string" where
  "utc_iso u = iso_z (floor_second u)"

definition captured :: "string \<Rightarrow> string \<Rightarrow> string \<Rightarrow> string \<Rightarrow> capture \<Rightarrow> snapshot" where
  "captured root started completed source c =
     (let files = sort_key fd_path (ca_files c)
      in \<lparr>sn_root = root, sn_files = files, sn_total_bytes = ca_total_bytes c,
          sn_directory_sha256 = sha256_hex (directory_preimage files), sn_excluded_paths = sort (ca_excluded c),
          sn_capture_started_at = started, sn_capture_completed_at = completed, sn_capture_timestamp_source = source\<rparr>)"

text \<open>\<open>time_override\<close> is an instant in UTC.\<close>

definition capture_time :: "'w os \<Rightarrow> int option \<Rightarrow> ('w, string) prog" where
  "capture_time os time_override =
     (case time_override of
        Some u \<Rightarrow> give (Inr (utc_iso u))
      | None \<Rightarrow> prog_then (os_clock os) (\<lambda>u. give (Inr (utc_iso u))))"

definition collect_snapshot ::
  "(string \<Rightarrow> string) \<Rightarrow> (string \<Rightarrow> string) \<Rightarrow> 'w os \<Rightarrow> string \<Rightarrow> scan_limits \<Rightarrow> int option \<Rightarrow> ('w, snapshot) prog" where
  "collect_snapshot casefold nfc os path l time_override =
     prog_then (capture_time os time_override) (\<lambda>started.
     prog_then (resolve_operator_root os path) (\<lambda>root.
     prog_then (give (validate_relative_path nfc l (path_name root))) (\<lambda>_.
     check_prog (py_len (path_name root) > 255) path_rejected
    (prog_then (iter_entries casefold os l root (capture_entry casefold nfc os l root)
       \<lparr>ca_files = [], ca_excluded = [], ca_total_bytes = 0, ca_seen = [], ca_inventory = []\<rparr>) (\<lambda>c.
     prog_then (inventory_signature casefold nfc os l root) (\<lambda>inventory.
     check_prog (sort_key fst (ca_inventory c) \<noteq> inventory) input_changed
    (prog_then (if time_override = None then capture_time os None else give (Inr started)) (\<lambda>completed.
     give (Inr (captured root started completed
       (if time_override = None then ''system-clock'' else ''caller-supplied-reproducibility-override'') c))))))))))"

definition snapshot_get :: "snapshot \<Rightarrow> string \<Rightarrow> file_data option" where
  "snapshot_get sn relative = find (\<lambda>f. fd_path f = relative) (sn_files sn)"

end
