(* ===== verification/SnapshotClaims.thy ===== *)
theory SnapshotClaims
  imports Snapshot "HOL-Library.Multiset"
begin

section \<open>Snapshots: their guarantees\<close>

text \<open>
  What a snapshot holds whatever happens to the tree meanwhile, what it holds of a tree that stays as
  it is, and that its digest stands for its files.
\<close>

subsection \<open>What the walk keeps\<close>

lemma visit_entries_inv:
  assumes "visit_entries os root visit dir depth ns ch a s = (Inr (ch', b), t)" "P a"
    and "\<And>p m a s b t. p \<noteq> [] \<Longrightarrow> visit p m a s = (Inr b, t) \<Longrightarrow> P a \<Longrightarrow> P b"
  shows "P b"
  using assms(1,2)
proof (induction ns arbitrary: ch a s)
  case Nil
  then show ?case by (simp add: give_def)
next
  case (Cons n ns)
  from Cons.prems(1) obtain m s1 a' s2 ch'' where step:
      "visit (dir @ [n]) m a s1 = (Inr a', s2)" "visit_entries os root visit dir depth ns ch'' a' s2 = (Inr (ch', b), t)"
    by (auto simp: prog_Inr)
  have "P a'" by (rule assms(3) [OF _ step(1) Cons.prems(2)]) simp
  with step(2) show ?case by (rule Cons.IH)
qed

lemma walk_run:
  assumes "walk casefold os l root visit pending ec dc a s = (Inr b, t)"
    and ended: "\<And>a s. R [] a s a s"
    and round: "\<And>pending dir depth ec names s s1 children a a1 s2 b t.
      pending \<noteq> [] \<Longrightarrow> last pending = (dir, depth) \<Longrightarrow> list_directory casefold os l (absolute root dir) ec s = (Inr names, s1) \<Longrightarrow>
      visit_entries os root visit dir depth names [] a s1 = (Inr (children, a1), s2) \<Longrightarrow>
      R (butlast pending @ rev children) a1 s2 b t \<Longrightarrow> R pending a s b t"
  shows "R pending a s b t"
  using assms
proof (induction casefold os l root visit pending ec dc a s rule: walk.induct)
  case (1 casefold os l root visit pending ec dc a s)
  show ?case
  proof (cases "pending = []")
    case True
    with "1.prems" show ?thesis by (simp add: walk.simps)
  next
    case False
    obtain dir depth where dd: "last pending = (dir, depth)" by (cases "last pending")
    from "1.prems"(1) False dd obtain names s1 children a1 s2 where step:
        "\<not> depth > sl_max_depth l" "\<not> dc + 1 > sl_max_directories l"
        "list_directory casefold os l (absolute root dir) ec s = (Inr names, s1)"
        "visit_entries os root visit dir depth names [] a s1 = (Inr (children, a1), s2)"
        "walk casefold os l root visit (butlast pending @ rev children) (ec + int (length names)) (dc + 1) a1 s2 = (Inr b, t)"
      by (subst (asm) walk.simps) (auto split: if_splits sum.splits prod.splits)
    have "R (butlast pending @ rev children) a1 s2 b t"
      by (rule "1.IH" [OF False refl dd [symmetric] step(1,2) step(3) [symmetric] refl step(4) [symmetric] refl refl step(5) "1.prems"(2,3)])
    with "1.prems"(3) False dd step(3,4) show ?thesis by blast
  qed
qed

lemma walk_inv:
  assumes "walk casefold os l root visit pending ec dc a s = (Inr b, t)" "P a"
    and "\<And>p m a s b t. p \<noteq> [] \<Longrightarrow> visit p m a s = (Inr b, t) \<Longrightarrow> P a \<Longrightarrow> P b"
  shows "P b"
proof -
  have "P a \<longrightarrow> P b" using assms(1)
  proof (rule walk_run [where R = "\<lambda>_ a _ b _. P a \<longrightarrow> P b"])
    fix pending :: "(place \<times> int) list" and dir depth names a s1 children a1 s2 b
    assume visited: "visit_entries os root visit dir depth names [] a s1 = (Inr (children, a1), s2)" and later: "P a1 \<longrightarrow> P b"
    have "P a1" if "P a" using visited that assms(3) by (rule visit_entries_inv)
    with later show "P a \<longrightarrow> P b" by blast
  qed auto
  with assms(2) show ?thesis by blast
qed

subsection \<open>What is captured\<close>

definition file_ok :: "(string \<Rightarrow> string) \<Rightarrow> scan_limits \<Rightarrow> file_data \<Rightarrow> bool" where
  "file_ok nfc l f \<longleftrightarrow> validate_relative_path nfc l (fd_path f) = Inr () \<and> fd_size f = int (length (fd_content f))
     \<and> fd_sha256 f = sha256_hex (fd_content f) \<and> fd_size f \<le> sl_max_file_bytes l
     \<and> (fd_path f = ''SKILL.md'' \<longrightarrow> fd_size f \<le> sl_max_skill_md_bytes l)"

definition capture_ok :: "(string \<Rightarrow> string) \<Rightarrow> (string \<Rightarrow> string) \<Rightarrow> scan_limits \<Rightarrow> capture \<Rightarrow> bool" where
  "capture_ok casefold nfc l c \<longleftrightarrow> (\<forall>f \<in> set (ca_files c). file_ok nfc l f \<and> casefold (fd_path f) \<in> set (ca_seen c))
     \<and> distinct (map (\<lambda>f. casefold (fd_path f)) (ca_files c)) \<and> int (length (ca_files c)) \<le> sl_max_files l
     \<and> ca_total_bytes c = sum_list (map fd_size (ca_files c)) \<and> ca_total_bytes c \<le> sl_max_total_bytes l"

lemma read_file_adds:
  assumes "read_file os l path relative c s = (Inr c', t)"
  obtains content where "c' = c\<lparr>ca_total_bytes := ca_total_bytes c + int (length content),
       ca_files := ca_files c @ [\<lparr>fd_path = relative, fd_size = int (length content), fd_sha256 = sha256_hex content, fd_content = content\<rparr>]\<rparr>"
    "int (length (ca_files c)) < sl_max_files l" "int (length content) \<le> sl_max_file_bytes l"
    "relative = ''SKILL.md'' \<longrightarrow> int (length content) \<le> sl_max_skill_md_bytes l"
    "ca_total_bytes c + int (length content) \<le> sl_max_total_bytes l"
    "\<exists>o1 o2 s1 s2. os_read os path (nat (sl_max_file_bytes l + 1)) s1 = (Inr (o1, content, o2), s2)"
proof -
  from assms obtain before s1 o1 content o2 s2 where "os_read os path (nat (sl_max_file_bytes l + 1)) s1 = (Inr (o1, content, o2), s2)"
      "\<not> int (length (ca_files c)) \<ge> sl_max_files l" "\<not> st_size before > sl_max_file_bytes l"
      "\<not> (relative = ''SKILL.md'' \<and> st_size before > sl_max_skill_md_bytes l)" "\<not> ca_total_bytes c + st_size before > sl_max_total_bytes l"
      "entry_identity before = entry_identity o1" "int (length content) = st_size o1"
      "c' = c\<lparr>ca_total_bytes := ca_total_bytes c + int (length content),
       ca_files := ca_files c @ [\<lparr>fd_path = relative, fd_size = int (length content), fd_sha256 = sha256_hex content, fd_content = content\<rparr>]\<rparr>"
    unfolding read_file_def prog_Inr case_prod_unfold by (auto simp: prod_eq_iff prog_Inr)
  with that show thesis by (fastforce simp: entry_identity_def)
qed

lemma capture_entry_ok:
  assumes "capture_entry casefold nfc os l root p m c s = (Inr c', t)" "capture_ok casefold nfc l c"
  shows "capture_ok casefold nfc l c'"
proof -
  let ?r = "relative_path p"
  define c1 where "c1 = c\<lparr>ca_inventory := ca_inventory c @ [(?r, entry_identity m)], ca_seen := ca_seen c @ [casefold ?r]\<rparr>"
  have valid: "validate_relative_path nfc l ?r = Inr ()" and new: "casefold ?r \<notin> set (ca_seen c)"
    using assms(1) by (auto simp: capture_entry_def Let_def prog_Inr)
  have ok1: "capture_ok casefold nfc l c1" using assms(2) by (auto simp: capture_ok_def c1_def)
  from assms(1) consider "c' = c1" | "c' = c1\<lparr>ca_excluded := ca_excluded c1 @ [?r @ ''/'']\<rparr>"
    | s1 s2 where "read_file os l (absolute root p) ?r c1 s1 = (Inr c', s2)"
    by (auto simp: capture_entry_def Let_def prog_Inr c1_def split: if_splits)
  then show ?thesis
  proof cases
    case 1
    with ok1 show ?thesis by simp
  next
    case 2
    with ok1 show ?thesis by (simp add: capture_ok_def)
  next
    case 3
    then obtain content where add: "c' = c1\<lparr>ca_total_bytes := ca_total_bytes c1 + int (length content),
       ca_files := ca_files c1 @ [\<lparr>fd_path = ?r, fd_size = int (length content), fd_sha256 = sha256_hex content, fd_content = content\<rparr>]\<rparr>"
      "int (length (ca_files c1)) < sl_max_files l" "int (length content) \<le> sl_max_file_bytes l"
      "?r = ''SKILL.md'' \<longrightarrow> int (length content) \<le> sl_max_skill_md_bytes l"
      "ca_total_bytes c1 + int (length content) \<le> sl_max_total_bytes l" by (rule read_file_adds) blast
    have "\<forall>f \<in> set (ca_files c1). casefold (fd_path f) \<noteq> casefold ?r" using assms(2) new by (auto simp: capture_ok_def c1_def)
    with add ok1 valid show ?thesis by (auto simp: capture_ok_def file_ok_def c1_def)
  qed
qed

definition snapshot_ok :: "(string \<Rightarrow> string) \<Rightarrow> (string \<Rightarrow> string) \<Rightarrow> scan_limits \<Rightarrow> snapshot \<Rightarrow> bool" where
  "snapshot_ok casefold nfc l sn \<longleftrightarrow> sorted_wrt (<) (map fd_path (sn_files sn))
     \<and> distinct (map (\<lambda>f. casefold (fd_path f)) (sn_files sn)) \<and> (\<forall>f \<in> set (sn_files sn). file_ok nfc l f)
     \<and> int (length (sn_files sn)) \<le> sl_max_files l
     \<and> sn_total_bytes sn = sum_list (map fd_size (sn_files sn)) \<and> sn_total_bytes sn \<le> sl_max_total_bytes l
     \<and> sn_directory_sha256 sn = sha256_hex (directory_preimage (sn_files sn))"

lemma limits_positive:
  assumes "check_scan_limits l = Inr ()"
  shows "1 \<le> sl_max_files l" "1 \<le> sl_max_total_bytes l" "sl_max_file_bytes l \<le> 2000000" "sl_max_path_bytes l \<le> 1024" "1 \<le> sl_max_file_bytes l"
  using assms by (auto simp: check_scan_limits_def and_then_Inr reject_if_Inr)

lemma sorted_files:
  assumes "distinct (map (\<lambda>f. casefold (fd_path f)) files)"
  shows "sorted_wrt (<) (map fd_path (sort_key fd_path files))"
    "distinct (map (\<lambda>f. casefold (fd_path f)) (sort_key fd_path files))"
proof -
  have mset: "mset (map (\<lambda>f. casefold (fd_path f)) (sort_key fd_path files)) = mset (map (\<lambda>f. casefold (fd_path f)) files)" by simp
  with assms show d: "distinct (map (\<lambda>f. casefold (fd_path f)) (sort_key fd_path files))" using mset_eq_imp_distinct_iff by blast
  then have "distinct (map fd_path (sort_key fd_path files))" by (auto simp: distinct_map inj_on_def)
  then show "sorted_wrt (<) (map fd_path (sort_key fd_path files))" by (simp add: strict_sorted_iff)
qed

lemma collected:
  assumes "collect_snapshot casefold nfc os path l time_override s = (Inr sn, t)" "check_scan_limits l = Inr ()"
  shows "snapshot_ok casefold nfc l sn"
proof -
  let ?c0 = "\<lparr>ca_files = [], ca_excluded = [], ca_total_bytes = 0, ca_seen = [], ca_inventory = []\<rparr>"
  from assms(1) obtain root started completed source c s1 s2 where run:
      "iter_entries casefold os l root (capture_entry casefold nfc os l root) ?c0 s1 = (Inr c, s2)"
      "sn = captured root started completed source c"
    by (auto simp: collect_snapshot_def prog_Inr)
  have "capture_ok casefold nfc l ?c0" using limits_positive [OF assms(2)] by (simp add: capture_ok_def)
  then have ok: "capture_ok casefold nfc l c"
    by (rule walk_inv [OF run(1) [unfolded iter_entries_def]]) (rule capture_entry_ok)
  have total: "sum_list (map fd_size (sort_key fd_path (ca_files c))) = sum_list (map fd_size (ca_files c))"
    by (metis mset_map mset_sort sum_mset_sum_list)
  from ok sorted_files [of casefold "ca_files c"] show ?thesis
    by (simp add: snapshot_ok_def captured_def Let_def run(2) capture_ok_def total)
qed


subsection \<open>The digest stands for the files\<close>

lemma be_bytes_inj: "m < 256 ^ k \<Longrightarrow> n < 256 ^ k \<Longrightarrow> be_bytes k m = be_bytes k n \<Longrightarrow> m = n"
proof (induction k arbitrary: m n)
  case (Suc k)
  have "m div 256 < 256 ^ k" "n div 256 < 256 ^ k" using Suc.prems(1,2) by (simp_all add: less_mult_imp_div_less mult.commute)
  moreover have "be_bytes k (m div 256) = be_bytes k (n div 256)" "chr_of (m mod 256) = chr_of (n mod 256)" using Suc.prems(3) by simp_all
  ultimately have "m div 256 = n div 256" "byte_of (chr_of (m mod 256)) = byte_of (chr_of (n mod 256))"
    by (blast intro: Suc.IH, simp)
  then have "m div 256 = n div 256" "m mod 256 = n mod 256" by (simp_all add: byte_of_chr_of)
  then show ?case by (metis mult_div_mod_eq)
qed simp

lemma be_bytes_8_ne: "be_bytes 8 n \<noteq> []"
  using length_be_bytes [of 8 n] by (metis length_0_conv zero_neq_numeral)

text \<open>An encoded file can be split off the front.\<close>

lemma encoded_file_inj:
  assumes "be_bytes 8 (length p) @ p @ be_bytes 8 (length c) @ c @ r = be_bytes 8 (length p') @ p' @ be_bytes 8 (length c') @ c' @ r'"
    and "length p < 256 ^ 8" "length p' < 256 ^ 8" "length c < 256 ^ 8" "length c' < 256 ^ 8"
  shows "p = p'" "c = c'" "r = r'"
proof -
  from assms(1) have *: "be_bytes 8 (length p) = be_bytes 8 (length p')"
      "p @ be_bytes 8 (length c) @ c @ r = p' @ be_bytes 8 (length c') @ c' @ r'" by (simp_all add: append_eq_append_conv)
  from be_bytes_inj [OF assms(2,3) *(1)] *(2) have **: "p = p'" "be_bytes 8 (length c) @ c @ r = be_bytes 8 (length c') @ c' @ r'"
    by (simp_all add: append_eq_append_conv)
  then have "be_bytes 8 (length c) = be_bytes 8 (length c')" "c @ r = c' @ r'" by (simp_all add: append_eq_append_conv)
  with be_bytes_inj [OF assms(4,5)] ** show "p = p'" "c = c'" "r = r'" by (simp_all add: append_eq_append_conv)
qed

definition digestible :: "file_data \<Rightarrow> bool" where
  "digestible f \<longleftrightarrow> fd_size f = int (length (fd_content f)) \<and> fd_sha256 f = sha256_hex (fd_content f)
     \<and> length (fd_path f) < 256 ^ 8 \<and> length (fd_content f) < 256 ^ 8"

lemma encoded_files_inj:
  fixes enc :: "file_data \<Rightarrow> string"
  defines "enc \<equiv> \<lambda>f. be_bytes 8 (length (fd_path f)) @ fd_path f @ be_bytes 8 (nat (fd_size f)) @ fd_content f"
  assumes "concat (map enc fs) = concat (map enc gs)" "\<forall>f \<in> set fs. digestible f" "\<forall>g \<in> set gs. digestible g"
  shows "fs = gs"
  using assms(2-)
proof (induction fs arbitrary: gs)
  case Nil
  then show ?case by (cases gs) (auto simp: enc_def be_bytes_8_ne)
next
  case (Cons f fs)
  have "gs \<noteq> []" using Cons.prems(1) by (auto simp: enc_def be_bytes_8_ne)
  then obtain g gs' where gs: "gs = g # gs'" by (cases gs) auto
  have sizes: "nat (fd_size f) = length (fd_content f)" "nat (fd_size g) = length (fd_content g)"
    using Cons.prems(2,3) by (auto simp: digestible_def gs)
  have split: "fd_path f = fd_path g" "fd_content f = fd_content g" "concat (map enc fs) = concat (map enc gs')"
    using encoded_file_inj [where p = "fd_path f" and c = "fd_content f" and p' = "fd_path g" and c' = "fd_content g"
        and r = "concat (map enc fs)" and r' = "concat (map enc gs')"] Cons.prems
    by (auto simp: gs enc_def sizes digestible_def)
  then have "f = g" using Cons.prems(2,3) by (auto simp: digestible_def gs)
  with Cons.IH [OF split(3)] Cons.prems(2,3) show ?case by (simp add: gs)
qed

lemma file_ok_digestible:
  assumes "file_ok nfc l f" "check_scan_limits l = Inr ()"
  shows "digestible f"
proof -
  have "int (length (fd_path f)) \<le> 1024" "int (length (fd_content f)) \<le> 2000000"
    using assms limits_positive [OF assms(2)] by (auto simp: file_ok_def validate_relative_path_def reject_if_Inr)
  then show ?thesis using assms(1) by (simp add: digestible_def file_ok_def)
qed

text \<open>
  The directory digest commits to the whole tree: two snapshots with the same directory digest
  hold the same files, paths and contents, unless the two different texts the digests were computed over
  are a collision of SHA-256.
\<close>

theorem directory_digest_commits:
  assumes "collect_snapshot casefold nfc os path l o1 s = (Inr sn, t)" "check_scan_limits l = Inr ()"
    and "collect_snapshot casefold' nfc' os' path' l' o2 s' = (Inr sn', t')" "check_scan_limits l' = Inr ()"
    and same: "sn_directory_sha256 sn = sn_directory_sha256 sn'"
  shows "sn_files sn = sn_files sn'
    \<or> directory_preimage (sn_files sn) \<noteq> directory_preimage (sn_files sn')
      \<and> sha256_hex (directory_preimage (sn_files sn)) = sha256_hex (directory_preimage (sn_files sn'))"
proof (cases "directory_preimage (sn_files sn) = directory_preimage (sn_files sn')")
  case True
  note ok = collected [OF assms(1,2), unfolded snapshot_ok_def] collected [OF assms(3,4), unfolded snapshot_ok_def]
  have "\<forall>f \<in> set (sn_files sn). digestible f" "\<forall>f \<in> set (sn_files sn'). digestible f"
    using ok file_ok_digestible [OF _ assms(2)] file_ok_digestible [OF _ assms(4)] by blast+
  with True show ?thesis by (intro disjI1 encoded_files_inj) (simp_all add: directory_preimage_def)
next
  case False
  with same collected [OF assms(1,2)] collected [OF assms(3,4)] show ?thesis by (simp add: snapshot_ok_def)
qed

subsection \<open>A tree that stays as it is\<close>

definition quiet ::
  "'w os \<Rightarrow> (string \<Rightarrow> file_stat res) \<Rightarrow> (string \<Rightarrow> (string list \<times> bool) res) \<Rightarrow> (string \<Rightarrow> nat \<Rightarrow> (file_stat \<times> string \<times> file_stat) res) \<Rightarrow> bool" where
  "quiet os st ls rd \<longleftrightarrow> (\<forall>p s. os_lstat os p s = (st p, s)) \<and> (\<forall>p s. os_scandir os p s = (ls p, s)) \<and> (\<forall>p n s. os_read os p n s = (rd p n, s))"

text \<open>\<open>below d p\<close>: \<open>p\<close> is under the directory \<open>d\<close>, not inside an excluded directory.\<close>

inductive below :: "(string \<Rightarrow> file_stat res) \<Rightarrow> (string \<Rightarrow> (string list \<times> bool) res) \<Rightarrow> string \<Rightarrow> place \<Rightarrow> place \<Rightarrow> bool"
  for st ls root where
  entry: "ls (absolute root d) = Inr (names, failed) \<Longrightarrow> n \<in> set names \<Longrightarrow> below st ls root d (d @ [n])"
| deeper: "ls (absolute root d) = Inr (names, failed) \<Longrightarrow> n \<in> set names \<Longrightarrow> n \<notin> set EXCLUDED_DIRECTORY_NAMES \<Longrightarrow>
    st (absolute root (d @ [n])) = Inr m \<Longrightarrow> st_type m = Directory \<Longrightarrow> below st ls root (d @ [n]) p \<Longrightarrow> below st ls root d p"

inductive_simps below_iff: "below st ls root d p"

lemma visit_entries_quiet:
  assumes "visit_entries os root visit dir depth ns ch a s = (Inr (ch', b), t)" "quiet os st ls rd"
    and "\<And>p m a s b t. p \<noteq> [] \<Longrightarrow> st (absolute root p) = Inr m \<Longrightarrow> visit p m a s = (Inr b, t) \<Longrightarrow> V b = V a \<union> g p"
  shows "V b = V a \<union> (\<Union>n \<in> set ns. g (dir @ [n]))"
    "fst ` set ch' = fst ` set ch \<union> {dir @ [n] | n m. n \<in> set ns \<and> n \<notin> set EXCLUDED_DIRECTORY_NAMES \<and> st (absolute root (dir @ [n])) = Inr m
        \<and> st_type m = Directory}"
  using assms(1)
proof (induction ns arbitrary: ch a s)
  case Nil
  { case 1 then show ?case by (simp add: give_def) }
  { case 2 then show ?case by (simp add: give_def) }
next
  case (Cons n ns)
  have run: "\<exists>m a' s2. st (absolute root (dir @ [n])) = Inr m \<and> visit (dir @ [n]) m a s = (Inr a', s2)
      \<and> visit_entries os root visit dir depth ns (if n \<notin> set EXCLUDED_DIRECTORY_NAMES \<and> st_type m = Directory then ch @ [(dir @ [n], depth + 1)] else ch) a' s2 = (Inr (ch', b), t)"
    if "visit_entries os root visit dir depth (n # ns) ch a s = (Inr (ch', b), t)" for ch a s
    using that assms(2) by (auto simp: prog_Inr quiet_def)
  { case 1
    from run [OF 1] obtain m a' s2 where r: "st (absolute root (dir @ [n])) = Inr m" "visit (dir @ [n]) m a s = (Inr a', s2)"
      "visit_entries os root visit dir depth ns (if n \<notin> set EXCLUDED_DIRECTORY_NAMES \<and> st_type m = Directory then ch @ [(dir @ [n], depth + 1)] else ch) a' s2 = (Inr (ch', b), t)" by blast
    from Cons.IH(1) [OF r(3)] assms(3) [OF _ r(1,2)] show ?case by auto }
  { case 2
    from run [OF 2] obtain m a' s2 where r: "st (absolute root (dir @ [n])) = Inr m"
      "visit_entries os root visit dir depth ns (if n \<notin> set EXCLUDED_DIRECTORY_NAMES \<and> st_type m = Directory then ch @ [(dir @ [n], depth + 1)] else ch) a' s2 = (Inr (ch', b), t)" by blast
    from Cons.IH(2) [OF r(2)] r(1) show ?case by (auto split: if_splits) }
qed

lemma walk_quiet:
  assumes "walk casefold os l root visit pending ec dc a s = (Inr b, t)" and quiet: "quiet os st ls rd"
    and visit: "\<And>p m a s b t. p \<noteq> [] \<Longrightarrow> st (absolute root p) = Inr m \<Longrightarrow> visit p m a s = (Inr b, t) \<Longrightarrow> V b = V a \<union> g p"
  shows "V b = V a \<union> (\<Union>d \<in> fst ` set pending. \<Union>p \<in> {p. below st ls root d p}. g p)"
  using assms(1)
proof (rule walk_run [where R = "\<lambda>pending a _ b _. V b = V a \<union> (\<Union>d \<in> fst ` set pending. \<Union>p \<in> {p. below st ls root d p}. g p)"])
  fix pending :: "(place \<times> int) list" and dir depth ec names s s1 children a a1 s2 b
  assume pending: "pending \<noteq> []" "last pending = (dir, depth)"
    and listed: "list_directory casefold os l (absolute root dir) ec s = (Inr names, s1)"
    and visited: "visit_entries os root visit dir depth names [] a s1 = (Inr (children, a1), s2)"
    and later: "V b = V a1 \<union> (\<Union>d \<in> fst ` set (butlast pending @ rev children). \<Union>p \<in> {p. below st ls root d p}. g p)"
  from listed quiet obtain raw where ls: "ls (absolute root dir) = Inr (raw, False)" "set names = set raw"
    by (auto simp: list_directory_def prog_Inr quiet_def)
  have here: "V a1 = V a \<union> (\<Union>n \<in> set names. g (dir @ [n]))" by (rule visit_entries_quiet(1) [OF visited quiet]) (rule visit)
  have children: "fst ` set children = {dir @ [n] | n m. n \<in> set names \<and> n \<notin> set EXCLUDED_DIRECTORY_NAMES
      \<and> st (absolute root (dir @ [n])) = Inr m \<and> st_type m = Directory}"
  proof -
    have "fst ` set children = fst ` set ([] :: (place \<times> int) list) \<union> {dir @ [n] | n m. n \<in> set names \<and> n \<notin> set EXCLUDED_DIRECTORY_NAMES
      \<and> st (absolute root (dir @ [n])) = Inr m \<and> st_type m = Directory}"
      by (rule visit_entries_quiet(2) [OF visited quiet]) (rule visit)
    then show ?thesis by (simp only: list.set image_empty Un_empty_left)
  qed
  have sub: "below st ls root dir p \<longleftrightarrow> (\<exists>n \<in> set names. p = dir @ [n]) \<or> (\<exists>d \<in> fst ` set children. below st ls root d p)" for p
  proof -
    have "(\<exists>d \<in> fst ` set children. below st ls root d p) \<longleftrightarrow> (\<exists>n m. n \<in> set names \<and> n \<notin> set EXCLUDED_DIRECTORY_NAMES
        \<and> st (absolute root (dir @ [n])) = Inr m \<and> st_type m = Directory \<and> below st ls root (dir @ [n]) p)"
      by (simp only: children) blast
    then show ?thesis by (subst below_iff) (simp only: ls sum.inject prod.inject, auto simp: ls(2))
  qed
  have set: "set pending = insert (dir, depth) (set (butlast pending))"
    using pending by (metis append_butlast_last_id list.set(1,2) set_append Un_insert_right Un_empty_right)
  have "(\<Union>p \<in> {p. below st ls root dir p}. g p) = (\<Union>n \<in> set names. g (dir @ [n])) \<union> (\<Union>d \<in> fst ` set children. \<Union>p \<in> {p. below st ls root d p}. g p)"
    by (auto simp: sub)
  moreover have "fst ` set pending = insert dir (fst ` set (butlast pending))" "fst ` set (butlast pending @ rev children) = fst ` set (butlast pending) \<union> fst ` set children"
    by (simp_all add: set image_Un)
  ultimately show "V b = V a \<union> (\<Union>d \<in> fst ` set pending. \<Union>p \<in> {p. below st ls root d p}. g p)"
    unfolding later here by (simp only: UN_Un UN_insert Un_assoc Un_left_commute Un_commute)
qed auto

lemma capture_entry_quiet:
  assumes "capture_entry casefold nfc os l root p m c s = (Inr c', t)" "quiet os st ls rd" "st (absolute root p) = Inr m"
  shows "(\<lambda>f. (fd_path f, fd_content f)) ` set (ca_files c') = (\<lambda>f. (fd_path f, fd_content f)) ` set (ca_files c)
    \<union> {(relative_path p, content) | content m o1 o2. st (absolute root p) = Inr m \<and> st_type m = Regular
         \<and> rd (absolute root p) (nat (sl_max_file_bytes l + 1)) = Inr (o1, content, o2)}"
proof -
  let ?r = "relative_path p"
  define c1 where "c1 = c\<lparr>ca_inventory := ca_inventory c @ [(?r, entry_identity m)], ca_seen := ca_seen c @ [casefold ?r]\<rparr>"
  from assms(1) consider "st_type m = Directory" "ca_files c' = ca_files c"
    | s1 s2 where "st_type m = Regular" "read_file os l (absolute root p) ?r c1 s1 = (Inr c', s2)"
    by (auto simp: capture_entry_def Let_def prog_Inr c1_def split: if_splits)
  then show ?thesis
  proof cases
    case 1
    with assms(3) show ?thesis by simp
  next
    case 2
    then obtain content where add: "ca_files c' = ca_files c1 @ [\<lparr>fd_path = ?r, fd_size = int (length content), fd_sha256 = sha256_hex content, fd_content = content\<rparr>]"
      "\<exists>o1 o2 s1 s2. os_read os (absolute root p) (nat (sl_max_file_bytes l + 1)) s1 = (Inr (o1, content, o2), s2)"
      by (elim read_file_adds) auto
    with assms(2) have "\<exists>o1 o2. rd (absolute root p) (nat (sl_max_file_bytes l + 1)) = Inr (o1, content, o2)" by (auto simp: quiet_def)
    with add(1) assms(3) 2(1) show ?thesis by (auto simp: c1_def)
  qed
qed

text \<open>
  C14. Complete capture: of a tree that stays as it is, a snapshot holds exactly the regular files that
  are below its root and not inside an excluded directory, each under its path relative to the root and with the bytes
  that reading it gives.
\<close>

theorem snapshot_complete:
  assumes "quiet os st ls rd" "collect_snapshot casefold nfc os path l time_override s = (Inr sn, t)"
  shows "(\<lambda>f. (fd_path f, fd_content f)) ` set (sn_files sn)
    = {(relative_path p, content) | p content m o1 o2. below st ls (sn_root sn) [] p \<and> st (absolute (sn_root sn) p) = Inr m
         \<and> st_type m = Regular \<and> rd (absolute (sn_root sn) p) (nat (sl_max_file_bytes l + 1)) = Inr (o1, content, o2)}"
proof -
  let ?c0 = "\<lparr>ca_files = [], ca_excluded = [], ca_total_bytes = 0, ca_seen = [], ca_inventory = []\<rparr>"
  let ?V = "\<lambda>c. (\<lambda>f. (fd_path f, fd_content f)) ` set (ca_files c)"
  let ?g = "\<lambda>root p. {(relative_path p, content) | content m o1 o2. st (absolute root p) = Inr m \<and> st_type m = Regular
         \<and> rd (absolute root p) (nat (sl_max_file_bytes l + 1)) = Inr (o1, content, o2)}"
  from assms(2) obtain root started completed source c s1 s2 where run:
      "iter_entries casefold os l root (capture_entry casefold nfc os l root) ?c0 s1 = (Inr c, s2)"
      "sn = captured root started completed source c"
    by (auto simp: collect_snapshot_def prog_Inr)
  have "?V c = ?V ?c0 \<union> (\<Union>d \<in> fst ` set [([], 0 :: int)]. \<Union>p \<in> {p. below st ls root d p}. ?g root p)"
    by (rule walk_quiet [where V = ?V and g = "?g root", OF run(1) [unfolded iter_entries_def] assms(1)]) (rule capture_entry_quiet [OF _ assms(1)])
  then have "?V c = (\<Union>p \<in> {p. below st ls root [] p}. ?g root p)" by simp
  moreover have "?V c = (\<lambda>f. (fd_path f, fd_content f)) ` set (sn_files sn)" "sn_root sn = root" by (simp_all add: run(2) captured_def Let_def)
  moreover have "(\<Union>p \<in> {p. below st ls root [] p}. ?g root p) = {(relative_path p, content) | p content m o1 o2. below st ls root [] p
      \<and> st (absolute root p) = Inr m \<and> st_type m = Regular \<and> rd (absolute root p) (nat (sl_max_file_bytes l + 1)) = Inr (o1, content, o2)}"
    unfolding UNION_eq mem_Collect_eq by blast
  ultimately show ?thesis by simp
qed

subsection \<open>A tree for the witnesses\<close>

definition demo_stat :: "file_type \<Rightarrow> int \<Rightarrow> file_stat" where
  "demo_stat k n = \<lparr>st_dev = 1, st_ino = n, st_type = k, st_size = 1, st_mtime_ns = 0, st_nlink = 1, st_reparse = False\<rparr>"

definition demo_lstat :: "string \<Rightarrow> file_stat res" where
  "demo_lstat p = Inr (if p = ''/r'' then demo_stat Directory 2 else demo_stat Regular 3)"

definition demo_scandir :: "string \<Rightarrow> (string list \<times> bool) res" where
  "demo_scandir p = Inr (if p = ''/r'' then [''SKILL.md''] else [], False)"

definition demo_read :: "string \<Rightarrow> nat \<Rightarrow> (file_stat \<times> string \<times> file_stat) res" where
  "demo_read p n = Inr (demo_stat Regular 3, ''x'', demo_stat Regular 3)"

definition demo_os :: "unit os" where
  "demo_os = \<lparr>os_expanduser = \<lambda>p. give (Inr p), os_resolve = \<lambda>_ p. give (Inr p), os_lstat = \<lambda>p. give (demo_lstat p),
     os_is_dir = \<lambda>p. give (Inr True), os_is_symlink = \<lambda>p. give (Inr False), os_is_file = \<lambda>p. give (Inr True), os_exists = \<lambda>p. give (Inr False), os_scandir = \<lambda>p. give (demo_scandir p),
     os_read = \<lambda>p n. give (demo_read p n), os_read_bytes = \<lambda>p. give (Inr []), os_mkdir = \<lambda>p a b. give (Inr ()),
     os_create = \<lambda>p c. give (Inr ()), os_write_bytes = \<lambda>p c. give (Inr ()), os_rmtree = \<lambda>p. give (Inr ()),
     os_replace = \<lambda>p q. give (Inr True), os_walk = \<lambda>p. give (Inr []), os_environ = \<lambda>k. None, os_run = \<lambda>c v t n. give (Inr (Exited 0 [] [])), os_call = \<lambda>c v. give (Inr ()),
     os_uuid_hex = give (Inr []), os_clock = give (Inr 0), os_monotonic_us = give (Inr 0)\<rparr>"

lemma demo_os_quiet: "quiet demo_os demo_lstat demo_scandir demo_read"
  by (simp add: quiet_def demo_os_def give_def)

lemma default_limits_checked: "check_scan_limits default_scan_limits = Inr ()"
  by (simp add: check_scan_limits_def default_scan_limits_def)

lemma demo_paths:
  "absolute ''/r'' [] = ''/r''" "absolute ''/r'' [''SKILL.md''] = ''/r/SKILL.md''" "relative_path [''SKILL.md''] = ''SKILL.md''"
  "path_name ''/r'' = ''r''" "''SKILL.md'' \<notin> set EXCLUDED_DIRECTORY_NAMES" "\<not> 255 < py_len ''r''"
  "validate_relative_path id default_scan_limits ''SKILL.md'' = Inr ()" "validate_relative_path id default_scan_limits ''r'' = Inr ()"
proof -
  have "utf8_ok ''SKILL.md''" "utf8_ok ''r''" "chr_of 92 \<notin> set ''SKILL.md''" "chr_of 92 \<notin> set ''r''"
    "\<not> list_ex control_char ''SKILL.md''" "\<not> list_ex control_char ''r''" by code_simp+
  then show "validate_relative_path id default_scan_limits ''SKILL.md'' = Inr ()" "validate_relative_path id default_scan_limits ''r'' = Inr ()"
    unfolding validate_relative_path_def by (simp_all add: default_scan_limits_def)
qed code_simp+

lemma demo_walk:
  assumes "quiet os demo_lstat demo_scandir demo_read" "\<And>s. visit [''SKILL.md''] (demo_stat Regular 3) a s = (Inr b, s)"
  shows "iter_entries id os default_scan_limits ''/r'' visit a s = (Inr b, s)"
proof -
  note acts = assms(1) [unfolded quiet_def, THEN conjunct1, rule_format] assms(1) [unfolded quiet_def, THEN conjunct2, THEN conjunct1, rule_format]
  have listed: "list_directory id os default_scan_limits ''/r'' 0 s = (Inr [''SKILL.md''], s)"
    by (simp add: list_directory_def acts prog_then_def on_os_error_def handle_def give_def demo_lstat_def demo_scandir_def
        is_link_or_reparse_def demo_stat_def default_scan_limits_def)
  have visited: "visit_entries os ''/r'' visit [] 0 [''SKILL.md''] [] a s = (Inr ([], b), s)"
    by (simp add: acts demo_lstat_def prog_then_def on_os_error_def handle_def give_def demo_paths is_link_or_reparse_def
        assms(2) [unfolded demo_stat_def] demo_stat_def)
  have limits: "sl_max_depth default_scan_limits = 32" "sl_max_directories default_scan_limits = 256" by (simp_all add: default_scan_limits_def)
  show ?thesis unfolding iter_entries_def
    by (subst walk.simps) (simp add: demo_paths listed visited limits walk.simps del: visit_entries.simps)
qed

definition demo_capture :: capture where
  "demo_capture = \<lparr>ca_files = [\<lparr>fd_path = ''SKILL.md'', fd_size = 1, fd_sha256 = sha256_hex ''x'', fd_content = ''x''\<rparr>], ca_excluded = [],
     ca_total_bytes = 1, ca_seen = [''SKILL.md''], ca_inventory = [(''SKILL.md'', entry_identity (demo_stat Regular 3))]\<rparr>"

abbreviation demo_start :: capture where
  "demo_start \<equiv> \<lparr>ca_files = [], ca_excluded = [], ca_total_bytes = 0, ca_seen = [], ca_inventory = []\<rparr>"

lemma demo_captures:
  assumes "quiet os demo_lstat demo_scandir demo_read"
  shows "iter_entries id os default_scan_limits ''/r'' (capture_entry id id os default_scan_limits ''/r'') demo_start s = (Inr demo_capture, s)"
    and "inventory_signature id id os default_scan_limits ''/r'' s = (Inr [(''SKILL.md'', entry_identity (demo_stat Regular 3))], s)"
proof -
  note acts = assms [unfolded quiet_def, THEN conjunct1, rule_format] assms [unfolded quiet_def, THEN conjunct2, THEN conjunct2, rule_format]
  have "capture_entry id id os default_scan_limits ''/r'' [''SKILL.md''] (demo_stat Regular 3) demo_start s = (Inr demo_capture, s)" for s
    by (simp add: capture_entry_def demo_paths Let_def prog_then_give give_def read_file_def demo_stat_def prog_then_def on_os_error_def
        handle_def acts demo_lstat_def demo_read_def is_link_or_reparse_def default_scan_limits_def entry_identity_def demo_capture_def
        demo_paths(7) [unfolded default_scan_limits_def])
  then show "iter_entries id os default_scan_limits ''/r'' (capture_entry id id os default_scan_limits ''/r'') demo_start s = (Inr demo_capture, s)"
    by (rule demo_walk [OF assms])
  show "inventory_signature id id os default_scan_limits ''/r'' s = (Inr [(''SKILL.md'', entry_identity (demo_stat Regular 3))], s)"
    unfolding inventory_signature_def
    by (subst prog_then_def, subst demo_walk [OF assms]) (auto simp: prog_then_give demo_paths give_def)
qed

lemma demo_collected:
  "collect_snapshot id id demo_os ''/r'' default_scan_limits (Some 0) () = (Inr (captured ''/r'' (utc_iso 0) (utc_iso 0)
     ''caller-supplied-reproducibility-override'' demo_capture), ())"
proof -
  have root: "resolve_operator_root demo_os ''/r'' () = (Inr ''/r'', ())"
    by (simp add: resolve_operator_root_def prog_then_def on_os_error_def handle_def demo_os_def give_def demo_lstat_def
        is_link_or_reparse_def demo_stat_def)
  show ?thesis
    by (simp add: collect_snapshot_def capture_time_def prog_then_def give_def root demo_paths(4,6,8) demo_captures [OF demo_os_quiet] check_prog_def)
      (simp add: demo_capture_def)
qed


theorem directory_digest_commits_witness:
  "\<exists>sn :: snapshot. sn_files sn \<noteq> [] \<and> (sn_files sn = sn_files sn
    \<or> directory_preimage (sn_files sn) \<noteq> directory_preimage (sn_files sn) \<and> sha256_hex (directory_preimage (sn_files sn)) = sha256_hex (directory_preimage (sn_files sn)))"
proof -
  let ?sn = "captured ''/r'' (utc_iso 0) (utc_iso 0) ''caller-supplied-reproducibility-override'' demo_capture"
  have "sn_files ?sn \<noteq> []" by (simp add: captured_def Let_def) (simp add: demo_capture_def)
  with directory_digest_commits [OF demo_collected default_limits_checked demo_collected default_limits_checked refl] show ?thesis by blast
qed

theorem snapshot_complete_witness:
  "(\<lambda>f. (fd_path f, fd_content f)) ` set (sn_files (captured ''/r'' (utc_iso 0) (utc_iso 0) ''caller-supplied-reproducibility-override'' demo_capture))
    = {(relative_path p, content) | p content m o1 o2. below demo_lstat demo_scandir ''/r'' [] p \<and> demo_lstat (absolute ''/r'' p) = Inr m
         \<and> st_type m = Regular \<and> demo_read (absolute ''/r'' p) (nat (sl_max_file_bytes default_scan_limits + 1)) = Inr (o1, content, o2)}"
  using snapshot_complete [OF demo_os_quiet demo_collected] by (simp add: captured_def Let_def)

end
