(* ===== verification/GitIntake.thy ===== *)
theory GitIntake
  imports Snapshot
begin

section \<open>Public Git intake\<close>

text \<open>
  The first half of \<^verbatim>\<open>stage_b.py\<close>: portable paths, the listing of a Git tree, the two archives, and
  the Git and Docker commands.  Python's \<open>tarfile\<close> is the parameter \<open>untar\<close>: the members of an archive
  in order and whether reading them ends in a \<open>TarError\<close>.
\<close>

subsection \<open>SHA-1\<close>

unbundle bit_operations_syntax

text \<open>\<open>hashlib.sha1(m).hexdigest()\<close> (FIPS 180-4); the padding is that of SHA-256.\<close>

definition rotl32 :: "nat \<Rightarrow> w32 \<Rightarrow> w32" where
  "rotl32 n x = push_bit n x OR drop_bit (32 - n) x"

fun sha1_extend :: "nat \<Rightarrow> w32 list \<Rightarrow> w32 list" where
  "sha1_extend 0 rw = rw"
| "sha1_extend (Suc k) rw = sha1_extend k (rotl32 1 (rw ! 2 XOR rw ! 7 XOR rw ! 13 XOR rw ! 15) # rw)"

definition sha1_f :: "nat \<Rightarrow> w32 \<Rightarrow> w32 \<Rightarrow> w32 \<Rightarrow> w32 \<times> w32" where
  "sha1_f t b c d =
     (if t < 20 then ((b AND c) OR (NOT b AND d), 1518500249)
      else if t < 40 then (b XOR c XOR d, 1859775393)
      else if t < 60 then ((b AND c) OR (b AND d) OR (c AND d), 2400959708)
      else (b XOR c XOR d, 3395469782))"

fun sha1_round :: "w32 list \<Rightarrow> nat \<times> w32 \<Rightarrow> w32 list" where
  "sha1_round [a, b, c, d, e] (t, w) =
     (case sha1_f t b c d of (f, k) \<Rightarrow> [rotl32 5 a + f + e + k + w, a, rotl32 30 b, c, d])"
| "sha1_round st _ = st"

definition sha1_block :: "w32 list \<Rightarrow> w32 list \<Rightarrow> w32 list" where
  "sha1_block h block = map2 (+) h (foldl sha1_round h (zip [0..<80] (rev (sha1_extend 64 (rev block)))))"

fun sha1_blocks :: "nat \<Rightarrow> w32 list \<Rightarrow> w32 list \<Rightarrow> w32 list" where
  "sha1_blocks 0 h ws = h"
| "sha1_blocks (Suc n) h ws = sha1_blocks n (sha1_block h (take 16 ws)) (drop 16 ws)"

definition sha1_hex :: "string \<Rightarrow> string" where
  "sha1_hex m = (let p = sha_pad m
     in hex_of (concat (map (\<lambda>w. be_bytes 4 (unat w))
       (sha1_blocks (length p div 64) [1732584193, 4023233417, 2562383102, 271733878, 3285377520] (words_of p)))))"

definition git_blob_sha1 :: "string \<Rightarrow> string" where
  "git_blob_sha1 content = sha1_hex (''blob '' @ show_nat (length content) @ [chr_of 0] @ content)"

subsection \<open>Portable paths\<close>

abbreviation source_tree_invalid :: exn where "source_tree_invalid \<equiv> Rejected ''source_tree_invalid''"
abbreviation source_archive_mismatch :: exn where "source_archive_mismatch \<equiv> Rejected ''source_archive_mismatch''"
abbreviation source_checkout_failed :: exn where "source_checkout_failed \<equiv> Rejected ''source_checkout_failed''"

definition WINDOWS_RESERVED :: "string list" where
  "WINDOWS_RESERVED = [''con'', ''prn'', ''aux'', ''nul''] @ map (\<lambda>i. ''com'' @ show_nat i) [1..<10] @ map (\<lambda>i. ''lpt'' @ show_nat i) [1..<10]"

definition bad_component :: "(string \<Rightarrow> string) \<Rightarrow> string \<Rightarrow> bool" where
  "bad_component casefold c \<longleftrightarrow> c \<in> {[], ''.'', ''..''} \<or> casefold c \<in> {''.git'', ''.hg'', ''.svn''}
     \<or> last c \<in> {CHR '' '', CHR ''.''} \<or> length c > 255
     \<or> casefold (fst (partition_at CHR ''.'' c)) \<in> set WINDOWS_RESERVED"

definition validate_artifact_relative ::
  "(string \<Rightarrow> string) \<Rightarrow> (string \<Rightarrow> string) \<Rightarrow> scan_limits \<Rightarrow> string \<Rightarrow> string res" where
  "validate_artifact_relative casefold nfc l path =
     reject_if (path = [] \<or> chr_of 92 \<in> set path \<or> CHR '':'' \<in> set path) path_rejected
    (reject_if (nfc path \<noteq> path) path_rejected
    (reject_if (list_ex control_char path) path_rejected
    (reject_if (path \<noteq> as_posix path \<or> posix_parts path = [] \<or> int (length (posix_parts path)) > sl_max_depth l) path_rejected
    (reject_if (\<not> utf8_ok path) ValueError
    (reject_if (int (length path) > sl_max_path_bytes l) path_rejected
    (reject_if (list_ex (bad_component casefold) (posix_parts path)) path_rejected
    (Inr (as_posix path))))))))"

subsection \<open>The listing of a tree\<close>

definition is_bytes_space :: "char \<Rightarrow> bool" where
  "is_bytes_space c \<longleftrightarrow> byte_of c \<in> {9, 10, 11, 12, 13, 32}"

text \<open>\<open>bytes.split()\<close>: the non-empty runs between white space.\<close>

definition bytes_split :: "string \<Rightarrow> string list" where
  "bytes_split s = filter (\<lambda>w. w \<noteq> []) (split_on CHR '' '' (map (\<lambda>c. if is_bytes_space c then CHR '' '' else c) s))"

text \<open>\<open>int(b)\<close> of bytes.\<close>

definition bytes_int :: "string \<Rightarrow> int option" where
  "bytes_int s = (if is_ascii s then py_int s else None)"

record git_entry =
  ge_size :: int
  ge_blob_sha1 :: string
  ge_mode :: string
  ge_sha256 :: "string option"

record tree_scan =
  ts_expected :: "(string \<times> git_entry) list"
  ts_folded :: "string list"
  ts_total :: int
  ts_directories :: "string list"

text \<open>
  \<open>while parent.as_posix() != ".": directories.add(...); parent = parent.parent\<close>.  The parent of
  \<open>/\<close> is \<open>/\<close>: from an absolute path the loop never ends, and its value is \<open>None\<close>.
\<close>

partial_function (option) parent_loop :: "(string \<Rightarrow> string) \<Rightarrow> string \<Rightarrow> string list \<Rightarrow> string list option" where
  "parent_loop casefold parent directories =
     (if parent = ''.'' then Some directories
      else parent_loop casefold (path_parent parent) (List.insert (casefold parent) directories))"

definition scan_tree_record ::
  "(string \<Rightarrow> string) \<Rightarrow> (string \<Rightarrow> string) \<Rightarrow> scan_limits \<Rightarrow> string \<Rightarrow> string \<Rightarrow> tree_scan \<Rightarrow> tree_scan res" where
  "scan_tree_record casefold nfc l skill_path line ts =
     (if line = [] then Inr ts else
      case partition_at (chr_of 9) line of (header, separator, full_path) \<Rightarrow>
      (case bytes_split header of
         [mode, object_type, oid, encoded_size] \<Rightarrow>
           reject_if (\<not> separator) source_tree_invalid
          (reject_if (object_type \<noteq> ''blob'' \<or> mode \<notin> {''100644'', ''100755''}) path_rejected
          (case (utf8_ok full_path, bytes_int encoded_size) of
             (True, Some n) \<Rightarrow>
               reject_if (\<not> starts_with (skill_path @ ''/'') full_path) source_tree_invalid
              (and_then (validate_artifact_relative casefold nfc l (drop (length skill_path + 1) full_path)) (\<lambda>relative.
               reject_if (length oid \<noteq> 40 \<or> \<not> list_all is_hex oid) source_tree_invalid
              (reject_if (n < 0 \<or> n > sl_max_file_bytes l) limit_exceeded
              (reject_if (relative = ''SKILL.md'' \<and> n > sl_max_skill_md_bytes l) limit_exceeded
              (reject_if (int (length (ts_expected ts)) \<ge> sl_max_files l) limit_exceeded
              (reject_if (ts_total ts + n > sl_max_total_bytes l) limit_exceeded
              (reject_if (casefold relative \<in> set (ts_folded ts)) path_rejected
              (case parent_loop casefold (path_parent relative) (ts_directories ts) of
                 None \<Rightarrow> Inl NonTermination
               | Some directories \<Rightarrow>
                  reject_if (int (length directories) > sl_max_directories l) limit_exceeded
                 (Inr \<lparr>ts_expected = ts_expected ts @ [(relative, \<lparr>ge_size = n, ge_blob_sha1 = oid, ge_mode = mode, ge_sha256 = None\<rparr>)],
                    ts_folded = ts_folded ts @ [casefold relative], ts_total = ts_total ts + n, ts_directories = directories\<rparr>)))))))))
           | _ \<Rightarrow> Inl source_tree_invalid))
       | _ \<Rightarrow> Inl source_tree_invalid))"

definition parse_tree_listing ::
  "(string \<Rightarrow> string) \<Rightarrow> (string \<Rightarrow> string) \<Rightarrow> scan_limits \<Rightarrow> string \<Rightarrow> string \<Rightarrow> (string \<times> git_entry) list res" where
  "parse_tree_listing casefold nfc l raw skill_path =
     and_then (fold_res (scan_tree_record casefold nfc l skill_path) (split_on (chr_of 0) raw)
       \<lparr>ts_expected = [], ts_folded = [], ts_total = 0, ts_directories = []\<rparr>) (\<lambda>ts.
     reject_if (''SKILL.md'' \<notin> fst ` set (ts_expected ts)) (Rejected ''source_scope_invalid'') (Inr (ts_expected ts)))"

subsection \<open>Archives\<close>

datatype tar_type =
    TarDirectory
  | TarRegular
  | TarOther

text \<open>What \<open>extractfile\<close> and \<open>read\<close> give: no stream, a \<open>TarError\<close>, or the bytes.\<close>

datatype tar_data =
    NoStream
  | TarError
  | TarBytes string

record tar_member =
  tm_name :: string
  tm_type :: tar_type
  tm_linkname :: string
  tm_size :: int
  tm_data :: tar_data

type_synonym tar = "string \<Rightarrow> tar_member list \<times> bool"

fun fold_prog :: "('a \<Rightarrow> 'b \<Rightarrow> ('w, 'b) prog) \<Rightarrow> 'a list \<Rightarrow> 'b \<Rightarrow> ('w, 'b) prog" where
  "fold_prog f [] b = give (Inr b)"
| "fold_prog f (x # xs) b = prog_then (f x b) (\<lambda>c. fold_prog f xs c)"

text \<open>\<open>root.joinpath(*parts)\<close>: an absolute part starts over.\<close>

definition joinpath :: "string \<Rightarrow> string list \<Rightarrow> string" where
  "joinpath root parts = foldl (\<lambda>p w. if starts_with ''/'' w then w else path_join p w) root parts"

definition rstrip_slashes :: "string \<Rightarrow> string" where
  "rstrip_slashes s = rev (dropWhile (\<lambda>c. c = CHR ''/'') (rev s))"

definition set_sha256 :: "string \<Rightarrow> string \<Rightarrow> (string \<times> git_entry) list \<Rightarrow> (string \<times> git_entry) list" where
  "set_sha256 relative d entries = map (\<lambda>(k, g). (k, if k = relative then g\<lparr>ge_sha256 := Some d\<rparr> else g)) entries"

type_synonym extraction = "(string \<times> git_entry) list \<times> string list"

definition extract_member ::
  "(string \<Rightarrow> string) \<Rightarrow> (string \<Rightarrow> string) \<Rightarrow> 'w os \<Rightarrow> scan_limits \<Rightarrow> string \<Rightarrow> string \<Rightarrow> tar_member \<Rightarrow> extraction \<Rightarrow> ('w, extraction) prog" where
  "extract_member casefold nfc os l artifact_root skill_path m ex =
     (case ex of (expected, seen) \<Rightarrow>
      let name = rstrip_slashes (tm_name m) in
      if tm_type m = TarDirectory \<and> (name = skill_path \<or> starts_with (name @ ''/'') skill_path) then give (Inr ex)
      else check_prog (\<not> starts_with (skill_path @ ''/'') name) path_rejected
       (prog_then (give (validate_artifact_relative casefold nfc l (drop (length skill_path + 1) name))) (\<lambda>relative.
        if tm_type m = TarDirectory then give (Inr ex)
        else check_prog (tm_type m \<noteq> TarRegular \<or> tm_linkname m \<noteq> []) path_rejected
         (case map_of expected relative of
            None \<Rightarrow> give (Inl source_archive_mismatch)
          | Some g \<Rightarrow>
              check_prog (relative \<in> set seen \<or> tm_size m \<noteq> ge_size g) source_archive_mismatch
             (case tm_data m of
                NoStream \<Rightarrow> give (Inl source_archive_mismatch)
              | TarError \<Rightarrow> give (Inl source_archive_mismatch)
              | TarBytes bytes \<Rightarrow>
                  let content = take (nat (sl_max_file_bytes l + 1)) bytes in
                  check_prog (int (length content) \<noteq> tm_size m) source_archive_mismatch
                 (check_prog (git_blob_sha1 content \<noteq> ge_blob_sha1 g) source_archive_mismatch
                 (let destination = joinpath artifact_root (posix_parts relative) in
                  prog_then (os_mkdir os (path_parent destination) True True) (\<lambda>_.
                  prog_then (on_os_error (Rejected ''freeze_failed'') (os_create os destination content)) (\<lambda>_.
                  give (Inr (set_sha256 relative (sha256_hex content) expected, seen @ [relative])))))))))))"

definition extract_verified_archive ::
  "tar \<Rightarrow> (string \<Rightarrow> string) \<Rightarrow> (string \<Rightarrow> string) \<Rightarrow> 'w os \<Rightarrow> scan_limits \<Rightarrow> string \<Rightarrow> string \<Rightarrow> string \<Rightarrow> (string \<times> git_entry) list
     \<Rightarrow> ('w, (string \<times> git_entry) list) prog" where
  "extract_verified_archive untar casefold nfc os l archive artifact_root skill_path expected =
     prog_then (os_mkdir os artifact_root True False) (\<lambda>_.
     prog_then (fold_prog (extract_member casefold nfc os l artifact_root skill_path) (fst (untar archive)) (expected, [])) (\<lambda>(entries, seen).
     check_prog (snd (untar archive)) source_archive_mismatch
    (check_prog (set seen \<noteq> fst ` set entries) source_archive_mismatch
    (give (Inr entries)))))"

definition MAX_GIT_REPOSITORY_BYTES :: int where "MAX_GIT_REPOSITORY_BYTES = 64000000"

text \<open>\<open>while name.startswith("./"): name = name[2:]\<close>\<close>

fun strip_dot_slash :: "string \<Rightarrow> string" where
  "strip_dot_slash (a # b # s) = (if a = CHR ''.'' \<and> b = CHR ''/'' then strip_dot_slash s else a # b # s)"
| "strip_dot_slash s = s"

definition bad_git_path :: "string \<Rightarrow> bool" where
  "bad_git_path name \<longleftrightarrow> starts_with ''/'' name \<or> posix_parts name = [] \<or> hd (posix_parts name) \<noteq> ''.git''
     \<or> list_ex (\<lambda>p. p \<in> {[], ''.'', ''..''}) (posix_parts name) \<or> length (posix_parts name) > 20
     \<or> \<not> utf8_ok name \<or> length name > 2048 \<or> list_ex control_char name"

definition extract_git_member :: "'w os \<Rightarrow> string \<Rightarrow> tar_member \<Rightarrow> int \<times> int \<Rightarrow> ('w, int \<times> int) prog" where
  "extract_git_member os repository m counts =
     (case counts of (entries, bytes_total) \<Rightarrow>
      if tm_name m \<in> {''.'', ''./''} then give (Inr counts)
      else let name = strip_dot_slash (tm_name m) in
        if name \<in> {[], ''.''} then give (Inr counts)
        else check_prog (bad_git_path name) source_checkout_failed
         (check_prog (entries + 1 > 20000) source_checkout_failed
         (let destination = joinpath repository (posix_parts name) in
          if tm_type m = TarDirectory then prog_then (os_mkdir os destination True True) (\<lambda>_. give (Inr (entries + 1, bytes_total)))
          else check_prog (tm_type m \<noteq> TarRegular \<or> tm_linkname m \<noteq> [] \<or> tm_size m < 0) source_checkout_failed
           (check_prog (bytes_total + tm_size m > MAX_GIT_REPOSITORY_BYTES) limit_exceeded
           (case tm_data m of
              NoStream \<Rightarrow> give (Inl source_checkout_failed)
            | TarError \<Rightarrow> give (Inl source_checkout_failed)
            | TarBytes bytes \<Rightarrow>
                let content = take (nat (tm_size m + 1)) bytes in
                check_prog (int (length content) \<noteq> tm_size m) source_checkout_failed
               (prog_then (os_mkdir os (path_parent destination) True True) (\<lambda>_.
                prog_then (os_create os destination content) (\<lambda>_. give (Inr (entries + 1, bytes_total + tm_size m))))))))))"

definition extract_git_repository_archive :: "tar \<Rightarrow> 'w os \<Rightarrow> string \<Rightarrow> string \<Rightarrow> ('w, unit) prog" where
  "extract_git_repository_archive untar os archive repository =
     prog_then (os_scandir os repository) (\<lambda>(names, failed).
     check_prog (names \<noteq> []) source_checkout_failed
    (check_prog failed OSError
    (prog_then (on_os_error source_checkout_failed (fold_prog (extract_git_member os repository) (fst (untar archive)) (0, 0))) (\<lambda>_.
     check_prog (snd (untar archive)) source_checkout_failed
    (prog_then (os_is_file os (path_join (path_join repository ''.git'') ''HEAD'')) (\<lambda>head.
     check_prog (\<not> head) source_checkout_failed
    (prog_then (os_is_file os (path_join (path_join repository ''.git'') ''config'')) (\<lambda>config.
     check_prog (\<not> config) source_checkout_failed (give (Inr ()))))))))))"

subsection \<open>Processes\<close>

definition kept_environment :: "string list \<Rightarrow> (string \<Rightarrow> string option) \<Rightarrow> string \<Rightarrow> string option" where
  "kept_environment keep env k = (if k \<in> set keep then env k else None)"

definition safe_git_environment :: "(string \<Rightarrow> string option) \<Rightarrow> string \<Rightarrow> string option" where
  "safe_git_environment env =
     (kept_environment [''PATH'', ''SYSTEMROOT'', ''WINDIR'', ''COMSPEC'', ''PATHEXT'', ''TEMP'', ''TMP''] env)
       (''GIT_CONFIG_NOSYSTEM'' \<mapsto> ''1'', ''GIT_CONFIG_GLOBAL'' \<mapsto> ''/dev/null'', ''GIT_TERMINAL_PROMPT'' \<mapsto> ''0'',
        ''GIT_OPTIONAL_LOCKS'' \<mapsto> ''0'', ''GIT_PAGER'' \<mapsto> ''cat'', ''GIT_EXTERNAL_DIFF'' \<mapsto> [], ''GIT_ALLOW_PROTOCOL'' \<mapsto> ''https'',
        ''GIT_PROTOCOL_FROM_USER'' \<mapsto> ''0'', ''LC_ALL'' \<mapsto> ''C'')"

definition safe_docker_environment :: "(string \<Rightarrow> string option) \<Rightarrow> string \<Rightarrow> string option" where
  "safe_docker_environment env =
     kept_environment [''PATH'', ''HOME'', ''TMPDIR'', ''SYSTEMROOT'', ''WINDIR'', ''COMSPEC'', ''PATHEXT'',
       ''DOCKER_HOST'', ''DOCKER_CONTEXT'', ''DOCKER_TLS_VERIFY'', ''DOCKER_CERT_PATH''] env"

definition bounded_process ::
  "'w os \<Rightarrow> string list \<Rightarrow> (string \<Rightarrow> string option) \<Rightarrow> int \<Rightarrow> int \<Rightarrow> string \<Rightarrow> ('w, string) prog" where
  "bounded_process os command environment timeout limit code =
     prog_then (os_run os command environment timeout limit) (\<lambda>outcome. give (run_bounded outcome code (\<lambda>_. None)))"

definition git_command :: "string \<Rightarrow> string list \<Rightarrow> string list" where
  "git_command repository arguments =
     [''git'', ''-c'', ''core.hooksPath=/dev/null'', ''-c'', ''credential.helper='', ''-c'', ''protocol.file.allow=never'',
      ''-c'', ''protocol.ext.allow=never'', ''-c'', ''submodule.recurse=false'', ''-c'', ''core.fsmonitor=false'', ''-C'', repository] @ arguments"

definition git :: "'w os \<Rightarrow> string \<Rightarrow> string list \<Rightarrow> int \<Rightarrow> int \<Rightarrow> ('w, string) prog" where
  "git os repository arguments timeout limit =
     bounded_process os (git_command repository arguments) (safe_git_environment (os_environ os)) timeout limit ''source_checkout_failed''"

definition MAX_GIT_METADATA_BYTES :: int where "MAX_GIT_METADATA_BYTES = 2000000"

fun sum_sizes :: "'w os \<Rightarrow> string list \<Rightarrow> int \<Rightarrow> ('w, unit) prog" where
  "sum_sizes os [] bytes_total = give (Inr ())"
| "sum_sizes os (p # ps) bytes_total =
     prog_then (on_os_error source_checkout_failed (os_lstat os p)) (\<lambda>metadata.
     check_prog (st_type metadata \<noteq> Regular) source_checkout_failed
    (check_prog (bytes_total + st_size metadata > MAX_GIT_REPOSITORY_BYTES) limit_exceeded
    (sum_sizes os ps (bytes_total + st_size metadata))))"

definition enforce_repository_disk_limit :: "'w os \<Rightarrow> string \<Rightarrow> ('w, unit) prog" where
  "enforce_repository_disk_limit os repository = prog_then (os_walk os repository) (\<lambda>files. sum_sizes os files 0)"

text \<open>\<open>except Exception: subprocess.run([docker, "rm", "-f", name]); raise\<close>\<close>

definition removing_container :: "'w os \<Rightarrow> string \<Rightarrow> string \<Rightarrow> ('w, 'a) prog \<Rightarrow> ('w, 'a) prog" where
  "removing_container os docker name m =
     handle m (\<lambda>e. prog_then (os_call os [docker, ''rm'', ''-f'', name] (safe_docker_environment (os_environ os))) (\<lambda>_. give (Inl e)))"

definition fetcher_command :: "string \<Rightarrow> string \<Rightarrow> string \<Rightarrow> string \<Rightarrow> string \<Rightarrow> string \<Rightarrow> string \<Rightarrow> string list" where
  "fetcher_command docker img name owner repository commit skill_path =
     [docker, ''run'', ''--rm'', ''--pull=never'', ''--name'', name, ''--network'', ''bridge'', ''--read-only'', ''--cap-drop'', ''ALL'',
      ''--security-opt'', ''no-new-privileges'', ''--pids-limit'', ''64'', ''--memory'', ''256m'', ''--cpus'', ''1.0'', ''--ipc'', ''none'',
      ''--ulimit'', ''nofile=128:128'', ''--ulimit'', ''fsize=67108864:67108864'', ''--stop-timeout'', ''1'', ''--user'', ''65532:65532'',
      ''--tmpfs'', ''/scratch:rw,noexec,nosuid,nodev,size=67108864'', img, owner, repository, commit, skill_path]"

definition new_fetcher :: "string \<Rightarrow> string res" where
  "new_fetcher img = reject_if (\<not> re_image_reference img) ValueError (Inr img)"

definition fetch :: "tar \<Rightarrow> 'w os \<Rightarrow> string \<Rightarrow> string \<Rightarrow> fresh_request \<Rightarrow> string \<Rightarrow> ('w, unit) prog" where
  "fetch untar os docker img r repository =
     prog_then (os_uuid_hex os) (\<lambda>u.
     let name = ''vouchspec-fetcher-'' @ take 20 u in
     prog_then (removing_container os docker name
       (bounded_process os (fetcher_command docker img name (fr_owner r) (fr_repository r) (fr_commit r) (fr_skill_path r))
         (safe_docker_environment (os_environ os)) 120 (MAX_GIT_REPOSITORY_BYTES + 4000000) ''source_checkout_failed'')) (\<lambda>archive.
     prog_then (extract_git_repository_archive untar os archive repository) (\<lambda>_.
     enforce_repository_disk_limit os repository)))"

end
