(* ===== verification/GitIntakeClaims.thy ===== *)
theory GitIntakeClaims
  imports GitIntake SnapshotClaims
begin

section \<open>Git intake: its guarantees\<close>

subsection \<open>The loop over the parents of a path\<close>

lemma absolute_as_posix: "starts_with ''/'' x \<Longrightarrow> starts_with ''/'' (as_posix x)"
  by (auto simp: as_posix_def posix_root_def) (auto simp: starts_with_def)

lemma absolute_parent: "starts_with ''/'' p \<Longrightarrow> starts_with ''/'' (path_parent p)"
  unfolding path_parent_def
  by (rule absolute_as_posix) (auto simp: posix_root_def starts_with_def)

lemma parent_loop_absolute:
  assumes "parent_loop casefold p ds = Some r"
  shows "\<not> starts_with ''/'' p"
proof (rule parent_loop.raw_induct [where P = "\<lambda>c p ds r. \<not> starts_with ''/'' p", OF _ assms])
  fix loop :: "(string \<Rightarrow> string) \<Rightarrow> string \<Rightarrow> string list \<Rightarrow> string list option" and c p ds r
  assume later: "\<And>c p ds r. loop c p ds = Some r \<Longrightarrow> \<not> starts_with ''/'' p"
    and run: "(if p = ''.'' then Some ds else loop c (path_parent p) (List.insert (c p) ds)) = Some r"
  show "\<not> starts_with ''/'' p"
  proof (cases "p = ''.''")
    case True
    then show ?thesis by (simp add: starts_with_def)
  next
    case False
    with run have "loop c (path_parent p) (List.insert (c p) ds) = Some r" by simp
    then have "\<not> starts_with ''/'' (path_parent p)" by (rule later)
    then show ?thesis using absolute_parent by blast
  qed
qed

definition plain_segment :: "string \<Rightarrow> bool" where
  "plain_segment w \<longleftrightarrow> w \<noteq> [] \<and> w \<noteq> ''.'' \<and> CHR ''/'' \<notin> set w"

lemma join_no_slash: "ws \<noteq> [] \<Longrightarrow> \<forall>w \<in> set ws. plain_segment w \<Longrightarrow> \<not> starts_with ''/'' (join_with CHR ''/'' ws)"
  by (cases ws; cases "tl ws") (auto simp: starts_with_def plain_segment_def neq_Nil_conv)

lemma joined_parts:
  assumes "\<forall>w \<in> set ws. plain_segment w"
  shows "posix_tail (join_with CHR ''/'' ws) = ws" "posix_root (join_with CHR ''/'' ws) = []"
proof -
  show "posix_tail (join_with CHR ''/'' ws) = ws"
  proof (cases "ws = []")
    case False
    then have "split_on CHR ''/'' (join_with CHR ''/'' ws) = ws" using assms by (intro split_join) (auto simp: plain_segment_def)
    then show ?thesis unfolding posix_tail_def using assms by (auto simp: plain_segment_def filter_id_conv)
  qed (simp add: posix_tail_def)
  show "posix_root (join_with CHR ''/'' ws) = []"
  proof (cases "ws = []")
    case False
    with join_no_slash [OF False assms] have "\<not> starts_with ''//'' (join_with CHR ''/'' ws)" by (cases "join_with CHR ''/'' ws") (auto simp: starts_with_def)
    with join_no_slash [OF False assms] show ?thesis by (simp add: posix_root_def)
  qed (simp add: posix_root_def starts_with_def)
qed

lemma parent_of_joined:
  assumes "\<forall>w \<in> set ws. plain_segment w"
  shows "path_parent (join_with CHR ''/'' ws) = (if length ws \<le> 1 then ''.'' else join_with CHR ''/'' (butlast ws))"
proof -
  have "\<forall>w \<in> set (butlast ws). plain_segment w" using assms by (auto dest: in_set_butlastD)
  note parts = joined_parts [OF this] and here = joined_parts [OF assms]
  have "butlast ws = [] \<longleftrightarrow> length ws \<le> 1" by (cases ws) auto
  then show ?thesis by (simp add: path_parent_def here as_posix_def parts)
qed

lemma parent_loop_joined:
  "\<forall>w \<in> set ws. plain_segment w \<Longrightarrow> \<exists>r. parent_loop casefold (if ws = [] then ''.'' else join_with CHR ''/'' ws) ds = Some r"
proof (induction ws arbitrary: ds rule: rev_induct)
  case Nil
  then show ?case by (subst parent_loop.simps) simp
next
  case (snoc w ws)
  let ?p = "join_with CHR ''/'' (ws @ [w])"
  have "path_parent ?p = (if ws = [] then ''.'' else join_with CHR ''/'' ws)" using parent_of_joined [of "ws @ [w]"] snoc.prems
    by (cases ws) (auto simp: butlast_append)
  with snoc.IH [of "List.insert (casefold ?p) ds"] snoc.prems show ?case by (subst parent_loop.simps) auto
qed

lemma validated:
  assumes "validate_artifact_relative casefold nfc l path = Inr p"
  shows "p = path" "p \<noteq> []" "as_posix p = p" "utf8_ok p" "\<forall>w \<in> set (posix_parts p). \<not> bad_component casefold w" "int (length p) \<le> sl_max_path_bytes l"
    "nfc p = p" "chr_of 92 \<notin> set p" "CHR '':'' \<notin> set p" "int (length (posix_parts p)) \<le> sl_max_depth l"
  using assms by (auto simp: validate_artifact_relative_def reject_if_Inr list_ex_iff)

lemma posix_tail_plain: "w \<in> set (posix_tail p) \<Longrightarrow> plain_segment w"
  by (auto simp: posix_tail_def plain_segment_def dest: split_on_no_sep)

lemma relative_joined:
  assumes "as_posix p = p" "p \<noteq> []" "\<not> starts_with ''/'' p" "p \<noteq> ''.''"
  shows "p = join_with CHR ''/'' (posix_tail p)" "posix_tail p \<noteq> []"
proof -
  have "\<not> starts_with ''//'' p" using assms(3) by (cases p) (auto simp: starts_with_def)
  with assms(3) have root: "posix_root p = []" by (simp add: posix_root_def)
  with assms(1,4) show t: "posix_tail p \<noteq> []" by (auto simp: as_posix_def)
  show "p = join_with CHR ''/'' (posix_tail p)" using assms(1) root t by (simp add: as_posix_def)
qed

text \<open>
  C18. The loop over the parents of an accepted path ends exactly when the path is relative.  An absolute
  path, as a tree entry whose name begins with a slash gives, passes \<open>validate_artifact_relative\<close>,
  and the parse of the listing never returns.
\<close>

theorem parent_loop_ends_iff_relative:
  assumes "validate_artifact_relative casefold nfc l path = Inr p" "p \<noteq> ''.''"
  shows "parent_loop casefold (path_parent p) ds = None \<longleftrightarrow> starts_with ''/'' p"
proof
  assume none: "parent_loop casefold (path_parent p) ds = None"
  show "starts_with ''/'' p"
  proof (rule ccontr)
    assume rel: "\<not> starts_with ''/'' p"
    note v = validated [OF assms(1)]
    let ?ws = "posix_tail p"
    have ws: "\<forall>w \<in> set ?ws. plain_segment w" using posix_tail_plain by blast
    note j = relative_joined [OF v(3,2) rel assms(2)]
    have "path_parent p = (if butlast ?ws = [] then ''.'' else join_with CHR ''/'' (butlast ?ws))"
      using parent_of_joined [OF ws] j by (cases ?ws) (auto simp flip: j(1))
    with parent_loop_joined [of "butlast ?ws" casefold ds] ws none show False by (auto dest: in_set_butlastD)
  qed
next
  assume "starts_with ''/'' p"
  then have "starts_with ''/'' (path_parent p)" by (rule absolute_parent)
  then show "parent_loop casefold (path_parent p) ds = None" using parent_loop_absolute by (cases "parent_loop casefold (path_parent p) ds") auto
qed

theorem parent_loop_ends_iff_relative_witness:
  "validate_artifact_relative id id default_scan_limits ''/etc/x'' = Inr ''/etc/x'' \<and> parent_loop id (path_parent ''/etc/x'') [] = None"
proof -
  have v: "validate_artifact_relative id id default_scan_limits ''/etc/x'' = Inr ''/etc/x''" by code_simp
  have "parent_loop id (path_parent ''/etc/x'') [] = None \<longleftrightarrow> starts_with ''/'' ''/etc/x''"
    by (rule parent_loop_ends_iff_relative [OF v]) simp
  with v show ?thesis by (simp add: starts_with_def)
qed

subsection \<open>Accepted listings\<close>











subsection \<open>Extracted archives\<close>

text \<open>
  The entry \<open>e\<close> is the listed entry \<open>e0\<close> with the digest of a content that was written under its path and is the
  listed blob.
\<close>

definition blob_written :: "'w os \<Rightarrow> string \<Rightarrow> string \<times> git_entry \<Rightarrow> string \<times> git_entry \<Rightarrow> bool" where
  "blob_written os root e0 e \<longleftrightarrow> fst e = fst e0
     \<and> (\<exists>content s t. os_create os (joinpath root (posix_parts (fst e0))) content s = (Inr (), t)
          \<and> git_blob_sha1 content = ge_blob_sha1 (snd e0) \<and> int (length content) = ge_size (snd e0)
          \<and> snd e = (snd e0)\<lparr>ge_sha256 := Some (sha256_hex content)\<rparr>)"

definition extracting :: "'w os \<Rightarrow> string \<Rightarrow> (string \<times> git_entry) list \<Rightarrow> extraction \<Rightarrow> bool" where
  "extracting os root expected ex \<longleftrightarrow>
     list_all2 (\<lambda>e0 e. fst e = fst e0 \<and> (if fst e0 \<in> set (snd ex) then blob_written os root e0 e else e = e0)) expected (fst ex)"

lemma fold_prog_inv:
  assumes "fold_prog f xs b s = (Inr c, t)" "P b" "\<And>x b s c t. f x b s = (Inr c, t) \<Longrightarrow> P b \<Longrightarrow> P c"
  shows "P c"
  using assms(1,2)
proof (induction xs arbitrary: b s)
  case (Cons x xs)
  from Cons.prems(1) obtain d s1 where "f x b s = (Inr d, s1)" "fold_prog f xs d s1 = (Inr c, t)" by (auto simp: prog_Inr)
  with assms(3) Cons.prems(2) show ?case by (metis Cons.IH)
qed (simp add: give_def)

lemma extract_member_step:
  assumes run: "extract_member casefold nfc os l root skill_path m ex s = (Inr ex', t)"
    and inv: "extracting os root expected ex" and distinct: "distinct (map fst expected)"
  shows "extracting os root expected ex'"
proof (cases "ex' = ex")
  case True
  with inv show ?thesis by simp
next
  case False
  obtain entries seen where ex: "ex = (entries, seen)" by (cases ex)
  from run False ex obtain relative g bytes s1 s2 where b: "map_of entries relative = Some g" "relative \<notin> set seen" "tm_size m = ge_size g"
      "int (length (take (nat (sl_max_file_bytes l + 1)) bytes)) = tm_size m"
      "git_blob_sha1 (take (nat (sl_max_file_bytes l + 1)) bytes) = ge_blob_sha1 g"
      "os_create os (joinpath root (posix_parts relative)) (take (nat (sl_max_file_bytes l + 1)) bytes) s1 = (Inr (), s2)"
      "ex' = (set_sha256 relative (sha256_hex (take (nat (sl_max_file_bytes l + 1)) bytes)) entries, seen @ [relative])"
    by (auto simp: extract_member_def Let_def prog_Inr split: if_splits option.splits tar_data.splits) blast+
  define content where "content = take (nat (sl_max_file_bytes l + 1)) bytes"
  note r = b [folded content_def]
  have keys: "map fst entries = map fst expected"
    using inv unfolding extracting_def ex by (auto simp: list_all2_conv_all_nth intro!: nth_equalityI)
  have unchanged: "g0 = g" if "(relative, g0) \<in> set entries" for g0
    using that r(1) distinct keys by (metis map_of_is_SomeI option.inject)
  show ?thesis unfolding extracting_def r(7) ex
  proof (rule list_all2_all_nthI)
    show "length expected = length (fst (set_sha256 relative (sha256_hex content) entries, seen @ [relative]))"
      using arg_cong [OF keys, of length] by (simp add: set_sha256_def)
    fix i assume i: "i < length expected"
    with inv have here: "fst (entries ! i) = fst (expected ! i)"
        "if fst (expected ! i) \<in> set seen then blob_written os root (expected ! i) (entries ! i) else entries ! i = expected ! i"
      by (auto simp: extracting_def ex dest: list_all2_nthD)
    have len: "i < length entries" using i arg_cong [OF keys, of length] by simp
    obtain k g0 where e: "entries ! i = (k, g0)" by (cases "entries ! i")
    show "fst (fst (set_sha256 relative (sha256_hex content) entries, seen @ [relative]) ! i) = fst (expected ! i)
      \<and> (if fst (expected ! i) \<in> set (snd (set_sha256 relative (sha256_hex content) entries, seen @ [relative]))
         then blob_written os root (expected ! i) (fst (set_sha256 relative (sha256_hex content) entries, seen @ [relative]) ! i)
         else fst (set_sha256 relative (sha256_hex content) entries, seen @ [relative]) ! i = expected ! i)"
    proof (cases "k = relative")
      case True
      have "g0 = g" using unchanged nth_mem [OF len] e True by simp
      then have entry: "entries ! i = (relative, g)" using e True by simp
      with here r(2) have listed: "expected ! i = (relative, g)" by (auto split: if_splits)
      have "set_sha256 relative (sha256_hex content) entries ! i = (relative, g\<lparr>ge_sha256 := Some (sha256_hex content)\<rparr>)"
        using len entry by (simp add: set_sha256_def)
      moreover have "blob_written os root (relative, g) (relative, g\<lparr>ge_sha256 := Some (sha256_hex content)\<rparr>)"
        using r unfolding blob_written_def by auto
      ultimately show ?thesis by (simp add: listed)
    next
      case False
      with e len here show ?thesis by (auto simp: set_sha256_def)
    qed
  qed
qed

text \<open>
  C17. The extracted files are the commit's: when an archive is accepted, each entry of the listing was written
  exactly under its path, with a content whose Git blob digest and size are the listed ones, and the entry carries its
  SHA-256.
\<close>

theorem archive_matches_tree:
  assumes "extract_verified_archive untar casefold nfc os l archive root skill_path expected s = (Inr entries, t)"
    and "distinct (map fst expected)"
  shows "list_all2 (blob_written os root) expected entries"
proof -
  from assms(1) obtain s1 s2 seen where run:
      "fold_prog (extract_member casefold nfc os l root skill_path) (fst (untar archive)) (expected, []) s1 = (Inr (entries, seen), s2)"
      "set seen = fst ` set entries"
    by (auto simp: extract_verified_archive_def prog_Inr)
  have "extracting os root expected (expected, [])" by (simp add: extracting_def list_all2_same)
  then have "extracting os root expected (entries, seen)"
    by (rule fold_prog_inv [OF run(1)]) (rule extract_member_step [OF _ _ assms(2)])
  then show ?thesis unfolding extracting_def
    by (auto simp: list_all2_conv_all_nth run(2) split: if_splits) (metis image_eqI nth_mem)
qed

definition demo_member :: tar_member where
  "demo_member = \<lparr>tm_name = ''s/SKILL.md'', tm_type = TarRegular, tm_linkname = [], tm_size = 3, tm_data = TarBytes ''abc''\<rparr>"

definition demo_blob :: git_entry where
  "demo_blob = \<lparr>ge_size = 3, ge_blob_sha1 = git_blob_sha1 ''abc'', ge_mode = ''100644'', ge_sha256 = None\<rparr>"

lemma demo_extracted:
  "extract_verified_archive (\<lambda>_. ([demo_member], False)) id id demo_os default_scan_limits [] ''/w'' ''s'' [(''SKILL.md'', demo_blob)] ()
     = (Inr [(''SKILL.md'', demo_blob\<lparr>ge_sha256 := Some (sha256_hex ''abc'')\<rparr>)], ())"
proof -
  have parts: "rstrip_slashes ''s/SKILL.md'' = ''s/SKILL.md''" "starts_with (''s'' @ ''/'') ''s/SKILL.md''"
      "drop (length ''s'' + 1) ''s/SKILL.md'' = ''SKILL.md''" by code_simp+
  have valid: "validate_artifact_relative id id default_scan_limits ''SKILL.md'' = Inr ''SKILL.md''" by code_simp
  have "sl_max_file_bytes default_scan_limits \<ge> 3" by (simp add: default_scan_limits_def)
  then have content: "take (nat (sl_max_file_bytes default_scan_limits + 1)) ''abc'' = ''abc''" by simp
  have "extract_member id id demo_os default_scan_limits ''/w'' ''s'' demo_member ([(''SKILL.md'', demo_blob)], []) ()
      = (Inr ([(''SKILL.md'', demo_blob\<lparr>ge_sha256 := Some (sha256_hex ''abc'')\<rparr>)], [''SKILL.md'']), ())"
    unfolding extract_member_def demo_member_def Let_def tar_member.simps prod.case parts valid content tar_data.case
    by (simp add: prog_then_give give_def prog_then_def check_prog_def on_os_error_def handle_def demo_os_def set_sha256_def demo_blob_def
        content starts_with_def)
  then show ?thesis
    by (simp add: extract_verified_archive_def prog_then_def give_def check_prog_def demo_os_def)
qed

theorem archive_matches_tree_witness:
  "list_all2 (blob_written demo_os ''/w'') [(''SKILL.md'', demo_blob)] [(''SKILL.md'', demo_blob\<lparr>ge_sha256 := Some (sha256_hex ''abc'')\<rparr>)]"
  by (rule archive_matches_tree [OF demo_extracted]) simp

end
