(* ===== verification/FrozenSource.thy ===== *)
theory FrozenSource
  imports GitIntake Catalog Lifecycle Commerce
begin

section \<open>Frozen sources and the worker that inspects them\<close>

text \<open>
  The second half of \<^verbatim>\<open>stage_b.py\<close>: freezing the requested directory of a commit under a manifest,
  checking a frozen source again before every use, and the container that inspects it.
\<close>

definition FROZEN_SOURCE_PROFILE :: string where "FROZEN_SOURCE_PROFILE = ''vouchspec-frozen-public-git-v1''"
definition WORKER_PROFILE :: string where "WORKER_PROFILE = ''vouchspec-docker-no-egress-static-v1''"
definition MAX_WORKER_RECEIPT_BYTES :: int where "MAX_WORKER_RECEIPT_BYTES = 1000000"
definition MAX_ARCHIVE_OVERHEAD_BYTES :: int where "MAX_ARCHIVE_OVERHEAD_BYTES = 4000000"

abbreviation frozen_source_invalid :: exn where "frozen_source_invalid \<equiv> Rejected ''frozen_source_invalid''"
abbreviation frozen_source_mutated :: exn where "frozen_source_mutated \<equiv> Rejected ''frozen_source_mutated''"
abbreviation isolated_worker_failed :: exn where "isolated_worker_failed \<equiv> Rejected ''isolated_worker_failed''"

text \<open>
  The parameters of the component: Unicode's case folding and normalisation, the text of a float, Python's
  \<open>tarfile\<close>, and the operating system.
\<close>

record 'w stage_b =
  sb_casefold :: "string \<Rightarrow> string"
  sb_nfc :: "string \<Rightarrow> string"
  sb_fl :: "string \<Rightarrow> string"
  sb_untar :: tar
  sb_os :: "'w os"

record frozen_source =
  fz_root :: string
  fz_artifact_root :: string
  fz_manifest :: "(string \<times> json) list"

subsection \<open>Checking a frozen source\<close>

definition manifest_digest :: "(string \<Rightarrow> string) \<Rightarrow> (string \<times> json) list \<Rightarrow> string res" where
  "manifest_digest fl manifest =
     and_then (deterministic_json fl (JObj (without_keys [''manifest_digest''] manifest))) (\<lambda>text. Inr (sha256_hex text))"

definition MANIFEST_FIELDS :: "string list" where
  "MANIFEST_FIELDS = [''schema_version'', ''profile'', ''request_digest'', ''source'', ''repository_url'', ''fetched_commit'',
     ''frozen_artifact_path'', ''artifact_directory_sha256'', ''file_count'', ''total_bytes'', ''files'', ''network_phase'',
     ''artifact_execution'', ''manifest_digest'']"

definition check_manifest_integrity :: "(string \<Rightarrow> string) \<Rightarrow> (string \<times> json) list \<Rightarrow> unit res" where
  "check_manifest_integrity fl m =
     reject_if (jget_null m ''schema_version'' \<noteq> JStr ''1.0.0'') frozen_source_invalid
    (reject_if (jget_null m ''profile'' \<noteq> JStr FROZEN_SOURCE_PROFILE) frozen_source_invalid
    (and_then (in_strings (jget_null m ''network_phase'') [''completed_before_worker'', ''kernel_quota_fetch_completed_before_worker'']) (\<lambda>known.
     reject_if (\<not> known) frozen_source_invalid
    (reject_if (jget_null m ''artifact_execution'' \<noteq> JStr ''not_performed'') frozen_source_invalid
    (reject_if (\<not> str_matches re_sha256 (jget_null m ''manifest_digest'')) frozen_source_invalid
    (and_then (manifest_digest fl m) (\<lambda>d.
     reject_if (jget_null m ''manifest_digest'' \<noteq> JStr (''sha256:'' @ d)) frozen_source_invalid (Inr ()))))))))"

definition manifest_request :: "(string \<times> json) list \<Rightarrow> json" where
  "manifest_request m = JObj [(''schema_version'', JStr ''1.0.0''), (''operation'', JStr ''fresh_public_static_validation''),
     (''source'', jget_null m ''source''), (''profile'', JStr ''vouchspec-public-static-v1''),
     (''max_price'', JObj [(''currency'', JStr ''usd''), (''amount_minor'', JInt 4900)]), (''delivery_id'', JStr ''frozen_verify'')]"

definition repository_url :: "fresh_request \<Rightarrow> string" where
  "repository_url r = ''https://github.com/'' @ fr_owner r @ ''/'' @ fr_repository r @ ''.git''"

definition frozen_artifact_path :: "fresh_request \<Rightarrow> string" where
  "frozen_artifact_path r = as_posix (path_join ''source'' (path_name (fr_skill_path r)))"

definition check_coordinates :: "(string \<times> json) list \<Rightarrow> fresh_request res" where
  "check_coordinates m =
     and_then (parse_fresh_validation_request (manifest_request m)) (\<lambda>r.
     reject_if (canon (source_json r) \<noteq> canon (jget_null m ''source'')
       \<or> jget_null m ''repository_url'' \<noteq> JStr (repository_url r)
       \<or> jget_null m ''fetched_commit'' \<noteq> JStr (fr_commit r)
       \<or> jget_null m ''frozen_artifact_path'' \<noteq> JStr (frozen_artifact_path r)) frozen_source_invalid (Inr r))"

definition check_manifest_file :: "json \<Rightarrow> unit res" where
  "check_manifest_file item =
     (case item of
        JObj kvs \<Rightarrow>
          reject_if (\<not> has_keys [''path'', ''size'', ''sha256'', ''git_blob_sha1'', ''git_mode''] kvs) frozen_source_mutated
         (reject_if (\<not> str_matches (re_class is_hex 40 40) (jget_null kvs ''git_blob_sha1'')) frozen_source_mutated
         (and_then (in_strings (jget_null kvs ''git_mode'') [''100644'', ''100755'']) (\<lambda>known.
          reject_if (\<not> known) frozen_source_mutated (Inr ()))))
      | _ \<Rightarrow> Inl frozen_source_mutated)"

definition same_file :: "(string \<Rightarrow> string) \<Rightarrow> json \<Rightarrow> file_data \<Rightarrow> bool" where
  "same_file fl item f \<longleftrightarrow> jget_null (obj_of item) ''path'' = JStr (fd_path f)
     \<and> equals_count fl (jget_null (obj_of item) ''size'') (nat (fd_size f))
     \<and> jget_null (obj_of item) ''sha256'' = JStr (fd_sha256 f)"

definition check_inventory :: "(string \<Rightarrow> string) \<Rightarrow> (string \<times> json) list \<Rightarrow> snapshot \<Rightarrow> unit res" where
  "check_inventory fl m sn =
     (case jget_null m ''files'' of
        JArr items \<Rightarrow>
          and_then (fold_res (\<lambda>item _. check_manifest_file item) items ()) (\<lambda>_.
          reject_if (\<not> list_all2 (same_file fl) items (sn_files sn)) frozen_source_mutated
         (reject_if (\<not> equals_count fl (jget_null m ''file_count'') (length (sn_files sn))
            \<or> \<not> equals_count fl (jget_null m ''total_bytes'') (nat (sn_total_bytes sn))
            \<or> jget_null m ''artifact_directory_sha256'' \<noteq> JStr (sn_directory_sha256 sn)) frozen_source_mutated (Inr ())))
      | _ \<Rightarrow> Inl frozen_source_mutated)"

definition verify_frozen_source :: "'w stage_b \<Rightarrow> scan_limits \<Rightarrow> string \<Rightarrow> ('w, frozen_source) prog" where
  "verify_frozen_source sb l path =
     prog_then (os_resolve (sb_os sb) True path) (\<lambda>root.
     prog_then (on_os_error frozen_source_invalid (os_read_bytes (sb_os sb) (path_join root ''freeze-manifest.json''))) (\<lambda>raw.
     check_prog (\<not> utf8_ok raw) ValueError
    (prog_then (give (load_strict_commerce_json raw)) (\<lambda>v.
     case v of
       JObj m \<Rightarrow>
         check_prog (\<not> has_keys MANIFEST_FIELDS m) frozen_source_invalid
        (prog_then (give (check_manifest_integrity (sb_fl sb) m)) (\<lambda>_.
         prog_then (give (check_coordinates m)) (\<lambda>r.
         let artifact_root = joinpath root (posix_parts (frozen_artifact_path r)) in
         prog_then (collect_snapshot (sb_casefold sb) (sb_nfc sb) (sb_os sb) artifact_root l None) (\<lambda>sn.
         prog_then (give (check_inventory (sb_fl sb) m sn)) (\<lambda>_.
         give (Inr \<lparr>fz_root = root, fz_artifact_root = artifact_root, fz_manifest = m\<rparr>))))))
     | _ \<Rightarrow> give (Inl frozen_source_invalid)))))"

subsection \<open>Freezing\<close>

text \<open>\<open>_remove_tree(path, ignore_errors=True)\<close>\<close>

definition remove_tree_quietly :: "'w os \<Rightarrow> string \<Rightarrow> ('w, unit) prog" where
  "remove_tree_quietly os p = handle (os_rmtree os p) (\<lambda>e. give (if e = OSError then Inr () else Inl e))"

definition ascii_answer :: "string \<Rightarrow> string res" where
  "ascii_answer s = reject_if (\<not> is_ascii s) ValueError (Inr (py_strip s))"

definition manifest_file :: "(string \<times> git_entry) list \<Rightarrow> file_data \<Rightarrow> json res" where
  "manifest_file expected f =
     (case map_of expected (fd_path f) of
        None \<Rightarrow> Inl KeyError
      | Some g \<Rightarrow>
          reject_if (ge_sha256 g \<noteq> Some (fd_sha256 f) \<or> ge_size g \<noteq> fd_size f) (Rejected ''freeze_failed'')
         (Inr (JObj [(''path'', JStr (fd_path f)), (''size'', JInt (fd_size f)), (''sha256'', JStr (fd_sha256 f)),
            (''git_blob_sha1'', JStr (ge_blob_sha1 g)), (''git_mode'', JStr (ge_mode g))])))"

definition manifest_core :: "fresh_request \<Rightarrow> bool \<Rightarrow> string \<Rightarrow> snapshot \<Rightarrow> json list \<Rightarrow> (string \<times> json) list" where
  "manifest_core r fetched_by_container fetched sn files =
     [(''schema_version'', JStr ''1.0.0''), (''profile'', JStr FROZEN_SOURCE_PROFILE),
      (''request_digest'', JStr (''sha256:'' @ request_digest_hex r)), (''source'', source_json r),
      (''repository_url'', JStr (repository_url r)), (''fetched_commit'', JStr fetched),
      (''frozen_artifact_path'', JStr (frozen_artifact_path r)), (''artifact_directory_sha256'', JStr (sn_directory_sha256 sn)),
      (''file_count'', JInt (int (length files))), (''total_bytes'', JInt (sn_total_bytes sn)), (''files'', JArr files),
      (''network_phase'', JStr (if fetched_by_container then ''kernel_quota_fetch_completed_before_worker'' else ''completed_before_worker'')),
      (''artifact_execution'', JStr ''not_performed'')]"

text \<open>The Git objects of the requested commit, by the container or by Git itself.\<close>

definition obtain_objects :: "'w stage_b \<Rightarrow> (string \<times> string) option \<Rightarrow> fresh_request \<Rightarrow> string \<Rightarrow> ('w, unit) prog" where
  "obtain_objects sb fetcher r repository =
     (let os = sb_os sb; run = (\<lambda>arguments timeout. git os repository arguments timeout MAX_GIT_METADATA_BYTES) in
      case fetcher of
        Some (docker, img) \<Rightarrow> fetch (sb_untar sb) os docker img r repository
      | None \<Rightarrow>
          prog_then (run [''init'', ''-q''] 60) (\<lambda>_.
          prog_then (run [''config'', ''core.autocrlf'', ''false''] 60) (\<lambda>_.
          prog_then (run [''config'', ''core.eol'', ''lf''] 60) (\<lambda>_.
          prog_then (run [''remote'', ''add'', ''origin'', repository_url r] 60) (\<lambda>_.
          prog_then (run [''fetch'', ''--depth=1'', ''--no-tags'', ''--filter=tree:0'', ''origin'', fr_commit r] 90) (\<lambda>_.
          give (Inr ())))))))"

text \<open>From the objects to the extracted directory: what the commit's tree lists, extracted and compared.\<close>

definition extract_source :: "'w stage_b \<Rightarrow> scan_limits \<Rightarrow> fresh_request \<Rightarrow> string \<Rightarrow> string \<Rightarrow> ('w, string \<times> (string \<times> git_entry) list) prog" where
  "extract_source sb l r repository artifact_root =
     (let os = sb_os sb; run = (\<lambda>arguments timeout limit. git os repository arguments timeout limit) in
      prog_then (enforce_repository_disk_limit os repository) (\<lambda>_.
      prog_then (run [''rev-parse'', ''FETCH_HEAD''] 60 MAX_GIT_METADATA_BYTES) (\<lambda>answer.
      prog_then (give (ascii_answer answer)) (\<lambda>fetched.
      check_prog (fetched \<noteq> fr_commit r) (Rejected ''source_commit_mismatch'')
     (prog_then (run [''cat-file'', ''-t'', ''FETCH_HEAD:'' @ fr_skill_path r] 60 MAX_GIT_METADATA_BYTES) (\<lambda>answer.
      prog_then (give (ascii_answer answer)) (\<lambda>object_type.
      check_prog (object_type \<noteq> ''tree'') (Rejected ''source_scope_invalid'')
     (prog_then (run [''ls-tree'', ''-r'', ''-z'', ''-l'', ''--full-tree'', ''FETCH_HEAD'', ''--'', fr_skill_path r] 60 MAX_GIT_METADATA_BYTES) (\<lambda>listing.
      prog_then (give (parse_tree_listing (sb_casefold sb) (sb_nfc sb) l listing (fr_skill_path r))) (\<lambda>expected.
      prog_then (enforce_repository_disk_limit os repository) (\<lambda>_.
      prog_then (run [''archive'', ''--format=tar'', ''FETCH_HEAD'', ''--'', fr_skill_path r] 90 (sl_max_total_bytes l + MAX_ARCHIVE_OVERHEAD_BYTES)) (\<lambda>archive.
      prog_then (enforce_repository_disk_limit os repository) (\<lambda>_.
      prog_then (extract_verified_archive (sb_untar sb) (sb_casefold sb) (sb_nfc sb) os l archive artifact_root (fr_skill_path r) expected) (\<lambda>entries.
      give (Inr (fetched, entries))))))))))))))))"

definition freeze_in ::
  "'w stage_b \<Rightarrow> scan_limits \<Rightarrow> (string \<times> string) option \<Rightarrow> fresh_request \<Rightarrow> string \<Rightarrow> string \<Rightarrow> ('w, frozen_source) prog" where
  "freeze_in sb l fetcher r partial target =
     (let os = sb_os sb; repository = path_join partial ''repository'';
          artifact_root = joinpath partial (posix_parts (path_join ''source'' (path_name (fr_skill_path r)))) in
      prog_then (obtain_objects sb fetcher r repository) (\<lambda>_.
      prog_then (extract_source sb l r repository artifact_root) (\<lambda>(fetched, entries).
      prog_then (collect_snapshot (sb_casefold sb) (sb_nfc sb) os artifact_root l None) (\<lambda>sn.
      prog_then (give (map_res (manifest_file entries) (sn_files sn))) (\<lambda>files.
      let core = manifest_core r (fetcher \<noteq> None) fetched sn files in
      prog_then (give (manifest_digest (sb_fl sb) core)) (\<lambda>d.
      prog_then (give (deterministic_json (sb_fl sb) (JObj (core @ [(''manifest_digest'', JStr (''sha256:'' @ d))])))) (\<lambda>text.
      prog_then (os_write_bytes os (path_join partial ''freeze-manifest.json'') (text @ [chr_of 10])) (\<lambda>_.
      prog_then (os_rmtree os repository) (\<lambda>_.
      prog_then (os_replace os partial target) (\<lambda>replaced.
      prog_then (if replaced then give (Inr ()) else remove_tree_quietly os partial) (\<lambda>_.
      verify_frozen_source sb l target)))))))))))"

definition freeze_public_source ::
  "'w stage_b \<Rightarrow> scan_limits \<Rightarrow> (string \<times> string) option \<Rightarrow> json \<Rightarrow> string \<Rightarrow> ('w, frozen_source) prog" where
  "freeze_public_source sb l fetcher request_value output_root =
     (let os = sb_os sb in
      prog_then (give (parse_fresh_validation_request request_value)) (\<lambda>r.
      prog_then (os_mkdir os output_root True True) (\<lambda>_.
      prog_then (os_resolve os True output_root) (\<lambda>root.
      let target = path_join root (request_digest_hex r) in
      prog_then (os_exists os target) (\<lambda>there.
      if there then verify_frozen_source sb l target
      else prog_then (os_uuid_hex os) (\<lambda>u.
        let partial = path_join root (''.partial-'' @ request_digest_hex r @ ''-'' @ u) in
        prog_then (os_mkdir os partial False False) (\<lambda>_.
        prog_then (os_mkdir os (path_join partial ''repository'') False False) (\<lambda>_.
        handle (freeze_in sb l fetcher r partial target) (\<lambda>e.
          prog_then (remove_tree_quietly os partial) (\<lambda>_. give (Inl e)))))))))))"

subsection \<open>The worker\<close>

definition worker_command :: "string \<Rightarrow> string \<Rightarrow> string \<Rightarrow> string \<Rightarrow> string \<Rightarrow> int \<Rightarrow> string list" where
  "worker_command docker img name frozen_root generated_at expires_in_days =
     [docker, ''run'', ''--rm'', ''--pull=never'', ''--name'', name, ''--network'', ''none'', ''--read-only'', ''--cap-drop'', ''ALL'',
      ''--security-opt'', ''no-new-privileges'', ''--pids-limit'', ''64'', ''--memory'', ''256m'', ''--cpus'', ''1.0'', ''--ipc'', ''none'',
      ''--ulimit'', ''nofile=128:128'', ''--ulimit'', ''fsize=1048576:1048576'', ''--stop-timeout'', ''1'', ''--user'', ''65532:65532'',
      ''--tmpfs'', ''/tmp:rw,noexec,nosuid,nodev,size=16777216'', ''--mount'', ''type=bind,src='' @ frozen_root @ '',dst=/frozen,readonly'',
      img, ''--frozen-root'', ''/frozen'', ''--generated-at'', generated_at, ''--expires-in-days'', show_int expires_in_days]"

definition new_worker :: "string \<Rightarrow> string res" where
  "new_worker img = reject_if (\<not> re_image_reference img) ValueError (Inr img)"

record worker_output =
  wo_root :: string
  wo_receipt_path :: string
  wo_execution_path :: string
  wo_receipt :: "(string \<times> json) list"

definition execution_report ::
  "string \<Rightarrow> string \<Rightarrow> string \<Rightarrow> int \<Rightarrow> json \<Rightarrow> string \<Rightarrow> json \<Rightarrow> (string \<times> json) list" where
  "execution_report img started_at completed_at duration_ms receipt_id receipt_bytes freeze_digest =
     [(''schema_version'', JStr ''1.0.0''), (''profile'', JStr WORKER_PROFILE), (''container_image'', JStr img), (''network'', JStr ''none''),
      (''root_filesystem'', JStr ''read_only''), (''input_mount'', JStr ''read_only''), (''capabilities'', JStr ''all_dropped''),
      (''no_new_privileges'', JBool True), (''uid_gid'', JStr ''65532:65532''), (''pids_limit'', JInt 64),
      (''memory_limit_bytes'', JInt 268435456), (''cpu_limit'', JStr ''1.0''), (''tmpfs'', JStr ''16MiB_noexec_nosuid_nodev''),
      (''ipc'', JStr ''none''), (''open_files_limit'', JInt 128), (''file_size_limit_bytes'', JInt 1048576), (''stop_timeout_seconds'', JInt 1),
      (''output_channel'', JStr ''bounded_stdout_1000000_bytes''), (''started_at'', JStr started_at), (''completed_at'', JStr completed_at),
      (''duration_ms'', JInt duration_ms), (''receipt_id'', receipt_id), (''receipt_sha256'', JStr (sha256_hex receipt_bytes)),
      (''freeze_manifest_digest'', freeze_digest), (''artifact_execution'', JStr ''not_performed'')]"

text \<open>The receipt must name the frozen directory, commit and path; the comparisons stop at the first that differs.\<close>

definition check_binding :: "json \<Rightarrow> (string \<times> json) list \<Rightarrow> unit res" where
  "check_binding receipt m =
     and_then (json_path [''artifact'', ''digest'', ''sha256''] receipt) (\<lambda>digest.
     reject_if (digest \<noteq> jget_null m ''artifact_directory_sha256'') isolated_worker_failed
    (and_then (json_path [''provenance'', ''source_commit''] receipt) (\<lambda>commit.
     reject_if (commit \<noteq> jget_null m ''fetched_commit'') isolated_worker_failed
    (and_then (json_path [''provenance'', ''artifact_path''] receipt) (\<lambda>path.
     reject_if (path \<noteq> jget_null (obj_of (jget_null m ''source'')) ''skill_path'') isolated_worker_failed (Inr ()))))))"

definition accept_receipt :: "(string \<Rightarrow> string) \<Rightarrow> string \<Rightarrow> (string \<times> json) list res" where
  "accept_receipt fl receipt_bytes =
     reject_if (\<not> utf8_ok receipt_bytes) isolated_worker_failed
    (and_then (load_strict_commerce_json receipt_bytes) (\<lambda>v.
     case v of
       JObj kvs \<Rightarrow> and_then (verify_receipt_integrity fl kvs) (\<lambda>ok. reject_if (\<not> ok) isolated_worker_failed (Inr kvs))
     | _ \<Rightarrow> Inl isolated_worker_failed))"

definition clock_text :: "'w os \<Rightarrow> ('w, string) prog" where
  "clock_text os = prog_then (os_clock os) (\<lambda>u. give (Inr (utc_iso u)))"

definition run_worker ::
  "'w stage_b \<Rightarrow> string \<Rightarrow> string \<Rightarrow> string \<Rightarrow> string \<Rightarrow> string option \<Rightarrow> int \<Rightarrow> int \<Rightarrow> ('w, worker_output) prog" where
  "run_worker sb docker img frozen_root output_root generated_at expires_in_days timeout_seconds =
     (let os = sb_os sb in
      prog_then (verify_frozen_source sb default_scan_limits frozen_root) (\<lambda>frozen.
      prog_then (os_exists os output_root) (\<lambda>there.
      check_prog there (Rejected ''worker_output_exists'')
     (check_prog (\<not> (1 \<le> expires_in_days \<and> expires_in_days \<le> 30)) ValueError
     (prog_then (if generated_at \<in> {None, Some []} then clock_text os else give (Inr (the generated_at))) (\<lambda>timestamp.
      prog_then (os_uuid_hex os) (\<lambda>u.
      let name = ''vouchspec-worker-'' @ take 20 u in
      prog_then (os_monotonic_us os) (\<lambda>started.
      prog_then (clock_text os) (\<lambda>started_at.
      prog_then (removing_container os docker name
        (bounded_process os (worker_command docker img name (fz_root frozen) timestamp expires_in_days)
          (safe_docker_environment (os_environ os)) timeout_seconds MAX_WORKER_RECEIPT_BYTES ''isolated_worker_failed'')) (\<lambda>receipt_bytes.
      prog_then (os_monotonic_us os) (\<lambda>ended.
      prog_then (give (accept_receipt (sb_fl sb) receipt_bytes)) (\<lambda>receipt.
      prog_then (give (check_binding (JObj receipt) (fz_manifest frozen))) (\<lambda>_.
      prog_then (os_mkdir os output_root True False) (\<lambda>_.
      prog_then (os_write_bytes os (path_join output_root ''receipt.json'') receipt_bytes) (\<lambda>_.
      prog_then (clock_text os) (\<lambda>completed_at.
      prog_then (give (json_path [''receipt_id''] (JObj receipt))) (\<lambda>receipt_id.
      prog_then (give (deterministic_json (sb_fl sb) (JObj (execution_report img started_at completed_at ((ended - started) div 1000) receipt_id
        receipt_bytes (jget_null (fz_manifest frozen) ''manifest_digest''))))) (\<lambda>text.
      prog_then (os_write_bytes os (path_join output_root ''worker-execution.json'') (text @ [chr_of 10])) (\<lambda>_.
      give (Inr \<lparr>wo_root = output_root, wo_receipt_path = path_join output_root ''receipt.json'',
        wo_execution_path = path_join output_root ''worker-execution.json'', wo_receipt = receipt\<rparr>))))))))))))))))))))"

end
