(* ===== verification/StageBSigner.thy ===== *)
theory StageBSigner
  imports FrozenSource
begin

section \<open>The signing gate\<close>

text \<open>
  \<^verbatim>\<open>stage_b_signer.py\<close>: the bytes of a worker's receipt are signed only after the frozen source, the
  worker's report of its isolation, the times and every binding between them were checked again.  The signature
  scheme and the JSON schema of receipts are parameters, as in \<open>Signing\<close>; \<open>elapsed_ms\<close> is the float
  arithmetic of \<open>int(delta.total_seconds() * 1000)\<close> on microseconds.
\<close>

abbreviation gate_failed :: exn where "gate_failed \<equiv> Rejected ''signing_gate_failed''"

definition MAX_EXECUTION_REPORT_BYTES :: nat where "MAX_EXECUTION_REPORT_BYTES = 64000"

definition EXECUTION_FIELDS :: "string list" where
  "EXECUTION_FIELDS = [''schema_version'', ''profile'', ''container_image'', ''network'', ''root_filesystem'', ''input_mount'',
     ''capabilities'', ''no_new_privileges'', ''uid_gid'', ''pids_limit'', ''memory_limit_bytes'', ''cpu_limit'', ''tmpfs'', ''ipc'',
     ''open_files_limit'', ''file_size_limit_bytes'', ''stop_timeout_seconds'', ''output_channel'', ''started_at'', ''completed_at'',
     ''duration_ms'', ''receipt_id'', ''receipt_sha256'', ''freeze_manifest_digest'', ''artifact_execution'']"

definition gate_time :: "json \<Rightarrow> int res" where
  "gate_time v =
     (case v of
        JStr s \<Rightarrow>
          (case fromisoformat (normalize_z s) of
             Inl e \<Rightarrow> Inl (if e = ValueError then gate_failed else e)
           | Inr dt \<Rightarrow> reject_if (is_naive dt) gate_failed (astimezone_utc dt))
      | _ \<Rightarrow> Inl gate_failed)"

text \<open>The report says the container had no network, no privileges, and the limits of the worker.\<close>

definition isolation_ok :: "(string \<Rightarrow> string) \<Rightarrow> string list \<Rightarrow> (string \<times> json) list \<Rightarrow> bool" where
  "isolation_ok fl allowed x \<longleftrightarrow>
     (\<forall>(k, v) \<in> set [(''schema_version'', ''1.0.0''), (''profile'', WORKER_PROFILE), (''network'', ''none''), (''root_filesystem'', ''read_only''),
        (''input_mount'', ''read_only''), (''capabilities'', ''all_dropped''), (''uid_gid'', ''65532:65532''), (''cpu_limit'', ''1.0''),
        (''tmpfs'', ''16MiB_noexec_nosuid_nodev''), (''ipc'', ''none''), (''output_channel'', ''bounded_stdout_1000000_bytes''),
        (''artifact_execution'', ''not_performed'')]. jget_null x k = JStr v)
     \<and> str_matches re_image_reference (jget_null x ''container_image'') \<and> the_str (jget_null x ''container_image'') \<in> set allowed
     \<and> jget_null x ''no_new_privileges'' = JBool True
     \<and> (\<forall>(k, n) \<in> set [(''pids_limit'', 64), (''memory_limit_bytes'', 268435456), (''open_files_limit'', 128),
        (''file_size_limit_bytes'', 1048576), (''stop_timeout_seconds'', 1)]. equals_count fl (jget_null x k) n)
     \<and> bounded_int 0 75000 (jget_null x ''duration_ms'')"

definition minutes5 :: int where "minutes5 = 5 * minute_us"

definition check_timing :: "(int \<Rightarrow> int) \<Rightarrow> int \<Rightarrow> int \<Rightarrow> int \<Rightarrow> int \<Rightarrow> unit res" where
  "check_timing elapsed_ms duration_ms started completed generated =
     reject_if (completed < started) gate_failed
    (reject_if (elapsed_ms (completed - started) > 77000) gate_failed
    (reject_if (duration_ms > elapsed_ms (completed - started) + 2000) gate_failed
    (reject_if (started - minutes5 < 0) OverflowError
    (reject_if (\<not> started - minutes5 \<le> generated) gate_failed
    (reject_if (completed + minutes5 \<ge> max_us) OverflowError
    (reject_if (\<not> generated \<le> completed + minutes5) gate_failed (Inr ())))))))"

text \<open>\<open>s in value\<close>\<close>

definition json_contains :: "string \<Rightarrow> json \<Rightarrow> bool res" where
  "json_contains s v =
     (case v of
        JArr vs \<Rightarrow> Inr (JStr s \<in> set vs)
      | JStr t \<Rightarrow> Inr (sublist s t)
      | JObj kvs \<Rightarrow> Inr (s \<in> fst ` set kvs)
      | _ \<Rightarrow> Inl TypeError)"

text \<open>\<open>or value[k1][k2] != expected\<close>\<close>

definition must_equal :: "string list \<Rightarrow> json \<Rightarrow> json \<Rightarrow> unit res" where
  "must_equal path expected v =
     and_then (json_path path v) (\<lambda>x. reject_if (canon x \<noteq> canon expected) gate_failed (Inr ()))"

definition check_bindings :: "frozen_source \<Rightarrow> string \<Rightarrow> (string \<times> json) list \<Rightarrow> (string \<times> json) list \<Rightarrow> unit res" where
  "check_bindings frozen receipt_sha256 x receipt =
     (let m = fz_manifest frozen; r = JObj receipt in
      and_then (must_equal [''receipt_id''] (jget_null receipt ''receipt_id'') (JObj x)) (\<lambda>_.
      and_then (must_equal [''receipt_sha256''] (JStr receipt_sha256) (JObj x)) (\<lambda>_.
      and_then (must_equal [''freeze_manifest_digest''] (jget_null m ''manifest_digest'') (JObj x)) (\<lambda>_.
      and_then (must_equal [''artifact'', ''digest'', ''sha256''] (jget_null m ''artifact_directory_sha256'') r) (\<lambda>_.
      and_then (must_equal [''artifact'', ''root_directory''] (JStr (path_name (fz_artifact_root frozen))) r) (\<lambda>_.
      and_then (must_equal [''provenance'', ''source_repository''] (jget_null m ''repository_url'') r) (\<lambda>_.
      and_then (must_equal [''provenance'', ''source_commit''] (jget_null m ''fetched_commit'') r) (\<lambda>_.
      and_then (must_equal [''provenance'', ''artifact_path''] (jget_null (obj_of (jget_null m ''source'')) ''skill_path'') r) (\<lambda>_.
      and_then (must_equal [''provenance'', ''source_verification'']
        (jstr_obj [(''status'', ''completed''), (''method'', ''exact-local-git-blob-match-v1'')]) r) (\<lambda>_.
      and_then (must_equal [''methodology'', ''artifact_execution''] (JStr ''not-performed'') r) (\<lambda>_.
      and_then (json_path [''evidence_labels''] r) (\<lambda>labels.
      and_then (json_contains ''INDEPENDENT_STATIC_SCAN'' labels) (\<lambda>scanned.
      reject_if (\<not> scanned) gate_failed (Inr ()))))))))))))))"

text \<open>\<open>receipt.get("validity", {}).get("generated_at")\<close>\<close>

definition generated_at_of :: "(string \<times> json) list \<Rightarrow> json res" where
  "generated_at_of receipt =
     (case jget receipt ''validity'' of
        None \<Rightarrow> Inr JNull
      | Some (JObj v) \<Rightarrow> Inr (jget_null v ''generated_at'')
      | Some _ \<Rightarrow> Inl AttributeError)"

text \<open>Both documents from their bytes, and every check between them and the frozen source.\<close>

definition check_worker_result ::
  "(string \<Rightarrow> string) \<Rightarrow> (int \<Rightarrow> int) \<Rightarrow> string list \<Rightarrow> frozen_source \<Rightarrow> string \<Rightarrow> string
     \<Rightarrow> ((string \<times> json) list \<times> (string \<times> json) list) res" where
  "check_worker_result fl elapsed_ms allowed frozen receipt_bytes execution_bytes =
     reject_if (receipt_bytes = [] \<or> length receipt_bytes > MAX_RECEIPT_BYTES) gate_failed
    (reject_if (execution_bytes = [] \<or> length execution_bytes > MAX_EXECUTION_REPORT_BYTES) gate_failed
    (reject_if (\<not> utf8_ok receipt_bytes) gate_failed
    (and_then (load_strict_commerce_json receipt_bytes) (\<lambda>r.
     reject_if (\<not> utf8_ok execution_bytes) gate_failed
    (and_then (load_strict_commerce_json execution_bytes) (\<lambda>x.
     case r of
       JObj receipt \<Rightarrow>
         and_then (verify_receipt_integrity fl receipt) (\<lambda>ok.
         reject_if (\<not> ok) gate_failed
        (case x of
           JObj execution \<Rightarrow>
             reject_if (\<not> has_keys EXECUTION_FIELDS execution) gate_failed
            (reject_if (\<not> isolation_ok fl allowed execution) gate_failed
            (and_then (gate_time (jget_null execution ''started_at'')) (\<lambda>started.
             and_then (gate_time (jget_null execution ''completed_at'')) (\<lambda>completed.
             and_then (generated_at_of receipt) (\<lambda>g.
             and_then (gate_time g) (\<lambda>generated.
             and_then (check_timing elapsed_ms (the_int (jget_null execution ''duration_ms'')) started completed generated) (\<lambda>_.
             and_then (check_bindings frozen (sha256_hex receipt_bytes) execution receipt) (\<lambda>_.
             Inr (receipt, execution)))))))))
         | _ \<Rightarrow> Inl gate_failed))
     | _ \<Rightarrow> Inl gate_failed))))))"

text \<open>\<open>_require_safe_regular_file\<close>, as actions.\<close>

definition safe_regular_file :: "'w os \<Rightarrow> string \<Rightarrow> ('w, unit) prog" where
  "safe_regular_file os p =
     prog_then (on_os_error bad_key (os_lstat os p)) (\<lambda>m.
     prog_then (os_is_symlink os p) (\<lambda>link.
     check_prog (link \<or> st_reparse m) bad_key
    (prog_then (os_is_file os p) (\<lambda>regular. check_prog (\<not> regular) bad_key (give (Inr ()))))))"

text \<open>The envelope, as bytes, with the check that it opens to the same receipt.\<close>

definition sealed_envelope ::
  "ed25519 \<Rightarrow> (string \<Rightarrow> string) \<Rightarrow> (json \<Rightarrow> bool) \<Rightarrow> string \<Rightarrow> string \<Rightarrow> string res" where
  "sealed_envelope ed fl schema_ok private_key receipt_bytes =
     and_then (sign_receipt_bytes ed fl receipt_bytes private_key) (\<lambda>envelope.
     and_then (deterministic_json fl envelope) (\<lambda>text.
     let envelope_bytes = text @ [chr_of 10] in
     and_then (verify_receipt_envelope ed fl schema_ok envelope_bytes (public_jwk (ed_public ed private_key))) (\<lambda>(_, payload).
     reject_if (payload \<noteq> receipt_bytes) gate_failed (Inr envelope_bytes))))"

definition signing_report ::
  "frozen_source \<Rightarrow> (string \<times> json) list \<Rightarrow> (string \<times> json) list \<Rightarrow> string \<Rightarrow> string \<Rightarrow> string \<Rightarrow> (string \<times> json) list" where
  "signing_report frozen receipt execution receipt_bytes envelope_bytes keyid =
     [(''schema_version'', JStr ''1.0.0''), (''receipt_id'', jget_null receipt ''receipt_id''), (''receipt_sha256'', JStr (sha256_hex receipt_bytes)),
      (''envelope_sha256'', JStr (sha256_hex envelope_bytes)), (''signing_keyid'', JStr keyid),
      (''freeze_manifest_digest'', jget_null (fz_manifest frozen) ''manifest_digest''), (''worker_profile'', jget_null execution ''profile''),
      (''container_image'', jget_null execution ''container_image''), (''artifact_execution'', JStr ''not_performed'')]"

record 'w signer =
  sg_stage :: "'w stage_b"
  sg_ed :: ed25519
  sg_schema_ok :: "json \<Rightarrow> bool"
  sg_elapsed_ms :: "int \<Rightarrow> int"

definition sign_verified_worker_result ::
  "'w signer \<Rightarrow> string list \<Rightarrow> string \<Rightarrow> string \<Rightarrow> string \<Rightarrow> string \<Rightarrow> ('w, (string \<times> json) list) prog" where
  "sign_verified_worker_result sg allowed private_key frozen_root worker_output_root envelope_output =
     (let os = sb_os (sg_stage sg); fl = sb_fl (sg_stage sg) in
      prog_then (verify_frozen_source (sg_stage sg) default_scan_limits frozen_root) (\<lambda>frozen.
      check_prog (allowed = [] \<or> list_ex (\<lambda>i. \<not> re_image_reference i) allowed) ValueError
     (prog_then (os_resolve os True worker_output_root) (\<lambda>output_root.
      prog_then (on_os_error gate_failed
        (prog_then (safe_regular_file os (path_join output_root ''receipt.json'')) (\<lambda>_.
         prog_then (safe_regular_file os (path_join output_root ''worker-execution.json'')) (\<lambda>_.
         prog_then (os_read_bytes os (path_join output_root ''receipt.json'')) (\<lambda>receipt_bytes.
         prog_then (os_read_bytes os (path_join output_root ''worker-execution.json'')) (\<lambda>execution_bytes.
         give (Inr (receipt_bytes, execution_bytes)))))))) (\<lambda>(receipt_bytes, execution_bytes).
      prog_then (give (check_worker_result fl (sg_elapsed_ms sg) allowed frozen receipt_bytes execution_bytes)) (\<lambda>(receipt, execution).
      prog_then (give (sealed_envelope (sg_ed sg) fl (sg_schema_ok sg) private_key receipt_bytes)) (\<lambda>envelope_bytes.
      prog_then (prog_then (os_expanduser os envelope_output) (os_resolve os False)) (\<lambda>target.
      prog_then (os_exists os target) (\<lambda>there.
      check_prog there (Rejected ''output_exists'')
     (prog_then (os_mkdir os (path_parent target) True True) (\<lambda>_.
      prog_then (on_os_error gate_failed (os_create os target envelope_bytes)) (\<lambda>_.
      prog_then (give (jwk_thumbprint (public_jwk (ed_public (sg_ed sg) private_key)))) (\<lambda>keyid.
      give (Inr (signing_report frozen receipt execution receipt_bytes envelope_bytes keyid)))))))))))))))"

end
