(* ===== verification/Fulfillment.thy ===== *)
theory Fulfillment
  imports StageBSigner CommerceAccess
begin

section \<open>Fulfilment of a sandbox order\<close>

text \<open>
  \<^verbatim>\<open>fulfillment.py\<close>: freeze, inspect, sign, record the costs, deliver, publish.  A program
  works on the database and the world; each call of the store is one transaction on the database.
\<close>

definition in_db :: "('d, 'a) prog \<Rightarrow> ('d \<times> 'w, 'a) prog" where
  "in_db m s = (case m (fst s) of (r, d) \<Rightarrow> (r, (d, snd s)))"

definition in_world :: "('w, 'a) prog \<Rightarrow> ('d \<times> 'w, 'a) prog" where
  "in_world m s = (case m (snd s) of (r, w) \<Rightarrow> (r, (fst s, w)))"

record 'w coordinator =
  co_signer :: "'w signer"
  co_docker :: string
  co_image :: string
  co_signing_key :: string
  co_has_access_store :: bool

definition new_coordinator :: "environment \<Rightarrow> 'w coordinator \<Rightarrow> 'w coordinator res" where
  "new_coordinator env co = reject_if (env \<noteq> Sandbox) ValueError (Inr co)"

abbreviation co_os :: "'w coordinator \<Rightarrow> 'w os" where
  "co_os co \<equiv> sb_os (sg_stage (co_signer co))"

definition source_reference :: "string \<Rightarrow> string" where
  "source_reference oid = ''job_'' @ take 24 (sha256_hex oid)"

definition fulfillable :: "public_order \<Rightarrow> bool" where
  "fulfillable v \<longleftrightarrow> o_order_status (ov_order v) = Queued \<and> o_payment_status (ov_order v) \<in> {P_Captured, P_Available}
     \<and> \<not> o_counts_for_goal (ov_order v) \<and> ov_settlement_status v = ''sandbox_nonsettling''"

definition delivery_manifest :: "string \<Rightarrow> (string \<times> json) list \<Rightarrow> json" where
  "delivery_manifest oid signing =
     JObj ([(''schema_version'', JStr ''1.0.0''), (''environment'', JStr ''sandbox''), (''order_id'', JStr oid),
       (''counts_for_goal'', JBool False), (''settlement_status'', JStr ''sandbox_nonsettling'')]
     @ map (\<lambda>k. (k, jget_null signing k)) [''receipt_id'', ''receipt_sha256'', ''envelope_sha256'', ''signing_keyid'',
         ''freeze_manifest_digest'', ''container_image'']
     @ [(''artifact_execution'', JStr ''not_performed'')])"

definition publish_from :: "'w coordinator \<Rightarrow> string \<Rightarrow> string \<Rightarrow> ('z access_db_scheme \<times> 'w, unit) prog" where
  "publish_from co oid envelope_path =
     (if co_has_access_store co
      then prog_then (in_world (os_read_bytes (co_os co) envelope_path)) (\<lambda>envelope.
           prog_then (in_world (clock_text (co_os co))) (\<lambda>timestamp.
           prog_then (in_db (run_write (publish_result oid envelope timestamp))) (\<lambda>_. give (Inr ()))))
      else give (Inr ()))"

text \<open>The body of the \<open>try\<close>.\<close>

definition fulfill_steps ::
  "'w coordinator \<Rightarrow> string \<Rightarrow> string \<Rightarrow> string \<Rightarrow> (string \<times> json) list \<Rightarrow> string option \<Rightarrow> ('z access_db_scheme \<times> 'w, public_order) prog" where
  "fulfill_steps co oid frozen_cache_root job_root costs generated_at =
     (let os = co_os co; sb = sg_stage (co_signer co); reference = source_reference oid; envelope_path = path_join job_root ''receipt.dsse.json'' in
      prog_then (in_world (clock_text os)) (\<lambda>begun_at.
      prog_then (in_db (run_write (begin_fulfillment Sandbox oid reference begun_at))) (\<lambda>_.
      prog_then (in_db (look (get_order_request oid))) (\<lambda>request.
      prog_then (in_world (prog_then (os_expanduser os frozen_cache_root) (os_resolve os False))) (\<lambda>cache_root.
      prog_then (in_world (freeze_public_source sb default_scan_limits None (request_json request) cache_root)) (\<lambda>frozen.
      prog_then (in_world (run_worker sb (co_docker co) (co_image co) (fz_root frozen) (path_join job_root ''worker'') generated_at 7 75)) (\<lambda>worker.
      prog_then (in_world (sign_verified_worker_result (co_signer co) [co_image co] (co_signing_key co) (fz_root frozen) (wo_root worker) envelope_path)) (\<lambda>signing.
      prog_then (in_world (clock_text os)) (\<lambda>recorded_at.
      prog_then (in_db (run_write (record_direct_costs Sandbox oid costs (''cost_'' @ drop 4 reference) recorded_at))) (\<lambda>_.
      prog_then (give (deterministic_json (sb_fl sb) (delivery_manifest oid signing))) (\<lambda>text.
      prog_then (in_world (os_write_bytes os (path_join job_root ''delivery-manifest.json'') (text @ [chr_of 10]))) (\<lambda>_.
      prog_then (in_world (clock_text os)) (\<lambda>delivered_at.
      prog_then (in_db (run_write (deliver Sandbox oid (the_str (jget_null signing ''receipt_id'')) (the_str (jget_null signing ''receipt_sha256''))
        (the_str (jget_null signing ''envelope_sha256'')) (the_str (jget_null signing ''signing_keyid'')) reference delivered_at))) (\<lambda>delivered.
      prog_then (publish_from co oid envelope_path) (\<lambda>_.
      give (Inr delivered))))))))))))))))"

text \<open>The exception handler: an order that is not finished is failed; what this raises is dropped.\<close>

definition fail_unfinished :: "'w coordinator \<Rightarrow> string \<Rightarrow> ('z access_db_scheme \<times> 'w, unit) prog" where
  "fail_unfinished co oid =
     prog_then (in_db (look (get_order Sandbox oid))) (\<lambda>current.
     if o_order_status (ov_order current) \<in> {Queued, Running}
     then prog_then (in_world (clock_text (co_os co))) (\<lambda>at.
          prog_then (in_db (run_write (fail_fulfillment Sandbox oid (source_reference oid) at))) (\<lambda>_. give (Inr ())))
     else give (Inr ()))"

definition dropping :: "('s, 'a) prog \<Rightarrow> ('s, unit) prog" where
  "dropping m s = (Inr (), snd (m s))"

definition fulfill ::
  "'w coordinator \<Rightarrow> string \<Rightarrow> string \<Rightarrow> string \<Rightarrow> (string \<times> json) list \<Rightarrow> string option \<Rightarrow> ('z access_db_scheme \<times> 'w, public_order) prog" where
  "fulfill co oid frozen_cache_root delivery_root costs generated_at =
     (let os = co_os co in
      prog_then (in_db (look (get_order Sandbox oid))) (\<lambda>order.
      if o_order_status (ov_order order) = Delivered then
        (if co_has_access_store co
         then prog_then (in_world (prog_then (os_expanduser os delivery_root) (os_resolve os False))) (\<lambda>root.
              prog_then (publish_from co oid (path_join (path_join root oid) ''receipt.dsse.json'')) (\<lambda>_. give (Inr order)))
         else give (Inr order))
      else check_prog (\<not> fulfillable order) (Rejected ''order_not_fulfillable'')
       (check_prog (\<not> has_keys DIRECT_COST_CATEGORIES costs) (Rejected ''invalid_cost_record'')
       (prog_then (in_world (prog_then (os_expanduser os delivery_root) (os_resolve os False))) (\<lambda>root.
        let job_root = path_join root oid in
        prog_then (in_world (os_exists os job_root)) (\<lambda>there.
        check_prog there (Rejected ''delivery_output_exists'')
       (prog_then (in_world (os_mkdir os job_root True False)) (\<lambda>_.
        check_prog (\<not> is_ascii oid) ValueError
       (handle (fulfill_steps co oid frozen_cache_root job_root costs generated_at) (\<lambda>e.
          prog_then (dropping (fail_unfinished co oid)) (\<lambda>_. give (Inl e))))))))))))"

end
