(* ===== verification/Spec2Isabelle.thy ===== *)
theory Spec2Isabelle
  imports ContractClaims StoreClaims AccessClaims TextClaims PaidClaims StripeClaims CatalogClaims CommerceApiClaims HostedWorkerClaims
    SnapshotClaims GitIntakeClaims Fulfillment
begin

text \<open>
  A verification library for VouchSpec (package \<^verbatim>\<open>capabilityproof\<close> under \<^verbatim>\<open>src/src\<close>).
\<close>

end
